(* ===== verification/Prelude.thy ===== *)
theory Prelude
  imports Main "HOL-Library.Word" "HOL-Library.Monad_Syntax"
begin

text \<open>
  Shared ground of the development: the machine types of the code (\<open>BYTE\<close>, \<open>WORD\<close>,
  \<open>DWORD\<close>, \<open>LONG\<close>), the little-endian layout of integers in the packed structures of
  \<^verbatim>\<open>include/clovertun/P2PProtocol.h\<close>, bounded reads from a memory block, and the C string
  functions the code calls. Every function that touches memory returns an \<open>option\<close>:
  \<open>None\<close> stands for undefined behaviour of the C++ (a NULL or dangling pointer is followed,
  a block is read or written past its end). Code that is sequenced by such calls is written in
  the \<open>do\<close> notation of the option monad.
\<close>

section \<open>Machine types\<close>

type_synonym BYTE = "8 word"
type_synonym WORD = "16 word"
type_synonym DWORD = "32 word"
type_synonym LONG = "32 word"

text \<open>An address of a heap object; \<open>None\<close> is the NULL pointer.\<close>

type_synonym addr = nat
type_synonym ptr = "addr option"

named_theorems wire_simps \<open>lengths and reads of the wire layouts\<close>
named_theorems frame_simps \<open>fields an operation leaves alone\<close>

lemma unat_DWORD_less: "unat (w :: DWORD) < 4294967296"
  using unsigned_less[of w] by simp

lemma of_nat_unat_id [simp]: "of_nat (unat w) = (w :: 'a::len word)"
  by (simp add: word_unat_eq_iff unat_of_nat)

lemma unat_of_nat_DWORD: "n < 4294967296 \<Longrightarrow> unat (of_nat n :: DWORD) = n"
  by (simp add: unat_of_nat)

lemma unat_of_nat_le [simp]: "k \<le> unat (n :: DWORD) \<Longrightarrow> unat (of_nat k :: DWORD) = k"
  using unat_DWORD_less[of n] by (intro unat_of_nat_DWORD) linarith

lemma unat_of_nat_min [simp]:
  "unat (of_nat (min (unat (n :: DWORD)) k) :: DWORD) = min (unat n) k"
  by (rule unat_of_nat_le[of _ n]) simp

lemma unat_add_le:
  "unat (a :: DWORD) + unat b \<le> unat (c :: DWORD) \<Longrightarrow> unat (a + b) = unat a + unat b"
  using unat_DWORD_less[of c] by (simp add: unat_word_ariths)

lemma unat_sub_of_nat: "k \<le> unat (n :: DWORD) \<Longrightarrow> unat (n - of_nat k) = unat n - k"
  by (simp add: unat_sub word_le_nat_alt)

section \<open>Little-endian layout\<close>

definition word_bytes :: "WORD \<Rightarrow> BYTE list" where
  "word_bytes w = [ucast w, ucast (drop_bit 8 w)]"

definition dword_bytes :: "DWORD \<Rightarrow> BYTE list" where
  "dword_bytes w =
     [ucast w, ucast (drop_bit 8 w), ucast (drop_bit 16 w), ucast (drop_bit 24 w)]"

fun bytes_word :: "BYTE list \<Rightarrow> WORD" where
  "bytes_word [a, b] = or (ucast a) (push_bit 8 (ucast b))"
| "bytes_word _ = 0"

fun bytes_dword :: "BYTE list \<Rightarrow> DWORD" where
  "bytes_dword [a, b, c, d] =
     or (ucast a) (or (push_bit 8 (ucast b)) (or (push_bit 16 (ucast c)) (push_bit 24 (ucast d))))"
| "bytes_dword _ = 0"

lemma length_word_bytes [simp, wire_simps]: "length (word_bytes w) = 2"
  by (simp add: word_bytes_def)

lemma length_dword_bytes [simp, wire_simps]: "length (dword_bytes w) = 4"
  by (simp add: dword_bytes_def)

lemma bytes_word_bytes [simp]: "bytes_word (word_bytes w) = w"
  by (rule bit_word_eqI)
    (auto simp: word_bytes_def bit_or_iff bit_push_bit_iff bit_ucast_iff bit_drop_bit_eq)

lemma bytes_dword_bytes [simp]: "bytes_dword (dword_bytes w) = w"
proof (rule bit_word_eqI)
  fix n assume "n < LENGTH(32)"
  then consider "n < 8" | "8 \<le> n" "n < 16" | "16 \<le> n" "n < 24" | "24 \<le> n" "n < 32"
    by fastforce
  then show "bit (bytes_dword (dword_bytes w)) n = bit w n"
    by cases
      (auto simp: dword_bytes_def bit_or_iff bit_push_bit_iff bit_ucast_iff bit_drop_bit_eq)
qed

lemma length2E: "length xs = 2 \<Longrightarrow> (\<And>a b. xs = [a, b] \<Longrightarrow> P) \<Longrightarrow> P"
  by (auto simp: numeral_eq_Suc length_Suc_conv)

lemma length4E: "length xs = 4 \<Longrightarrow> (\<And>a b c d. xs = [a, b, c, d] \<Longrightarrow> P) \<Longrightarrow> P"
  by (auto simp: numeral_eq_Suc length_Suc_conv)

section \<open>Bounded reads from a memory block\<close>

text \<open>
  A block of memory is the list of its bytes. Reading beyond its end is \<open>None\<close>. The code
  overlays packed structures on such blocks, so a field is read at its byte offset.
\<close>

definition rd_bytes :: "nat \<Rightarrow> nat \<Rightarrow> BYTE list \<Rightarrow> BYTE list option" where
  "rd_bytes off n bs = (if off + n \<le> length bs then Some (take n (drop off bs)) else None)"

definition rd_dword :: "nat \<Rightarrow> BYTE list \<Rightarrow> DWORD option" where
  "rd_dword off bs = map_option bytes_dword (rd_bytes off 4 bs)"

definition rd_word :: "nat \<Rightarrow> BYTE list \<Rightarrow> WORD option" where
  "rd_word off bs = map_option bytes_word (rd_bytes off 2 bs)"

lemma rd_bytes_0: "n \<le> length bs \<Longrightarrow> rd_bytes 0 n bs = Some (take n bs)"
  by (simp add: rd_bytes_def)

lemma rd_bytes_None [simp]: "rd_bytes off n bs = None \<longleftrightarrow> length bs < off + n"
  by (auto simp: rd_bytes_def)

lemma rd_dword_None [simp]: "rd_dword off bs = None \<longleftrightarrow> length bs < off + 4"
  by (simp add: rd_dword_def)

lemma rd_word_None [simp]: "rd_word off bs = None \<longleftrightarrow> length bs < off + 2"
  by (simp add: rd_word_def)

lemma rd_bytes_length: "rd_bytes off n bs = Some xs \<Longrightarrow> length xs = n"
  by (auto simp: rd_bytes_def split: if_splits)

lemma rd_bytes_skip [wire_simps]:
  "off = length xs + k \<Longrightarrow> rd_bytes off n (xs @ ys) = rd_bytes k n ys"
  by (auto simp: rd_bytes_def)

lemma rd_bytes_here [wire_simps]: "n = length xs \<Longrightarrow> rd_bytes 0 n (xs @ ys) = Some xs"
  by (simp add: rd_bytes_def)

lemma rd_bytes_all [wire_simps]: "n = length xs \<Longrightarrow> rd_bytes 0 n xs = Some xs"
  by (simp add: rd_bytes_def)

text \<open>Reading a field of a concatenation: skip whole fields, then read the one that starts here.\<close>

lemma rd_dword_here [wire_simps]: "rd_dword 0 (dword_bytes w @ ys) = Some w"
  by (simp add: rd_dword_def wire_simps)

lemma rd_dword_all [wire_simps]: "rd_dword 0 (dword_bytes w) = Some w"
  by (simp add: rd_dword_def wire_simps)

lemma rd_word_all [wire_simps]: "rd_word 0 (word_bytes w) = Some w"
  by (simp add: rd_word_def wire_simps)

lemma rd_word_here [wire_simps]: "rd_word 0 (word_bytes w @ ys) = Some w"
  by (simp add: rd_word_def wire_simps)

lemma rd_dword_skip [wire_simps]:
  "length xs \<le> off \<Longrightarrow> rd_dword off (xs @ ys) = rd_dword (off - length xs) ys"
  by (auto simp: rd_dword_def rd_bytes_def)

lemma rd_word_skip [wire_simps]:
  "length xs \<le> off \<Longrightarrow> rd_word off (xs @ ys) = rd_word (off - length xs) ys"
  by (auto simp: rd_word_def rd_bytes_def)

lemma rd_bytes_skip' [wire_simps]:
  "length xs \<le> off \<Longrightarrow> rd_bytes off n (xs @ ys) = rd_bytes (off - length xs) n ys"
  by (auto simp: rd_bytes_def)

section \<open>C strings\<close>

text \<open>
  \<open>cstr\<close> is the string a block holds up to its NUL. \<open>strcmp_eq\<close> is \<open>strcmp (a, b) == 0\<close>: it
  stops at the first difference or at a common NUL, and is undefined when it runs off one of the
  blocks before that.
\<close>

definition cstr :: "BYTE list \<Rightarrow> BYTE list" where
  "cstr bs = takeWhile (\<lambda>b. b \<noteq> 0) bs"

fun strcmp_eq :: "BYTE list \<Rightarrow> BYTE list \<Rightarrow> bool option" where
  "strcmp_eq [] _ = None"
| "strcmp_eq _ [] = None"
| "strcmp_eq (a # as) (b # bs) =
     (if a \<noteq> b then Some False else if a = 0 then Some True else strcmp_eq as bs)"

text \<open>\<open>strncpy (dst, src, n)\<close>: the \<open>n\<close> bytes it writes.\<close>

fun strncpy :: "nat \<Rightarrow> BYTE list \<Rightarrow> BYTE list option" where
  "strncpy 0 _ = Some []"
| "strncpy (Suc n) [] = None"
| "strncpy (Suc n) (c # cs) =
     (if c = 0 then Some (replicate (Suc n) 0) else map_option ((#) c) (strncpy n cs))"

text \<open>\<open>strcpy (dst, src)\<close> into the array \<open>dst\<close>: undefined when the source has no NUL or the
  string and its NUL do not fit.\<close>

definition strcpy :: "BYTE list \<Rightarrow> BYTE list \<Rightarrow> BYTE list option" where
  "strcpy dst src =
     (if 0 \<in> set src \<and> length (cstr src) < length dst
      then Some (cstr src @ 0 # drop (Suc (length (cstr src))) dst) else None)"

abbreviation nul_terminated :: "BYTE list \<Rightarrow> bool" where
  "nul_terminated bs \<equiv> 0 \<in> set bs"

lemma strcmp_eq_cstr:
  "nul_terminated as \<Longrightarrow> nul_terminated bs \<Longrightarrow> strcmp_eq as bs = Some (cstr as = cstr bs)"
  by (induction as bs rule: strcmp_eq.induct) (auto simp: cstr_def)

lemma strcmp_eq_refl: "nul_terminated as \<Longrightarrow> strcmp_eq as as = Some True"
  by (simp add: strcmp_eq_cstr)

lemma strncpy_length: "strncpy n s = Some t \<Longrightarrow> length t = n"
  by (induction n s arbitrary: t rule: strncpy.induct) (auto split: if_splits)

lemma strncpy_defined: "nul_terminated s \<or> n \<le> length s \<Longrightarrow> \<exists>t. strncpy n s = Some t"
  by (induction n s rule: strncpy.induct) auto

lemma strncpy_cstr:
  "strncpy n s = Some t \<Longrightarrow> length (cstr s) < n \<Longrightarrow> cstr t = cstr s \<and> nul_terminated t"
  by (induction n s arbitrary: t rule: strncpy.induct)
    (auto simp: cstr_def split: if_splits)

lemma cstr_length_less: "nul_terminated s \<Longrightarrow> length (cstr s) < length s"
  by (induction s) (auto simp: cstr_def)

lemma strncpy_terminated:
  assumes "nul_terminated s" and "length s \<le> n"
  obtains t where "strncpy n s = Some t" "cstr t = cstr s" "nul_terminated t" "length t = n"
  using strncpy_defined[of s n] strncpy_cstr[of n s] strncpy_length[of n s]
    cstr_length_less[of s] assms by fastforce

lemma cstr_append_cstr [simp]: "cstr (cstr s @ 0 # t) = cstr s"
  by (induction s) (auto simp: cstr_def)

lemma strcpy_Some:
  "strcpy dst src = Some t \<Longrightarrow>
     length t = length dst \<and> nul_terminated t \<and> cstr t = cstr src"
  by (auto simp: strcpy_def split: if_splits)

section \<open>Sums over finite maps\<close>

text \<open>The total of \<open>f\<close> over the values of a map: how owners are counted.\<close>

definition weight :: "('v \<Rightarrow> nat) \<Rightarrow> 'v option \<Rightarrow> nat" where
  "weight f v = (case v of None \<Rightarrow> 0 | Some x \<Rightarrow> f x)"

definition total :: "('v \<Rightarrow> nat) \<Rightarrow> ('k \<Rightarrow> 'v option) \<Rightarrow> nat" where
  "total f m = (\<Sum>k\<in>dom m. weight f (m k))"

lemma weight_simps [simp]: "weight f None = 0" "weight f (Some x) = f x"
  by (simp_all add: weight_def)

lemma total_empty [simp]: "total f Map.empty = 0"
  by (simp add: total_def)

lemma total_upd:
  assumes "finite (dom m)"
  shows "total f (m(k := v)) + weight f (m k) = total f m + weight f v"
proof -
  let ?D = "insert k (dom m)"
  have all: "total f g = (\<Sum>q\<in>?D. weight f (g q))" if "dom g \<subseteq> ?D" for g
    unfolding total_def using assms that by (intro sum.mono_neutral_left) (auto simp: domIff)
  have "total f (m(k := v)) = (\<Sum>q\<in>?D. weight f ((m(k := v)) q))" by (intro all) auto
  also have "\<dots> = weight f v + (\<Sum>q\<in>?D - {k}. weight f (m q))"
    using assms by (subst sum.remove[of _ k]) auto
  finally have 1: "total f (m(k := v)) = \<dots>" .
  have "total f m = (\<Sum>q\<in>?D. weight f (m q))" by (intro all) auto
  also have "\<dots> = weight f (m k) + (\<Sum>q\<in>?D - {k}. weight f (m q))"
    using assms by (subst sum.remove[of _ k]) auto
  finally show ?thesis using 1 by simp
qed

lemma total_fresh: "finite (dom m) \<Longrightarrow> m k = None \<Longrightarrow> total f (m(k := v)) = total f m + weight f v"
  using total_upd[of m f k v] by simp

lemma total_put: "finite (dom m) \<Longrightarrow> m k = None \<Longrightarrow> total f (m(k \<mapsto> v)) = total f m + f v"
  using total_upd[of m f k "Some v"] by simp

lemma total_ge: "finite (dom m) \<Longrightarrow> weight f (m k) \<le> total f m"
  using total_upd[of m f k None] by simp

lemma total_le_card: "(\<And>x. f x \<le> 1) \<Longrightarrow> total f m \<le> card (dom m)"
  unfolding total_def using sum_bounded_above[of "dom m" "\<lambda>k. weight f (m k)" 1]
  by (simp add: weight_def split: option.split)

section \<open>The option monad\<close>

lemmas bind_cases = Option.bind_eq_Some_conv Option.bind_split Option.bind_split_asm

lemma bind_Some_iff: "Option.bind m f = Some y \<longleftrightarrow> (\<exists>x. m = Some x \<and> f x = Some y)"
  by (cases m) auto

section \<open>Loops that may not end\<close>

text \<open>
  A loop of the code with no bound is run with fuel: \<open>NoFuel\<close> when the fuel is spent before the
  loop ends, \<open>Stop r\<close> when it ends with \<open>r\<close>. A loop that never ends is \<open>NoFuel\<close> for all fuel.
\<close>

datatype 'a loop = NoFuel | Stop 'a

primrec map_loop :: "('a \<Rightarrow> 'b) \<Rightarrow> 'a loop \<Rightarrow> 'b loop" where
  "map_loop f NoFuel = NoFuel"
| "map_loop f (Stop r) = Stop (f r)"

lemma map_loop_Stop [simp]: "map_loop f x = Stop y \<longleftrightarrow> (\<exists>r. x = Stop r \<and> f r = y)"
  by (cases x) auto

end
