(* ===== verification/ByteStream.thy ===== *)
theory ByteStream
  imports Prelude
begin

text \<open>
  The interface between the TCP framing code (\<^verbatim>\<open>include/corelib/packetunit.h\<close>) and the
  byte buffer it reads from (\<^verbatim>\<open>src/corelib/DataStreamBuf.cpp\<close>): what the buffer promises of
  the four operations the framing calls. \<open>bytes\<close> is the abstract content, the bytes still
  unread in order; \<open>inv\<close> is the buffer's representation invariant. The client's lemmas are in
  \<open>PacketUnit\<close>, the interpretation is in \<open>DataStreamBuf\<close>.
\<close>

locale byte_stream =
  fixes size :: "'b \<Rightarrow> DWORD"
    and get :: "DWORD \<Rightarrow> DWORD \<Rightarrow> 'b \<Rightarrow> (bool \<times> BYTE list \<times> DWORD \<times> 'b) option"
    and front :: "BYTE list \<Rightarrow> DWORD \<Rightarrow> 'b \<Rightarrow> 'b option"
    and push :: "BYTE list \<Rightarrow> DWORD \<Rightarrow> 'b \<Rightarrow> 'b option"
    and bytes :: "'b \<Rightarrow> BYTE list"
    and inv :: "'b \<Rightarrow> bool"
  assumes size: "inv b \<Longrightarrow> size b = of_nat (length (bytes b))"
    and get: "inv b \<Longrightarrow> \<exists>b'. get n k b =
          Some (True, take (unat n) (bytes b), of_nat (min (unat n) (length (bytes b))), b')
        \<and> bytes b' = drop (unat n) (bytes b) \<and> inv b'"
    and front: "inv b \<Longrightarrow> unat n \<le> length xs \<Longrightarrow>
        \<exists>b'. front xs n b = Some b' \<and> bytes b' = take (unat n) xs @ bytes b \<and> inv b'"
    and push: "inv b \<Longrightarrow> unat n \<le> length xs \<Longrightarrow>
        \<exists>b'. push xs n b = Some b' \<and> bytes b' = bytes b @ take (unat n) xs \<and> inv b'"
begin

text \<open>The elimination forms the proofs of the client use.\<close>

lemma getE:
  assumes "inv b"
  obtains b' where "get n k b =
      Some (True, take (unat n) (bytes b), of_nat (min (unat n) (length (bytes b))), b')"
    and "bytes b' = drop (unat n) (bytes b)" and "inv b'"
  using get[OF assms] by blast

lemma frontE:
  assumes "inv b" and "unat n \<le> length xs"
  obtains b' where "front xs n b = Some b'" and "bytes b' = take (unat n) xs @ bytes b"
    and "inv b'"
  using front[OF assms] by blast

lemma pushE:
  assumes "inv b" and "unat n \<le> length xs"
  obtains b' where "push xs n b = Some b'" and "bytes b' = bytes b @ take (unat n) xs"
    and "inv b'"
  using push[OF assms] by blast

text \<open>What was read and pushed back is read again: peeking does not change the content.\<close>

lemma peek_restores:
  assumes "inv b"
  obtains b1 b2 where "get n k b =
      Some (True, take (unat n) (bytes b), of_nat (min (unat n) (length (bytes b))), b1)"
    and "front (take (unat n) (bytes b)) (of_nat (min (unat n) (length (bytes b)))) b1 = Some b2"
    and "bytes b2 = bytes b" and "inv b2"
proof -
  let ?m = "min (unat n) (length (bytes b))"
  obtain b1 where g: "get n k b = Some (True, take (unat n) (bytes b), of_nat ?m, b1)"
      "bytes b1 = drop (unat n) (bytes b)" "inv b1"
    using getE[OF assms] by blast
  have m: "unat (of_nat ?m :: DWORD) = ?m" by simp
  have le: "unat (of_nat ?m :: DWORD) \<le> length (take (unat n) (bytes b))"
    unfolding m by simp
  obtain b2 where f: "front (take (unat n) (bytes b)) (of_nat ?m) b1 = Some b2"
      "bytes b2 = take (unat (of_nat ?m :: DWORD)) (take (unat n) (bytes b)) @ bytes b1" "inv b2"
    using frontE[OF g(3) le] by blast
  have "bytes b2 = bytes b"
    unfolding f(2) m g(2) by (simp add: min_def)
  then show thesis using that[OF g(1) f(1)] f(3) by blast
qed

end

end
