(* ===== verification/DataStreamBuf.thy ===== *)
theory DataStreamBuf
  imports ByteStream
begin

text \<open>
  \<^verbatim>\<open>src/corelib/DataStreamBuf.cpp\<close> and the handle wrappers of
  \<^verbatim>\<open>src/corelib/corelib.cpp\<close>: a queue of heap blocks, each with a read index, and a running
  32-bit total. The critical section makes each operation one step, so it is not in the state.
  The main results: the buffer refines a plain byte sequence (\<open>GetData_refines\<close>,
  \<open>AddData_refines\<close>, \<open>AddDataFront_refines\<close>), and no operation reads outside a block.
\<close>

section \<open>State\<close>

record datablock =
  pBuffer :: "BYTE list"
  blk_dwTotalSize :: DWORD
  m_dwIdx :: DWORD

record datastream =
  m_dwTotalSize :: DWORD
  m_pDataList :: "datablock list option"
  m_name :: "BYTE list"

section \<open>Operations\<close>

definition ClearAll :: "datastream \<Rightarrow> datastream" where
  "ClearAll b = (let b = b\<lparr>m_dwTotalSize := 0\<rparr> in
     case m_pDataList b of None \<Rightarrow> b | Some _ \<Rightarrow> b\<lparr>m_pDataList := Some []\<rparr>)"

definition CDataStreamBuf :: datastream where
  "CDataStreamBuf =
     ClearAll \<lparr>m_dwTotalSize = 0, m_pDataList = Some [], m_name = replicate 260 0\<rparr>"

definition SetName :: "BYTE list \<Rightarrow> datastream \<Rightarrow> datastream option" where
  "SetName name b = map_option (\<lambda>s. b\<lparr>m_name := s\<rparr>) (strcpy (m_name b) name)"

definition CDataStreamBuf_destroy :: "datastream \<Rightarrow> datastream" where
  "CDataStreamBuf_destroy b = (let b = ClearAll b in
     case m_pDataList b of None \<Rightarrow> b | Some _ \<Rightarrow> b\<lparr>m_pDataList := None\<rparr>)"

text \<open>\<open>new DATABLOCK\<close> with a copy of the caller's bytes; the copy reads \<open>dwSize\<close> bytes.\<close>

definition new_block :: "BYTE list \<Rightarrow> DWORD \<Rightarrow> datablock option" where
  "new_block pData dwSize =
     map_option (\<lambda>xs. \<lparr>pBuffer = xs, blk_dwTotalSize = dwSize, m_dwIdx = 0\<rparr>)
       (rd_bytes 0 (unat dwSize) pData)"

definition AddData :: "BYTE list \<Rightarrow> DWORD \<Rightarrow> datastream \<Rightarrow> datastream option" where
  "AddData pData dwSize b =
     (if dwSize = 0 then Some b
      else case m_pDataList b of
        None \<Rightarrow> Some b
      | Some ds \<Rightarrow> do {
          d \<leftarrow> new_block pData dwSize;
          Some (b\<lparr>m_dwTotalSize := m_dwTotalSize b + dwSize, m_pDataList := Some (ds @ [d])\<rparr>)
        })"

definition AddDataFront :: "BYTE list \<Rightarrow> DWORD \<Rightarrow> datastream \<Rightarrow> datastream option" where
  "AddDataFront pData dwSize b =
     (if dwSize = 0 then Some b
      else case m_pDataList b of
        None \<Rightarrow> Some b
      | Some ds \<Rightarrow> do {
          d \<leftarrow> new_block pData dwSize;
          Some (b\<lparr>m_dwTotalSize := m_dwTotalSize b + dwSize, m_pDataList := Some (d # ds)\<rparr>)
        })"

text \<open>
  The loop of \<open>GetDataCore\<close>: \<open>want\<close> is \<open>wantread\<close>, \<open>tot\<close> is \<open>dwtotalread\<close>, \<open>out\<close> the bytes
  already copied to the caller. A block read to its end is freed and popped; a block with bytes
  left ends the loop.
\<close>

fun GetDataLoop :: "datablock list \<Rightarrow> DWORD \<Rightarrow> DWORD \<Rightarrow> BYTE list \<Rightarrow>
    (datablock list \<times> DWORD \<times> BYTE list) option" where
  "GetDataLoop [] want tot out = Some ([], tot, out)"
| "GetDataLoop (d # ds) want tot out =
     (if want > 0 then
        let cur = min (blk_dwTotalSize d - m_dwIdx d) want in
        case rd_bytes (unat (m_dwIdx d)) (unat cur) (pBuffer d) of
          None \<Rightarrow> None
        | Some xs \<Rightarrow>
            let d' = d\<lparr>m_dwIdx := m_dwIdx d + cur\<rparr> in
            if m_dwIdx d' \<ge> blk_dwTotalSize d'
            then GetDataLoop ds (want - cur) (tot + cur) (out @ xs)
            else Some (d' # ds, tot + cur, out @ xs)
      else Some (d # ds, tot, out))"

definition GetDataCore ::
    "DWORD \<Rightarrow> DWORD \<Rightarrow> datastream \<Rightarrow> (bool \<times> BYTE list \<times> DWORD \<times> datastream) option" where
  "GetDataCore dwBufSize lpNum b =
     (case m_pDataList b of
        None \<Rightarrow> Some (True, [], lpNum, b)
      | Some ds \<Rightarrow> do {
          (ds', tot, out) \<leftarrow> GetDataLoop ds dwBufSize 0 [];
          Some (True, out, tot,
                b\<lparr>m_dwTotalSize := m_dwTotalSize b - tot, m_pDataList := Some ds'\<rparr>)
        })"

definition GetData ::
    "DWORD \<Rightarrow> DWORD \<Rightarrow> datastream \<Rightarrow> (bool \<times> BYTE list \<times> DWORD \<times> datastream) option" where
  "GetData dwBufSize lpNum b = GetDataCore dwBufSize lpNum b"

text \<open>\<open>GetAllData\<close>: the returned array (or NULL), the out parameter, the new buffer.\<close>

definition GetAllData ::
    "DWORD \<Rightarrow> datastream \<Rightarrow> (BYTE list option \<times> DWORD \<times> datastream) option" where
  "GetAllData lpDataOut b =
     (if m_dwTotalSize b = 0 then Some (None, lpDataOut, b)
      else do {
        (r, out, dwread, b') \<leftarrow> GetDataCore (m_dwTotalSize b) 0 b;
        Some (Some out, dwread, b')
      })"

definition GetCurrentDataSize :: "datastream \<Rightarrow> DWORD" where
  "GetCurrentDataSize b = m_dwTotalSize b"

text \<open>The C interface: a handle is the address of the object, each call forwards to it.\<close>

definition CreateDataStreamBuffer :: datastream where
  "CreateDataStreamBuffer = CDataStreamBuf"

definition CloseDataStreamBuffer :: "datastream \<Rightarrow> datastream" where
  "CloseDataStreamBuffer b = CDataStreamBuf_destroy b"

definition DataStreamBufferClearAllData :: "datastream \<Rightarrow> datastream" where
  "DataStreamBufferClearAllData b = ClearAll b"

definition DataStreamBufferAddData ::
    "BYTE list \<Rightarrow> DWORD \<Rightarrow> datastream \<Rightarrow> datastream option" where
  "DataStreamBufferAddData pData dwSize b = AddData pData dwSize b"

definition DataStreamBufferAddDataFront ::
    "BYTE list \<Rightarrow> DWORD \<Rightarrow> datastream \<Rightarrow> datastream option" where
  "DataStreamBufferAddDataFront pData dwSize b = AddDataFront pData dwSize b"

definition DataStreamBufferGetAllData ::
    "DWORD \<Rightarrow> datastream \<Rightarrow> (BYTE list option \<times> DWORD \<times> datastream) option" where
  "DataStreamBufferGetAllData lpDataOut b = GetAllData lpDataOut b"

definition DataStreamBufferGetData ::
    "DWORD \<Rightarrow> DWORD \<Rightarrow> datastream \<Rightarrow> (bool \<times> BYTE list \<times> DWORD \<times> datastream) option" where
  "DataStreamBufferGetData dwBufSize lpNum b = GetData dwBufSize lpNum b"

definition DataStreamBufferGetCurrentDataSize :: "datastream \<Rightarrow> DWORD" where
  "DataStreamBufferGetCurrentDataSize b = GetCurrentDataSize b"

lemmas dsb_api_defs =
  CreateDataStreamBuffer_def CloseDataStreamBuffer_def DataStreamBufferClearAllData_def
  DataStreamBufferAddData_def DataStreamBufferAddDataFront_def DataStreamBufferGetAllData_def
  DataStreamBufferGetData_def DataStreamBufferGetCurrentDataSize_def
  GetData_def GetCurrentDataSize_def

section \<open>Abstraction and invariant\<close>

definition block_bytes :: "datablock \<Rightarrow> BYTE list" where
  "block_bytes d = drop (unat (m_dwIdx d)) (pBuffer d)"

definition blocks_bytes :: "datablock list \<Rightarrow> BYTE list" where
  "blocks_bytes ds = concat (map block_bytes ds)"

definition dsb_bytes :: "datastream \<Rightarrow> BYTE list" where
  "dsb_bytes b = (case m_pDataList b of None \<Rightarrow> [] | Some ds \<Rightarrow> blocks_bytes ds)"

text \<open>Every queued block is partly unread, and its recorded size is the size of its array.\<close>

definition block_ok :: "datablock \<Rightarrow> bool" where
  "block_ok d \<longleftrightarrow> unat (blk_dwTotalSize d) = length (pBuffer d) \<and> m_dwIdx d < blk_dwTotalSize d"

definition dsb_inv :: "datastream \<Rightarrow> bool" where
  "dsb_inv b \<longleftrightarrow> (\<exists>ds. m_pDataList b = Some ds \<and> list_all block_ok ds)
     \<and> m_dwTotalSize b = of_nat (length (dsb_bytes b))"

lemma blocks_bytes_simps [simp]:
  "blocks_bytes [] = []"
  "blocks_bytes (d # ds) = block_bytes d @ blocks_bytes ds"
  "blocks_bytes (ds @ es) = blocks_bytes ds @ blocks_bytes es"
  by (simp_all add: blocks_bytes_def)

lemma block_bytes_length:
  "block_ok d \<Longrightarrow> length (block_bytes d) = unat (blk_dwTotalSize d - m_dwIdx d)"
  by (auto simp: block_ok_def block_bytes_def unat_sub word_less_nat_alt word_le_nat_alt)


section \<open>The read loop\<close>

lemma block_read:
  assumes "block_ok d" and "want > 0"
  defines "cur \<equiv> min (blk_dwTotalSize d - m_dwIdx d) want"
  shows "rd_bytes (unat (m_dwIdx d)) (unat cur) (pBuffer d) = Some (take (unat cur) (block_bytes d))"
    and "unat cur = min (length (block_bytes d)) (unat want)"
    and "0 < unat cur"
    and "unat (m_dwIdx d + cur) = unat (m_dwIdx d) + unat cur"
proof -
  show cur: "unat cur = min (length (block_bytes d)) (unat want)"
    using assms(1) by (simp add: cur_def min_def block_bytes_length word_le_nat_alt)
  have len: "length (block_bytes d) = length (pBuffer d) - unat (m_dwIdx d)"
    and idx: "unat (m_dwIdx d) < length (pBuffer d)"
    using assms(1) by (auto simp: block_bytes_def block_ok_def word_less_nat_alt)
  then show "rd_bytes (unat (m_dwIdx d)) (unat cur) (pBuffer d)
      = Some (take (unat cur) (block_bytes d))"
    using cur by (auto simp: rd_bytes_def block_bytes_def)
  show "0 < unat cur"
    using cur len idx assms(2) by (simp add: word_less_nat_alt)
  have "unat (m_dwIdx d) + unat cur \<le> unat (blk_dwTotalSize d)"
    using cur len idx assms(1) by (simp add: block_ok_def)
  then show "unat (m_dwIdx d + cur) = unat (m_dwIdx d) + unat cur"
    by (rule unat_add_le)
qed

text \<open>One block: the loop either empties it and goes on, or stops inside it.\<close>

lemma GetDataLoop_Cons:
  assumes "block_ok d" and "want > 0"
  shows "length (block_bytes d) \<le> unat want \<Longrightarrow>
      GetDataLoop (d # ds) want tot out
        = GetDataLoop ds (want - of_nat (length (block_bytes d)))
            (tot + of_nat (length (block_bytes d))) (out @ block_bytes d)"
    and "unat want < length (block_bytes d) \<Longrightarrow>
      GetDataLoop (d # ds) want tot out
        = Some (d\<lparr>m_dwIdx := m_dwIdx d + want\<rparr> # ds, tot + want,
                out @ take (unat want) (block_bytes d))
      \<and> block_ok (d\<lparr>m_dwIdx := m_dwIdx d + want\<rparr>)
      \<and> block_bytes (d\<lparr>m_dwIdx := m_dwIdx d + want\<rparr>) = drop (unat want) (block_bytes d)"
proof -
  let ?cur = "min (blk_dwTotalSize d - m_dwIdx d) want"
  note rd = block_read[OF assms]
  have tot: "unat (blk_dwTotalSize d) = unat (m_dwIdx d) + length (block_bytes d)"
    using assms(1) by (auto simp: block_ok_def block_bytes_def word_less_nat_alt)
  {
    assume le: "length (block_bytes d) \<le> unat want"
    then have "?cur = of_nat (length (block_bytes d))"
      using rd(2) by (metis min.absorb1 of_nat_unat_id)
    moreover have "blk_dwTotalSize d \<le> m_dwIdx d + ?cur"
      using le rd(2,4) tot by (simp add: word_le_nat_alt min_def)
    ultimately show "GetDataLoop (d # ds) want tot out
        = GetDataLoop ds (want - of_nat (length (block_bytes d)))
            (tot + of_nat (length (block_bytes d))) (out @ block_bytes d)"
      using assms(2) rd(1,2) le by (simp add: Let_def)
  next
    assume lt: "unat want < length (block_bytes d)"
    then have cur: "?cur = want"
      using rd(2) by (metis min.absorb2 nat_less_le word_unat_eq_iff)
    then have idx: "unat (m_dwIdx d + want) = unat (m_dwIdx d) + unat want" using rd(4) by simp
    have "\<not> blk_dwTotalSize d \<le> m_dwIdx d + want"
      using lt idx tot by (simp add: word_le_nat_alt)
    then have "GetDataLoop (d # ds) want tot out
        = Some (d\<lparr>m_dwIdx := m_dwIdx d + want\<rparr> # ds, tot + want,
                out @ take (unat want) (block_bytes d))"
      using assms(2) rd(1) by (simp add: Let_def cur)
    moreover have "block_ok (d\<lparr>m_dwIdx := m_dwIdx d + want\<rparr>)"
      using assms(1) \<open>\<not> blk_dwTotalSize d \<le> m_dwIdx d + want\<close> by (simp add: block_ok_def)
    moreover have
      "block_bytes (d\<lparr>m_dwIdx := m_dwIdx d + want\<rparr>) = drop (unat want) (block_bytes d)"
      by (simp add: block_bytes_def idx add.commute[of "unat want"])
    ultimately show "GetDataLoop (d # ds) want tot out
        = Some (d\<lparr>m_dwIdx := m_dwIdx d + want\<rparr> # ds, tot + want,
                out @ take (unat want) (block_bytes d))
      \<and> block_ok (d\<lparr>m_dwIdx := m_dwIdx d + want\<rparr>)
      \<and> block_bytes (d\<lparr>m_dwIdx := m_dwIdx d + want\<rparr>) = drop (unat want) (block_bytes d)"
      by blast
  }
qed

lemma GetDataLoop_spec:
  assumes "list_all block_ok ds"
  shows "\<exists>ds'. GetDataLoop ds want tot out
        = Some (ds', tot + of_nat (min (unat want) (length (blocks_bytes ds))),
                out @ take (unat want) (blocks_bytes ds))
      \<and> blocks_bytes ds' = drop (unat want) (blocks_bytes ds) \<and> list_all block_ok ds'"
  using assms
proof (induction ds arbitrary: want tot out)
  case Nil
  then show ?case by simp
next
  case (Cons d ds)
  then have d: "block_ok d" and ds: "list_all block_ok ds" by simp_all
  consider "want = 0" | "want > 0" "length (block_bytes d) \<le> unat want"
    | "want > 0" "unat want < length (block_bytes d)"
    by (metis linorder_not_less word_gt_0)
  then show ?case
  proof cases
    case 1
    then show ?thesis using Cons.prems by simp
  next
    case 2
    let ?k = "length (block_bytes d)"
    have "unat (want - of_nat ?k) = unat want - ?k"
      using 2(2) by (rule unat_sub_of_nat)
    then show ?thesis
      using Cons.IH[OF ds, of "want - of_nat ?k" "tot + of_nat ?k" "out @ block_bytes d"]
        GetDataLoop_Cons(1)[OF d 2(1,2), of ds tot out] 2(2)
      by (auto simp: min_def add.assoc simp flip: of_nat_add)
  next
    case 3
    then show ?thesis
      using GetDataLoop_Cons(2)[OF d 3, of ds tot out] ds by (auto simp: min_def)
  qed
qed


section \<open>Refinement: the buffer is a byte sequence\<close>

lemma dsb_invE:
  assumes "dsb_inv b"
  obtains ds where "m_pDataList b = Some ds" and "list_all block_ok ds"
    and "dsb_bytes b = blocks_bytes ds" and "m_dwTotalSize b = of_nat (length (blocks_bytes ds))"
  using assms by (auto simp: dsb_inv_def dsb_bytes_def)

lemma dsb_invI:
  "m_pDataList b = Some ds \<Longrightarrow> list_all block_ok ds \<Longrightarrow>
   m_dwTotalSize b = of_nat (length (blocks_bytes ds)) \<Longrightarrow> dsb_inv b"
  by (simp add: dsb_inv_def dsb_bytes_def)

lemma CDataStreamBuf_inv [simp]: "dsb_inv CDataStreamBuf" "dsb_bytes CDataStreamBuf = []"
  by (simp_all add: CDataStreamBuf_def ClearAll_def dsb_inv_def dsb_bytes_def Let_def)

lemma ClearAll_refines: "dsb_inv b \<Longrightarrow> dsb_inv (ClearAll b) \<and> dsb_bytes (ClearAll b) = []"
  by (auto simp: ClearAll_def dsb_inv_def dsb_bytes_def Let_def)

lemma new_block_ok:
  assumes "dwSize \<noteq> 0" and "unat dwSize \<le> length pData"
  obtains d where "new_block pData dwSize = Some d" and "block_ok d"
    and "block_bytes d = take (unat dwSize) pData"
  using assms
  by (auto simp: new_block_def rd_bytes_def block_ok_def block_bytes_def word_gt_0)

lemma AddData_refines_bytes:
  assumes "dsb_inv b" and "unat n \<le> length xs"
  shows "\<exists>b'. AddData xs n b = Some b' \<and> dsb_bytes b' = dsb_bytes b @ take (unat n) xs
      \<and> dsb_inv b'"
proof (cases "n = 0")
  case True
  then show ?thesis using assms by (simp add: AddData_def)
next
  case False
  obtain ds where ds: "m_pDataList b = Some ds" "list_all block_ok ds"
      "dsb_bytes b = blocks_bytes ds" "m_dwTotalSize b = of_nat (length (blocks_bytes ds))"
    using dsb_invE[OF assms(1)] .
  obtain d where d: "new_block xs n = Some d" "block_ok d" "block_bytes d = take (unat n) xs"
    using new_block_ok[OF False assms(2)] .
  have "length (block_bytes d) = unat n" using d(3) assms(2) by simp
  with False ds d show ?thesis
    by (auto simp: AddData_def dsb_bytes_def intro!: dsb_invI)
qed

lemma AddDataFront_refines_bytes:
  assumes "dsb_inv b" and "unat n \<le> length xs"
  shows "\<exists>b'. AddDataFront xs n b = Some b' \<and> dsb_bytes b' = take (unat n) xs @ dsb_bytes b
      \<and> dsb_inv b'"
proof (cases "n = 0")
  case True
  then show ?thesis using assms by (simp add: AddDataFront_def)
next
  case False
  obtain ds where ds: "m_pDataList b = Some ds" "list_all block_ok ds"
      "dsb_bytes b = blocks_bytes ds" "m_dwTotalSize b = of_nat (length (blocks_bytes ds))"
    using dsb_invE[OF assms(1)] .
  obtain d where d: "new_block xs n = Some d" "block_ok d" "block_bytes d = take (unat n) xs"
    using new_block_ok[OF False assms(2)] .
  have "length (block_bytes d) = unat n" using d(3) assms(2) by simp
  with False ds d show ?thesis
    by (auto simp: AddDataFront_def dsb_bytes_def add.commute intro!: dsb_invI)
qed

lemma GetData_refines_bytes:
  assumes "dsb_inv b"
  shows "\<exists>b'. GetData n k b = Some (True, take (unat n) (dsb_bytes b),
          of_nat (min (unat n) (length (dsb_bytes b))), b')
      \<and> dsb_bytes b' = drop (unat n) (dsb_bytes b) \<and> dsb_inv b'"
proof -
  obtain ds where ds: "m_pDataList b = Some ds" "list_all block_ok ds"
      "dsb_bytes b = blocks_bytes ds" "m_dwTotalSize b = of_nat (length (blocks_bytes ds))"
    using dsb_invE[OF assms] .
  let ?m = "min (unat n) (length (blocks_bytes ds))"
  obtain ds' where ds': "GetDataLoop ds n 0 []
        = Some (ds', of_nat ?m, take (unat n) (blocks_bytes ds))"
      "blocks_bytes ds' = drop (unat n) (blocks_bytes ds)" "list_all block_ok ds'"
    using GetDataLoop_spec[OF ds(2), of n 0 "[]"] by auto
  let ?b = "b\<lparr>m_dwTotalSize := m_dwTotalSize b - of_nat ?m, m_pDataList := Some ds'\<rparr>"
  have "length (blocks_bytes ds') = length (blocks_bytes ds) - ?m" using ds'(2) by simp
  then have "m_dwTotalSize ?b = of_nat (length (blocks_bytes ds'))"
    using ds(4) by (simp add: of_nat_diff)
  then have "dsb_inv ?b" using ds'(3) by (auto intro: dsb_invI)
  then show ?thesis
    using ds ds' by (simp add: GetData_def GetDataCore_def dsb_bytes_def)
qed

text \<open>The buffer keeps the contract its client relies on.\<close>

interpretation dsb: byte_stream DataStreamBufferGetCurrentDataSize DataStreamBufferGetData
    DataStreamBufferAddDataFront DataStreamBufferAddData dsb_bytes dsb_inv
  unfolding dsb_api_defs
  by unfold_locales
    (use GetData_refines_bytes[unfolded GetData_def] AddDataFront_refines_bytes
      AddData_refines_bytes in \<open>auto simp: dsb_inv_def\<close>)

section \<open>Sequences of operations\<close>

text \<open>The calls a client can make, and what they return: the bytes read.\<close>

datatype dsb_op =
    OpAdd "BYTE list" DWORD
  | OpAddFront "BYTE list" DWORD
  | OpGet DWORD
  | OpGetAll
  | OpClear

fun dsb_exec1 :: "dsb_op \<Rightarrow> datastream \<Rightarrow> (BYTE list \<times> datastream) option" where
  "dsb_exec1 (OpAdd xs n) b = map_option (\<lambda>b. ([], b)) (DataStreamBufferAddData xs n b)"
| "dsb_exec1 (OpAddFront xs n) b = map_option (\<lambda>b. ([], b)) (DataStreamBufferAddDataFront xs n b)"
| "dsb_exec1 (OpGet n) b = map_option (\<lambda>(r, out, k, b). (out, b)) (DataStreamBufferGetData n 0 b)"
| "dsb_exec1 OpGetAll b =
     map_option (\<lambda>(out, k, b). (case out of None \<Rightarrow> [] | Some xs \<Rightarrow> xs, b))
       (DataStreamBufferGetAllData 0 b)"
| "dsb_exec1 OpClear b = Some ([], DataStreamBufferClearAllData b)"

fun dsb_exec :: "dsb_op list \<Rightarrow> datastream \<Rightarrow> (BYTE list list \<times> datastream) option" where
  "dsb_exec [] b = Some ([], b)"
| "dsb_exec (op # ops) b =
     (case dsb_exec1 op b of
        None \<Rightarrow> None
      | Some (out, b) \<Rightarrow> map_option (\<lambda>(outs, b). (out # outs, b)) (dsb_exec ops b))"

text \<open>The same calls on a plain byte list.\<close>

fun dsb_spec1 :: "dsb_op \<Rightarrow> BYTE list \<Rightarrow> BYTE list \<times> BYTE list" where
  "dsb_spec1 (OpAdd xs n) bs = ([], bs @ take (unat n) xs)"
| "dsb_spec1 (OpAddFront xs n) bs = ([], take (unat n) xs @ bs)"
| "dsb_spec1 (OpGet n) bs = (take (unat n) bs, drop (unat n) bs)"
| "dsb_spec1 OpGetAll bs = (bs, [])"
| "dsb_spec1 OpClear bs = ([], [])"

fun dsb_spec :: "dsb_op list \<Rightarrow> BYTE list \<Rightarrow> BYTE list list \<times> BYTE list" where
  "dsb_spec [] bs = ([], bs)"
| "dsb_spec (op # ops) bs =
     (case dsb_spec1 op bs of (out, bs) \<Rightarrow>
        (case dsb_spec ops bs of (outs, bs) \<Rightarrow> (out # outs, bs)))"

text \<open>The caller's array holds what is added, and the buffer never holds \<open>2 ^ 32\<close> bytes.\<close>

fun op_ok :: "dsb_op \<Rightarrow> bool" where
  "op_ok (OpAdd xs n) = (unat n \<le> length xs)"
| "op_ok (OpAddFront xs n) = (unat n \<le> length xs)"
| "op_ok _ = True"

fun op_adds :: "dsb_op \<Rightarrow> nat" where
  "op_adds (OpAdd xs n) = unat n"
| "op_adds (OpAddFront xs n) = unat n"
| "op_adds _ = 0"

lemma GetAllData_refines_bytes:
  assumes "dsb_inv b" and "length (dsb_bytes b) < 4294967296"
  shows "\<exists>b' out n. GetAllData k b = Some (out, n, b')
      \<and> (case out of None \<Rightarrow> [] | Some xs \<Rightarrow> xs) = dsb_bytes b \<and> dsb_bytes b' = [] \<and> dsb_inv b'"
proof -
  have sz: "unat (m_dwTotalSize b) = length (dsb_bytes b)"
    using assms by (simp add: dsb_inv_def unat_of_nat_DWORD)
  show ?thesis
  proof (cases "m_dwTotalSize b = 0")
    case True
    then have "dsb_bytes b = []" using sz by simp
    then show ?thesis using True assms(1) by (auto simp: GetAllData_def)
  next
    case False
    obtain b' where "GetData (m_dwTotalSize b) 0 b = Some (True, take (unat (m_dwTotalSize b)) (dsb_bytes b),
          of_nat (min (unat (m_dwTotalSize b)) (length (dsb_bytes b))), b')"
        "dsb_bytes b' = drop (unat (m_dwTotalSize b)) (dsb_bytes b)" "dsb_inv b'"
      using GetData_refines_bytes[OF assms(1)] by blast
    then show ?thesis using False sz by (auto simp: GetAllData_def GetData_def)
  qed
qed

lemma dsb_exec1_refines:
  assumes "dsb_inv b" and "op_ok op" and "length (dsb_bytes b) < 4294967296"
  shows "\<exists>b'. dsb_exec1 op b = Some (fst (dsb_spec1 op (dsb_bytes b)), b')
      \<and> dsb_bytes b' = snd (dsb_spec1 op (dsb_bytes b)) \<and> dsb_inv b'"
proof (cases op)
  case (OpAdd xs n)
  then show ?thesis using dsb.push[OF assms(1), of n xs] assms(2) by auto
next
  case (OpAddFront xs n)
  then show ?thesis using dsb.front[OF assms(1), of n xs] assms(2) by auto
next
  case (OpGet n)
  then show ?thesis using dsb.get[OF assms(1), of n 0] by auto
next
  case OpGetAll
  obtain b' out n where "GetAllData 0 b = Some (out, n, b')"
      "(case out of None \<Rightarrow> [] | Some xs \<Rightarrow> xs) = dsb_bytes b" "dsb_bytes b' = []" "dsb_inv b'"
    using GetAllData_refines_bytes[OF assms(1,3)] by blast
  then show ?thesis using OpGetAll by (simp add: DataStreamBufferGetAllData_def)
next
  case OpClear
  then show ?thesis using ClearAll_refines[OF assms(1)]
    by (simp add: DataStreamBufferClearAllData_def)
qed

lemma dsb_spec1_length: "op_ok op \<Longrightarrow> length (snd (dsb_spec1 op bs)) \<le> length bs + op_adds op"
  by (cases op) auto

lemma dsb_exec_refines:
  assumes "dsb_inv b" and "list_all op_ok ops"
    and "length (dsb_bytes b) + sum_list (map op_adds ops) < 4294967296"
  shows "\<exists>b'. dsb_exec ops b = Some (fst (dsb_spec ops (dsb_bytes b)), b')
      \<and> dsb_bytes b' = snd (dsb_spec ops (dsb_bytes b)) \<and> dsb_inv b'"
  using assms
proof (induction ops arbitrary: b)
  case (Cons op ops)
  have op: "op_ok op" and ops: "list_all op_ok ops" using Cons.prems(2) by simp_all
  have "length (dsb_bytes b) < 4294967296" using Cons.prems(3) by simp
  then obtain b1 where b1: "dsb_exec1 op b = Some (fst (dsb_spec1 op (dsb_bytes b)), b1)"
      "dsb_bytes b1 = snd (dsb_spec1 op (dsb_bytes b))" "dsb_inv b1"
    using dsb_exec1_refines[OF Cons.prems(1) op] by blast
  have "length (dsb_bytes b1) + sum_list (map op_adds ops) < 4294967296"
    using Cons.prems(3) dsb_spec1_length[OF op, of "dsb_bytes b"] b1(2) by simp
  from Cons.IH[OF b1(3) ops this] show ?case
    using b1(1,2) by (auto split: prod.split)
qed simp

section \<open>Properties\<close>

text \<open>C16: Any sequence of calls on a stream buffer - adding at either end, reading up to n bytes,
  reading everything, clearing - returns what the same calls on a plain byte sequence return; no
  call reads outside a block, and the size the buffer reports is the number of unread bytes.\<close>

theorem stream_buffer_refines_bytes:
  assumes "list_all op_ok ops" and "sum_list (map op_adds ops) < 4294967296"
  shows "\<exists>b. dsb_exec ops CreateDataStreamBuffer = Some (fst (dsb_spec ops []), b)
      \<and> dsb_bytes b = snd (dsb_spec ops [])
      \<and> DataStreamBufferGetCurrentDataSize b = of_nat (length (snd (dsb_spec ops [])))"
proof -
  obtain b where "dsb_exec ops CDataStreamBuf = Some (fst (dsb_spec ops []), b)"
      "dsb_bytes b = snd (dsb_spec ops [])" "dsb_inv b"
    using dsb_exec_refines[of CDataStreamBuf ops] assms by auto
  then show ?thesis
    using dsb.size[of b] by (simp add: CreateDataStreamBuffer_def)
qed

theorem stream_buffer_refines_bytes_witness:
  "\<exists>b. dsb_exec [OpAdd [1, 2, 3] 3, OpAddFront [9] 1, OpGet 2, OpGetAll] CreateDataStreamBuffer
      = Some ([[], [], [9, 1], [2, 3]], b)"
  using stream_buffer_refines_bytes[of "[OpAdd [1, 2, 3] 3, OpAddFront [9] 1, OpGet 2, OpGetAll]"]
  by auto

end
