(* ===== verification/PacketUnit.thy ===== *)
theory PacketUnit
  imports DataStreamBuf
begin

text \<open>
  \<^verbatim>\<open>include/corelib/packetunit.h\<close> and \<^verbatim>\<open>include/corelib/BasePacket.h\<close>: cutting the TCP
  byte stream into packets. A packet starts with its own total length as a little-endian
  \<open>DWORD\<close>, then its type. \<open>get_packet_from\<close> is the code of \<open>GetPacketFromBuffer\<close> over the four
  buffer operations it calls, so that its lemmas are proved once under the contract
  \<open>byte_stream\<close>; \<open>GetPacketFromBuffer\<close> is its instance on the code's buffer.
  \<open>next_frame\<close> and \<open>frames\<close> are the specification on plain byte lists.
\<close>

definition BASE_PACKET_HEADER_LEN :: DWORD where
  "BASE_PACKET_HEADER_LEN = 8"

section \<open>The code\<close>

definition get_packet_from ::
    "('b \<Rightarrow> DWORD) \<Rightarrow> (DWORD \<Rightarrow> DWORD \<Rightarrow> 'b \<Rightarrow> (bool \<times> BYTE list \<times> DWORD \<times> 'b) option) \<Rightarrow>
     (BYTE list \<Rightarrow> DWORD \<Rightarrow> 'b \<Rightarrow> 'b option) \<Rightarrow> 'b \<Rightarrow> (BYTE list option \<times> 'b) option" where
  "get_packet_from CurrentDataSize Get AddFront b =
    (let dwCurrentSize = CurrentDataSize b in
     if dwCurrentSize \<ge> BASE_PACKET_HEADER_LEN then do {
       (r1, header, dwReaded, b) \<leftarrow> Get BASE_PACKET_HEADER_LEN 0 b;
       b \<leftarrow> AddFront header dwReaded b;
       if dwReaded = BASE_PACKET_HEADER_LEN then do {
         Len \<leftarrow> rd_dword 0 header;
         if Len \<le> dwCurrentSize then do {
           (r2, pPacket, dwReaded, b) \<leftarrow> Get Len dwReaded b;
           if dwReaded \<noteq> Len then do {
             b \<leftarrow> AddFront pPacket dwReaded b;
             Some (None, b)
           } else Some (Some pPacket, b)
         } else Some (None, b)
       } else Some (None, b)
     } else Some (None, b))"

definition GetPacketFromBuffer :: "datastream \<Rightarrow> (BYTE list option \<times> datastream) option" where
  "GetPacketFromBuffer =
     get_packet_from DataStreamBufferGetCurrentDataSize DataStreamBufferGetData
       DataStreamBufferAddDataFront"

section \<open>Specification on byte lists\<close>

text \<open>The length a header announces.\<close>

definition frame_len :: "BYTE list \<Rightarrow> nat" where
  "frame_len bs = unat (bytes_dword (take 4 bs))"

definition next_frame :: "BYTE list \<Rightarrow> (BYTE list \<times> BYTE list) option" where
  "next_frame bs =
     (if 8 \<le> length bs \<and> frame_len bs \<le> length bs
      then Some (take (frame_len bs) bs, drop (frame_len bs) bs) else None)"

text \<open>All complete frames of a stream, and the rest. A frame of length zero stops it.\<close>

function frames :: "BYTE list \<Rightarrow> BYTE list list \<times> BYTE list" where
  "frames bs =
     (case next_frame bs of
        None \<Rightarrow> ([], bs)
      | Some (p, r) \<Rightarrow>
          if p = [] then ([], bs) else (p # fst (frames r), snd (frames r)))"
  by pat_completeness auto
termination
  by (relation "measure length") (auto simp: next_frame_def split: if_splits)

declare frames.simps [simp del]

text \<open>A packet as the constructors of \<open>P2PPacket\<close> build it.\<close>

definition wf_packet :: "BYTE list \<Rightarrow> bool" where
  "wf_packet p \<longleftrightarrow> 8 \<le> length p \<and> frame_len p = length p"

lemma frame_len_append [simp]: "4 \<le> length x \<Longrightarrow> frame_len (x @ y) = frame_len x"
  by (simp add: frame_len_def)

lemma frames_None: "next_frame bs = None \<Longrightarrow> frames bs = ([], bs)"
  by (simp add: frames.simps[of bs])

lemma frames_zero: "next_frame bs = Some ([], r) \<Longrightarrow> frames bs = ([], bs)"
  by (simp add: frames.simps[of bs])

lemma frames_Some:
  "next_frame bs = Some (p, r) \<Longrightarrow> p \<noteq> [] \<Longrightarrow> frames bs = (p # fst (frames r), snd (frames r))"
  by (simp add: frames.simps[of bs])

lemma frames_short [simp]: "length bs < 8 \<Longrightarrow> frames bs = ([], bs)"
  by (rule frames_None) (simp add: next_frame_def)

lemma next_frame_append:
  "next_frame x = Some (p, r) \<Longrightarrow> next_frame (x @ y) = Some (p, r @ y)"
  by (auto simp: next_frame_def split: if_splits)

lemma next_frame_packet:
  "wf_packet p \<Longrightarrow> next_frame (p @ r) = Some (p, r)"
  by (auto simp: wf_packet_def next_frame_def)

text \<open>Framing is incremental: what was cut off already is not affected by what arrives later.\<close>

lemma frames_append:
  "frames (x @ y) = (fst (frames x) @ fst (frames (snd (frames x) @ y)),
                     snd (frames (snd (frames x) @ y)))"
proof (induction x rule: frames.induct)
  case (1 x)
  show ?case
  proof (cases "next_frame x")
    case None
    then show ?thesis by (simp add: frames_None)
  next
    case (Some pr)
    obtain p r where pr: "next_frame x = Some (p, r)" using Some by (cases pr) simp
    show ?thesis
    proof (cases "p = []")
      case True
      then show ?thesis using pr by (simp add: frames_zero)
    next
      case False
      then show ?thesis
        using "1.IH"[OF pr refl False] pr next_frame_append[OF pr, of y]
        by (simp add: frames_Some)
    qed
  qed
qed

lemma frames_packets:
  "list_all wf_packet ps \<Longrightarrow> length r < 8 \<Longrightarrow> frames (concat ps @ r) = (ps, r)"
proof (induction ps)
  case (Cons p ps)
  have "next_frame (concat (p # ps) @ r) = Some (p, concat ps @ r)" and "p \<noteq> []"
    using Cons.prems next_frame_packet[of p] by (auto simp: wf_packet_def)
  then show ?case using Cons by (simp add: frames_Some)
qed simp

text \<open>The rest holds no complete frame, unless framing stopped at a frame of length zero.\<close>

lemma frames_rest:
  "next_frame (snd (frames bs)) = None \<or> (\<exists>r. next_frame (snd (frames bs)) = Some ([], r))"
proof (induction bs rule: frames.induct)
  case (1 bs)
  show ?case
  proof (cases "next_frame bs")
    case None
    then show ?thesis by (simp add: frames_None)
  next
    case (Some pr)
    obtain p r where pr: "next_frame bs = Some (p, r)" using Some by (cases pr) simp
    show ?thesis
    proof (cases "p = []")
      case True
      then show ?thesis using pr by (simp add: frames_zero)
    next
      case False
      then show ?thesis using "1.IH"[OF pr refl False] pr by (simp add: frames_Some)
    qed
  qed
qed

lemma frames_content: "concat (fst (frames bs)) @ snd (frames bs) = bs"
proof (induction bs rule: frames.induct)
  case (1 bs)
  show ?case
  proof (cases "next_frame bs")
    case None
    then show ?thesis by (simp add: frames_None)
  next
    case (Some pr)
    obtain p r where pr: "next_frame bs = Some (p, r)" using Some by (cases pr) simp
    then have "bs = p @ r" by (auto simp: next_frame_def split: if_splits)
    then show ?thesis
      using "1.IH"[OF pr refl] pr by (cases "p = []") (simp_all add: frames_zero frames_Some)
  qed
qed

lemma frames_nonempty: "[] \<notin> set (fst (frames bs))"
proof (induction bs rule: frames.induct)
  case (1 bs)
  show ?case
  proof (cases "next_frame bs")
    case (Some pr)
    then show ?thesis
      using "1.IH"[OF Some]
      by (cases pr, cases "fst pr = []") (simp_all add: frames_zero frames_Some)
  qed (simp add: frames_None)
qed

lemma frames_count: "length (fst (frames bs)) \<le> length bs"
proof -
  have "[] \<notin> set xs \<Longrightarrow> length xs \<le> length (concat xs)" for xs :: "'a list list"
    by (induction xs) (auto simp: neq_Nil_conv eq_commute[of "[]"])
  from this[OF frames_nonempty] have "length (fst (frames bs)) \<le> length (concat (fst (frames bs)))" .
  also have "\<dots> \<le> length bs"
    using frames_content[of bs] by (metis length_append le_add1)
  finally show ?thesis .
qed

section \<open>The client's lemmas, under the contract of the buffer\<close>

context byte_stream
begin

lemma get_packet_spec:
  assumes "inv b" and "length (bytes b) < 4294967296"
  shows "\<exists>b'. get_packet_from size get front b = Some (map_option fst (next_frame (bytes b)), b')
      \<and> bytes b' = (case next_frame (bytes b) of None \<Rightarrow> bytes b | Some (p, r) \<Rightarrow> r) \<and> inv b'"
proof (cases "8 \<le> length (bytes b)")
  case False
  then have "\<not> BASE_PACKET_HEADER_LEN \<le> size b"
    using assms by (simp add: size BASE_PACKET_HEADER_LEN_def word_le_nat_alt unat_of_nat_DWORD)
  then show ?thesis using assms False by (simp add: get_packet_from_def next_frame_def)
next
  case True
  have sz: "unat (size b) = length (bytes b)"
    using assms by (simp add: size unat_of_nat_DWORD)
  have ge: "BASE_PACKET_HEADER_LEN \<le> size b"
    using True sz by (simp add: BASE_PACKET_HEADER_LEN_def word_le_nat_alt)
  obtain b1 b2 where b12: "get BASE_PACKET_HEADER_LEN 0 b = Some (True, take 8 (bytes b), 8, b1)"
      "front (take 8 (bytes b)) 8 b1 = Some b2" "bytes b2 = bytes b" "inv b2"
    using True by (rule_tac peek_restores[OF assms(1), of BASE_PACKET_HEADER_LEN 0])
      (simp add: BASE_PACKET_HEADER_LEN_def min_def)
  let ?L = "bytes_dword (take 4 (bytes b))"
  have hdr: "rd_dword 0 (take 8 (bytes b)) = Some ?L"
    using True by (simp add: rd_dword_def rd_bytes_def min_def)
  have L: "?L \<le> size b \<longleftrightarrow> frame_len (bytes b) \<le> length (bytes b)"
    by (simp add: word_le_nat_alt sz frame_len_def)
  show ?thesis
  proof (cases "?L \<le> size b")
    case False
    then show ?thesis
      using True L ge b12 hdr
      by (simp add: get_packet_from_def next_frame_def BASE_PACKET_HEADER_LEN_def)
  next
    case le: True
    obtain b3 where b3: "get ?L 8 b2 = Some (True, take (unat ?L) (bytes b2),
          of_nat (min (unat ?L) (length (bytes b2))), b3)"
        "bytes b3 = drop (unat ?L) (bytes b2)" "inv b3"
      using getE[OF b12(4)] .
    have "(of_nat (min (unat ?L) (length (bytes b2))) :: DWORD) = ?L"
      using le L b12(3) by (simp add: frame_len_def min_def)
    then show ?thesis
      using True le L ge b12 hdr b3
      by (simp add: get_packet_from_def next_frame_def BASE_PACKET_HEADER_LEN_def frame_len_def)
  qed
qed

end

lemma GetPacketFromBuffer_spec:
  assumes "dsb_inv b" and "length (dsb_bytes b) < 4294967296"
  obtains b' where
    "GetPacketFromBuffer b = Some (map_option fst (next_frame (dsb_bytes b)), b')"
    and "dsb_bytes b' = (case next_frame (dsb_bytes b) of
           None \<Rightarrow> dsb_bytes b | Some (p, r) \<Rightarrow> r)"
    and "dsb_inv b'"
  using dsb.get_packet_spec[OF assms] unfolding GetPacketFromBuffer_def by blast

section \<open>Properties\<close>

text \<open>C20: Taking a packet from the stream buffer is total on every buffer content (below
  \<open>2 ^ 32\<close> bytes): with fewer than 8 bytes, or fewer than the header announces, it returns no
  packet and the content is unchanged; otherwise it returns exactly the announced prefix and
  leaves the rest.\<close>

theorem GetPacketFromBuffer_cuts_one_frame:
  assumes "dsb_inv b" and "length (dsb_bytes b) < 4294967296"
  shows "\<exists>b'. dsb_inv b' \<and>
    (if length (dsb_bytes b) < 8 \<or> length (dsb_bytes b) < frame_len (dsb_bytes b)
     then GetPacketFromBuffer b = Some (None, b') \<and> dsb_bytes b' = dsb_bytes b
     else \<exists>p. GetPacketFromBuffer b = Some (Some p, b') \<and> length p = frame_len (dsb_bytes b)
            \<and> p @ dsb_bytes b' = dsb_bytes b)"
  by (rule GetPacketFromBuffer_spec[OF assms]) (auto simp: next_frame_def split: if_splits)

lemma sample_buffer:
  "dsb_inv \<lparr>m_dwTotalSize = 11, m_pDataList = Some [\<lparr>pBuffer = [9, 0, 0, 0, 3, 0, 0, 0, 7, 1, 2],
     blk_dwTotalSize = 11, m_dwIdx = 0\<rparr>], m_name = []\<rparr>"
  by (simp add: dsb_inv_def dsb_bytes_def block_ok_def block_bytes_def)

theorem GetPacketFromBuffer_cuts_one_frame_witness:
  "\<exists>p b'. GetPacketFromBuffer \<lparr>m_dwTotalSize = 11, m_pDataList = Some
      [\<lparr>pBuffer = [9, 0, 0, 0, 3, 0, 0, 0, 7, 1, 2], blk_dwTotalSize = 11, m_dwIdx = 0\<rparr>],
      m_name = []\<rparr> = Some (Some p, b') \<and> length p = 9"
  using GetPacketFromBuffer_cuts_one_frame[OF sample_buffer]
  by (auto simp: dsb_bytes_def block_bytes_def frame_len_def)

end
