(* ===== verification/Protocol.thy ===== *)
theory Protocol
  imports PacketUnit
begin

text \<open>
  \<^verbatim>\<open>include/clovertun/P2PProtocol.h\<close>: the enumerations with their numeric values, the
  structures that live on the wire as records, and their packed layouts (\<open>#pragma pack(1)\<close>,
  little-endian, 32-bit Windows). An \<open>ADDRESS\<close> and a port are kept as the raw 4 and 2 bytes the
  socket API hands over, so no byte order conversion is involved.
\<close>

section \<open>Constants\<close>

definition UDP_PORT_SERVER_BASE :: WORD where "UDP_PORT_SERVER_BASE = 29000"
definition UDP_PORT_CLIENT_BASE :: WORD where "UDP_PORT_CLIENT_BASE = 30000"
definition KEYWORD_SIZE :: nat where "KEYWORD_SIZE = 32"
definition NAME_SIZE :: nat where "NAME_SIZE = 128"
definition UDP_DATA_MAX :: nat where "UDP_DATA_MAX = 247"

lemmas size_consts = KEYWORD_SIZE_def NAME_SIZE_def UDP_DATA_MAX_def

section \<open>Enumerations\<close>

datatype P2P_ERROR =
  P2P_ERROR_NONE | P2P_ERROR_TCPID_ERROR | P2P_TCP_CONNECT_ERROR | P2P_KEYWORD_DUPLICATE
| P2P_KEYWORD_NOT_FOUND | P2P_STATE_MISMATCH | P2P_PUNCH_TIMEOUT | P2P_PROXY_FAIL
| P2P_PEER_RESET | P2P_ERROR_UNKNOW

primrec err_num :: "P2P_ERROR \<Rightarrow> DWORD" where
  "err_num P2P_ERROR_NONE = 0"
| "err_num P2P_ERROR_TCPID_ERROR = 1"
| "err_num P2P_TCP_CONNECT_ERROR = 2"
| "err_num P2P_KEYWORD_DUPLICATE = 3"
| "err_num P2P_KEYWORD_NOT_FOUND = 4"
| "err_num P2P_STATE_MISMATCH = 5"
| "err_num P2P_PUNCH_TIMEOUT = 6"
| "err_num P2P_PROXY_FAIL = 7"
| "err_num P2P_PEER_RESET = 8"
| "err_num P2P_ERROR_UNKNOW = 9"

datatype P2P_STATUS =
  P2P_STATUS_NONE | P2P_TCP_LISTENING | P2P_TCP_CONNECTED | P2P_UDP_LISTENING
| P2P_UDP_CONNECTED | P2P_PUNCHING | P2P_CONNECTED | P2P_TCP_PROXY_REQUEST | P2P_TCP_PROXY
| P2P_STATUS_MAX

primrec status_num :: "P2P_STATUS \<Rightarrow> DWORD" where
  "status_num P2P_STATUS_NONE = 0"
| "status_num P2P_TCP_LISTENING = 1"
| "status_num P2P_TCP_CONNECTED = 2"
| "status_num P2P_UDP_LISTENING = 3"
| "status_num P2P_UDP_CONNECTED = 4"
| "status_num P2P_PUNCHING = 5"
| "status_num P2P_CONNECTED = 6"
| "status_num P2P_TCP_PROXY_REQUEST = 7"
| "status_num P2P_TCP_PROXY = 8"
| "status_num P2P_STATUS_MAX = 9"

datatype UDPBASE_PACKET_TYPE =
  UPT_WAITING | UPT_CONNECT | UPT_HANDSHAKE | UPT_KEEPALIVE | UPT_P2P_SUCCESS | UPT_KCP
| UPT_ENET | UPT_MAX

primrec upt_num :: "UDPBASE_PACKET_TYPE \<Rightarrow> DWORD" where
  "upt_num UPT_WAITING = 0"
| "upt_num UPT_CONNECT = 1"
| "upt_num UPT_HANDSHAKE = 2"
| "upt_num UPT_KEEPALIVE = 3"
| "upt_num UPT_P2P_SUCCESS = 4"
| "upt_num UPT_KCP = 5"
| "upt_num UPT_ENET = 6"
| "upt_num UPT_MAX = 7"

datatype TCPBASE_PACKET_TYPE =
  TPT_INIT | TPT_WAITING | TPT_WAIT_RESULT | TPT_RESET | TPT_CONNECT | TPT_CONNECT_RESULT
| TPT_START_UDP | TPT_CLIENT_INFO | TPT_P2P_RESULT | TPT_PROXY_REQUEST | TPT_PROXY_RESULT
| TPT_DATA_PROXY | TPT_MAX

primrec tpt_num :: "TCPBASE_PACKET_TYPE \<Rightarrow> DWORD" where
  "tpt_num TPT_INIT = 0"
| "tpt_num TPT_WAITING = 1"
| "tpt_num TPT_WAIT_RESULT = 2"
| "tpt_num TPT_RESET = 3"
| "tpt_num TPT_CONNECT = 4"
| "tpt_num TPT_CONNECT_RESULT = 5"
| "tpt_num TPT_START_UDP = 6"
| "tpt_num TPT_CLIENT_INFO = 7"
| "tpt_num TPT_P2P_RESULT = 8"
| "tpt_num TPT_PROXY_REQUEST = 9"
| "tpt_num TPT_PROXY_RESULT = 10"
| "tpt_num TPT_DATA_PROXY = 11"
| "tpt_num TPT_MAX = 12"

text \<open>
  The \<open>switch\<close> statements compare a \<open>DWORD\<close> from the wire with the enumerators: the case that
  is taken is the enumerator of that value, and none for a value that is out of range.
\<close>

definition tpt_of :: "DWORD \<Rightarrow> TCPBASE_PACKET_TYPE option" where
  "tpt_of n = find (\<lambda>t. tpt_num t = n)
     [TPT_INIT, TPT_WAITING, TPT_WAIT_RESULT, TPT_RESET, TPT_CONNECT, TPT_CONNECT_RESULT,
      TPT_START_UDP, TPT_CLIENT_INFO, TPT_P2P_RESULT, TPT_PROXY_REQUEST, TPT_PROXY_RESULT,
      TPT_DATA_PROXY, TPT_MAX]"

definition upt_of :: "DWORD \<Rightarrow> UDPBASE_PACKET_TYPE option" where
  "upt_of n = find (\<lambda>t. upt_num t = n)
     [UPT_WAITING, UPT_CONNECT, UPT_HANDSHAKE, UPT_KEEPALIVE, UPT_P2P_SUCCESS, UPT_KCP,
      UPT_ENET, UPT_MAX]"

lemma tpt_of_num [simp]: "tpt_of (tpt_num t) = Some t"
  by (cases t) (simp_all add: tpt_of_def)

lemma upt_of_num [simp]: "upt_of (upt_num t) = Some t"
  by (cases t) (simp_all add: upt_of_def)

lemma tpt_of_Some: "tpt_of n = Some t \<Longrightarrow> n = tpt_num t"
  unfolding tpt_of_def by (metis (mono_tags, lifting) find_Some_iff)

lemma upt_of_Some: "upt_of n = Some t \<Longrightarrow> n = upt_num t"
  unfolding upt_of_def by (metis (mono_tags, lifting) find_Some_iff)

lemma err_num_inj [simp]: "err_num a = err_num b \<longleftrightarrow> a = b"
  by (cases a; cases b) simp_all

lemma err_num_0 [simp]: "err_num e = 0 \<longleftrightarrow> e = P2P_ERROR_NONE"
  by (cases e) simp_all

lemma status_num_inj [simp]: "status_num a = status_num b \<longleftrightarrow> a = b"
  by (cases a; cases b) simp_all

text \<open>The code compares states with \<open>>=\<close>: their order is the order of their numbers.\<close>

instantiation P2P_STATUS :: linorder
begin

definition less_eq_P2P_STATUS :: "P2P_STATUS \<Rightarrow> P2P_STATUS \<Rightarrow> bool" where
  "less_eq_P2P_STATUS a b \<longleftrightarrow> status_num a \<le> status_num b"

definition less_P2P_STATUS :: "P2P_STATUS \<Rightarrow> P2P_STATUS \<Rightarrow> bool" where
  "less_P2P_STATUS a b \<longleftrightarrow> status_num a < status_num b"

instance
proof
  fix x y z :: P2P_STATUS
  show "x < y \<longleftrightarrow> x \<le> y \<and> \<not> y \<le> x"
    unfolding less_eq_P2P_STATUS_def less_P2P_STATUS_def by (rule less_le_not_le)
  show "x \<le> x" by (simp add: less_eq_P2P_STATUS_def)
  show "x \<le> y \<Longrightarrow> y \<le> z \<Longrightarrow> x \<le> z" by (simp add: less_eq_P2P_STATUS_def)
  show "x \<le> y \<Longrightarrow> y \<le> x \<Longrightarrow> x = y"
    using status_num_inj[of x y] by (simp add: less_eq_P2P_STATUS_def)
  show "x \<le> y \<or> y \<le> x" by (auto simp: less_eq_P2P_STATUS_def)
qed

end

section \<open>Structures\<close>

record CLIENT_INFO =
  ipaddr :: DWORD
  port :: WORD

text \<open>\<open>memset (&info, 0, sizeof (CLIENT_INFO))\<close>\<close>

definition zero_CLIENT_INFO :: CLIENT_INFO where
  "zero_CLIENT_INFO = \<lparr>ipaddr = 0, port = 0\<rparr>"

definition client_info_bytes :: "CLIENT_INFO \<Rightarrow> BYTE list" where
  "client_info_bytes i = dword_bytes (ipaddr i) @ word_bytes (port i)"

definition rd_client_info :: "nat \<Rightarrow> BYTE list \<Rightarrow> CLIENT_INFO option" where
  "rd_client_info off bs = do {
     a \<leftarrow> rd_dword off bs;
     p \<leftarrow> rd_word (off + 4) bs;
     Some \<lparr>ipaddr = a, port = p\<rparr>
   }"

record UDPBASE_PACKET =
  udp_type :: DWORD
  udp_length :: DWORD
  udp_data :: "BYTE list"
  checksum :: BYTE

record UDP_PACKET =
  BasePacket :: UDPBASE_PACKET
  PacketInfo :: CLIENT_INFO

definition udpbase_bytes :: "UDPBASE_PACKET \<Rightarrow> BYTE list" where
  "udpbase_bytes p =
     dword_bytes (udp_type p) @ dword_bytes (udp_length p) @ udp_data p @ [checksum p]"

definition udpbase_of_bytes :: "BYTE list \<Rightarrow> UDPBASE_PACKET option" where
  "udpbase_of_bytes bs = do {
     t \<leftarrow> rd_dword 0 bs;
     n \<leftarrow> rd_dword 4 bs;
     d \<leftarrow> rd_bytes 8 UDP_DATA_MAX bs;
     c \<leftarrow> rd_bytes 255 1 bs;
     Some \<lparr>udp_type = t, udp_length = n, udp_data = d, checksum = hd c\<rparr>
   }"

text \<open>\<open>sizeof\<close> of the packed structures.\<close>

definition sizeof_CLIENT_INFO :: nat where "sizeof_CLIENT_INFO = 6"
definition sizeof_UDPBASE_PACKET :: nat where "sizeof_UDPBASE_PACKET = 256"
definition sizeof_TCP_INIT_PACKET :: nat where "sizeof_TCP_INIT_PACKET = 6"
definition sizeof_TCP_WAIT_PACKET :: nat where "sizeof_TCP_WAIT_PACKET = 164"
definition sizeof_TCP_RESULT_PACKET :: nat where "sizeof_TCP_RESULT_PACKET = 8"
definition sizeof_TCP_START_UDP_PACKET :: nat where "sizeof_TCP_START_UDP_PACKET = 36"
definition sizeof_TCP_START_PUNCHING_PACKET :: nat where
  "sizeof_TCP_START_PUNCHING_PACKET = 14"
definition sizeof_TCP_PROXY_RESULT_PACKET :: nat where "sizeof_TCP_PROXY_RESULT_PACKET = 12"
definition TCP_PROXY_DATA_HEADER_LEN :: nat where "TCP_PROXY_DATA_HEADER_LEN = 12"

lemmas sizeof_defs =
  sizeof_CLIENT_INFO_def sizeof_UDPBASE_PACKET_def sizeof_TCP_INIT_PACKET_def
  sizeof_TCP_WAIT_PACKET_def sizeof_TCP_RESULT_PACKET_def sizeof_TCP_START_UDP_PACKET_def
  sizeof_TCP_START_PUNCHING_PACKET_def sizeof_TCP_PROXY_RESULT_PACKET_def
  TCP_PROXY_DATA_HEADER_LEN_def

lemma length_client_info_bytes [simp, wire_simps]: "length (client_info_bytes i) = 6"
  by (simp add: client_info_bytes_def)

lemma rd_client_info_here [wire_simps]: "rd_client_info 0 (client_info_bytes i @ ys) = Some i"
  by (simp add: rd_client_info_def client_info_bytes_def wire_simps)

lemma rd_client_info_all [wire_simps]: "rd_client_info 0 (client_info_bytes i) = Some i"
  by (simp add: rd_client_info_def client_info_bytes_def wire_simps)

lemma rd_client_info_skip [wire_simps]:
  "length xs \<le> off \<Longrightarrow> rd_client_info off (xs @ ys) = rd_client_info (off - length xs) ys"
  by (simp add: rd_client_info_def wire_simps)

lemma length_udpbase_bytes [simp, wire_simps]:
  "length (udpbase_bytes p) = 9 + length (udp_data p)"
  by (simp add: udpbase_bytes_def)

lemma udpbase_roundtrip:
  "length (udp_data p) = 247 \<Longrightarrow> udpbase_of_bytes (udpbase_bytes p) = Some p"
  by (simp add: udpbase_of_bytes_def udpbase_bytes_def wire_simps UDP_DATA_MAX_def)

lemma udpbase_of_bytes_length:
  "length bs = 256 \<Longrightarrow> \<exists>p. udpbase_of_bytes bs = Some p \<and> length (udp_data p) = 247"
  by (auto simp: udpbase_of_bytes_def UDP_DATA_MAX_def rd_bytes_def rd_dword_def)

end
