(* ===== verification/P2PPacket.thy ===== *)
theory P2PPacket
  imports Protocol
begin

text \<open>
  \<^verbatim>\<open>src/clovertun/P2PPacket.cpp\<close>: the name tables and the constructors of the TCP packets.
  A constructor returns the bytes of the allocated block (header, then the packed payload
  structure); \<open>None\<close> where it copies from or to memory outside the objects involved. Sizes are
  computed in 32 bits, as \<open>size_t\<close> is on the only platform of the project files. For every
  constructor there is the reader the receiving side applies to \<open>Packet->Data\<close>, and a round trip.
\<close>

section \<open>Names\<close>

definition TCPTypeName :: "string list" where
  "TCPTypeName =
     [''TPT_INIT'', ''TPT_WAITING'', ''TPT_WAIT_RESULT'', ''TPT_RESET'', ''TPT_CONNECT'',
      ''TPT_CONNECT_RESULT'', ''TPT_START_UDP'', ''TPT_CLIENT_INFO'', ''TPT_P2P_RESULT'',
      ''TPT_PROXY_REQUEST'', ''TPT_PROXY_RESULT'', ''TPT_DATA_PROXY'', ''TPT_MAX'']"

definition UDPTypeName :: "string list" where
  "UDPTypeName =
     [''UPT_WAITING'', ''UPT_CONNECT'', ''UPT_HANDSHAKE'', ''UPT_KEEPALIVE'',
      ''UPT_P2P_SUCCESS'', ''UPT_KCP'', ''UPT_ENET'', ''UPT_MAX'']"

definition P2PStatueName :: "string list" where
  "P2PStatueName =
     [''P2P_STATUS_NONE'', ''P2P_TCP_LISTENING'', ''P2P_TCP_CONNECTED'',
      ''P2P_UDP_LISTENING'', ''P2P_UDP_CONNECTED'', ''P2P_PUNCHING'', ''P2P_CONNECTED'',
      ''P2P_TCP_PROXY_REQUEST'', ''P2P_TCP_PROXY'', ''P2P_STATUS_MAX'']"

definition P2PErrorName :: "string list" where
  "P2PErrorName =
     [''Success, No Error'', ''Tcpid Error'', ''Connect to Server Failed'',
      ''Keyword Duplicate'', ''Keyword Not Found'', ''P2P State Mismatch'',
      ''P2P Punching Timeout'', ''P2P Proxy Failed'', ''P2P Peer Reset'',
      ''P2P Error Unknow'']"

text \<open>Indexing a static array: undefined out of range.\<close>

definition array_at :: "'a list \<Rightarrow> DWORD \<Rightarrow> 'a option" where
  "array_at xs i = (if unat i < length xs then Some (xs ! unat i) else None)"

definition TCPTypeToString :: "DWORD \<Rightarrow> string option" where
  "TCPTypeToString Type =
     (if Type \<ge> tpt_num TPT_MAX then array_at TCPTypeName (tpt_num TPT_MAX)
      else array_at TCPTypeName Type)"

definition UDPTypeToString :: "DWORD \<Rightarrow> string option" where
  "UDPTypeToString Type =
     (if Type \<ge> upt_num UPT_MAX then array_at UDPTypeName (upt_num UPT_MAX)
      else array_at UDPTypeName Type)"

definition P2PStatusToString :: "DWORD \<Rightarrow> string option" where
  "P2PStatusToString Type =
     (if Type \<ge> status_num P2P_STATUS_MAX
      then array_at P2PStatueName (status_num P2P_STATUS_MAX)
      else array_at P2PStatueName Type)"

definition P2PErrorToString :: "DWORD \<Rightarrow> string option" where
  "P2PErrorToString Type =
     (if Type \<ge> err_num P2P_ERROR_UNKNOW then array_at P2PErrorName (err_num P2P_ERROR_UNKNOW)
      else array_at P2PErrorName Type)"

section \<open>Constructors\<close>

text \<open>
  \<open>malloc (BASE_PACKET_HEADER_LEN + size)\<close>, cleared, with \<open>Length\<close> and \<open>Type\<close> set and the payload
  in \<open>Data\<close>; \<open>size\<close> is the \<open>sizeof\<close> the constructor uses. The payload must fill it exactly.
\<close>

definition base_packet :: "nat \<Rightarrow> TCPBASE_PACKET_TYPE \<Rightarrow> BYTE list \<Rightarrow> BYTE list" where
  "base_packet n t payload =
     dword_bytes (BASE_PACKET_HEADER_LEN + of_nat n) @ dword_bytes (tpt_num t) @ payload"

definition CreateTCPInitPkt :: "DWORD \<Rightarrow> WORD \<Rightarrow> BYTE list" where
  "CreateTCPInitPkt tcpid UDPPort =
     base_packet sizeof_TCP_INIT_PACKET TPT_INIT (dword_bytes tcpid @ word_bytes UDPPort)"

definition CreateTCPStartUDPPkt :: "DWORD \<Rightarrow> BYTE list \<Rightarrow> BYTE list option" where
  "CreateTCPStartUDPPkt tcpid Keyword = do {
     kw \<leftarrow> rd_bytes 0 KEYWORD_SIZE Keyword;
     Some (base_packet sizeof_TCP_START_UDP_PACKET TPT_START_UDP (dword_bytes tcpid @ kw))
   }"

definition CreateTCPResultPkt :: "TCPBASE_PACKET_TYPE \<Rightarrow> DWORD \<Rightarrow> DWORD \<Rightarrow> BYTE list" where
  "CreateTCPResultPkt t tcpid result =
     base_packet sizeof_TCP_RESULT_PACKET t (dword_bytes tcpid @ dword_bytes result)"

definition CreateTCPWaitAndConnPkt ::
    "DWORD \<Rightarrow> BYTE list \<Rightarrow> BYTE list \<Rightarrow> TCPBASE_PACKET_TYPE \<Rightarrow> BYTE list option" where
  "CreateTCPWaitAndConnPkt tcpid Keyword name t = do {
     kw \<leftarrow> strncpy KEYWORD_SIZE Keyword;
     nm \<leftarrow> strncpy NAME_SIZE name;
     Some (base_packet sizeof_TCP_WAIT_PACKET t (dword_bytes tcpid @ kw @ nm))
   }"

definition CreateTCPStartPunchingPkt :: "DWORD \<Rightarrow> DWORD \<Rightarrow> CLIENT_INFO \<Rightarrow> BYTE list" where
  "CreateTCPStartPunchingPkt tcpid PeerId Info =
     base_packet sizeof_TCP_START_PUNCHING_PACKET TPT_CLIENT_INFO
       (dword_bytes tcpid @ dword_bytes PeerId @ client_info_bytes Info)"

definition CreateTCPWaitPkt :: "DWORD \<Rightarrow> BYTE list \<Rightarrow> BYTE list \<Rightarrow> BYTE list option" where
  "CreateTCPWaitPkt tcpid Keyword name = CreateTCPWaitAndConnPkt tcpid Keyword name TPT_WAITING"

definition CreateTCPConnPkt :: "DWORD \<Rightarrow> BYTE list \<Rightarrow> BYTE list \<Rightarrow> BYTE list option" where
  "CreateTCPConnPkt tcpid Keyword name = CreateTCPWaitAndConnPkt tcpid Keyword name TPT_CONNECT"

definition CreateTCPProxyRequest :: "DWORD \<Rightarrow> BYTE list \<Rightarrow> BYTE list \<Rightarrow> BYTE list option" where
  "CreateTCPProxyRequest tcpid Keyword name =
     CreateTCPWaitAndConnPkt tcpid Keyword name TPT_PROXY_REQUEST"

definition CreateP2PSuccessPkt :: "DWORD \<Rightarrow> BYTE list \<Rightarrow> BYTE list option" where
  "CreateP2PSuccessPkt tcpid Keyword =
     CreateTCPWaitAndConnPkt tcpid Keyword (replicate NAME_SIZE 0) TPT_P2P_RESULT"

text \<open>The structure has \<open>Result\<close> first, although the arguments end with it.\<close>

definition CreateTCPProxyResultPkt :: "DWORD \<Rightarrow> DWORD \<Rightarrow> DWORD \<Rightarrow> BYTE list" where
  "CreateTCPProxyResultPkt tcpid peerid result =
     base_packet sizeof_TCP_PROXY_RESULT_PACKET TPT_PROXY_RESULT
       (dword_bytes result @ dword_bytes tcpid @ dword_bytes peerid)"

text \<open>
  The two data constructors copy \<open>Length\<close> bytes into a block of \<open>8 + Length\<close> (\<open>20 + Length\<close>)
  bytes, where the sum is a 32-bit sum: the copy must fit the block.
\<close>

definition alloc_and_copy :: "BYTE list \<Rightarrow> DWORD \<Rightarrow> BYTE list \<Rightarrow> DWORD \<Rightarrow> BYTE list option" where
  "alloc_and_copy hdr dwSize src n = do {
     xs \<leftarrow> rd_bytes 0 (unat n) src;
     if length hdr + length xs \<le> unat dwSize then Some (hdr @ xs) else None
   }"

definition CreateTCPProxyData_relay :: "BYTE list \<Rightarrow> DWORD \<Rightarrow> BYTE list option" where
  "CreateTCPProxyData_relay Data Length =
     alloc_and_copy
       (dword_bytes (BASE_PACKET_HEADER_LEN + Length) @ dword_bytes (tpt_num TPT_DATA_PROXY))
       (BASE_PACKET_HEADER_LEN + Length) Data Length"

definition CreateTCPProxyData :: "DWORD \<Rightarrow> DWORD \<Rightarrow> BYTE list \<Rightarrow> DWORD \<Rightarrow> BYTE list option" where
  "CreateTCPProxyData Peerid Host2Guest Data Length =
     (let dwSize = BASE_PACKET_HEADER_LEN + of_nat TCP_PROXY_DATA_HEADER_LEN + Length in
      alloc_and_copy
        (dword_bytes dwSize @ dword_bytes (tpt_num TPT_DATA_PROXY) @
         dword_bytes Peerid @ dword_bytes Host2Guest @ dword_bytes Length)
        dwSize Data Length)"

section \<open>Readers: the casts of \<open>Packet->Data\<close>\<close>

text \<open>
  \<open>pkt_type\<close> and \<open>pkt_data\<close> read \<open>Packet->Type\<close> and the address of \<open>Packet->Data\<close>; the record
  types name the fields a handler takes from the overlaid structure.
\<close>

definition pkt_length :: "BYTE list \<Rightarrow> DWORD option" where
  "pkt_length p = rd_dword 0 p"

definition pkt_type :: "BYTE list \<Rightarrow> DWORD option" where
  "pkt_type p = rd_dword 4 p"

definition pkt_data :: "BYTE list \<Rightarrow> BYTE list" where
  "pkt_data p = drop 8 p"

record TCP_WAIT_PACKET =
  wp_tcpid :: DWORD
  wp_keyword :: "BYTE list"
  wp_clientName :: "BYTE list"

definition rd_TCP_INIT_PACKET :: "BYTE list \<Rightarrow> (DWORD \<times> WORD) option" where
  "rd_TCP_INIT_PACKET d = do { t \<leftarrow> rd_dword 0 d; u \<leftarrow> rd_word 4 d; Some (t, u) }"

definition rd_TCP_WAIT_PACKET :: "BYTE list \<Rightarrow> TCP_WAIT_PACKET option" where
  "rd_TCP_WAIT_PACKET d = do {
     t \<leftarrow> rd_dword 0 d;
     k \<leftarrow> rd_bytes 4 KEYWORD_SIZE d;
     n \<leftarrow> rd_bytes 36 NAME_SIZE d;
     Some \<lparr>wp_tcpid = t, wp_keyword = k, wp_clientName = n\<rparr>
   }"

definition rd_TCP_RESULT_PACKET :: "BYTE list \<Rightarrow> (DWORD \<times> DWORD) option" where
  "rd_TCP_RESULT_PACKET d = do { t \<leftarrow> rd_dword 0 d; r \<leftarrow> rd_dword 4 d; Some (t, r) }"

definition rd_TCP_START_PUNCHING_PACKET :: "BYTE list \<Rightarrow> (DWORD \<times> DWORD \<times> CLIENT_INFO) option"
  where
  "rd_TCP_START_PUNCHING_PACKET d = do {
     t \<leftarrow> rd_dword 0 d;
     p \<leftarrow> rd_dword 4 d;
     i \<leftarrow> rd_client_info 8 d;
     Some (t, p, i)
   }"

text \<open>\<open>Result\<close>, \<open>tcpid\<close>, \<open>Peerid\<close>\<close>

definition rd_TCP_PROXY_RESULT_PACKET :: "BYTE list \<Rightarrow> (DWORD \<times> DWORD \<times> DWORD) option" where
  "rd_TCP_PROXY_RESULT_PACKET d = do {
     r \<leftarrow> rd_dword 0 d;
     t \<leftarrow> rd_dword 4 d;
     p \<leftarrow> rd_dword 8 d;
     Some (r, t, p)
   }"

text \<open>\<open>Peerid\<close>, \<open>Host2Guest\<close>, \<open>Length\<close>, and the bytes from \<open>Data\<close> to the end of the block\<close>

definition rd_TCP_PROXY_DATA :: "BYTE list \<Rightarrow> (DWORD \<times> DWORD \<times> DWORD \<times> BYTE list) option" where
  "rd_TCP_PROXY_DATA d = do {
     p \<leftarrow> rd_dword 0 d;
     h \<leftarrow> rd_dword 4 d;
     n \<leftarrow> rd_dword 8 d;
     Some (p, h, n, drop TCP_PROXY_DATA_HEADER_LEN d)
   }"


section \<open>Round trips\<close>

lemmas rd_packet_defs =
  rd_TCP_INIT_PACKET_def rd_TCP_WAIT_PACKET_def rd_TCP_RESULT_PACKET_def
  rd_TCP_START_PUNCHING_PACKET_def rd_TCP_PROXY_RESULT_PACKET_def rd_TCP_PROXY_DATA_def

lemma base_packet_wf:
  assumes "length payload = n" and "n < 4294967288"
  shows "wf_packet (base_packet n t payload)"
proof -
  have "(BASE_PACKET_HEADER_LEN + of_nat n :: DWORD) = of_nat (8 + n)"
    by (simp add: BASE_PACKET_HEADER_LEN_def)
  then have "unat (BASE_PACKET_HEADER_LEN + of_nat n :: DWORD) = 8 + n"
    using assms(2) by (simp only: unat_of_nat_DWORD)
  then show ?thesis
    using assms(1) by (simp add: wf_packet_def base_packet_def frame_len_def)
qed

lemma base_packet_parts [simp]:
  "pkt_type (base_packet n t payload) = Some (tpt_num t)"
  "pkt_data (base_packet n t payload) = payload"
  by (simp_all add: base_packet_def pkt_type_def pkt_data_def wire_simps)

lemma base_packet_length [simp]: "length (base_packet n t payload) = 8 + length payload"
  by (simp add: base_packet_def)

lemma CreateTCPInitPkt_props:
  "wf_packet (CreateTCPInitPkt i u)"
  "pkt_type (CreateTCPInitPkt i u) = Some (tpt_num TPT_INIT)"
  "rd_TCP_INIT_PACKET (pkt_data (CreateTCPInitPkt i u)) = Some (i, u)"
  by (simp_all add: CreateTCPInitPkt_def base_packet_wf sizeof_defs rd_packet_defs wire_simps)

lemma CreateTCPResultPkt_props:
  "wf_packet (CreateTCPResultPkt t i r)"
  "pkt_type (CreateTCPResultPkt t i r) = Some (tpt_num t)"
  "rd_TCP_RESULT_PACKET (pkt_data (CreateTCPResultPkt t i r)) = Some (i, r)"
  by (simp_all add: CreateTCPResultPkt_def base_packet_wf sizeof_defs rd_packet_defs wire_simps)

lemma CreateTCPStartPunchingPkt_props:
  "wf_packet (CreateTCPStartPunchingPkt i p c)"
  "pkt_type (CreateTCPStartPunchingPkt i p c) = Some (tpt_num TPT_CLIENT_INFO)"
  "rd_TCP_START_PUNCHING_PACKET (pkt_data (CreateTCPStartPunchingPkt i p c)) = Some (i, p, c)"
  by (simp_all add: CreateTCPStartPunchingPkt_def base_packet_wf sizeof_defs rd_packet_defs
      wire_simps)

lemma CreateTCPProxyResultPkt_props:
  "wf_packet (CreateTCPProxyResultPkt i p r)"
  "pkt_type (CreateTCPProxyResultPkt i p r) = Some (tpt_num TPT_PROXY_RESULT)"
  "rd_TCP_PROXY_RESULT_PACKET (pkt_data (CreateTCPProxyResultPkt i p r)) = Some (r, i, p)"
  by (simp_all add: CreateTCPProxyResultPkt_def base_packet_wf sizeof_defs rd_packet_defs
      wire_simps)

lemma CreateTCPStartUDPPkt_props:
  assumes "CreateTCPStartUDPPkt i kw = Some p"
  shows "wf_packet p" and "pkt_type p = Some (tpt_num TPT_START_UDP)"
    and "pkt_data p = dword_bytes i @ take 32 kw"
  using assms
  by (auto simp: CreateTCPStartUDPPkt_def bind_Some_iff rd_bytes_def KEYWORD_SIZE_def
      sizeof_defs split: if_splits intro!: base_packet_wf)

lemma CreateTCPWaitAndConnPkt_props:
  assumes "CreateTCPWaitAndConnPkt i kw nm t = Some p"
  obtains k n where "strncpy 32 kw = Some k" and "strncpy 128 nm = Some n"
    and "wf_packet p" and "pkt_type p = Some (tpt_num t)"
    and "rd_TCP_WAIT_PACKET (pkt_data p) = Some \<lparr>wp_tcpid = i, wp_keyword = k, wp_clientName = n\<rparr>"
proof -
  obtain k n where kn: "strncpy 32 kw = Some k" "strncpy 128 nm = Some n"
    and p: "p = base_packet sizeof_TCP_WAIT_PACKET t (dword_bytes i @ k @ n)"
    using assms by (auto simp: CreateTCPWaitAndConnPkt_def bind_Some_iff size_consts)
  have len: "length k = 32" "length n = 128"
    using kn by (auto dest: strncpy_length)
  show thesis
    by (rule that[OF kn])
      (use len in \<open>simp_all add: p base_packet_wf sizeof_defs rd_packet_defs size_consts wire_simps\<close>)
qed

lemma CreateTCPWaitAndConnPkt_defined:
  assumes "nul_terminated kw \<or> 32 \<le> length kw" and "nul_terminated nm \<or> 128 \<le> length nm"
  shows "\<exists>p. CreateTCPWaitAndConnPkt i kw nm t = Some p"
  using strncpy_defined[OF assms(1)] strncpy_defined[OF assms(2)]
  by (auto simp: CreateTCPWaitAndConnPkt_def size_consts)

text \<open>Relaying and wrapping data, for lengths whose sum with the headers stays in 32 bits.\<close>

lemma CreateTCPProxyData_props:
  assumes "unat n \<le> length d" and "unat n < 4294967276"
  obtains p where "CreateTCPProxyData i h d n = Some p" and "wf_packet p"
    and "pkt_type p = Some (tpt_num TPT_DATA_PROXY)"
    and "rd_TCP_PROXY_DATA (pkt_data p) = Some (i, h, n, take (unat n) d)"
proof -
  have sum: "unat (BASE_PACKET_HEADER_LEN + of_nat TCP_PROXY_DATA_HEADER_LEN + n) = 20 + unat n"
    using assms(2)
    by (simp add: BASE_PACKET_HEADER_LEN_def TCP_PROXY_DATA_HEADER_LEN_def unat_word_ariths)
  let ?p = "dword_bytes (BASE_PACKET_HEADER_LEN + of_nat TCP_PROXY_DATA_HEADER_LEN + n) @
      dword_bytes (tpt_num TPT_DATA_PROXY) @ dword_bytes i @ dword_bytes h @ dword_bytes n @
      take (unat n) d"
  show thesis
  proof (rule that[of ?p])
    show "CreateTCPProxyData i h d n = Some ?p"
      using assms(1) sum
      by (simp add: CreateTCPProxyData_def alloc_and_copy_def Let_def rd_bytes_0)
    show "wf_packet ?p"
      using assms(1) sum by (simp add: wf_packet_def frame_len_def)
    show "pkt_type ?p = Some (tpt_num TPT_DATA_PROXY)"
      by (simp add: pkt_type_def wire_simps)
    show "rd_TCP_PROXY_DATA (pkt_data ?p) = Some (i, h, n, take (unat n) d)"
      by (simp add: pkt_data_def rd_TCP_PROXY_DATA_def wire_simps TCP_PROXY_DATA_HEADER_LEN_def)
  qed
qed

lemma CreateTCPProxyData_relay_props:
  assumes "unat n \<le> length d" and "unat n < 4294967288"
  obtains p where "CreateTCPProxyData_relay d n = Some p" and "wf_packet p"
    and "pkt_type p = Some (tpt_num TPT_DATA_PROXY)" and "pkt_data p = take (unat n) d"
proof -
  have sum: "unat (BASE_PACKET_HEADER_LEN + n) = 8 + unat n"
    using assms(2) by (simp add: BASE_PACKET_HEADER_LEN_def unat_word_ariths)
  let ?p = "dword_bytes (BASE_PACKET_HEADER_LEN + n) @ dword_bytes (tpt_num TPT_DATA_PROXY) @
      take (unat n) d"
  show thesis
  proof (rule that[of ?p])
    show "CreateTCPProxyData_relay d n = Some ?p"
      using assms(1) sum by (simp add: CreateTCPProxyData_relay_def alloc_and_copy_def rd_bytes_0)
    show "wf_packet ?p"
      using assms(1) sum by (simp add: wf_packet_def frame_len_def)
    show "pkt_type ?p = Some (tpt_num TPT_DATA_PROXY)"
      by (simp add: pkt_type_def wire_simps)
    show "pkt_data ?p = take (unat n) d"
      by (simp add: pkt_data_def)
  qed
qed

section \<open>Properties\<close>

text \<open>
  Every control packet with fixed fields is read back as it was made. The block that
  \<open>CreateTCPInitPkt\<close>, \<open>CreateTCPResultPkt\<close>, \<open>CreateTCPStartPunchingPkt\<close> and
  \<open>CreateTCPProxyResultPkt\<close> build is exactly as long as its header says, carries its type, and the
  structure laid over its data has the arguments in its fields.
\<close>

theorem control_packets_roundtrip:
  "(let p = CreateTCPInitPkt i u in wf_packet p \<and> pkt_type p = Some (tpt_num TPT_INIT)
      \<and> rd_TCP_INIT_PACKET (pkt_data p) = Some (i, u))
   \<and> (let p = CreateTCPResultPkt t i r in wf_packet p \<and> pkt_type p = Some (tpt_num t)
      \<and> rd_TCP_RESULT_PACKET (pkt_data p) = Some (i, r))
   \<and> (let p = CreateTCPStartPunchingPkt i peer info in wf_packet p
      \<and> pkt_type p = Some (tpt_num TPT_CLIENT_INFO)
      \<and> rd_TCP_START_PUNCHING_PACKET (pkt_data p) = Some (i, peer, info))
   \<and> (let p = CreateTCPProxyResultPkt i peer r in wf_packet p
      \<and> pkt_type p = Some (tpt_num TPT_PROXY_RESULT)
      \<and> rd_TCP_PROXY_RESULT_PACKET (pkt_data p) = Some (r, i, peer))"
  unfolding Let_def
  by (intro conjI CreateTCPInitPkt_props CreateTCPResultPkt_props CreateTCPStartPunchingPkt_props
      CreateTCPProxyResultPkt_props)

text \<open>
  C34: the packets with a keyword and a name are read back as they were made. For a keyword of at
  most 31 and a name of at most 127 characters, \<open>CreateTCPWaitPkt\<close>, \<open>CreateTCPConnPkt\<close> and
  \<open>CreateTCPProxyRequest\<close> give a block of 172 bytes of their type from which the receiver reads
  the same id and, as C strings, the same keyword and name, both terminated inside their fields.
\<close>

theorem keyword_packets_roundtrip:
  assumes "nul_terminated kw" and "length (cstr kw) < 32" and "nul_terminated nm"
    and "length (cstr nm) < 128"
    and "(create, t) \<in> {(CreateTCPWaitPkt, TPT_WAITING), (CreateTCPConnPkt, TPT_CONNECT),
           (CreateTCPProxyRequest, TPT_PROXY_REQUEST)}"
  shows "\<exists>p wp. create i kw nm = Some p \<and> wf_packet p \<and> length p = 172
     \<and> pkt_type p = Some (tpt_num t) \<and> rd_TCP_WAIT_PACKET (pkt_data p) = Some wp
     \<and> wp_tcpid wp = i \<and> cstr (wp_keyword wp) = cstr kw \<and> cstr (wp_clientName wp) = cstr nm
     \<and> nul_terminated (wp_keyword wp) \<and> nul_terminated (wp_clientName wp)"
proof -
  have c: "create i kw nm = CreateTCPWaitAndConnPkt i kw nm t"
    using assms(5) by (auto simp: CreateTCPWaitPkt_def CreateTCPConnPkt_def CreateTCPProxyRequest_def)
  obtain p where p: "CreateTCPWaitAndConnPkt i kw nm t = Some p"
    using CreateTCPWaitAndConnPkt_defined assms(1,3) by blast
  obtain k n where kn: "strncpy 32 kw = Some k" "strncpy 128 nm = Some n" "wf_packet p"
    "pkt_type p = Some (tpt_num t)"
    "rd_TCP_WAIT_PACKET (pkt_data p) = Some \<lparr>wp_tcpid = i, wp_keyword = k, wp_clientName = n\<rparr>"
    using CreateTCPWaitAndConnPkt_props[OF p] .
  have "length p = 172"
    using p kn(1,2) strncpy_length[OF kn(1)] strncpy_length[OF kn(2)]
    by (auto simp: CreateTCPWaitAndConnPkt_def bind_Some_iff size_consts)
  then show ?thesis
    using c p kn strncpy_cstr[OF kn(1) assms(2)] strncpy_cstr[OF kn(2) assms(4)] by simp
qed

theorem keyword_packets_roundtrip_witness:
  "\<exists>p wp. CreateTCPConnPkt 5 [107, 0] [110, 97, 0, 1] = Some p \<and> length p = 172
     \<and> rd_TCP_WAIT_PACKET (pkt_data p) = Some wp \<and> cstr (wp_keyword wp) = [107]"
  using keyword_packets_roundtrip[of "[107, 0]" "[110, 97, 0, 1]" CreateTCPConnPkt TPT_CONNECT 5]
  by (auto simp: cstr_def)

text \<open>
  C35: application data wrapped for the relay is read back, up to the largest length for which the
  sizes do not wrap. For \<open>Length\<close> bytes that the caller owns: below \<open>2 ^ 32 - 20\<close> the packet is
  well formed and holds the peer id, the direction, the length and the data; from there on the
  32-bit size of the block wraps around and the copy runs past its end.
\<close>

theorem relay_data_roundtrip:
  assumes "unat n \<le> length d"
  shows "if unat n < 4294967276
     then \<exists>p. CreateTCPProxyData i h d n = Some p \<and> wf_packet p
       \<and> pkt_type p = Some (tpt_num TPT_DATA_PROXY)
       \<and> rd_TCP_PROXY_DATA (pkt_data p) = Some (i, h, n, take (unat n) d)
     else CreateTCPProxyData i h d n = None"
proof (cases "unat n < 4294967276")
  case True
  then show ?thesis using CreateTCPProxyData_props[OF assms True] by (simp, metis)
next
  case False
  have "unat (20 + n) < 20 + unat n"
    using False unat_DWORD_less[of "20 + n"] by simp
  moreover have "unat (20 + n) < 4294967296" using unat_DWORD_less[of "20 + n"] by simp
  moreover have "BASE_PACKET_HEADER_LEN + of_nat TCP_PROXY_DATA_HEADER_LEN + n = 20 + n"
    by (simp add: BASE_PACKET_HEADER_LEN_def TCP_PROXY_DATA_HEADER_LEN_def)
  ultimately have "CreateTCPProxyData i h d n = None"
    using assms by (simp add: CreateTCPProxyData_def alloc_and_copy_def Let_def rd_bytes_0)
  then show ?thesis using False by simp
qed

theorem relay_data_roundtrip_witness:
  "\<exists>p. CreateTCPProxyData 1 0 [7, 8, 9] 2 = Some p
     \<and> rd_TCP_PROXY_DATA (pkt_data p) = Some (1, 0, 2, [7, 8])"
  using relay_data_roundtrip[of 2 "[7, 8, 9]" 1 0] by auto

lemma array_clamped:
  assumes "length names = Suc (unat m)"
  shows "(if m \<le> n then array_at names m else array_at names n) = Some (names ! unat (min n m))"
proof (cases "m \<le> n")
  case True
  then show ?thesis using assms by (simp add: array_at_def min_def)
next
  case False
  then have "unat n < unat m" "min n m = n" by (simp_all add: word_le_nat_alt min_def)
  then show ?thesis using assms False by (simp add: array_at_def)
qed

text \<open>
  C36: the four functions that name a code never read outside their tables. For every 32-bit
  argument they return a string; the argument of an enumeration constant gives the entry at its
  number, and every number from the last constant on gives the last name.
\<close>

theorem names_total:
  "TCPTypeToString n = Some (TCPTypeName ! unat (min n (tpt_num TPT_MAX)))
   \<and> UDPTypeToString n = Some (UDPTypeName ! unat (min n (upt_num UPT_MAX)))
   \<and> P2PStatusToString n = Some (P2PStatueName ! unat (min n (status_num P2P_STATUS_MAX)))
   \<and> P2PErrorToString n = Some (P2PErrorName ! unat (min n (err_num P2P_ERROR_UNKNOW)))"
  unfolding TCPTypeToString_def UDPTypeToString_def P2PStatusToString_def P2PErrorToString_def
  by (intro conjI array_clamped)
    (simp_all add: TCPTypeName_def UDPTypeName_def P2PStatueName_def P2PErrorName_def)

end
