(* ===== verification/BaseObject.thy ===== *)
theory BaseObject
  imports Prelude
begin

text \<open>
  \<^verbatim>\<open>include/BaseObject/BaseObject.h\<close>: the intrusive reference count every class of the
  program inherits. An object is a record that extends \<open>CBaseObject\<close>; the heap of a class maps
  addresses to live objects, and \<open>delete this\<close> removes the object from the heap, so that any
  later use of the address is \<open>None\<close> (undefined behaviour). \<open>m_lRef\<close> is a 32-bit word.
\<close>

record CBaseObject =
  m_lRef :: LONG

definition CBaseObject_AddRef :: "'a CBaseObject_scheme \<Rightarrow> 'a CBaseObject_scheme" where
  "CBaseObject_AddRef ob = ob\<lparr>m_lRef := m_lRef ob + 1\<rparr>"

text \<open>\<open>Release\<close>: the object with its new count, and whether it has to be deleted.\<close>

definition CBaseObject_Release :: "'a CBaseObject_scheme \<Rightarrow> 'a CBaseObject_scheme \<times> bool" where
  "CBaseObject_Release ob =
     (let Temp = m_lRef ob - 1 in (ob\<lparr>m_lRef := Temp\<rparr>, Temp = 0))"

section \<open>Objects on the heap\<close>

type_synonym 'a heap = "addr \<Rightarrow> 'a CBaseObject_scheme option"

definition AddRef :: "addr \<Rightarrow> 'a heap \<Rightarrow> 'a heap option" where
  "AddRef p h = map_option (\<lambda>ob. h(p \<mapsto> CBaseObject_AddRef ob)) (h p)"

text \<open>\<open>Release\<close> of a class whose destructor releases no other object.\<close>

definition Release :: "addr \<Rightarrow> 'a heap \<Rightarrow> 'a heap option" where
  "Release p h =
     (case h p of
        None \<Rightarrow> None
      | Some ob \<Rightarrow>
          (case CBaseObject_Release ob of (ob', dead) \<Rightarrow>
             Some (if dead then h(p := None) else h(p \<mapsto> ob'))))"

text \<open>The guarded forms \<open>if (p) p->AddRef ()\<close> and \<open>if (p) p->Release ()\<close>.\<close>

definition AddRef_ptr :: "ptr \<Rightarrow> 'a heap \<Rightarrow> 'a heap option" where
  "AddRef_ptr p h = (case p of None \<Rightarrow> Some h | Some a \<Rightarrow> AddRef a h)"

definition Release_ptr :: "ptr \<Rightarrow> 'a heap \<Rightarrow> 'a heap option" where
  "Release_ptr p h = (case p of None \<Rightarrow> Some h | Some a \<Rightarrow> Release a h)"

definition ref_count :: "'a heap \<Rightarrow> addr \<Rightarrow> LONG option" where
  "ref_count h p = map_option m_lRef (h p)"

text \<open>
  The registration of a callback with its parameter object, the same code in \<open>CTCPBase\<close>,
  \<open>CUDPBase\<close>, \<open>CTCPService\<close>, \<open>CENetClient\<close> and \<open>CP2PClient\<close>: the new parameter gains a
  reference, then the old one loses its reference. \<open>addref\<close> and \<open>release\<close> are the virtual
  methods of the parameter objects, over whatever state holds them.
\<close>

definition register_param ::
    "(addr \<Rightarrow> 's \<Rightarrow> 's option) \<Rightarrow> (addr \<Rightarrow> 's \<Rightarrow> 's option) \<Rightarrow> ptr \<Rightarrow> ptr \<Rightarrow> 's \<Rightarrow> 's option"
  where
  "register_param addref release new old s = do {
     s \<leftarrow> (case new of None \<Rightarrow> Some s | Some p \<Rightarrow> addref p s);
     case old of None \<Rightarrow> Some s | Some p \<Rightarrow> release p s
   }"

section \<open>The contract of reference counting\<close>

text \<open>
  What the users of reference counted objects rely on, over any state \<open>'s\<close> that holds them.
\<close>

locale refcounted =
  fixes addref release :: "addr \<Rightarrow> 's \<Rightarrow> 's option"
    and count :: "'s \<Rightarrow> addr \<Rightarrow> LONG option"
  assumes addref_live: "count s p = Some n \<Longrightarrow>
      \<exists>s'. addref p s = Some s' \<and> count s' = (count s)(p \<mapsto> n + 1)"
    and release_addref: "count s p = Some n \<Longrightarrow> n \<noteq> 0 \<Longrightarrow> addref p s = Some s' \<Longrightarrow>
      release p s' = Some s"
    and dangling: "count s p = None \<Longrightarrow> addref p s = None \<and> release p s = None"
begin

text \<open>A temporary reference (\<open>AddRef\<close>, use, \<open>Release\<close>) leaves no trace.\<close>

lemma temporary_reference:
  assumes "count s p = Some n" and "n \<noteq> 0"
  obtains s' where "addref p s = Some s'" and "count s' p = Some (n + 1)"
    and "release p s' = Some s"
  using addref_live[OF assms(1)] release_addref[OF assms] by auto

text \<open>Registering an object and later unregistering it leaves its count as it was.\<close>

lemma register_unregister:
  assumes "count s p = Some n" and "n \<noteq> 0"
  obtains s' where "register_param addref release (Some p) None s = Some s'"
    and "register_param addref release None (Some p) s' = Some s"
  using temporary_reference[OF assms] by (auto simp: register_param_def)

text \<open>Registering the same object again is neutral: it is referenced before it is released.\<close>

lemma register_again:
  assumes "count s p = Some n" and "n \<noteq> 0"
  shows "register_param addref release (Some p) (Some p) s = Some s"
  using temporary_reference[OF assms] by (fastforce simp: register_param_def)

lemma addref_defined: "addref p s = None \<longleftrightarrow> count s p = None"
  using addref_live dangling by (metis not_None_eq)

end

interpretation heap: refcounted AddRef Release ref_count
proof (unfold_locales, goal_cases)
  case (1 s p n)
  then obtain ob where ob: "s p = Some ob" "m_lRef ob = n" by (auto simp: ref_count_def)
  then have "AddRef p s = Some (s(p \<mapsto> ob\<lparr>m_lRef := n + 1\<rparr>))"
    by (simp add: AddRef_def CBaseObject_AddRef_def)
  moreover have "ref_count (s(p \<mapsto> ob\<lparr>m_lRef := n + 1\<rparr>)) = (ref_count s)(p \<mapsto> n + 1)"
    by (simp add: ref_count_def fun_eq_iff)
  ultimately show ?case by blast
next
  case (2 s p n s')
  then show ?case
    by (auto simp: ref_count_def AddRef_def Release_def CBaseObject_AddRef_def
        CBaseObject_Release_def fun_upd_idem)
next
  case (3 s p)
  then show ?case by (simp add: ref_count_def AddRef_def Release_def)
qed

text \<open>What \<open>Release\<close> does to the counts of a heap.\<close>

lemma Release_count:
  "h p = Some ob \<Longrightarrow> Release p h =
     Some (if m_lRef ob = 1 then h(p := None) else h(p \<mapsto> ob\<lparr>m_lRef := m_lRef ob - 1\<rparr>))"
  by (simp add: Release_def CBaseObject_Release_def Let_def)

lemma AddRef_live: "h p = Some ob \<Longrightarrow> AddRef p h = Some (h(p \<mapsto> ob\<lparr>m_lRef := m_lRef ob + 1\<rparr>))"
  by (simp add: AddRef_def CBaseObject_AddRef_def)

text \<open>Repeated operations, as the owners of one object perform them.\<close>

fun AddRefs :: "nat \<Rightarrow> addr \<Rightarrow> 'a heap \<Rightarrow> 'a heap option" where
  "AddRefs 0 p h = Some h"
| "AddRefs (Suc n) p h = Option.bind (AddRef p h) (AddRefs n p)"

fun Releases :: "nat \<Rightarrow> addr \<Rightarrow> 'a heap \<Rightarrow> 'a heap option" where
  "Releases 0 p h = Some h"
| "Releases (Suc n) p h = Option.bind (Release p h) (Releases n p)"

lemma AddRefs_live:
  "h p = Some ob \<Longrightarrow> AddRefs n p h = Some (h(p \<mapsto> ob\<lparr>m_lRef := m_lRef ob + of_nat n\<rparr>))"
  by (induction n arbitrary: h ob) (auto simp: AddRef_live fun_upd_idem ac_simps)

lemma Releases_live:
  assumes "h p = Some ob" and "m_lRef ob = of_nat k" and "n < k" and "k < 4294967296"
  shows "Releases n p h = Some (h(p \<mapsto> ob\<lparr>m_lRef := of_nat (k - n)\<rparr>))"
  using assms
proof (induction n arbitrary: h ob k)
  case 0
  then show ?case by (simp add: fun_upd_idem)
next
  case (Suc n)
  let ?ob = "ob\<lparr>m_lRef := m_lRef ob - 1\<rparr>"
  have k: "m_lRef ?ob = of_nat (k - 1)" using Suc.prems by (simp add: of_nat_diff)
  have "unat (of_nat k :: LONG) \<noteq> unat (1 :: LONG)"
    using Suc.prems by (simp add: unat_of_nat_DWORD)
  then have "m_lRef ob \<noteq> 1" using Suc.prems(2) by metis
  then have "Releases (Suc n) p h = Releases n p (h(p \<mapsto> ?ob))"
    using Suc.prems by (simp add: Release_count)
  also have "\<dots> = Some ((h(p \<mapsto> ?ob))(p \<mapsto> ?ob\<lparr>m_lRef := of_nat (k - 1 - n)\<rparr>))"
    using Suc.prems by (intro Suc.IH[OF _ k]) simp_all
  finally show ?case by (simp add: fun_upd_def fun_eq_iff)
qed

lemma Releases_last:
  assumes "h p = Some ob" and "m_lRef ob = of_nat (Suc n)" and "n < 4294967295"
  shows "Releases (Suc n) p h = Some (h(p := None))"
proof -
  have split: "Releases (Suc m) p g = Option.bind (Releases m p g) (Release p)"
    for m and g :: "'a heap"
  proof (induction m arbitrary: g)
    case 0
    show ?case by (cases "Release p g") simp_all
  next
    case (Suc m)
    have IH: "Releases (Suc m) p = (\<lambda>g :: 'a heap. Option.bind (Releases m p g) (Release p))"
      by (rule ext, rule Suc.IH)
    have "Releases (Suc (Suc m)) p g = Option.bind (Release p g) (Releases (Suc m) p)"
      by (rule Releases.simps)
    also have "\<dots> = Option.bind (Option.bind (Release p g) (Releases m p)) (Release p)"
      unfolding IH by (rule bind_assoc[symmetric])
    also have "Option.bind (Release p g) (Releases m p) = Releases (Suc m) p g"
      by simp
    finally show ?case .
  qed
  have "Releases n p h = Some (h(p \<mapsto> ob\<lparr>m_lRef := of_nat (Suc n - n)\<rparr>))"
    using assms by (intro Releases_live) simp_all
  then show ?thesis using split[of n h] by (simp add: Release_count)
qed

section \<open>Heaps whose counts are the numbers of owners\<close>

text \<open>
  \<open>heap_ok P n h\<close>: the objects of \<open>h\<close> are exactly the addresses that have owners, every count is
  the number \<open>n\<close> of owners, and the object at \<open>a\<close> satisfies \<open>P a\<close>. The operations change \<open>n\<close> by one
  and are defined as long as the address has an owner: no dangling use, no early deletion.
\<close>

definition heap_ok :: "(addr \<Rightarrow> 'a CBaseObject_scheme \<Rightarrow> bool) \<Rightarrow> (addr \<Rightarrow> nat) \<Rightarrow> 'a heap \<Rightarrow> bool" where
  "heap_ok P n h \<longleftrightarrow>
     (\<forall>a. n a < 4294967296 \<and> (h a = None \<longrightarrow> n a = 0) \<and>
        (\<forall>ob. h a = Some ob \<longrightarrow> 0 < n a \<and> m_lRef ob = of_nat (n a) \<and> P a ob))"

lemma heap_okD:
  assumes "heap_ok P n h" and "0 < n a"
  obtains ob where "h a = Some ob" and "m_lRef ob = of_nat (n a)" and "P a ob"
    and "n a < 4294967296"
  using assms by (cases "h a") (auto simp: heap_ok_def)

lemma heap_ok_bound: "heap_ok P n h \<Longrightarrow> n a < 4294967296"
  by (simp add: heap_ok_def)

lemma heap_ok_dead: "heap_ok P n h \<Longrightarrow> h a = None \<longleftrightarrow> n a = 0"
  by (cases "h a") (auto simp: heap_ok_def)

text \<open>Replacing an object by one with the same count.\<close>

lemma heap_ok_write:
  "heap_ok P n h \<Longrightarrow> 0 < n a \<Longrightarrow> m_lRef ob = of_nat (n a) \<Longrightarrow> P a ob \<Longrightarrow> heap_ok P n (h(a \<mapsto> ob))"
  by (simp add: heap_ok_def)

text \<open>A new object with its first owner.\<close>

lemma heap_ok_new:
  "heap_ok P n h \<Longrightarrow> k < 4294967296 \<Longrightarrow> 0 < k \<Longrightarrow> m_lRef ob = of_nat k \<Longrightarrow> P a ob \<Longrightarrow>
     heap_ok P (n(a := k)) (h(a \<mapsto> ob))"
  by (auto simp: heap_ok_def)

locale counted_heap =
  fixes P :: "addr \<Rightarrow> 'a CBaseObject_scheme \<Rightarrow> bool"
  assumes frame: "P a (ob\<lparr>m_lRef := r\<rparr>) \<longleftrightarrow> P a ob"
begin

lemma AddRef_ok:
  assumes "heap_ok P n h" and "0 < n a" and "Suc (n a) < 4294967296"
  obtains h' where "AddRef a h = Some h'" and "heap_ok P (n(a := Suc (n a))) h'"
proof -
  obtain ob where ob: "h a = Some ob" "m_lRef ob = of_nat (n a)" "P a ob"
    using heap_okD[OF assms(1,2)] .
  let ?h = "h(a \<mapsto> ob\<lparr>m_lRef := m_lRef ob + 1\<rparr>)"
  have "heap_ok P (n(a := Suc (n a))) ?h"
    using assms(3) ob by (intro heap_ok_new[OF assms(1)]) (simp_all add: frame)
  then show thesis using that[of ?h] AddRef_live[of h a, OF ob(1)] by blast
qed

lemma Release_ok:
  assumes "heap_ok P n h" and "0 < n a"
  obtains h' where "Release a h = Some h'" and "heap_ok P (n(a := n a - 1)) h'"
proof -
  obtain ob where ob: "h a = Some ob" "m_lRef ob = of_nat (n a)" "P a ob" "n a < 4294967296"
    using heap_okD[OF assms] .
  show thesis
  proof (cases "n a = 1")
    case True
    then have "heap_ok P (n(a := n a - 1)) (h(a := None))"
      using assms(1) by (auto simp: heap_ok_def)
    then show thesis using that Release_count[of h a, OF ob(1)] ob(2) True by simp
  next
    case False
    then have "unat (m_lRef ob) \<noteq> unat (1 :: LONG)"
      using ob(2,4) by (simp add: unat_of_nat_DWORD)
    then have ne: "m_lRef ob \<noteq> 1" by metis
    let ?h = "h(a \<mapsto> ob\<lparr>m_lRef := m_lRef ob - 1\<rparr>)"
    have "heap_ok P (n(a := n a - 1)) ?h"
      using assms(2) ob False
      by (intro heap_ok_new[OF assms(1)]) (simp_all add: frame of_nat_diff Suc_le_eq)
    then show thesis using that[of ?h] Release_count[of h a, OF ob(1)] ne by simp
  qed
qed

text \<open>The guarded forms.\<close>

lemma AddRef_ptr_ok:
  assumes "heap_ok P n h" and "\<And>a. p = Some a \<Longrightarrow> 0 < n a \<and> Suc (n a) < 4294967296"
  obtains h' where "AddRef_ptr p h = Some h'"
    and "heap_ok P (\<lambda>a. n a + of_bool (p = Some a)) h'"
proof (cases p)
  case None
  then show thesis using that[of h] assms(1) by (simp add: AddRef_ptr_def)
next
  case (Some a)
  then obtain h' where "AddRef a h = Some h'" "heap_ok P (n(a := Suc (n a))) h'"
    using AddRef_ok[OF assms(1)] assms(2) by blast
  moreover have "(\<lambda>a'. n a' + of_bool (p = Some a')) = n(a := Suc (n a))" using Some by auto
  ultimately show thesis using that[of h'] Some by (simp add: AddRef_ptr_def)
qed

lemma Release_ptr_ok:
  assumes "heap_ok P n h" and "\<And>a. p = Some a \<Longrightarrow> 0 < n a"
  obtains h' where "Release_ptr p h = Some h'"
    and "heap_ok P (\<lambda>a. n a - of_bool (p = Some a)) h'"
proof (cases p)
  case None
  then show thesis using that[of h] assms(1) by (simp add: Release_ptr_def)
next
  case (Some a)
  then obtain h' where "Release a h = Some h'" "heap_ok P (n(a := n a - 1)) h'"
    using Release_ok[OF assms(1)] assms(2) by blast
  moreover have "(\<lambda>a'. n a' - of_bool (p = Some a')) = n(a := n a - 1)" using Some by auto
  ultimately show thesis using that[of h'] Some by (simp add: Release_ptr_def)
qed

end

end
