(* ===== verification/SendQueue.thy ===== *)
theory SendQueue
  imports Prelude
begin

text \<open>
  The interface between the producers of packets and the send threads of \<open>CTCPBase\<close> and
  \<open>CUDPBase\<close>: a list of packets with a manual-reset event, both under one critical section.
  \<open>enqueue\<close> is \<open>SendPacket\<close>; \<open>dequeue\<close> is the locked part of one pass of \<open>SendProcess\<close>: it
  takes the first packet, or resets the event when there is none. \<open>prep\<close> is what the
  producer's call does to the packet before it is queued. The lemmas hold for every order in
  which producers and the send thread take the lock.
\<close>

datatype 'p queue_op = Enqueue 'p | Dequeue

text \<open>One pass per operation; the packets taken out, in order, and the final queue.\<close>

fun queue_run :: "('p \<Rightarrow> 'q \<Rightarrow> 'q) \<Rightarrow> ('q \<Rightarrow> 'p option \<times> 'q) \<Rightarrow> 'p queue_op list \<Rightarrow> 'q \<Rightarrow>
    'p list \<times> 'q" where
  "queue_run enq deq [] q = ([], q)"
| "queue_run enq deq (Enqueue p # ops) q = queue_run enq deq ops (enq p q)"
| "queue_run enq deq (Dequeue # ops) q =
     (case deq q of
        (None, q') \<Rightarrow> queue_run enq deq ops q'
      | (Some p, q') \<Rightarrow> (case queue_run enq deq ops q' of (ps, q'') \<Rightarrow> (p # ps, q'')))"

fun enqueued :: "'p queue_op list \<Rightarrow> 'p list" where
  "enqueued [] = []"
| "enqueued (Enqueue p # ops) = p # enqueued ops"
| "enqueued (Dequeue # ops) = enqueued ops"

lemma queue_run_Dequeue_state:
  "snd (queue_run enq deq (Dequeue # ops) q) = snd (queue_run enq deq ops (snd (deq q)))"
  by (auto split: prod.split option.split)

locale send_queue =
  fixes enqueue :: "'p \<Rightarrow> 'q \<Rightarrow> 'q"
    and dequeue :: "'q \<Rightarrow> 'p option \<times> 'q"
    and prep :: "'p \<Rightarrow> 'p"
    and pending :: "'q \<Rightarrow> 'p list"
    and signalled :: "'q \<Rightarrow> bool"
  assumes enqueue: "pending (enqueue p q) = pending q @ [prep p]" "signalled (enqueue p q)"
    and dequeue_some: "pending q = p # ps \<Longrightarrow>
      \<exists>q'. dequeue q = (Some p, q') \<and> pending q' = ps \<and> signalled q' = signalled q"
    and dequeue_none: "pending q = [] \<Longrightarrow>
      \<exists>q'. dequeue q = (None, q') \<and> pending q' = [] \<and> \<not> signalled q'"
begin

text \<open>No wake-up is lost: while something is queued the event is signalled.\<close>

abbreviation awake :: "'q \<Rightarrow> bool" where
  "awake q \<equiv> pending q \<noteq> [] \<longrightarrow> signalled q"

lemma awake_enqueue: "awake (enqueue p q)"
  using enqueue(2) by blast

lemma awake_dequeue: "awake q \<Longrightarrow> awake (snd (dequeue q))"
proof (cases "pending q")
  case Nil
  then show ?thesis using dequeue_none by force
next
  case (Cons p ps)
  then show "awake q \<Longrightarrow> ?thesis" using dequeue_some[OF Cons] by auto
qed

lemma awake_run: "awake q \<Longrightarrow> awake (snd (queue_run enqueue dequeue ops q))"
proof (induction ops arbitrary: q)
  case (Cons op ops)
  show ?case
  proof (cases op)
    case (Enqueue p)
    then show ?thesis using Cons.IH[OF awake_enqueue] by simp
  next
    case Dequeue
    then show ?thesis
      using Cons.IH[OF awake_dequeue[OF Cons.prems]] by (simp only: queue_run_Dequeue_state)
  qed
qed simp

text \<open>First in, first out: nothing is lost, duplicated or reordered.\<close>

lemma fifo_run:
  "queue_run enqueue dequeue ops q = (sent, q') \<Longrightarrow>
     sent @ pending q' = pending q @ map prep (enqueued ops)"
proof (induction ops arbitrary: q sent)
  case (Cons op ops)
  show ?case
  proof (cases op)
    case (Enqueue p)
    then show ?thesis using Cons enqueue(1) by simp
  next
    case Dequeue
    show ?thesis
    proof (cases "pending q")
      case Nil
      then obtain q1 where "dequeue q = (None, q1)" "pending q1 = []"
        using dequeue_none by blast
      then show ?thesis using Cons.prems Cons.IH[of q1 sent] Dequeue Nil by simp
    next
      case (Cons p ps)
      then obtain q1 where "dequeue q = (Some p, q1)" "pending q1 = ps"
        using dequeue_some by blast
      then show ?thesis
        using Cons.prems Cons.IH[of q1] Dequeue Cons by (auto split: prod.splits)
    qed
  qed
qed simp

text \<open>As many passes as there are packets empty the queue.\<close>

lemma drains: "length (pending q) \<le> n \<Longrightarrow>
    pending (snd (queue_run enqueue dequeue (replicate n Dequeue) q)) = []"
proof (induction n arbitrary: q)
  case (Suc n)
  show ?case
  proof (cases "pending q")
    case Nil
    then obtain q1 where "dequeue q = (None, q1)" "pending q1 = []" using dequeue_none by blast
    then show ?thesis using Suc.IH[of q1] by simp
  next
    case (Cons p ps)
    then obtain q1 where q1: "dequeue q = (Some p, q1)" "pending q1 = ps"
      using dequeue_some by blast
    then have "length (pending q1) \<le> n" using Suc.prems Cons by simp
    then show ?thesis
      using Suc.IH q1(1) by (simp only: replicate_Suc queue_run_Dequeue_state snd_conv)
  qed
qed simp

end

end
