(* ===== verification/TCPCommon.thy ===== *)
theory TCPCommon
  imports Prelude
begin

text \<open>
  \<^verbatim>\<open>src/clovertun/TCPCommon.cpp\<close> and \<^verbatim>\<open>src/clovertun/UDPCommon.cpp\<close>: one blocking
  transfer on a socket, cut short by a stop event. What the operating system answers during the
  call is the argument (\<open>win_io\<close> for the overlapped calls of the Windows branch, \<open>posix_io\<close> for
  the \<open>select\<close> branch); the result is what the C++ function returns and stores through its out
  parameter. \<open>None\<close> is a path that falls off the end of the function without a return value.
  The contract \<open>socket_io\<close> is what the callers in \<open>TCPBase\<close> and \<open>UDPBase\<close> rely on.
\<close>

section \<open>Wait results\<close>

definition WAIT_OBJECT_0 :: DWORD where "WAIT_OBJECT_0 = 0"
definition WAIT_TIMEOUT :: DWORD where "WAIT_TIMEOUT = 258"

text \<open>
  \<open>WaitForMultipleObjects (n, h, FALSE, INFINITE)\<close>: the lowest signalled index; \<open>None\<close> while
  no event is signalled (the caller blocks).
\<close>

fun wait_any_from :: "DWORD \<Rightarrow> bool list \<Rightarrow> DWORD option" where
  "wait_any_from i [] = None"
| "wait_any_from i (e # es) = (if e then Some i else wait_any_from (i + 1) es)"

definition wait_any :: "bool list \<Rightarrow> DWORD option" where
  "wait_any es = wait_any_from WAIT_OBJECT_0 es"

text \<open>With a timeout the wait always returns.\<close>

definition wait_any_timeout :: "bool list \<Rightarrow> DWORD" where
  "wait_any_timeout es = (case wait_any es of None \<Rightarrow> WAIT_TIMEOUT | Some i \<Rightarrow> i)"

lemmas wait_defs = WAIT_OBJECT_0_def WAIT_TIMEOUT_def

section \<open>Windows\<close>

text \<open>
  \<open>io_event\<close>: \<open>WSACreateEvent\<close> gave an event; \<open>io_error\<close>: the call returned \<open>SOCKET_ERROR\<close>
  (otherwise 0); \<open>io_pending\<close>: the error is \<open>WSA_IO_PENDING\<close>; \<open>io_bytes0\<close>: the byte count the
  call itself stored; \<open>io_wait\<close>: result of \<open>WaitForMultipleObjects\<close> on the transfer and the stop
  event; \<open>io_result\<close>, \<open>io_bytes\<close>: result and byte count of \<open>WSAGetOverlappedResult\<close>.
\<close>

record win_io =
  io_event :: bool
  io_error :: bool
  io_pending :: bool
  io_bytes0 :: DWORD
  io_wait :: DWORD
  io_result :: bool
  io_bytes :: DWORD

definition TCPSocketRead_win :: "win_io \<Rightarrow> (bool \<times> DWORD) option" where
  "TCPSocketRead_win io =
     (if io_error io \<and> \<not> io_pending io then Some (False, io_bytes0 io)
      else if io_wait io = WAIT_OBJECT_0 then
        (if \<not> io_result io then Some (False, io_bytes io)
         else if io_bytes io = 0 then Some (False, io_bytes io)
         else Some (True, io_bytes io))
      else Some (False, io_bytes io))"

text \<open>The out parameter is left alone (\<open>old\<close>) when no event could be created.\<close>

definition TCPSocketWrite_win :: "DWORD \<Rightarrow> win_io \<Rightarrow> (bool \<times> DWORD) option" where
  "TCPSocketWrite_win old io =
     (if \<not> io_event io then Some (False, old)
      else let bRet = (\<not> io_error io) in
        if io_error io \<and> \<not> io_pending io then Some (bRet, io_bytes0 io)
        else if io_wait io = WAIT_OBJECT_0
        then Some (if io_result io then True else bRet, io_bytes io)
        else Some (bRet, io_bytes io))"

definition UDPSocketRecvFrom_win :: "win_io \<Rightarrow> (bool \<times> DWORD) option" where
  "UDPSocketRecvFrom_win io =
     (if io_error io \<and> \<not> io_pending io then Some (False, io_bytes0 io)
      else if io_wait io = WAIT_OBJECT_0 then
        (if \<not> io_result io then Some (False, io_bytes io)
         else if io_bytes io = 0 then Some (False, io_bytes io)
         else Some (True, io_bytes io))
      else Some (False, io_bytes io))"

text \<open>\<open>UDPSocketSendTo\<close> does not report the byte count.\<close>

definition UDPSocketSendTo_win :: "win_io \<Rightarrow> bool" where
  "UDPSocketSendTo_win io =
     (if \<not> io_event io then False
      else let bRet = (\<not> io_error io) in
        if io_error io \<and> \<not> io_pending io then bRet
        else if io_wait io = WAIT_OBJECT_0 then (if io_result io then True else bRet)
        else bRet)"

section \<open>The select branch\<close>

text \<open>
  \<open>px_sock\<close>: the socket is not -1; \<open>px_select\<close>: result of \<open>select\<close>, \<open>px_select_block\<close> whether
  \<open>errno\<close> is \<open>EWOULDBLOCK\<close> then; \<open>px_stop\<close>, \<open>px_ready\<close>: \<open>FD_ISSET\<close> of the two descriptors;
  \<open>px_ret\<close>: result of \<open>recv\<close> or \<open>send\<close>, \<open>px_block\<close> whether \<open>errno\<close> is \<open>EWOULDBLOCK\<close> then.
\<close>

record posix_io =
  px_sock :: bool
  px_select :: int
  px_select_block :: bool
  px_stop :: bool
  px_ready :: bool
  px_ret :: int
  px_block :: bool

definition TCPSocketRead_posix :: "posix_io \<Rightarrow> (bool \<times> DWORD) option" where
  "TCPSocketRead_posix io =
     (if \<not> px_sock io then Some (False, 0)
      else if px_select io = 0 then Some (False, 0)
      else if px_select io = -1 then Some (px_select_block io, 0)
      else if px_stop io then Some (False, 0)
      else if px_ready io then
        (if px_ret io = 0 then Some (False, 0)
         else if px_ret io = -1 then Some (px_block io, 0)
         else Some (True, of_int (px_ret io)))
      else None)"

definition TCPSocketWrite_posix :: "posix_io \<Rightarrow> (bool \<times> DWORD) option" where
  "TCPSocketWrite_posix io =
     (if \<not> px_sock io then Some (False, 0)
      else if px_select io = 0 then Some (False, 0)
      else if px_select io = -1 then Some (px_select_block io, 0)
      else if px_stop io then Some (False, 0)
      else if px_ready io then
        (if px_ret io = 0 then Some (False, of_int (px_ret io))
         else if px_ret io = -1 then
           (if px_block io then Some (True, 0) else Some (False, of_int (px_ret io)))
         else Some (True, of_int (px_ret io)))
      else None)"

text \<open>The datagram receive of this branch has no length parameter.\<close>

definition UDPSocketRecvFrom_posix :: "posix_io \<Rightarrow> bool option" where
  "UDPSocketRecvFrom_posix io =
     (if \<not> px_sock io then Some False
      else if px_select io = 0 then Some False
      else if px_select io = -1 then Some (px_select_block io)
      else if px_stop io then Some False
      else if px_ready io then
        (if px_ret io = 0 then Some False
         else if px_ret io = -1 then Some (px_block io)
         else Some True)
      else None)"

text \<open>
  The datagram send of this branch has none either; where it would store through it, it names a
  variable that is not declared, which the model passes over: this is the value it returns.
\<close>

definition UDPSocketSendTo_posix :: "posix_io \<Rightarrow> bool option" where
  "UDPSocketSendTo_posix io =
     (if \<not> px_sock io then Some False
      else if px_select io = 0 then Some False
      else if px_select io = -1 then Some (px_select_block io)
      else if px_stop io then Some False
      else if px_ready io then
        (if px_ret io = 0 then Some False
         else if px_ret io = -1 then Some (px_block io)
         else Some True)
      else None)"

section \<open>The contract\<close>

text \<open>
  What the operating system documents about a transfer of at most \<open>n\<close> bytes: the counts it
  reports never exceed \<open>n\<close>, and \<open>select\<close> with a positive result has marked a descriptor.
\<close>

definition win_os :: "nat \<Rightarrow> win_io \<Rightarrow> bool" where
  "win_os n io \<longleftrightarrow> unat (io_bytes0 io) \<le> n \<and> unat (io_bytes io) \<le> n"

definition posix_os :: "nat \<Rightarrow> posix_io \<Rightarrow> bool" where
  "posix_os n io \<longleftrightarrow> n < 2147483648 \<and> px_select io \<ge> -1
     \<and> (px_select io > 0 \<longrightarrow> px_stop io \<or> px_ready io) \<and> px_ret io \<ge> -1 \<and> px_ret io \<le> int n"

locale socket_io =
  fixes xfer :: "'io \<Rightarrow> (bool \<times> DWORD) option"
    and os :: "nat \<Rightarrow> 'io \<Rightarrow> bool"
  assumes returns: "os n io \<Longrightarrow> \<exists>ok k. xfer io = Some (ok, k)"
    and in_bounds: "os n io \<Longrightarrow> xfer io = Some (True, k) \<Longrightarrow> unat k \<le> n"
begin

lemma xfer_cases:
  assumes "os n io"
  obtains (ok) k where "xfer io = Some (True, k)" and "unat k \<le> n"
        | (failed) k where "xfer io = Some (False, k)"
  using returns[OF assms] in_bounds[OF assms] by (metis (full_types))

end

interpretation win_read: socket_io TCPSocketRead_win win_os
  by unfold_locales (auto simp: TCPSocketRead_win_def win_os_def split: if_splits)

interpretation win_write: socket_io "TCPSocketWrite_win 0" win_os
  by unfold_locales (auto simp: TCPSocketWrite_win_def win_os_def Let_def split: if_splits)

interpretation win_recvfrom: socket_io UDPSocketRecvFrom_win win_os
  by unfold_locales (auto simp: UDPSocketRecvFrom_win_def win_os_def split: if_splits)

lemma unat_of_int_le:
  assumes "0 \<le> i" and "i \<le> int n" and "n < 2147483648"
  shows "unat (of_int i :: DWORD) \<le> n"
proof -
  obtain m where m: "i = int m" using assms(1) zero_le_imp_eq_int by blast
  then have "m \<le> n" and "m < 4294967296" using assms by simp_all
  then show ?thesis by (simp add: m unat_of_nat_DWORD)
qed

interpretation posix_read: socket_io TCPSocketRead_posix posix_os
proof (unfold_locales, goal_cases)
  case (1 n io)
  then show ?case by (auto simp: TCPSocketRead_posix_def posix_os_def)
next
  case (2 n io k)
  then have "k = 0 \<or> k = of_int (px_ret io) \<and> 0 \<le> px_ret io"
    by (auto simp: TCPSocketRead_posix_def posix_os_def split: if_splits)
  then show ?case using 2(1) by (auto simp: posix_os_def intro: unat_of_int_le)
qed

interpretation posix_write: socket_io TCPSocketWrite_posix posix_os
proof (unfold_locales, goal_cases)
  case (1 n io)
  then show ?case by (auto simp: TCPSocketWrite_posix_def posix_os_def)
next
  case (2 n io k)
  then have "k = 0 \<or> k = of_int (px_ret io) \<and> 0 \<le> px_ret io"
    by (auto simp: TCPSocketWrite_posix_def posix_os_def split: if_splits)
  then show ?case using 2(1) by (auto simp: posix_os_def intro: unat_of_int_le)
qed

text \<open>
  The datagram calls of this branch return when the system keeps to its documentation, and the
  same answers give the same result.
\<close>

lemma posix_datagrams_return:
  "posix_os n io \<Longrightarrow> \<exists>ok. UDPSocketRecvFrom_posix io = Some ok \<and> UDPSocketSendTo_posix io = Some ok"
  by (auto simp: UDPSocketRecvFrom_posix_def UDPSocketSendTo_posix_def posix_os_def)

end
