(* ===== verification/TCPBase.thy ===== *)
theory TCPBase
  imports P2PPacket BaseObject SendQueue TCPCommon
begin

text \<open>
  \<^verbatim>\<open>src/clovertun/TCPBase.cpp\<close>: a TCP connection with a receiving and a sending thread.
  The receiving thread adds what it reads to the stream buffer and hands every complete packet
  to the registered callback; the sending thread writes the queued packets. A thread is modelled
  by the passes of its loop (\<open>RecvProcess\<close>, \<open>SendProcess\<close>) and by its epilogue; what the socket
  answers is an argument. Results: framing over any segmentation of the stream
  (\<open>RecvReads_frames\<close>), what a header that announces too few bytes does (\<open>RecvLoop_stuck\<close>,
  \<open>RecvLoop_short\<close>),
  complete and ordered writing under partial writes (\<open>SendLoop_writes\<close>), and the contract of
  the send queue.
\<close>

section \<open>State\<close>

text \<open>The functions that are ever registered as callbacks.\<close>

datatype tcp_delegate = ServerDelegate | ClientDelegate

record tcpbase = CBaseObject +
  m_hSock :: "nat option"
  m_szDstAddress :: "BYTE list"
  m_dwDstPort :: WORD
  m_szSrcAddress :: "BYTE list"
  m_dwSrcPort :: WORD
  m_hRecvThread :: bool
  m_hSendThread :: bool
  m_hStopEvent :: bool
  m_hSendEvent :: bool
  m_SendList :: "BYTE list list"
  m_hDataStreamBuffer :: datastream
  m_pfnRecvFunc :: "tcp_delegate option"
  m_pRecvParam :: ptr
  m_pfnEndFunc :: "tcp_delegate option"
  m_pEndParam :: ptr

definition CTCPBase :: "nat option \<Rightarrow> BYTE list \<Rightarrow> WORD \<Rightarrow> BYTE list \<Rightarrow> WORD \<Rightarrow> tcpbase" where
  "CTCPBase sock dst dport src sport =
     \<lparr>m_lRef = 1, m_hSock = sock, m_szDstAddress = dst, m_dwDstPort = dport,
      m_szSrcAddress = src, m_dwSrcPort = sport, m_hRecvThread = False, m_hSendThread = False,
      m_hStopEvent = False, m_hSendEvent = False, m_SendList = [],
      m_hDataStreamBuffer = CreateDataStreamBuffer, m_pfnRecvFunc = None, m_pRecvParam = None,
      m_pfnEndFunc = None, m_pEndParam = None\<rparr>"

section \<open>Operations\<close>

text \<open>\<open>InitBase\<close>: each thread is started with a reference of its own.\<close>

definition InitBase :: "'a tcpbase_scheme \<Rightarrow> 'a tcpbase_scheme" where
  "InitBase tcp =
     (let tcp = CBaseObject_AddRef tcp; tcp = tcp\<lparr>m_hRecvThread := True\<rparr>;
          tcp = CBaseObject_AddRef tcp
      in tcp\<lparr>m_hSendThread := True\<rparr>)"

definition DoneBase :: "'a tcpbase_scheme \<Rightarrow> 'a tcpbase_scheme" where
  "DoneBase tcp = tcp\<lparr>m_hStopEvent := True\<rparr>"

definition SendPacket :: "BYTE list \<Rightarrow> 'a tcpbase_scheme \<Rightarrow> 'a tcpbase_scheme" where
  "SendPacket Packet tcp =
     tcp\<lparr>m_SendList := m_SendList tcp @ [Packet], m_hSendEvent := True\<rparr>"

definition RegisterRecvProcess ::
    "(addr \<Rightarrow> 's \<Rightarrow> 's option) \<Rightarrow> (addr \<Rightarrow> 's \<Rightarrow> 's option) \<Rightarrow> tcp_delegate option \<Rightarrow> ptr \<Rightarrow>
     'a tcpbase_scheme \<Rightarrow> 's \<Rightarrow> ('a tcpbase_scheme \<times> 's) option" where
  "RegisterRecvProcess addref release Process Param tcp s =
     map_option (\<lambda>s. (tcp\<lparr>m_pfnRecvFunc := Process, m_pRecvParam := Param\<rparr>, s))
       (register_param addref release Param (m_pRecvParam tcp) s)"

definition RegisterEndProcess ::
    "(addr \<Rightarrow> 's \<Rightarrow> 's option) \<Rightarrow> (addr \<Rightarrow> 's \<Rightarrow> 's option) \<Rightarrow> tcp_delegate option \<Rightarrow> ptr \<Rightarrow>
     'a tcpbase_scheme \<Rightarrow> 's \<Rightarrow> ('a tcpbase_scheme \<times> 's) option" where
  "RegisterEndProcess addref release Process Param tcp s =
     map_option (\<lambda>s. (tcp\<lparr>m_pfnEndFunc := Process, m_pEndParam := Param\<rparr>, s))
       (register_param addref release Param (m_pEndParam tcp) s)"

text \<open>\<open>GetSrcPeer\<close> and \<open>GetDstPeer\<close>: \<open>strncpy\<close> of the address, and the port.\<close>

definition GetSrcPeer :: "DWORD \<Rightarrow> 'a tcpbase_scheme \<Rightarrow> (BYTE list \<times> WORD) option" where
  "GetSrcPeer BufferLen tcp =
     map_option (\<lambda>a. (a, m_dwSrcPort tcp)) (strncpy (unat BufferLen) (m_szSrcAddress tcp))"

definition GetDstPeer :: "DWORD \<Rightarrow> 'a tcpbase_scheme \<Rightarrow> (BYTE list \<times> WORD) option" where
  "GetDstPeer BufferLen tcp =
     map_option (\<lambda>a. (a, m_dwDstPort tcp)) (strncpy (unat BufferLen) (m_szDstAddress tcp))"

subsection \<open>The sending thread\<close>

text \<open>The locked part of \<open>SendProcess\<close>.\<close>

definition SendDequeue :: "'a tcpbase_scheme \<Rightarrow> BYTE list option \<times> 'a tcpbase_scheme" where
  "SendDequeue tcp =
     (case m_SendList tcp of
        Packet # rest \<Rightarrow> (Some Packet, tcp\<lparr>m_SendList := rest\<rparr>)
      | [] \<Rightarrow> (None, tcp\<lparr>m_hSendEvent := False\<rparr>))"

text \<open>
  The writing loop: \<open>Data\<close> is the unsent rest of the block, \<open>wire\<close> what the socket has taken so
  far, \<open>ios\<close> the answers of the socket to the successive writes. A write that is reported as failed
  adds nothing to \<open>wire\<close>: how much of it the socket took is not known to the code.
\<close>

fun SendLoop :: "('io \<Rightarrow> (bool \<times> DWORD) option) \<Rightarrow> 'io list \<Rightarrow> BYTE list \<Rightarrow> DWORD \<Rightarrow>
    BYTE list \<Rightarrow> (bool \<times> BYTE list) option loop" where
  "SendLoop write [] Data Length wire =
     (if Length > 0 then NoFuel else Stop (Some (True, wire)))"
| "SendLoop write (io # ios) Data Length wire =
     (if Length > 0 then
        (case write io of
           None \<Rightarrow> Stop None
         | Some (res, sendSize) \<Rightarrow>
             if res then
               (case rd_bytes 0 (unat sendSize) Data of
                  None \<Rightarrow> Stop None
                | Some xs \<Rightarrow> SendLoop write ios (drop (unat sendSize) Data) (Length - sendSize)
                    (wire @ xs))
             else Stop (Some (False, wire)))
      else Stop (Some (True, wire)))"

text \<open>One pass: the returned \<open>BOOL\<close>, the object, the bytes that went to the socket.\<close>

definition SendProcess :: "('io \<Rightarrow> (bool \<times> DWORD) option) \<Rightarrow> 'io list \<Rightarrow> DWORD \<Rightarrow>
    'a tcpbase_scheme \<Rightarrow> (bool \<times> 'a tcpbase_scheme \<times> BYTE list) option loop" where
  "SendProcess write ios Ret tcp =
     (if Ret \<noteq> WAIT_OBJECT_0 then Stop (Some (False, tcp, []))
      else case SendDequeue tcp of
        (None, tcp') \<Rightarrow> Stop (Some (True, tcp', []))
      | (Some Packet, tcp') \<Rightarrow>
          (case pkt_length Packet of
             None \<Rightarrow> Stop None
           | Some Length \<Rightarrow>
               map_loop (map_option (\<lambda>(ok, wire). (ok, tcp', wire)))
                 (SendLoop write ios Packet Length [])))"

text \<open>The loop of \<open>SendProc\<close>: each pass has the result of its wait and the answers to its writes.\<close>

fun SendPasses :: "('io \<Rightarrow> (bool \<times> DWORD) option) \<Rightarrow> (DWORD \<times> 'io list) list \<Rightarrow>
    'a tcpbase_scheme \<Rightarrow> (bool \<times> 'a tcpbase_scheme \<times> BYTE list) option loop" where
  "SendPasses write [] tcp = Stop (Some (True, tcp, []))"
| "SendPasses write ((Ret, ios) # rest) tcp =
     (case SendProcess write ios Ret tcp of
        NoFuel \<Rightarrow> NoFuel
      | Stop None \<Rightarrow> Stop None
      | Stop (Some (cont, tcp, wire)) \<Rightarrow>
          if cont then map_loop (map_option (\<lambda>(b, tcp, more). (b, tcp, wire @ more)))
            (SendPasses write rest tcp)
          else Stop (Some (False, tcp, wire)))"

text \<open>The destructor closes the handles and the buffer; the socket stays open.\<close>

definition CTCPBase_destroy :: "'a tcpbase_scheme \<Rightarrow> 'a tcpbase_scheme" where
  "CTCPBase_destroy tcp = tcp\<lparr>m_hRecvThread := False, m_hSendThread := False,
     m_hDataStreamBuffer := CloseDataStreamBuffer (m_hDataStreamBuffer tcp)\<rparr>"

text \<open>The event the pass waits for; \<open>None\<close> while the thread sleeps.\<close>

definition SendProcess_wait :: "'a tcpbase_scheme \<Rightarrow> DWORD option" where
  "SendProcess_wait tcp = wait_any [m_hSendEvent tcp, m_hStopEvent tcp]"

subsection \<open>The receiving thread\<close>

text \<open>
  The loop over the buffered packets. The callback \<open>f\<close> works on a state \<open>'w\<close> in which
  \<open>registered\<close> says whether \<open>m_pfnRecvFunc\<close> is set when its lock is taken.
\<close>

fun RecvLoop :: "nat \<Rightarrow> ('w \<Rightarrow> bool) \<Rightarrow> (BYTE list \<Rightarrow> 'w \<Rightarrow> (bool \<times> 'w) option) \<Rightarrow>
    datastream \<Rightarrow> 'w \<Rightarrow> (datastream \<times> 'w) option loop" where
  "RecvLoop 0 registered f buf w = NoFuel"
| "RecvLoop (Suc fuel) registered f buf w =
     (case GetPacketFromBuffer buf of
        None \<Rightarrow> Stop None
      | Some (None, buf) \<Rightarrow> Stop (Some (buf, w))
      | Some (Some Packet, buf) \<Rightarrow>
          if registered w then
            (case f Packet w of
               None \<Rightarrow> Stop None
             | Some (Ret, w) \<Rightarrow> RecvLoop fuel registered f buf w)
          else RecvLoop fuel registered f buf w)"

text \<open>
  One pass: \<open>rd\<close> is the result of \<open>TCPSocketRead\<close> with the contents of \<open>Buffer [4096]\<close> and
  \<open>recvSize\<close>.
\<close>

definition RecvProcess :: "nat \<Rightarrow> ('w \<Rightarrow> bool) \<Rightarrow> (BYTE list \<Rightarrow> 'w \<Rightarrow> (bool \<times> 'w) option) \<Rightarrow>
    bool \<times> BYTE list \<times> DWORD \<Rightarrow> datastream \<Rightarrow> 'w \<Rightarrow> (bool \<times> datastream \<times> 'w) option loop"
  where
  "RecvProcess fuel registered f rd buf w =
     (case rd of (res, Buffer, recvSize) \<Rightarrow>
        if \<not> res then Stop (Some (False, buf, w))
        else case DataStreamBufferAddData Buffer recvSize buf of
          None \<Rightarrow> Stop None
        | Some buf \<Rightarrow>
            map_loop (map_option (\<lambda>(buf, w). (True, buf, w)))
              (RecvLoop fuel registered f buf w))"

text \<open>The loop of \<open>RecvProc\<close> over the successive reads.\<close>

fun RecvReads :: "nat \<Rightarrow> ('w \<Rightarrow> bool) \<Rightarrow> (BYTE list \<Rightarrow> 'w \<Rightarrow> (bool \<times> 'w) option) \<Rightarrow>
    (bool \<times> BYTE list \<times> DWORD) list \<Rightarrow> datastream \<Rightarrow> 'w \<Rightarrow>
    (bool \<times> datastream \<times> 'w) option loop" where
  "RecvReads fuel registered f [] buf w = Stop (Some (True, buf, w))"
| "RecvReads fuel registered f (rd # rds) buf w =
     (case RecvProcess fuel registered f rd buf w of
        NoFuel \<Rightarrow> NoFuel
      | Stop None \<Rightarrow> Stop None
      | Stop (Some (cont, buf, w)) \<Rightarrow>
          if cont then RecvReads fuel registered f rds buf w else Stop (Some (False, buf, w)))"

section \<open>The receive loop delivers the frames\<close>

fun deliver :: "('w \<Rightarrow> bool) \<Rightarrow> (BYTE list \<Rightarrow> 'w \<Rightarrow> (bool \<times> 'w) option) \<Rightarrow> BYTE list list \<Rightarrow>
    'w \<Rightarrow> 'w option" where
  "deliver registered f [] w = Some w"
| "deliver registered f (p # ps) w =
     (if registered w then
        (case f p w of None \<Rightarrow> None | Some (Ret, w) \<Rightarrow> deliver registered f ps w)
      else deliver registered f ps w)"

lemma deliver_append:
  "deliver r f (ps @ qs) w = Option.bind (deliver r f ps w) (deliver r f qs)"
  by (induction ps arbitrary: w) (auto split: option.split)

text \<open>The state of the stream between two passes: no complete frame is left in the buffer.\<close>

definition drained :: "BYTE list \<Rightarrow> bool" where
  "drained bs \<longleftrightarrow> next_frame (snd (frames bs)) = None"

lemma RecvLoop_frames:
  assumes "dsb_inv buf" and "length (dsb_bytes buf) < 4294967296"
    and "drained (dsb_bytes buf)" and "length (fst (frames (dsb_bytes buf))) < fuel"
  shows "\<exists>buf'. RecvLoop fuel r f buf w
        = Stop (map_option (\<lambda>w'. (buf', w')) (deliver r f (fst (frames (dsb_bytes buf))) w))
      \<and> dsb_inv buf' \<and> dsb_bytes buf' = snd (frames (dsb_bytes buf))"
  using assms
proof (induction fuel arbitrary: buf w)
  case 0
  then show ?case by simp
next
  case (Suc fuel)
  obtain buf1 where buf1:
      "GetPacketFromBuffer buf = Some (map_option fst (next_frame (dsb_bytes buf)), buf1)"
      "dsb_bytes buf1 = (case next_frame (dsb_bytes buf) of
         None \<Rightarrow> dsb_bytes buf | Some (p, q) \<Rightarrow> q)" "dsb_inv buf1"
    using GetPacketFromBuffer_spec[OF Suc.prems(1,2)] .
  show ?case
  proof (cases "next_frame (dsb_bytes buf)")
    case None
    then show ?thesis using buf1 by (simp add: frames_None)
  next
    case (Some pq)
    obtain p q where pq: "next_frame (dsb_bytes buf) = Some (p, q)" using Some by (cases pq) simp
    have p: "p \<noteq> []"
      using Suc.prems(3) pq by (auto simp: drained_def frames_zero)
    note fr = frames_Some[OF pq p]
    have q: "dsb_bytes buf1 = q" using buf1(2) pq by simp
    have "length q < 4294967296"
      using pq Suc.prems(2) by (auto simp: next_frame_def split: if_splits)
    then have IH: "\<exists>buf'. RecvLoop fuel r f buf1 v
        = Stop (map_option (\<lambda>w'. (buf', w')) (deliver r f (fst (frames q)) v))
      \<and> dsb_inv buf' \<and> dsb_bytes buf' = snd (frames q)" for v
      using Suc.IH[OF buf1(3), of v] Suc.prems(3,4) fr q by (simp add: drained_def)
    show ?thesis
    proof (cases "r w")
      case False
      then show ?thesis using IH[of w] buf1(1) pq fr by auto
    next
      case True
      then show ?thesis
        using IH buf1(1) pq fr Suc.prems(1) IH[of w]
        by (cases "f p w") (auto split: prod.splits)
    qed
  qed
qed

lemma drained_prefix: "drained (x @ y) \<Longrightarrow> drained x"
proof (rule ccontr)
  assume dr: "drained (x @ y)" and "\<not> drained x"
  then obtain r where "next_frame (snd (frames x)) = Some ([], r)"
    using frames_rest[of x] by (auto simp: drained_def)
  then have nf: "next_frame (snd (frames x) @ y) = Some ([], r @ y)"
    by (rule next_frame_append)
  then have "snd (frames (x @ y)) = snd (frames x) @ y"
    by (simp add: frames_append[of x y] frames_zero)
  with dr nf show False by (simp add: drained_def)
qed

lemma drained_step: "drained (x @ y) \<Longrightarrow> drained (snd (frames x) @ y)"
  by (simp add: drained_def frames_append[of x y])

lemma RecvProcess_frames:
  assumes "dsb_inv buf" and "unat n \<le> length Buffer"
    and "length (dsb_bytes buf @ take (unat n) Buffer) < 4294967296"
    and "drained (dsb_bytes buf @ take (unat n) Buffer)"
    and "length (dsb_bytes buf @ take (unat n) Buffer) < fuel"
  obtains buf' where "RecvProcess fuel r f (True, Buffer, n) buf w
      = Stop (map_option (\<lambda>w'. (True, buf', w'))
          (deliver r f (fst (frames (dsb_bytes buf @ take (unat n) Buffer))) w))"
    and "dsb_inv buf'" and "dsb_bytes buf' = snd (frames (dsb_bytes buf @ take (unat n) Buffer))"
proof -
  obtain buf1 where buf1: "DataStreamBufferAddData Buffer n buf = Some buf1"
      "dsb_bytes buf1 = dsb_bytes buf @ take (unat n) Buffer" "dsb_inv buf1"
    using dsb.pushE[OF assms(1,2)] .
  have "length (fst (frames (dsb_bytes buf1))) < fuel"
    using assms(5) buf1(2) frames_count[of "dsb_bytes buf1"] by simp
  then obtain buf2 where "RecvLoop fuel r f buf1 w
        = Stop (map_option (\<lambda>w'. (buf2, w')) (deliver r f (fst (frames (dsb_bytes buf1))) w))"
      "dsb_inv buf2" "dsb_bytes buf2 = snd (frames (dsb_bytes buf1))"
    using RecvLoop_frames[OF buf1(3), of fuel r f w] assms(3,4) buf1(2) by auto
  then show thesis
    using that[of buf2] buf1 by (simp add: RecvProcess_def option.map_comp comp_def)
qed

text \<open>The bytes a sequence of successful reads brings.\<close>

definition read_ok :: "bool \<times> BYTE list \<times> DWORD \<Rightarrow> bool" where
  "read_ok rd \<longleftrightarrow> fst rd \<and> unat (snd (snd rd)) \<le> length (fst (snd rd))"

definition read_bytes :: "bool \<times> BYTE list \<times> DWORD \<Rightarrow> BYTE list" where
  "read_bytes rd = take (unat (snd (snd rd))) (fst (snd rd))"

definition stream_of :: "(bool \<times> BYTE list \<times> DWORD) list \<Rightarrow> BYTE list" where
  "stream_of rds = concat (map read_bytes rds)"

lemma stream_of_simps [simp]:
  "stream_of [] = []" "stream_of (rd # rds) = read_bytes rd @ stream_of rds"
  by (simp_all add: stream_of_def)

lemma RecvReads_frames:
  assumes "dsb_inv buf" and "list_all read_ok rds"
    and "length (dsb_bytes buf @ stream_of rds) < 4294967296"
    and "next_frame (dsb_bytes buf) = None"
    and "drained (dsb_bytes buf @ stream_of rds)"
    and "length (dsb_bytes buf @ stream_of rds) < fuel"
  shows "\<exists>buf'. RecvReads fuel r f rds buf w
        = Stop (map_option (\<lambda>w'. (True, buf', w'))
            (deliver r f (fst (frames (dsb_bytes buf @ stream_of rds))) w))
      \<and> dsb_inv buf' \<and> dsb_bytes buf' = snd (frames (dsb_bytes buf @ stream_of rds))"
  using assms
proof (induction rds arbitrary: buf w)
  case Nil
  then show ?case by (simp add: frames_None)
next
  case (Cons rd rds)
  obtain Buffer n where rd: "rd = (True, Buffer, n)" "unat n \<le> length Buffer"
    using Cons.prems(2) by (cases rd) (auto simp: read_ok_def)
  let ?x = "dsb_bytes buf @ take (unat n) Buffer" and ?y = "stream_of rds"
  have xy: "dsb_bytes buf @ stream_of (rd # rds) = ?x @ ?y"
    by (simp add: rd read_bytes_def)
  have drx: "drained ?x" using Cons.prems(5) xy drained_prefix by metis
  have lx: "length ?x < 4294967296" "length ?x < fuel"
    using Cons.prems(3,6) unfolding xy by simp_all
  obtain buf1 where buf1: "RecvProcess fuel r f rd buf w
        = Stop (map_option (\<lambda>w'. (True, buf1, w')) (deliver r f (fst (frames ?x)) w))"
      "dsb_inv buf1" "dsb_bytes buf1 = snd (frames ?x)"
    using RecvProcess_frames[OF Cons.prems(1) rd(2) lx(1) drx lx(2), of r f w]
    unfolding rd(1) by blast
  have len: "length (snd (frames ?x)) \<le> length ?x"
    using frames_content[of ?x] by (metis length_append le_add2)
  have "\<exists>buf'. RecvReads fuel r f rds buf1 v
        = Stop (map_option (\<lambda>w'. (True, buf', w'))
            (deliver r f (fst (frames (dsb_bytes buf1 @ ?y))) v))
      \<and> dsb_inv buf' \<and> dsb_bytes buf' = snd (frames (dsb_bytes buf1 @ ?y))" for v
  proof (rule Cons.IH[OF buf1(2)])
    show "list_all read_ok rds" using Cons.prems(2) by simp
    show "next_frame (dsb_bytes buf1) = None" using drx buf1(3) by (simp add: drained_def)
    show "drained (dsb_bytes buf1 @ ?y)"
      using Cons.prems(5) drained_step unfolding xy buf1(3) by blast
    show "length (dsb_bytes buf1 @ ?y) < 4294967296" "length (dsb_bytes buf1 @ ?y) < fuel"
      using Cons.prems(3,6) len unfolding xy buf1(3) length_append by linarith+
  qed
  then obtain buf2 where
    "RecvReads fuel r f rds buf1 v = Stop (map_option (\<lambda>w'. (True, buf2 v, w'))
        (deliver r f (fst (frames (dsb_bytes buf1 @ ?y))) v))"
    "dsb_inv (buf2 v)" "dsb_bytes (buf2 v) = snd (frames (dsb_bytes buf1 @ ?y))" for v
    by metis
  note rest = this
  have FA: "fst (frames (?x @ ?y)) = fst (frames ?x) @ fst (frames (dsb_bytes buf1 @ ?y))"
    and SA: "snd (frames (?x @ ?y)) = snd (frames (dsb_bytes buf1 @ ?y))"
    by (simp_all only: frames_append[of ?x ?y] fst_conv snd_conv buf1(3))
  show ?case
  proof (cases "deliver r f (fst (frames ?x)) w")
    case None
    then show ?thesis
      using buf1(1) rest(2,3)[of w] unfolding xy FA SA deliver_append by auto
  next
    case (Some v)
    then show ?thesis
      using buf1(1) rest[of v] unfolding xy FA SA deliver_append
      by (auto intro!: exI[of _ "buf2 v"])
  qed
qed

text \<open>A header that announces length zero is never consumed: the loop does not end.\<close>

lemma GetPacketFromBuffer_zero:
  assumes "dsb_inv buf" and "length (dsb_bytes buf) < 4294967296"
    and "next_frame (dsb_bytes buf) = Some ([], q)"
  obtains buf' where "GetPacketFromBuffer buf = Some (Some [], buf')"
    and "dsb_bytes buf' = dsb_bytes buf" and "dsb_inv buf'"
proof -
  have "q = dsb_bytes buf"
    using assms(3) by (auto simp: next_frame_def take_eq_Nil split: if_splits)
  then show thesis
    using GetPacketFromBuffer_spec[OF assms(1,2)] that assms(3) by auto
qed

lemma RecvLoop_stuck:
  assumes "dsb_inv buf" and "length (dsb_bytes buf) < 4294967296"
    and "next_frame (dsb_bytes buf) = Some ([], q)" and "\<And>v. f [] v \<noteq> None"
  shows "RecvLoop fuel r f buf w = NoFuel"
  using assms(1-3)
proof (induction fuel arbitrary: buf w)
  case (Suc fuel)
  obtain buf' where buf': "GetPacketFromBuffer buf = Some (Some [], buf')"
      "dsb_bytes buf' = dsb_bytes buf" "dsb_inv buf'"
    using GetPacketFromBuffer_zero[OF Suc.prems] .
  then have IH: "RecvLoop fuel r f buf' v = NoFuel" for v
    using Suc.IH[of buf' v] Suc.prems by simp
  show ?case
    using buf'(1) IH assms(4)[of w] by (auto split: option.split)
qed simp

text \<open>A header that announces less than its own eight bytes: the callback gets the announced bytes
  only, so that one which reads the type of its packet leaves its memory.\<close>

lemma RecvLoop_short:
  assumes "dsb_inv buf" and "length (dsb_bytes buf) < 4294967296" and "dsb_bytes buf = concat ps @ bs"
    and "list_all wf_packet ps" and "8 \<le> length bs" and "frame_len bs < 8" and "length ps < fuel"
    and "deliver r f ps w = Some w'" and "r w'" and "\<And>p v. length p < 8 \<Longrightarrow> f p v = None"
  shows "RecvLoop fuel r f buf w = Stop None"
  using assms(1-9)
proof (induction ps arbitrary: buf w fuel)
  case Nil
  obtain n where fuel: "fuel = Suc n" using Nil.prems(7) by (cases fuel) auto
  have "next_frame (dsb_bytes buf) = Some (take (frame_len bs) bs, drop (frame_len bs) bs)"
    using Nil.prems(3,5,6) by (simp add: next_frame_def)
  then obtain buf' where "GetPacketFromBuffer buf = Some (Some (take (frame_len bs) bs), buf')"
    using GetPacketFromBuffer_spec[OF Nil.prems(1,2)] by auto
  moreover have "f (take (frame_len bs) bs) w = None" using Nil.prems(6) by (intro assms(10)) simp
  ultimately show ?case using Nil.prems(8,9) by (simp add: fuel)
next
  case (Cons p ps)
  obtain n where fuel: "fuel = Suc n" "length ps < n" using Cons.prems(7) by (cases fuel) auto
  have nf: "next_frame (dsb_bytes buf) = Some (p, concat ps @ bs)"
    using Cons.prems(3,4) next_frame_packet[of p "concat ps @ bs"] by simp
  then obtain buf' where b: "GetPacketFromBuffer buf = Some (Some p, buf')"
    "dsb_bytes buf' = concat ps @ bs" "dsb_inv buf'"
    using GetPacketFromBuffer_spec[OF Cons.prems(1,2)] by auto
  have IH: "RecvLoop n r f buf' v = Stop None" if "deliver r f ps v = Some w'" for v
    using Cons.IH[OF b(3) _ b(2) _ Cons.prems(5,6) fuel(2) that Cons.prems(9)] Cons.prems(2-4) b(2) by simp
  show ?case using Cons.prems(8) b(1) IH fuel(1) by (auto split: if_splits option.splits)
qed

lemma RecvProcess_short:
  assumes "list_all wf_packet ps" and "8 \<le> length bs" and "frame_len bs < 8"
    and "length (concat ps @ bs) < 4294967296" and "length ps < fuel"
    and "deliver r f ps w = Some w'" and "r w'" and "\<And>p v. length p < 8 \<Longrightarrow> f p v = None"
  shows "RecvProcess fuel r f (True, concat ps @ bs, of_nat (length (concat ps @ bs))) CreateDataStreamBuffer w
    = Stop None"
proof -
  define b where "b = concat ps @ bs"
  have b: "length b < 4294967296" using assms(4) by (simp only: b_def)
  then have n: "unat (of_nat (length b) :: DWORD) = length b" by (rule unat_of_nat_DWORD)
  have inv: "dsb_inv CreateDataStreamBuffer" "dsb_bytes CreateDataStreamBuffer = []"
    by (simp_all add: CreateDataStreamBuffer_def)
  have le: "unat (of_nat (length b) :: DWORD) \<le> length b" using n by simp
  obtain buf where buf: "DataStreamBufferAddData b (of_nat (length b)) CreateDataStreamBuffer = Some buf"
    "dsb_bytes buf = b" "dsb_inv buf"
    by (rule dsb.pushE[OF inv(1) le]) (simp add: inv n)
  have "RecvLoop fuel r f buf w = Stop None"
    using RecvLoop_short[OF buf(3) _ _ assms(1-3,5-8)] buf(2) b by (simp add: b_def)
  then show ?thesis using buf(1) unfolding b_def[symmetric] by (simp add: RecvProcess_def)
qed

section \<open>The sending thread writes whole packets\<close>

text \<open>The answers of the socket keep its contract for the bytes still to be sent.\<close>

fun ios_ok :: "(nat \<Rightarrow> 'io \<Rightarrow> bool) \<Rightarrow> ('io \<Rightarrow> (bool \<times> DWORD) option) \<Rightarrow> 'io list \<Rightarrow> nat \<Rightarrow> bool"
  where
  "ios_ok os write [] n = True"
| "ios_ok os write (io # ios) n =
     (n > 0 \<longrightarrow> os n io \<and>
        (case write io of Some (True, k) \<Rightarrow> ios_ok os write ios (n - unat k) | _ \<Rightarrow> True))"

context socket_io
begin

lemma SendLoop_writes:
  assumes "ios_ok os xfer ios (length Data)" and "unat Length = length Data"
  shows "SendLoop xfer ios Data Length wire = NoFuel
    \<or> (\<exists>ok k. SendLoop xfer ios Data Length wire = Stop (Some (ok, wire @ take k Data))
         \<and> (ok \<longrightarrow> k = length Data))"
  using assms
proof (induction ios arbitrary: Data Length wire)
  case Nil
  then show ?case by (cases "Length = 0") (auto simp: word_gt_0)
next
  case (Cons io ios)
  show ?case
  proof (cases "length Data = 0")
    case True
    then show ?thesis using Cons.prems(2) by (auto simp: unat_eq_0)
  next
    case False
    then have os: "os (length Data) io" and L: "Length > 0"
      using Cons.prems by (auto simp: word_gt_0)
    from os show ?thesis
    proof (cases rule: xfer_cases)
      case (ok k)
      have "ios_ok os xfer ios (length (drop (unat k) Data))"
        using Cons.prems(1) False ok by simp
      moreover have "unat (Length - k) = length (drop (unat k) Data)"
        using ok(2) Cons.prems(2) by (simp add: unat_sub word_le_nat_alt)
      ultimately consider
          "SendLoop xfer ios (drop (unat k) Data) (Length - k) (wire @ take (unat k) Data) = NoFuel"
        | ok' j where "SendLoop xfer ios (drop (unat k) Data) (Length - k)
              (wire @ take (unat k) Data)
            = Stop (Some (ok', (wire @ take (unat k) Data) @ take j (drop (unat k) Data)))"
            "ok' \<longrightarrow> j = length (drop (unat k) Data)"
        using Cons.IH by blast
      then show ?thesis
      proof cases
        case 1
        then show ?thesis using ok L by (simp add: rd_bytes_0)
      next
        case 2
        have "take (unat k) Data @ take j (drop (unat k) Data) = take (unat k + j) Data"
          by (simp add: take_add)
        then have "SendLoop xfer (io # ios) Data Length wire
            = Stop (Some (ok', wire @ take (unat k + j) Data))"
          using 2(1) ok L by (simp add: rd_bytes_0)
        moreover have "ok' \<longrightarrow> unat k + j = length Data" using 2(2) ok(2) by simp
        ultimately show ?thesis by blast
      qed
    next
      case (failed k)
      then have "SendLoop xfer (io # ios) Data Length wire
          = Stop (Some (False, wire @ take 0 Data))"
        using L by simp
      then show ?thesis by blast
    qed
  qed
qed

text \<open>When every write makes progress the packet goes out completely.\<close>

lemma SendLoop_completes:
  assumes "ios_ok os xfer ios (length Data)" and "unat Length = length Data"
    and "\<forall>io\<in>set ios. \<exists>k. xfer io = Some (True, k) \<and> k \<noteq> 0" and "length Data \<le> length ios"
  shows "SendLoop xfer ios Data Length wire = Stop (Some (True, wire @ Data))"
  using assms
proof (induction ios arbitrary: Data Length wire)
  case Nil
  then show ?case by (simp add: unat_eq_0)
next
  case (Cons io ios)
  show ?case
  proof (cases "length Data = 0")
    case True
    then show ?thesis using Cons.prems(2) by (simp add: unat_eq_0)
  next
    case False
    then have os: "os (length Data) io" and L: "Length > 0"
      using Cons.prems by (auto simp: word_gt_0)
    obtain k where k: "xfer io = Some (True, k)" "k \<noteq> 0" using Cons.prems(3) by auto
    have le: "unat k \<le> length Data" using in_bounds[OF os k(1)] .
    have "0 < unat k" using k(2) by (simp add: unat_gt_0)
    have "SendLoop xfer ios (drop (unat k) Data) (Length - k) (wire @ take (unat k) Data)
        = Stop (Some (True, (wire @ take (unat k) Data) @ drop (unat k) Data))"
      using Cons.prems False k(1) le \<open>0 < unat k\<close>
      by (intro Cons.IH) (auto simp: unat_sub word_le_nat_alt)
    then show ?thesis using k(1) L le by (simp add: rd_bytes_0)
  qed
qed

end

interpretation tcp_queue: send_queue SendPacket SendDequeue "\<lambda>p. p" m_SendList m_hSendEvent
  by unfold_locales (auto simp: SendPacket_def SendDequeue_def)

section \<open>Properties\<close>

text \<open>C21: Framing does not depend on how TCP cuts the stream: if the reads of the receiving thread
  bring, in pieces of any sizes, a sequence of packets followed by the beginning of another one,
  the registered callback runs once for each packet, in order, with exactly its bytes, and the
  loop waits for more with the incomplete tail in the buffer.\<close>

theorem receive_any_segmentation:
  assumes "list_all wf_packet ps" and "length tail < 8"
    and "list_all read_ok rds" and "stream_of rds = concat ps @ tail"
    and "length (concat ps @ tail) < 4294967296" and "length (concat ps @ tail) < fuel"
    and "deliver r f ps w = Some w'"
  shows "\<exists>buf. RecvReads fuel r f rds CreateDataStreamBuffer w = Stop (Some (True, buf, w'))
      \<and> dsb_bytes buf = tail"
proof -
  have fr: "frames (concat ps @ tail) = (ps, tail)" by (rule frames_packets[OF assms(1,2)])
  have dr: "drained (concat ps @ tail)" using assms(2) by (simp add: drained_def fr next_frame_def)
  have "next_frame (dsb_bytes CreateDataStreamBuffer) = None"
    by (simp add: CreateDataStreamBuffer_def next_frame_def)
  then obtain buf where "RecvReads fuel r f rds CreateDataStreamBuffer w
        = Stop (map_option (\<lambda>w'. (True, buf, w')) (deliver r f ps w))" "dsb_bytes buf = tail"
    using RecvReads_frames[of CreateDataStreamBuffer rds fuel r f w] assms(3-6) fr dr
    by (auto simp: CreateDataStreamBuffer_def)
  then show ?thesis using assms(7) by simp
qed

text \<open>Two packets of 8 and 9 bytes in three reads.\<close>

theorem receive_any_segmentation_witness:
  "\<exists>buf. RecvReads 30 (\<lambda>_. True) (\<lambda>p w. Some (True, w @ [p]))
      [(True, [8, 0, 0, 0, 3], 5), (True, [0, 0, 0, 9, 0, 0, 0, 1, 0, 0, 0, 77, 5], 12),
       (True, [5, 0], 2)] CreateDataStreamBuffer []
    = Stop (Some (True, buf, [[8, 0, 0, 0, 3, 0, 0, 0], [9, 0, 0, 0, 1, 0, 0, 0, 77]]))
    \<and> dsb_bytes buf = [5, 0]"
  by (rule receive_any_segmentation[where ps = "[[8, 0, 0, 0, 3, 0, 0, 0],
        [9, 0, 0, 0, 1, 0, 0, 0, 77]]"])
    (simp_all add: wf_packet_def frame_len_def read_ok_def read_bytes_def)

text \<open>A callback that accepts an empty packet never gets rid of a header that announces length zero:
  \<open>RecvLoop\<close> takes an empty packet, consumes nothing, calls the callback and starts again, and no
  number of iterations ends it. The callbacks of this program read the type of the packet and
  fault instead: \<open>Handshake.short_header_faults_receiver\<close>.\<close>

theorem zero_length_header_hangs_receiver:
  assumes "take 4 bs = [0, 0, 0, 0]" and "8 \<le> length bs" and "length bs < 4294967296"
    and "\<And>v. f [] v \<noteq> None"
  shows "RecvProcess fuel r f (True, bs, of_nat (length bs)) CreateDataStreamBuffer w = NoFuel"
proof -
  have n: "unat (of_nat (length bs) :: DWORD) = length bs"
    using assms(3) by (rule unat_of_nat_DWORD)
  have inv: "dsb_inv CreateDataStreamBuffer" "dsb_bytes CreateDataStreamBuffer = []"
    by (simp_all add: CreateDataStreamBuffer_def)
  have le: "unat (of_nat (length bs) :: DWORD) \<le> length bs" using n by simp
  obtain buf where buf: "DataStreamBufferAddData bs (of_nat (length bs)) CreateDataStreamBuffer
      = Some buf" "dsb_bytes buf = bs" "dsb_inv buf"
    by (rule dsb.pushE[OF inv(1) le]) (simp add: inv n)
  have "next_frame bs = Some ([], bs)"
    using assms(1,2) by (simp add: next_frame_def frame_len_def)
  then have "RecvLoop fuel r f buf w = NoFuel"
    using RecvLoop_stuck[OF buf(3)] buf(2) assms(3,4) by metis
  then show ?thesis using buf(1) by (simp add: RecvProcess_def)
qed

theorem zero_length_header_hangs_receiver_witness:
  "RecvProcess 100000 (\<lambda>_. True) (\<lambda>p w. Some (True, Suc w)) (True, [0, 0, 0, 0, 1, 0, 0, 0], 8)
     CreateDataStreamBuffer 0 = NoFuel"
  using zero_length_header_hangs_receiver[of "[0, 0, 0, 0, 1, 0, 0, 0]" "\<lambda>p w. Some (True, Suc w)"
      100000 "\<lambda>_. True" 0] by simp



lemma SendProcess_packet:
  assumes "m_SendList tcp = p # rest" and "wf_packet p"
    and "ios_ok win_os (TCPSocketWrite_win 0) ios (length p)"
    and "\<forall>io\<in>set ios. \<exists>k. TCPSocketWrite_win 0 io = Some (True, k) \<and> k \<noteq> 0"
    and "length p \<le> length ios"
  shows "SendProcess (TCPSocketWrite_win 0) ios WAIT_OBJECT_0 tcp
      = Stop (Some (True, tcp\<lparr>m_SendList := rest\<rparr>, p))"
proof -
  have "SendDequeue tcp = (Some p, tcp\<lparr>m_SendList := rest\<rparr>)"
    using assms(1) by (simp add: SendDequeue_def)
  moreover obtain n where n: "pkt_length p = Some n" "unat n = length p"
    using assms(2) by (auto simp: wf_packet_def frame_len_def pkt_length_def rd_dword_def rd_bytes_def)
  moreover have "SendLoop (TCPSocketWrite_win 0) ios p n [] = Stop (Some (True, [] @ p))"
    using assms(3-5) n(2) by (intro win_write.SendLoop_completes)
  ultimately show ?thesis by (simp add: SendProcess_def)
qed

text \<open>What one pass of the sender needs of the socket for the packet \<open>p\<close>: the writes obey the
  contract of the socket, succeed, and make progress.\<close>

definition pass_ok :: "DWORD \<times> win_io list \<Rightarrow> BYTE list \<Rightarrow> bool" where
  "pass_ok pass p \<longleftrightarrow> fst pass = WAIT_OBJECT_0
     \<and> ios_ok win_os (TCPSocketWrite_win 0) (snd pass) (length p)
     \<and> (\<forall>io\<in>set (snd pass). \<exists>k. TCPSocketWrite_win 0 io = Some (True, k) \<and> k \<noteq> 0)
     \<and> length p \<le> length (snd pass)"

lemma SendPasses_stream:
  assumes "list_all2 pass_ok passes ps" and "list_all wf_packet ps" and "m_SendList tcp = ps @ rest"
  shows "SendPasses (TCPSocketWrite_win 0) passes tcp
      = Stop (Some (True, tcp\<lparr>m_SendList := rest\<rparr>, concat ps))"
  using assms
proof (induction arbitrary: tcp rule: list_all2_induct)
  case (Cons x xs y ys)
  obtain Ret ios where x: "x = (Ret, ios)" by fastforce
  have 1: "SendProcess (TCPSocketWrite_win 0) ios WAIT_OBJECT_0 tcp
      = Stop (Some (True, tcp\<lparr>m_SendList := ys @ rest\<rparr>, y))"
    using Cons.hyps(1) Cons.prems x by (intro SendProcess_packet) (simp_all add: pass_ok_def)
  have "m_SendList (tcp\<lparr>m_SendList := ys @ rest\<rparr>) = ys @ rest" by simp
  note IH = Cons.IH[OF _ this]
  have "Ret = WAIT_OBJECT_0" using Cons.hyps(1) x by (simp add: pass_ok_def)
  then show ?case using 1 IH Cons.prems(1) x by simp
qed simp

text \<open>C15: Packets cross a connection unchanged. For a sender on Windows with any queue of well
  formed packets, whose writes succeed with at least one byte each (in whatever portions), and a
  receiver that reads the bytes so sent in any portions: the receiver's callback runs once for
  each packet, in the order of the queue, with exactly its bytes, and nothing stays in its
  buffer.\<close>

theorem tcp_packets_cross_unchanged:
  assumes "m_SendList tcp = ps" and "list_all wf_packet ps" and "list_all2 pass_ok passes ps"
    and "SendPasses (TCPSocketWrite_win 0) passes tcp = Stop (Some (ok, tcp', wire))"
    and "list_all read_ok rds" and "stream_of rds = wire" and "length wire < 4294967296"
    and "length wire < fuel" and "deliver r f ps w = Some w'"
  shows "ok \<and> m_SendList tcp' = []
     \<and> (\<exists>buf. RecvReads fuel r f rds CreateDataStreamBuffer w = Stop (Some (True, buf, w'))
          \<and> dsb_bytes buf = [])"
proof -
  have s: "ok" "tcp' = tcp\<lparr>m_SendList := []\<rparr>" "wire = concat ps"
    using SendPasses_stream[OF assms(3,2), of tcp "[]"] assms(1,4) by simp_all
  have fr: "frames (concat ps @ []) = (ps, [])" by (rule frames_packets[OF assms(2)]) simp
  have "drained (concat ps @ [])" by (simp only: drained_def fr) (simp add: next_frame_def)
  moreover have "next_frame (dsb_bytes CreateDataStreamBuffer) = None"
    by (simp add: CreateDataStreamBuffer_def next_frame_def)
  ultimately obtain buf where "RecvReads fuel r f rds CreateDataStreamBuffer w
        = Stop (map_option (\<lambda>w'. (True, buf, w')) (deliver r f ps w))" "dsb_bytes buf = []"
    using RecvReads_frames[of CreateDataStreamBuffer rds fuel r f w] assms(5-8) fr s(3)
    by (auto simp: CreateDataStreamBuffer_def)
  then show ?thesis using assms(9) s by simp
qed

text \<open>Two packets of 8 and 9 bytes, written in portions and read in others.\<close>

theorem tcp_packets_cross_unchanged_witness:
  "let w = (\<lambda>n. \<lparr>io_event = True, io_error = False, io_pending = False, io_bytes0 = n, io_wait = 0,
                io_result = True, io_bytes = n\<rparr>);
       tcp = (CTCPBase None [] 0 [] 0)\<lparr>m_SendList := [[8, 0, 0, 0, 3, 0, 0, 0],
                [9, 0, 0, 0, 1, 0, 0, 0, 77]]\<rparr>
   in \<exists>tcp' wire buf. SendPasses (TCPSocketWrite_win 0)
        [(WAIT_OBJECT_0, [w 5, w 3, w 1, w 1, w 1, w 1, w 1, w 1]),
         (WAIT_OBJECT_0, [w 9, w 1, w 1, w 1, w 1, w 1, w 1, w 1, w 1])] tcp
          = Stop (Some (True, tcp', wire))
     \<and> RecvReads 30 (\<lambda>_. True) (\<lambda>p w. Some (True, w @ [p]))
          [(True, take 5 wire, 5), (True, drop 5 wire, 12)] CreateDataStreamBuffer []
        = Stop (Some (True, buf, [[8, 0, 0, 0, 3, 0, 0, 0], [9, 0, 0, 0, 1, 0, 0, 0, 77]]))"
proof -
  define w where "w n = \<lparr>io_event = True, io_error = False, io_pending = False, io_bytes0 = n,
      io_wait = 0, io_result = True, io_bytes = n\<rparr>" for n :: DWORD
  let ?ps = "[[8, 0, 0, 0, 3, 0, 0, 0], [9, 0, 0, 0, 1, 0, 0, 0, 77]] :: BYTE list list"
  let ?tcp = "(CTCPBase None [] 0 [] 0)\<lparr>m_SendList := ?ps\<rparr>"
  let ?passes = "[(WAIT_OBJECT_0, [w 5, w 3, w 1, w 1, w 1, w 1, w 1, w 1]),
         (WAIT_OBJECT_0, [w 9, w 1, w 1, w 1, w 1, w 1, w 1, w 1, w 1])]"
  have wf: "list_all wf_packet ?ps" by (simp add: wf_packet_def frame_len_def)
  have ok: "list_all2 pass_ok ?passes ?ps"
    by (simp add: pass_ok_def w_def TCPSocketWrite_win_def win_os_def wait_defs)
  have s: "SendPasses (TCPSocketWrite_win 0) ?passes ?tcp
      = Stop (Some (True, ?tcp\<lparr>m_SendList := []\<rparr>, concat ?ps))"
    using SendPasses_stream[OF ok wf, of ?tcp "[]"] by simp
  have rd: "list_all read_ok [(True, take 5 (concat ?ps), 5), (True, drop 5 (concat ?ps), 12)]"
    "stream_of [(True, take 5 (concat ?ps), 5), (True, drop 5 (concat ?ps), 12)] = concat ?ps"
    by (simp_all add: read_ok_def stream_of_def read_bytes_def)
  have "\<exists>buf. RecvReads 30 (\<lambda>_. True) (\<lambda>p w. Some (True, w @ [p]))
      [(True, take 5 (concat ?ps), 5), (True, drop 5 (concat ?ps), 12)] CreateDataStreamBuffer []
      = Stop (Some (True, buf, ?ps)) \<and> dsb_bytes buf = []"
    using tcp_packets_cross_unchanged[OF _ wf ok s rd, of 30 "\<lambda>_. True"
        "\<lambda>p w. Some (True, w @ [p])" "[]" ?ps] by simp
  then show ?thesis using s unfolding Let_def w_def by blast
qed

text \<open>C33: The queue between the threads of a connection loses nothing: after any interleaving of
  \<open>SendPacket\<close> calls with passes of the sending thread, the packets taken out followed by those
  still queued are the initial and the added packets in order; and while a packet is queued, the
  event the sending thread waits for is signalled.\<close>

theorem tcp_send_queue_fifo:
  "fst (queue_run SendPacket SendDequeue ops tcp)
       @ m_SendList (snd (queue_run SendPacket SendDequeue ops tcp))
     = m_SendList tcp @ enqueued ops
   \<and> (m_SendList tcp = [] \<and> m_SendList (snd (queue_run SendPacket SendDequeue ops tcp)) \<noteq> []
       \<longrightarrow> SendProcess_wait (snd (queue_run SendPacket SendDequeue ops tcp)) = Some WAIT_OBJECT_0)"
  using tcp_queue.fifo_run[of ops tcp "fst (queue_run SendPacket SendDequeue ops tcp)"
      "snd (queue_run SendPacket SendDequeue ops tcp)"]
    tcp_queue.awake_run[of tcp ops]
  by (auto simp: SendProcess_wait_def wait_any_def)

theorem tcp_send_queue_fifo_witness:
  "SendProcess_wait (snd (queue_run SendPacket SendDequeue
      [Enqueue [1], Enqueue [2], Dequeue] (CTCPBase None [] 0 [] 0))) = Some WAIT_OBJECT_0"
  using tcp_send_queue_fifo[of "[Enqueue [1], Enqueue [2], Dequeue]" "CTCPBase None [] 0 [] 0"]
  by (simp add: CTCPBase_def SendPacket_def SendDequeue_def)

end
