(* ===== verification/TCPServer.thy ===== *)
theory TCPServer
  imports TCPBase
begin

text \<open>
  \<^verbatim>\<open>src/clovertun/TCPServer.cpp\<close> and \<^verbatim>\<open>src/clovertun/TCPClient.cpp\<close>: the two ends of a
  TCP connection, which add no field to \<open>CTCPBase\<close>, and the listening service. What \<open>socket\<close>,
  \<open>bind\<close>, \<open>connect\<close>, \<open>accept\<close> and \<open>getpeername\<close> answer is an argument.
\<close>

section \<open>The accepted connection\<close>

text \<open>The dotted address the constructor copies, with its NUL: \<open>"127.0.0.1"\<close>.\<close>

definition localhost :: "BYTE list" where
  "localhost = [49, 50, 55, 46, 48, 46, 48, 46, 49, 0]"

text \<open>
  \<open>raw\<close> is the uninitialised content of the two address arrays of the new object.
\<close>

definition CTCPServer :: "BYTE list \<Rightarrow> BYTE list \<Rightarrow> nat \<Rightarrow> WORD \<Rightarrow> tcpbase option" where
  "CTCPServer rawdst rawsrc sock ListenPort = do {
     src \<leftarrow> strcpy rawsrc localhost;
     Some (CTCPBase (Some sock) rawdst 0 src ListenPort)
   }"

text \<open>\<open>peer\<close>: the address string and port of \<open>getpeername\<close>, or \<open>None\<close> when it fails.\<close>

definition CTCPServer_Init :: "(BYTE list \<times> WORD) option \<Rightarrow> 'a tcpbase_scheme \<Rightarrow>
    (bool \<times> 'a tcpbase_scheme) option" where
  "CTCPServer_Init peer tcp = do {
     tcp \<leftarrow> (case peer of
         None \<Rightarrow> Some tcp
       | Some (a, p) \<Rightarrow> do {
           dst \<leftarrow> strcpy (m_szDstAddress tcp) a;
           Some (tcp\<lparr>m_dwDstPort := p, m_szDstAddress := dst\<rparr>)
         });
     Some (True, InitBase tcp)
   }"

definition CTCPServer_Done :: "'a tcpbase_scheme \<Rightarrow> 'a tcpbase_scheme" where
  "CTCPServer_Done tcp =
     (let tcp = DoneBase tcp in
      if m_hSock tcp \<noteq> None then tcp\<lparr>m_hSock := None\<rparr> else tcp)"

section \<open>The connecting client\<close>

definition CTCPClient :: "BYTE list \<Rightarrow> BYTE list \<Rightarrow> BYTE list \<Rightarrow> WORD \<Rightarrow> tcpbase option" where
  "CTCPClient rawdst rawsrc szRemoteAddress dwPort = do {
     dst \<leftarrow> strcpy rawdst szRemoteAddress;
     Some (CTCPBase None dst dwPort rawsrc 0)
   }"

text \<open>
  \<open>sock\<close>: the handle \<open>socket\<close> returned. The test \<open>sock < 0\<close> is on an unsigned handle, so it
  never fails. \<open>connected\<close>: \<open>connect\<close> did not return a negative value.
\<close>

definition CTCPClient_Init :: "nat \<Rightarrow> bool \<Rightarrow> (BYTE list \<times> WORD) option \<Rightarrow>
    'a tcpbase_scheme \<Rightarrow> (bool \<times> 'a tcpbase_scheme) option" where
  "CTCPClient_Init sock connected peer tcp =
     (if \<not> connected then Some (False, tcp)
      else let tcp = tcp\<lparr>m_hSock := Some sock\<rparr> in do {
        tcp \<leftarrow> (case peer of
            None \<Rightarrow> Some tcp
          | Some (a, p) \<Rightarrow> do {
              src \<leftarrow> strcpy (m_szSrcAddress tcp) a;
              Some (tcp\<lparr>m_dwSrcPort := p, m_szSrcAddress := src\<rparr>)
            });
        Some (True, InitBase tcp)
      })"

definition CTCPClient_Done ::
    "(addr \<Rightarrow> 's \<Rightarrow> 's option) \<Rightarrow> (addr \<Rightarrow> 's \<Rightarrow> 's option) \<Rightarrow>
     'a tcpbase_scheme \<Rightarrow> 's \<Rightarrow> ('a tcpbase_scheme \<times> 's) option" where
  "CTCPClient_Done addref release tcp s = do {
     (tcp, s) \<leftarrow> RegisterRecvProcess addref release None None tcp s;
     (tcp, s) \<leftarrow> RegisterEndProcess addref release None None tcp s;
     let tcp = DoneBase tcp;
     Some (if m_hSock tcp \<noteq> None then tcp\<lparr>m_hSock := None\<rparr> else tcp, s)
   }"

section \<open>The listening service\<close>

record tcpservice = CBaseObject +
  m_dwListenPort :: WORD
  svc_hListenSock :: "nat option"
  svc_hStopEvent :: bool
  m_hListenThread :: bool
  m_pfnAcceptFunc :: bool
  m_pAcceptParam :: ptr

definition CTCPService :: "WORD \<Rightarrow> tcpservice" where
  "CTCPService ListenPort =
     \<lparr>m_lRef = 1, m_dwListenPort = ListenPort, svc_hListenSock = None, svc_hStopEvent = False,
      m_hListenThread = False, m_pfnAcceptFunc = False, m_pAcceptParam = None\<rparr>"

definition CTCPService_Init :: "nat option \<Rightarrow> bool \<Rightarrow> tcpservice \<Rightarrow> bool \<times> tcpservice" where
  "CTCPService_Init sock bound svc =
     (case sock of
        None \<Rightarrow> (False, svc)
      | Some s \<Rightarrow>
          if \<not> bound then (False, svc)
          else let svc = svc\<lparr>svc_hListenSock := Some s\<rparr>; svc = CBaseObject_AddRef svc
            in (True, svc\<lparr>m_hListenThread := True\<rparr>))"

definition RegisterSocketAcceptProcess ::
    "(addr \<Rightarrow> 's \<Rightarrow> 's option) \<Rightarrow> (addr \<Rightarrow> 's \<Rightarrow> 's option) \<Rightarrow> bool \<Rightarrow> ptr \<Rightarrow>
     tcpservice \<Rightarrow> 's \<Rightarrow> (tcpservice \<times> 's) option" where
  "RegisterSocketAcceptProcess addref release Process Param svc s =
     map_option (\<lambda>s. (svc\<lparr>m_pfnAcceptFunc := Process, m_pAcceptParam := Param\<rparr>, s))
       (register_param addref release Param (m_pAcceptParam svc) s)"

definition CTCPService_Done ::
    "(addr \<Rightarrow> 's \<Rightarrow> 's option) \<Rightarrow> (addr \<Rightarrow> 's \<Rightarrow> 's option) \<Rightarrow> tcpservice \<Rightarrow> 's \<Rightarrow>
     (tcpservice \<times> 's) option" where
  "CTCPService_Done addref release svc s = do {
     (svc, s) \<leftarrow> RegisterSocketAcceptProcess addref release False None svc s;
     let svc = (if svc_hListenSock svc \<noteq> None then svc\<lparr>svc_hListenSock := None\<rparr> else svc);
     Some (svc\<lparr>svc_hStopEvent := True\<rparr>, s)
   }"

text \<open>
  One pass of the listening thread. \<open>acc\<close> is the handle \<open>accept\<close> returned, \<open>None\<close> for an
  invalid one (a NULL handle ends the thread too); the result says whether to go on, and
  whether the accepted socket was closed because nobody took it.
\<close>

definition ListenProcess :: "(nat \<Rightarrow> 'w \<Rightarrow> (bool \<times> 'w) option) \<Rightarrow> nat option \<Rightarrow> tcpservice \<Rightarrow>
    'w \<Rightarrow> (bool \<times> bool \<times> 'w) option" where
  "ListenProcess f acc svc w =
     (if wait_any_timeout [svc_hStopEvent svc] \<noteq> WAIT_TIMEOUT then Some (False, False, w)
      else case acc of
        None \<Rightarrow> Some (False, False, w)
      | Some s \<Rightarrow>
          if s = 0 then Some (False, False, w)
          else if m_pfnAcceptFunc svc then do {
            (Accept, w) \<leftarrow> f s w;
            Some (True, \<not> Accept, w)
          } else Some (True, True, w))"

text \<open>
  The loop of \<open>ListenProc\<close>: each pass has the state of the stop event and the answer of \<open>accept\<close>. The
  thread ends by giving back its reference to the service.
\<close>

fun ListenProc :: "(nat \<Rightarrow> 'w \<Rightarrow> (bool \<times> 'w) option) \<Rightarrow> (bool \<times> nat option) list \<Rightarrow> tcpservice \<Rightarrow>
    'w \<Rightarrow> (bool \<times> tcpservice \<times> 'w) option" where
  "ListenProc f [] svc w = Some (True, svc, w)"
| "ListenProc f ((stop, acc) # rest) svc w =
     (let svc = svc\<lparr>svc_hStopEvent := stop\<rparr> in
      case ListenProcess f acc svc w of
        None \<Rightarrow> None
      | Some (True, closed, w) \<Rightarrow> ListenProc f rest svc w
      | Some (False, closed, w) \<Rightarrow> Some (False, fst (CBaseObject_Release svc), w))"

section \<open>Lemmas\<close>

lemma localhost_terminated [simp]: "nul_terminated localhost" "length (cstr localhost) = 9"
  by (simp_all add: localhost_def cstr_def)

lemma CTCPServer_defined:
  "length rawsrc = 128 \<Longrightarrow> \<exists>src. CTCPServer rawdst rawsrc s p = Some (CTCPBase (Some s) rawdst 0 src p)
     \<and> length src = 128"
  by (auto simp: CTCPServer_def strcpy_def)

lemma InitBase_simps [simp]:
  "m_lRef (InitBase tcp) = m_lRef tcp + 2"
  "m_szDstAddress (InitBase tcp) = m_szDstAddress tcp"
  "m_SendList (InitBase tcp) = m_SendList tcp"
  "m_hRecvThread (InitBase tcp)" "m_hSendThread (InitBase tcp)"
  "m_hDataStreamBuffer (InitBase tcp) = m_hDataStreamBuffer tcp"
  "m_pfnRecvFunc (InitBase tcp) = m_pfnRecvFunc tcp" "m_pRecvParam (InitBase tcp) = m_pRecvParam tcp"
  "m_pfnEndFunc (InitBase tcp) = m_pfnEndFunc tcp" "m_pEndParam (InitBase tcp) = m_pEndParam tcp"
  "m_hSendEvent (InitBase tcp) = m_hSendEvent tcp" "m_hStopEvent (InitBase tcp) = m_hStopEvent tcp"
  by (simp_all add: InitBase_def Let_def CBaseObject_AddRef_def)

end
