(* ===== verification/P2PConnection.thy ===== *)
theory P2PConnection
  imports TCPServer
begin

text \<open>
  \<^verbatim>\<open>src/clovertun/P2PConnection.cpp\<close>: one session on the rendezvous server. It holds
  counted references to the connection of the host (\<open>Main\<close>) and, once one has joined, of the
  guest (\<open>Conn\<close>), and drives the two through the handshake. A method takes the session and the
  heap of \<open>CTCPServer\<close> objects and returns both; its critical section makes it one step.
\<close>

type_synonym tcpheap = "addr \<Rightarrow> tcpbase option"

section \<open>State\<close>

record p2pconn = CBaseObject +
  m_szKeyword :: "BYTE list"
  m_pMainTCPServer :: ptr
  m_dwMainTCPID :: DWORD
  m_szMainTCPName :: "BYTE list"
  m_bMainUDPOK :: bool
  m_pConnTCPServer :: ptr
  m_dwConnTCPID :: DWORD
  m_szConnTCPName :: "BYTE list"
  m_bConnUDPOK :: bool
  m_stMainUDPServer :: CLIENT_INFO
  m_stConnUDPServer :: CLIENT_INFO
  m_eStatus :: P2P_STATUS

section \<open>Calls through a pointer\<close>

definition deref :: "ptr \<Rightarrow> (addr \<Rightarrow> 'o option) \<Rightarrow> 'o option" where
  "deref p h = Option.bind p h"

definition SendPacket_to :: "ptr \<Rightarrow> BYTE list \<Rightarrow> tcpheap \<Rightarrow> tcpheap option" where
  "SendPacket_to p Packet h = do {
     a \<leftarrow> p;
     tcp \<leftarrow> h a;
     Some (h(a \<mapsto> SendPacket Packet tcp))
   }"

definition Done_to :: "ptr \<Rightarrow> tcpheap \<Rightarrow> tcpheap option" where
  "Done_to p h = do {
     a \<leftarrow> p;
     tcp \<leftarrow> h a;
     Some (h(a \<mapsto> CTCPServer_Done tcp))
   }"

text \<open>\<open>printf ("%s", s)\<close> of a character array: it must hold a NUL.\<close>

definition print_str :: "BYTE list \<Rightarrow> unit option" where
  "print_str s = (if nul_terminated s then Some () else None)"

section \<open>Methods\<close>

text \<open>
  \<open>DumpP2PConnection\<close> only prints, but it follows both pointers. It prints the host's name in
  the guest's block too.
\<close>

definition DumpP2PConnection :: "p2pconn \<Rightarrow> tcpheap \<Rightarrow> unit option" where
  "DumpP2PConnection c h = do {
     print_str (m_szKeyword c);
     print_str (m_szMainTCPName c);
     main \<leftarrow> deref (m_pMainTCPServer c) h;
     GetDstPeer 512 main;
     if m_eStatus c \<ge> P2P_TCP_CONNECTED then do {
       print_str (m_szMainTCPName c);
       conn \<leftarrow> deref (m_pConnTCPServer c) h;
       GetDstPeer 512 conn;
       Some ()
     } else Some ()
   }"

text \<open>
  \<open>PacketData\<close> is the memory at the pointer argument, a \<open>TCP_WAIT_PACKET\<close>: \<open>tcpid\<close> at 0,
  \<open>keyword\<close> at 4, \<open>clientName\<close> at 36. A field is read where the code reads it.
\<close>

definition CP2PConnection :: "BYTE list \<Rightarrow> ptr \<Rightarrow> tcpheap \<Rightarrow> (p2pconn \<times> tcpheap) option"
  where
  "CP2PConnection PacketData Server h = do {
     keyword \<leftarrow> rd_bytes 4 KEYWORD_SIZE PacketData;
     clientName \<leftarrow> rd_bytes 36 NAME_SIZE PacketData;
     h \<leftarrow> AddRef_ptr Server h;
     tcpid \<leftarrow> rd_dword 0 PacketData;
     let c = \<lparr>m_lRef = 1,
       m_szKeyword = keyword,
       m_pMainTCPServer = Server,
       m_dwMainTCPID = tcpid,
       m_szMainTCPName = clientName,
       m_bMainUDPOK = False,
       m_pConnTCPServer = None,
       m_dwConnTCPID = 0,
       m_szConnTCPName = replicate NAME_SIZE 0,
       m_bConnUDPOK = False,
       m_stMainUDPServer = zero_CLIENT_INFO,
       m_stConnUDPServer = zero_CLIENT_INFO,
       m_eStatus = P2P_TCP_LISTENING\<rparr>;
     DumpP2PConnection c h;
     Some (c, h)
   }"

definition CP2PConnection_destroy :: "p2pconn \<Rightarrow> tcpheap \<Rightarrow> tcpheap option" where
  "CP2PConnection_destroy c h = do {
     h \<leftarrow> Release_ptr (m_pMainTCPServer c) h;
     Release_ptr (m_pConnTCPServer c) h
   }"

definition GetKeyword :: "p2pconn \<Rightarrow> BYTE list" where
  "GetKeyword c = m_szKeyword c"

definition GetStatus :: "p2pconn \<Rightarrow> P2P_STATUS" where
  "GetStatus c = m_eStatus c"

definition IsMainTCPServer :: "ptr \<Rightarrow> p2pconn \<Rightarrow> bool" where
  "IsMainTCPServer tcp c \<longleftrightarrow> tcp = m_pMainTCPServer c"

definition IsConnTCPServer :: "ptr \<Rightarrow> p2pconn \<Rightarrow> bool" where
  "IsConnTCPServer tcp c \<longleftrightarrow> tcp = m_pConnTCPServer c"

definition TCPConnected :: "BYTE list \<Rightarrow> ptr \<Rightarrow> p2pconn \<Rightarrow> tcpheap \<Rightarrow>
    (P2P_ERROR \<times> p2pconn \<times> tcpheap) option" where
  "TCPConnected PacketData Server c h =
     (if m_eStatus c \<noteq> P2P_TCP_LISTENING then Some (P2P_STATE_MISMATCH, c, h)
      else do {
        h \<leftarrow> Release_ptr (m_pConnTCPServer c) h;
        let c = c\<lparr>m_pConnTCPServer := Server\<rparr>;
        h \<leftarrow> AddRef_ptr Server h;
        clientName \<leftarrow> rd_bytes 36 NAME_SIZE PacketData;
        tcpid \<leftarrow> rd_dword 0 PacketData;
        let c = c\<lparr>m_szConnTCPName := clientName, m_dwConnTCPID := tcpid,
                  m_stMainUDPServer := zero_CLIENT_INFO,
                  m_stConnUDPServer := zero_CLIENT_INFO,
                  m_eStatus := P2P_TCP_CONNECTED\<rparr>;
        DumpP2PConnection c h;
        h \<leftarrow> SendPacket_to (m_pConnTCPServer c)
               (CreateTCPResultPkt TPT_CONNECT_RESULT (m_dwConnTCPID c) 0) h;
        Packet \<leftarrow> CreateTCPStartUDPPkt (m_dwMainTCPID c) (m_szKeyword c);
        h \<leftarrow> SendPacket_to (m_pMainTCPServer c) Packet h;
        Some (P2P_ERROR_NONE, c, h)
      })"

definition UDPListening :: "CLIENT_INFO \<Rightarrow> p2pconn \<Rightarrow> tcpheap \<Rightarrow>
    (P2P_ERROR \<times> p2pconn \<times> tcpheap) option" where
  "UDPListening ClientInfo c h =
     (if m_eStatus c \<noteq> P2P_TCP_CONNECTED then Some (P2P_STATE_MISMATCH, c, h)
      else do {
        let c = c\<lparr>m_stMainUDPServer := ClientInfo, m_eStatus := P2P_UDP_LISTENING\<rparr>;
        DumpP2PConnection c h;
        Packet \<leftarrow> CreateTCPStartUDPPkt (m_dwConnTCPID c) (m_szKeyword c);
        h \<leftarrow> SendPacket_to (m_pConnTCPServer c) Packet h;
        Some (P2P_ERROR_NONE, c, h)
      })"

definition UDPConnected :: "CLIENT_INFO \<Rightarrow> p2pconn \<Rightarrow> tcpheap \<Rightarrow>
    (P2P_ERROR \<times> p2pconn \<times> tcpheap) option" where
  "UDPConnected ClientInfo c h =
     (if m_eStatus c \<noteq> P2P_UDP_LISTENING then Some (P2P_STATE_MISMATCH, c, h)
      else do {
        let c = c\<lparr>m_stConnUDPServer := ClientInfo, m_eStatus := P2P_UDP_CONNECTED\<rparr>;
        DumpP2PConnection c h;
        h \<leftarrow> SendPacket_to (m_pMainTCPServer c)
               (CreateTCPStartPunchingPkt (m_dwMainTCPID c) (m_dwMainTCPID c)
                  (m_stConnUDPServer c)) h;
        h \<leftarrow> SendPacket_to (m_pConnTCPServer c)
               (CreateTCPStartPunchingPkt (m_dwConnTCPID c) (m_dwMainTCPID c)
                  (m_stMainUDPServer c)) h;
        Some (P2P_ERROR_NONE, c\<lparr>m_eStatus := P2P_PUNCHING\<rparr>, h)
      })"

definition SetP2POK :: "ptr \<Rightarrow> p2pconn \<Rightarrow> tcpheap \<Rightarrow> (P2P_ERROR \<times> p2pconn \<times> tcpheap) option"
  where
  "SetP2POK Server c h =
     (if m_eStatus c \<noteq> P2P_PUNCHING then Some (P2P_STATE_MISMATCH, c, h)
      else do {
        let c = (if m_pMainTCPServer c = Server then c\<lparr>m_bMainUDPOK := True\<rparr> else c);
        let c = (if m_pConnTCPServer c = Server then c\<lparr>m_bConnUDPOK := True\<rparr> else c);
        let c = (if m_bMainUDPOK c \<and> m_bConnUDPOK c then c\<lparr>m_eStatus := P2P_CONNECTED\<rparr> else c);
        DumpP2PConnection c h;
        if m_bMainUDPOK c \<and> m_bConnUDPOK c then do {
          Packet \<leftarrow> CreateP2PSuccessPkt (m_dwMainTCPID c) (m_szKeyword c);
          h \<leftarrow> SendPacket_to (m_pMainTCPServer c) Packet h;
          Packet \<leftarrow> CreateP2PSuccessPkt (m_dwConnTCPID c) (m_szKeyword c);
          h \<leftarrow> SendPacket_to (m_pConnTCPServer c) Packet h;
          Some (P2P_ERROR_NONE, c, h)
        } else Some (P2P_ERROR_NONE, c, h)
      })"

definition ConnTCPDisconnect :: "p2pconn \<Rightarrow> tcpheap \<Rightarrow> (p2pconn \<times> tcpheap) option" where
  "ConnTCPDisconnect c h = do {
     h \<leftarrow> Release_ptr (m_pConnTCPServer c) h;
     let c = c\<lparr>m_pConnTCPServer := None, m_dwConnTCPID := 0,
               m_szConnTCPName := replicate NAME_SIZE 0,
               m_stMainUDPServer := zero_CLIENT_INFO, m_stConnUDPServer := zero_CLIENT_INFO,
               m_eStatus := P2P_TCP_LISTENING\<rparr>;
     DumpP2PConnection c h;
     h \<leftarrow> SendPacket_to (m_pMainTCPServer c) (CreateTCPResultPkt TPT_RESET (m_dwMainTCPID c) 0) h;
     Some (c, h)
   }"

definition MainTCPDisconnect :: "p2pconn \<Rightarrow> tcpheap \<Rightarrow> (p2pconn \<times> tcpheap) option" where
  "MainTCPDisconnect c h = do {
     h \<leftarrow> Release_ptr (m_pMainTCPServer c) h;
     let c = c\<lparr>m_pMainTCPServer := None, m_dwMainTCPID := 0,
               m_szMainTCPName := replicate NAME_SIZE 0\<rparr>;
     h \<leftarrow> (case m_pConnTCPServer c of
         None \<Rightarrow> Some h
       | Some p \<Rightarrow> do { h \<leftarrow> Done_to (Some p) h; Release p h });
     let c = c\<lparr>m_pConnTCPServer := None, m_dwConnTCPID := 0,
               m_szConnTCPName := replicate NAME_SIZE 0,
               m_stMainUDPServer := zero_CLIENT_INFO, m_stConnUDPServer := zero_CLIENT_INFO\<rparr>;
     Some (c, h)
   }"

definition TCPProxyRequest :: "p2pconn \<Rightarrow> tcpheap \<Rightarrow> (P2P_ERROR \<times> p2pconn \<times> tcpheap) option"
  where
  "TCPProxyRequest c h =
     (if m_pConnTCPServer c = None then Some (P2P_PROXY_FAIL, c, h)
      else do {
        h \<leftarrow> SendPacket_to (m_pMainTCPServer c)
               (CreateTCPProxyResultPkt (m_dwMainTCPID c) (m_dwMainTCPID c)
                  (err_num P2P_ERROR_NONE)) h;
        h \<leftarrow> SendPacket_to (m_pConnTCPServer c)
               (CreateTCPProxyResultPkt (m_dwConnTCPID c) (m_dwMainTCPID c)
                  (err_num P2P_ERROR_NONE)) h;
        Some (P2P_ERROR_NONE, c, h)
      })"

text \<open>\<open>Data\<close> is the memory the pointer argument refers to. The reference that is released at
  the end was never taken.\<close>

definition TCPDataProxy :: "BYTE list \<Rightarrow> DWORD \<Rightarrow> p2pconn \<Rightarrow> tcpheap \<Rightarrow>
    (P2P_ERROR \<times> p2pconn \<times> tcpheap) option" where
  "TCPDataProxy Data Length c h = do {
     Packet \<leftarrow> CreateTCPProxyData_relay Data Length;
     Host2Guest \<leftarrow> rd_dword 4 Data;
     let Server = (if Host2Guest \<noteq> 0 then m_pConnTCPServer c else m_pMainTCPServer c);
     case Server of
       None \<Rightarrow> Some (P2P_ERROR_NONE, c, h)
     | Some p \<Rightarrow> do {
         h \<leftarrow> SendPacket_to Server Packet h;
         h \<leftarrow> Release p h;
         Some (P2P_ERROR_NONE, c, h)
       }
   }"

section \<open>What the methods rely on\<close>

text \<open>
  A connection that is in use: its peer address is a string, and while its receiving thread runs
  (the address is in \<open>R\<close>) it is registered with the server.
\<close>

definition registered :: "tcpbase \<Rightarrow> bool" where
  "registered tcp \<longleftrightarrow> m_pfnRecvFunc tcp = Some ServerDelegate \<and> m_pRecvParam tcp = Some 0
     \<and> m_pfnEndFunc tcp = Some ServerDelegate \<and> m_pEndParam tcp = Some 0"

definition tcp_good :: "addr set \<Rightarrow> addr \<Rightarrow> tcpbase \<Rightarrow> bool" where
  "tcp_good R a tcp \<longleftrightarrow> nul_terminated (m_szDstAddress tcp) \<and> (a \<in> R \<longrightarrow> registered tcp)"

interpretation tcp_heap: counted_heap "tcp_good R" for R
  by unfold_locales (simp add: tcp_good_def registered_def)

text \<open>The packets queued on the connection at an address.\<close>

definition outbox :: "tcpheap \<Rightarrow> addr \<Rightarrow> BYTE list list" where
  "outbox h a = (case h a of None \<Rightarrow> [] | Some tcp \<Rightarrow> m_SendList tcp)"

text \<open>How many references a session holds on a connection.\<close>

definition role_refs :: "p2pconn \<Rightarrow> addr \<Rightarrow> nat" where
  "role_refs c a = of_bool (m_pMainTCPServer c = Some a) + of_bool (m_pConnTCPServer c = Some a)"

text \<open>The session invariant: which states occur between two methods, and which pointers are
  set in them.\<close>

definition conn_wf :: "p2pconn \<Rightarrow> bool" where
  "conn_wf c \<longleftrightarrow>
     nul_terminated (m_szKeyword c) \<and> length (m_szKeyword c) = 32
   \<and> nul_terminated (m_szMainTCPName c) \<and> m_pMainTCPServer c \<noteq> None
   \<and> (m_pConnTCPServer c = None \<longleftrightarrow> m_eStatus c = P2P_TCP_LISTENING)
   \<and> m_eStatus c \<in> {P2P_TCP_LISTENING, P2P_TCP_CONNECTED, P2P_UDP_LISTENING, P2P_PUNCHING,
                    P2P_CONNECTED}"

lemma status_ge_connected:
  "P2P_TCP_CONNECTED \<le> st \<longleftrightarrow> st \<noteq> P2P_STATUS_NONE \<and> st \<noteq> P2P_TCP_LISTENING"
  by (cases st) (simp_all add: less_eq_P2P_STATUS_def word_le_nat_alt)

lemma strncpy_512_defined: "nul_terminated s \<Longrightarrow> \<exists>t. strncpy 512 s = Some t"
  by (rule strncpy_defined) simp

lemma GetDstPeer_ok: "tcp_good R a tcp \<Longrightarrow> \<exists>r. GetDstPeer 512 tcp = Some r"
  using strncpy_512_defined[of "m_szDstAddress tcp"] by (auto simp: GetDstPeer_def tcp_good_def)

lemma DumpP2PConnection_ok:
  assumes "heap_ok (tcp_good R) n h" and "nul_terminated (m_szKeyword c)"
    and "nul_terminated (m_szMainTCPName c)" and "m_pMainTCPServer c = Some a" and "0 < n a"
    and "P2P_TCP_CONNECTED \<le> m_eStatus c \<Longrightarrow> \<exists>b. m_pConnTCPServer c = Some b \<and> 0 < n b"
  shows "DumpP2PConnection c h = Some ()"
proof -
  obtain main where main: "h a = Some main" "tcp_good R a main"
    using heap_okD[OF assms(1,5)] by metis
  then obtain r where r: "GetDstPeer 512 main = Some r" using GetDstPeer_ok by blast
  show ?thesis
  proof (cases "P2P_TCP_CONNECTED \<le> m_eStatus c")
    case False
    then show ?thesis
      using assms main r by (simp add: DumpP2PConnection_def print_str_def deref_def)
  next
    case True
    then obtain b conn where b: "m_pConnTCPServer c = Some b" "h b = Some conn" "tcp_good R b conn"
      using assms(6) heap_okD[OF assms(1)] by metis
    then obtain r' where "GetDstPeer 512 conn = Some r'" using GetDstPeer_ok by blast
    then show ?thesis
      using assms main r b by (simp add: DumpP2PConnection_def print_str_def deref_def)
  qed
qed

lemma SendPacket_to_ok:
  assumes "heap_ok (tcp_good R) n h" and "0 < n a"
  obtains h' where "SendPacket_to (Some a) p h = Some h'" and "heap_ok (tcp_good R) n h'"
    and "outbox h' = (outbox h)(a := outbox h a @ [p])"
proof -
  obtain tcp where tcp: "h a = Some tcp" "m_lRef tcp = of_nat (n a)" "tcp_good R a tcp"
    using heap_okD[OF assms] .
  let ?h = "h(a \<mapsto> SendPacket p tcp)"
  have "heap_ok (tcp_good R) n ?h"
    using assms tcp by (intro heap_ok_write) (simp_all add: SendPacket_def tcp_good_def registered_def)
  moreover have "outbox ?h = (outbox h)(a := outbox h a @ [p])"
    using tcp by (auto simp: outbox_def SendPacket_def fun_eq_iff)
  ultimately show thesis using that[of ?h] tcp(1) by (simp add: SendPacket_to_def)
qed

lemma CreateTCPStartUDPPkt_ok: "32 \<le> length kw \<Longrightarrow> \<exists>p. CreateTCPStartUDPPkt i kw = Some p"
  by (auto simp: CreateTCPStartUDPPkt_def rd_bytes_def KEYWORD_SIZE_def)

lemma CreateP2PSuccessPkt_ok:
  "length kw = 32 \<Longrightarrow> \<exists>p. CreateP2PSuccessPkt i kw = Some p"
  unfolding CreateP2PSuccessPkt_def
  by (rule CreateTCPWaitAndConnPkt_defined) (simp_all add: NAME_SIZE_def)

lemma AddRef_outbox: "outbox h' = outbox h" if add: "AddRef a h = Some h'"
proof (cases "h a")
  case None
  then show ?thesis using add by (simp add: AddRef_def)
next
  case (Some ob)
  with add have "h' = h(a \<mapsto> ob\<lparr>m_lRef := m_lRef ob + 1\<rparr>)" by (simp add: AddRef_live)
  then show ?thesis using Some by (auto simp: outbox_def)
qed

lemma Release_outbox:
  "Release a h = Some h' \<Longrightarrow> h' b \<noteq> None \<Longrightarrow> outbox h' b = outbox h b"
  by (auto simp: Release_def CBaseObject_Release_def Let_def outbox_def split: option.splits if_splits)

section \<open>The methods on a well-formed session\<close>

text \<open>
  Each method, in the state it is meant for: it is defined, the session stays well-formed, the
  owners are counted right, and these packets are queued.
\<close>

lemma TCPConnected_mismatch:
  "m_eStatus c \<noteq> P2P_TCP_LISTENING \<Longrightarrow> TCPConnected d p c h = Some (P2P_STATE_MISMATCH, c, h)"
  by (simp add: TCPConnected_def)

lemma TCPConnected_spec:
  assumes h: "heap_ok (tcp_good R) n h" and wf: "conn_wf c" and main: "m_pMainTCPServer c = Some a"
    and a: "0 < n a" and b: "0 < n b" "Suc (n b) < 4294967296" and d: "164 \<le> length d"
    and st: "m_eStatus c = P2P_TCP_LISTENING"
  obtains c' h' name i pk where "TCPConnected d (Some b) c h = Some (P2P_ERROR_NONE, c', h')"
    and "rd_bytes 36 128 d = Some name" and "rd_dword 0 d = Some i"
    and "c' = c\<lparr>m_pConnTCPServer := Some b, m_szConnTCPName := name, m_dwConnTCPID := i,
               m_stMainUDPServer := zero_CLIENT_INFO, m_stConnUDPServer := zero_CLIENT_INFO,
               m_eStatus := P2P_TCP_CONNECTED\<rparr>"
    and "conn_wf c'" and "heap_ok (tcp_good R) (n(b := Suc (n b))) h'"
    and "CreateTCPStartUDPPkt (m_dwMainTCPID c) (m_szKeyword c) = Some pk"
    and "outbox h' = (let o1 = (outbox h)(b := outbox h b @
             [CreateTCPResultPkt TPT_CONNECT_RESULT i 0]) in o1(a := o1 a @ [pk]))"
proof -
  obtain name where name: "rd_bytes 36 128 d = Some name"
    using d by (auto simp: rd_bytes_def)
  obtain i where i: "rd_dword 0 d = Some i" using d by (cases "rd_dword 0 d") auto
  obtain pk where pk: "CreateTCPStartUDPPkt (m_dwMainTCPID c) (m_szKeyword c) = Some pk"
    using CreateTCPStartUDPPkt_ok wf by (fastforce simp: conn_wf_def)
  let ?c = "c\<lparr>m_pConnTCPServer := Some b, m_szConnTCPName := name, m_dwConnTCPID := i,
             m_stMainUDPServer := zero_CLIENT_INFO, m_stConnUDPServer := zero_CLIENT_INFO,
             m_eStatus := P2P_TCP_CONNECTED\<rparr>"
  let ?n = "n(b := Suc (n b))"
  have none: "m_pConnTCPServer c = None" using wf st by (simp add: conn_wf_def)
  obtain h1 where h1: "AddRef b h = Some h1" "heap_ok (tcp_good R) ?n h1"
    using tcp_heap.AddRef_ok[OF h b] .
  have dump: "DumpP2PConnection ?c h1 = Some ()"
    using wf a by (intro DumpP2PConnection_ok[OF h1(2), of _ a])
      (auto simp: conn_wf_def main)
  obtain h2 where h2: "SendPacket_to (Some b) (CreateTCPResultPkt TPT_CONNECT_RESULT i 0) h1
        = Some h2" "heap_ok (tcp_good R) ?n h2"
      "outbox h2 = (outbox h1)(b := outbox h1 b @ [CreateTCPResultPkt TPT_CONNECT_RESULT i 0])"
    using SendPacket_to_ok[OF h1(2)] by (metis fun_upd_same zero_less_Suc)
  have "0 < ?n a" using a by simp
  then obtain h3 where h3: "SendPacket_to (Some a) pk h2 = Some h3" "heap_ok (tcp_good R) ?n h3"
      "outbox h3 = (outbox h2)(a := outbox h2 a @ [pk])"
    using SendPacket_to_ok[OF h2(2)] by metis
  show thesis
  proof (rule that[of ?c h3 name i pk])
    show "TCPConnected d (Some b) c h = Some (P2P_ERROR_NONE, ?c, h3)"
      using st none main h1 h2 h3 dump name i pk
      by (simp add: TCPConnected_def Release_ptr_def AddRef_ptr_def NAME_SIZE_def)
    show "conn_wf ?c" using wf by (simp add: conn_wf_def)
    show "outbox h3 = (let o1 = (outbox h)(b := outbox h b @
             [CreateTCPResultPkt TPT_CONNECT_RESULT i 0]) in o1(a := o1 a @ [pk]))"
      using h2(3) h3(3) AddRef_outbox[OF h1(1)] by (simp add: Let_def)
  qed (use name i pk h3 in simp_all)
qed


lemma SendPacket_to_ok2:
  assumes "heap_ok (tcp_good R) n h" and "0 < n a" and "0 < n b"
  obtains h1 h2 where "SendPacket_to (Some a) p h = Some h1"
    and "SendPacket_to (Some b) q h1 = Some h2" and "heap_ok (tcp_good R) n h2"
    and "outbox h2 = (let o1 = (outbox h)(a := outbox h a @ [p]) in o1(b := o1 b @ [q]))"
proof -
  obtain h1 where h1: "SendPacket_to (Some a) p h = Some h1" "heap_ok (tcp_good R) n h1"
      "outbox h1 = (outbox h)(a := outbox h a @ [p])"
    using SendPacket_to_ok[OF assms(1,2)] by metis
  obtain h2 where "SendPacket_to (Some b) q h1 = Some h2" "heap_ok (tcp_good R) n h2"
      "outbox h2 = (outbox h1)(b := outbox h1 b @ [q])"
    using SendPacket_to_ok[OF h1(2) assms(3)] by metis
  then show thesis using that h1 by (simp add: Let_def)
qed

lemma Dump_wf:
  assumes "heap_ok (tcp_good R) n h" and "nul_terminated (m_szKeyword c)"
    and "nul_terminated (m_szMainTCPName c)" and "m_pMainTCPServer c = Some a" and "0 < n a"
    and "m_pConnTCPServer c = Some b" and "0 < n b"
  shows "DumpP2PConnection c h = Some ()"
  using assms by (intro DumpP2PConnection_ok[OF assms(1), of _ a]) auto

lemma UDPListening_spec:
  assumes h: "heap_ok (tcp_good R) n h" and wf: "conn_wf c"
    and main: "m_pMainTCPServer c = Some a" "0 < n a"
    and conn: "m_pConnTCPServer c = Some b" "0 < n b" and st: "m_eStatus c = P2P_TCP_CONNECTED"
  obtains c' h' pk where "UDPListening ci c h = Some (P2P_ERROR_NONE, c', h')"
    and "c' = c\<lparr>m_stMainUDPServer := ci, m_eStatus := P2P_UDP_LISTENING\<rparr>"
    and "conn_wf c'" and "heap_ok (tcp_good R) n h'"
    and "CreateTCPStartUDPPkt (m_dwConnTCPID c) (m_szKeyword c) = Some pk"
    and "outbox h' = (outbox h)(b := outbox h b @ [pk])"
proof -
  let ?c = "c\<lparr>m_stMainUDPServer := ci, m_eStatus := P2P_UDP_LISTENING\<rparr>"
  obtain pk where pk: "CreateTCPStartUDPPkt (m_dwConnTCPID c) (m_szKeyword c) = Some pk"
    using CreateTCPStartUDPPkt_ok wf by (fastforce simp: conn_wf_def)
  have dump: "DumpP2PConnection ?c h = Some ()"
    using wf main conn by (intro Dump_wf[OF h, of _ a b]) (simp_all add: conn_wf_def)
  obtain h' where h': "SendPacket_to (Some b) pk h = Some h'" "heap_ok (tcp_good R) n h'"
      "outbox h' = (outbox h)(b := outbox h b @ [pk])"
    using SendPacket_to_ok[OF h conn(2)] by metis
  show thesis
  proof (rule that[of ?c h' pk])
    show "UDPListening ci c h = Some (P2P_ERROR_NONE, ?c, h')"
      using st main conn h' dump pk by (simp add: UDPListening_def)
    show "conn_wf ?c" using wf st by (simp add: conn_wf_def)
  qed (use pk h' in simp_all)
qed

lemma UDPConnected_spec:
  assumes h: "heap_ok (tcp_good R) n h" and wf: "conn_wf c"
    and main: "m_pMainTCPServer c = Some a" "0 < n a"
    and conn: "m_pConnTCPServer c = Some b" "0 < n b" and st: "m_eStatus c = P2P_UDP_LISTENING"
  obtains c' h' where "UDPConnected ci c h = Some (P2P_ERROR_NONE, c', h')"
    and "c' = c\<lparr>m_stConnUDPServer := ci, m_eStatus := P2P_PUNCHING\<rparr>"
    and "conn_wf c'" and "heap_ok (tcp_good R) n h'"
    and "outbox h' = (let o1 = (outbox h)(a := outbox h a @
             [CreateTCPStartPunchingPkt (m_dwMainTCPID c) (m_dwMainTCPID c) ci]) in
           o1(b := o1 b @ [CreateTCPStartPunchingPkt (m_dwConnTCPID c) (m_dwMainTCPID c)
                             (m_stMainUDPServer c)]))"
proof -
  let ?c = "c\<lparr>m_stConnUDPServer := ci, m_eStatus := P2P_UDP_CONNECTED\<rparr>"
  let ?c' = "c\<lparr>m_stConnUDPServer := ci, m_eStatus := P2P_PUNCHING\<rparr>"
  let ?p = "CreateTCPStartPunchingPkt (m_dwMainTCPID c) (m_dwMainTCPID c) ci"
  let ?q = "CreateTCPStartPunchingPkt (m_dwConnTCPID c) (m_dwMainTCPID c) (m_stMainUDPServer c)"
  have dump: "DumpP2PConnection ?c h = Some ()"
    using wf main conn by (intro Dump_wf[OF h, of _ a b]) (simp_all add: conn_wf_def)
  obtain h1 h2 where h': "SendPacket_to (Some a) ?p h = Some h1"
      "SendPacket_to (Some b) ?q h1 = Some h2" "heap_ok (tcp_good R) n h2"
      "outbox h2 = (let o1 = (outbox h)(a := outbox h a @ [?p]) in o1(b := o1 b @ [?q]))"
    using SendPacket_to_ok2[OF h main(2) conn(2)] .
  show thesis
  proof (rule that[of ?c' h2])
    show "UDPConnected ci c h = Some (P2P_ERROR_NONE, ?c', h2)"
      using st main conn h'(1,2) dump by (simp add: UDPConnected_def)
    show "conn_wf ?c'" using wf st by (simp add: conn_wf_def)
  qed (use h' in simp_all)
qed

text \<open>\<open>SetP2POK\<close>: the report of one side is noted; the second report completes the session and
  tells both sides.\<close>

abbreviation (input) note_ok :: "ptr \<Rightarrow> p2pconn \<Rightarrow> p2pconn" where
  "note_ok Server c \<equiv> c\<lparr>
     m_bMainUDPOK := (m_bMainUDPOK c \<or> m_pMainTCPServer c = Server),
     m_bConnUDPOK := (m_bConnUDPOK c \<or> m_pConnTCPServer c = Server)\<rparr>"

lemma SetP2POK_flags:
  "(if m_pConnTCPServer (if m_pMainTCPServer c = Server then c\<lparr>m_bMainUDPOK := True\<rparr> else c) = Server
    then (if m_pMainTCPServer c = Server then c\<lparr>m_bMainUDPOK := True\<rparr> else c)\<lparr>m_bConnUDPOK := True\<rparr>
    else (if m_pMainTCPServer c = Server then c\<lparr>m_bMainUDPOK := True\<rparr> else c)) = note_ok Server c"
  by (cases c) simp

lemma SetP2POK_waits:
  assumes h: "heap_ok (tcp_good R) n h" and wf: "conn_wf c"
    and main: "m_pMainTCPServer c = Some a" "0 < n a"
    and conn: "m_pConnTCPServer c = Some b" "0 < n b" and st: "m_eStatus c = P2P_PUNCHING"
    and one: "\<not> (m_bMainUDPOK (note_ok Server c) \<and> m_bConnUDPOK (note_ok Server c))"
  shows "SetP2POK Server c h = Some (P2P_ERROR_NONE, note_ok Server c, h)"
proof -
  have dump: "DumpP2PConnection (note_ok Server c) h = Some ()"
    using wf main conn by (intro Dump_wf[OF h, of _ a b]) (simp_all add: conn_wf_def)
  show ?thesis
    using one dump st unfolding SetP2POK_def Let_def SetP2POK_flags by auto
qed

lemma SetP2POK_completes:
  assumes h: "heap_ok (tcp_good R) n h" and wf: "conn_wf c"
    and main: "m_pMainTCPServer c = Some a" "0 < n a"
    and conn: "m_pConnTCPServer c = Some b" "0 < n b" and st: "m_eStatus c = P2P_PUNCHING"
    and both: "m_bMainUDPOK (note_ok Server c)" "m_bConnUDPOK (note_ok Server c)"
  obtains c' h' p q where "SetP2POK Server c h = Some (P2P_ERROR_NONE, c', h')"
    and "c' = (note_ok Server c)\<lparr>m_eStatus := P2P_CONNECTED\<rparr>"
    and "conn_wf c'" and "heap_ok (tcp_good R) n h'"
    and "CreateP2PSuccessPkt (m_dwMainTCPID c) (m_szKeyword c) = Some p"
    and "CreateP2PSuccessPkt (m_dwConnTCPID c) (m_szKeyword c) = Some q"
    and "outbox h' = (let o1 = (outbox h)(a := outbox h a @ [p]) in o1(b := o1 b @ [q]))"
proof -
  let ?c = "(note_ok Server c)\<lparr>m_eStatus := P2P_CONNECTED\<rparr>"
  obtain p where p: "CreateP2PSuccessPkt (m_dwMainTCPID c) (m_szKeyword c) = Some p"
    using CreateP2PSuccessPkt_ok wf by (fastforce simp: conn_wf_def)
  obtain q where q: "CreateP2PSuccessPkt (m_dwConnTCPID c) (m_szKeyword c) = Some q"
    using CreateP2PSuccessPkt_ok wf by (fastforce simp: conn_wf_def)
  have dump: "DumpP2PConnection ?c h = Some ()"
    using wf main conn by (intro Dump_wf[OF h, of _ a b]) (simp_all add: conn_wf_def)
  obtain h1 h2 where h': "SendPacket_to (Some a) p h = Some h1"
      "SendPacket_to (Some b) q h1 = Some h2" "heap_ok (tcp_good R) n h2"
      "outbox h2 = (let o1 = (outbox h)(a := outbox h a @ [p]) in o1(b := o1 b @ [q]))"
    using SendPacket_to_ok2[OF h main(2) conn(2)] .
  show thesis
  proof (rule that[of ?c h2 p q])
    show "SetP2POK Server c h = Some (P2P_ERROR_NONE, ?c, h2)"
      using both dump st main conn h'(1,2) p q
      unfolding SetP2POK_def Let_def SetP2POK_flags by auto
    show "conn_wf ?c" using wf st by (simp add: conn_wf_def)
  qed (use h' p q in simp_all)
qed

text \<open>The guest leaves: its reference is returned and the host is told to reset. The two success
  flags stay as they are.\<close>

lemma ConnTCPDisconnect_spec:
  assumes h: "heap_ok (tcp_good R) n h" and wf: "conn_wf c"
    and main: "m_pMainTCPServer c = Some a" "0 < n a"
    and conn: "m_pConnTCPServer c = Some b" "role_refs c b \<le> n b"
  obtains c' h' where "ConnTCPDisconnect c h = Some (c', h')"
    and "c' = c\<lparr>m_pConnTCPServer := None, m_dwConnTCPID := 0,
               m_szConnTCPName := replicate NAME_SIZE 0,
               m_stMainUDPServer := zero_CLIENT_INFO, m_stConnUDPServer := zero_CLIENT_INFO,
               m_eStatus := P2P_TCP_LISTENING\<rparr>"
    and "conn_wf c'" and "heap_ok (tcp_good R) (n(b := n b - 1)) h'"
    and "outbox h' a = outbox h a @ [CreateTCPResultPkt TPT_RESET (m_dwMainTCPID c) 0]"
proof -
  let ?c = "c\<lparr>m_pConnTCPServer := None, m_dwConnTCPID := 0,
               m_szConnTCPName := replicate NAME_SIZE 0,
               m_stMainUDPServer := zero_CLIENT_INFO, m_stConnUDPServer := zero_CLIENT_INFO,
               m_eStatus := P2P_TCP_LISTENING\<rparr>"
  let ?n = "n(b := n b - 1)"
  let ?p = "CreateTCPResultPkt TPT_RESET (m_dwMainTCPID c) 0"
  have nb: "0 < n b" and na: "0 < ?n a"
    using conn main by (auto simp: role_refs_def)
  obtain h1 where h1: "Release b h = Some h1" "heap_ok (tcp_good R) ?n h1"
    using tcp_heap.Release_ok[OF h nb] .
  have dump: "DumpP2PConnection ?c h1 = Some ()"
    using wf main na by (intro DumpP2PConnection_ok[OF h1(2), of _ a])
      (auto simp: conn_wf_def status_ge_connected)
  obtain h2 where h2: "SendPacket_to (Some a) ?p h1 = Some h2" "heap_ok (tcp_good R) ?n h2"
      "outbox h2 = (outbox h1)(a := outbox h1 a @ [?p])"
    using SendPacket_to_ok[OF h1(2) na] by metis
  have "h1 a \<noteq> None" using heap_ok_dead[OF h1(2), of a] na by simp
  then have "outbox h1 a = outbox h a" by (rule Release_outbox[OF h1(1)])
  then show thesis
    using that[of ?c h2] dump h1 h2 main conn wf
    by (simp add: ConnTCPDisconnect_def Release_ptr_def conn_wf_def)
qed

text \<open>The host leaves: the guest's connection is closed, both references are returned.\<close>

lemma CTCPServer_Done_good: "tcp_good R a (CTCPServer_Done tcp) = tcp_good R a tcp"
  "m_lRef (CTCPServer_Done tcp) = m_lRef tcp"
  by (simp_all add: CTCPServer_Done_def DoneBase_def tcp_good_def registered_def Let_def)

lemma MainTCPDisconnect_spec:
  assumes h: "heap_ok (tcp_good R) n h" and wf: "conn_wf c" and refs: "\<And>a. role_refs c a \<le> n a"
  obtains c' h' where "MainTCPDisconnect c h = Some (c', h')"
    and "c' = c\<lparr>m_pMainTCPServer := None, m_dwMainTCPID := 0,
               m_szMainTCPName := replicate NAME_SIZE 0,
               m_pConnTCPServer := None, m_dwConnTCPID := 0,
               m_szConnTCPName := replicate NAME_SIZE 0,
               m_stMainUDPServer := zero_CLIENT_INFO, m_stConnUDPServer := zero_CLIENT_INFO\<rparr>"
    and "heap_ok (tcp_good R) (\<lambda>a. n a - role_refs c a) h'"
proof -
  let ?c = "c\<lparr>m_pMainTCPServer := None, m_dwMainTCPID := 0,
               m_szMainTCPName := replicate NAME_SIZE 0,
               m_pConnTCPServer := None, m_dwConnTCPID := 0,
               m_szConnTCPName := replicate NAME_SIZE 0,
               m_stMainUDPServer := zero_CLIENT_INFO, m_stConnUDPServer := zero_CLIENT_INFO\<rparr>"
  obtain a where a: "m_pMainTCPServer c = Some a" using wf by (auto simp: conn_wf_def)
  let ?n = "n(a := n a - 1)"
  have na: "0 < n a" using refs[of a] a by (simp add: role_refs_def split: if_splits)
  obtain h1 where h1: "Release a h = Some h1" "heap_ok (tcp_good R) ?n h1"
    using tcp_heap.Release_ok[OF h na] .
  show thesis
  proof (cases "m_pConnTCPServer c")
    case None
    then have "(\<lambda>x. n x - role_refs c x) = ?n" using a by (auto simp: role_refs_def)
    then show thesis using that[of ?c h1] h1 a None
      by (simp add: MainTCPDisconnect_def Release_ptr_def)
  next
    case (Some b)
    have nb: "0 < ?n b" using refs[of b] a Some by (auto simp: role_refs_def)
    obtain tcp where tcp: "h1 b = Some tcp" "m_lRef tcp = of_nat (?n b)" "tcp_good R b tcp"
      using heap_okD[OF h1(2) nb] by metis
    let ?h2 = "h1(b \<mapsto> CTCPServer_Done tcp)"
    have h2: "heap_ok (tcp_good R) ?n ?h2"
      using heap_ok_write[OF h1(2) nb] tcp by (simp only: CTCPServer_Done_good)
    obtain h3 where h3: "Release b ?h2 = Some h3" "heap_ok (tcp_good R) (?n(b := ?n b - 1)) h3"
      using tcp_heap.Release_ok[OF h2 nb] .
    have "(\<lambda>x. n x - role_refs c x) = ?n(b := ?n b - 1)"
      using a Some by (auto simp: role_refs_def fun_eq_iff)
    then show thesis using that[of ?c h3] h1(1) h3 a Some tcp(1)
      by (simp add: MainTCPDisconnect_def Release_ptr_def Done_to_def)
  qed
qed

lemma TCPProxyRequest_spec:
  assumes h: "heap_ok (tcp_good R) n h"
    and main: "m_pMainTCPServer c = Some a" "0 < n a"
    and conn: "m_pConnTCPServer c = Some b" "0 < n b"
  obtains h' where "TCPProxyRequest c h = Some (P2P_ERROR_NONE, c, h')"
    and "heap_ok (tcp_good R) n h'"
    and "outbox h' = (let o1 = (outbox h)(a := outbox h a @
             [CreateTCPProxyResultPkt (m_dwMainTCPID c) (m_dwMainTCPID c) 0]) in
           o1(b := o1 b @ [CreateTCPProxyResultPkt (m_dwConnTCPID c) (m_dwMainTCPID c) 0]))"
proof -
  let ?p = "CreateTCPProxyResultPkt (m_dwMainTCPID c) (m_dwMainTCPID c) 0"
  let ?q = "CreateTCPProxyResultPkt (m_dwConnTCPID c) (m_dwMainTCPID c) 0"
  obtain h1 h2 where h': "SendPacket_to (Some a) ?p h = Some h1"
      "SendPacket_to (Some b) ?q h1 = Some h2" "heap_ok (tcp_good R) n h2"
      "outbox h2 = (let o1 = (outbox h)(a := outbox h a @ [?p]) in o1(b := o1 b @ [?q]))"
    using SendPacket_to_ok2[OF h main(2) conn(2)] .
  show thesis
    using that[of h2] main conn h' by (simp add: TCPProxyRequest_def)
qed

lemma CP2PConnection_spec:
  assumes h: "heap_ok (tcp_good R) n h" and a: "0 < n a" "Suc (n a) < 4294967296"
    and d: "164 \<le> length d" and kw: "rd_bytes 4 32 d = Some kw" "nul_terminated kw"
    and name: "rd_bytes 36 128 d = Some name" "nul_terminated name"
  obtains c h' i where "CP2PConnection d (Some a) h = Some (c, h')"
    and "rd_dword 0 d = Some i" and "conn_wf c" and "m_lRef c = 1" and "m_szKeyword c = kw"
    and "m_pMainTCPServer c = Some a" and "m_pConnTCPServer c = None" and "m_dwMainTCPID c = i"
    and "m_eStatus c = P2P_TCP_LISTENING"
    and "heap_ok (tcp_good R) (n(a := Suc (n a))) h'" and "outbox h' = outbox h"
proof -
  obtain i where i: "rd_dword 0 d = Some i" using d by (cases "rd_dword 0 d") auto
  obtain h1 where h1: "AddRef a h = Some h1" "heap_ok (tcp_good R) (n(a := Suc (n a))) h1"
    using tcp_heap.AddRef_ok[OF h a] .
  let ?c = "\<lparr>m_lRef = 1, m_szKeyword = kw, m_pMainTCPServer = Some a, m_dwMainTCPID = i,
       m_szMainTCPName = name, m_bMainUDPOK = False, m_pConnTCPServer = None, m_dwConnTCPID = 0,
       m_szConnTCPName = replicate NAME_SIZE 0, m_bConnUDPOK = False,
       m_stMainUDPServer = zero_CLIENT_INFO, m_stConnUDPServer = zero_CLIENT_INFO,
       m_eStatus = P2P_TCP_LISTENING\<rparr>"
  have "DumpP2PConnection ?c h1 = Some ()"
    using kw name by (intro DumpP2PConnection_ok[OF h1(2), of _ a])
      (auto simp: status_ge_connected)
  then show thesis
    using that[of ?c h1 i] i h1 kw name rd_bytes_length[OF kw(1)] AddRef_outbox[OF h1(1)]
    by (simp add: CP2PConnection_def AddRef_ptr_def conn_wf_def NAME_SIZE_def KEYWORD_SIZE_def)
qed

section \<open>The contract of the methods\<close>

text \<open>
  What the server relies on when it calls a method of a session: the call is defined, the session
  stays well-formed and keeps its identity, and the number of owners of each connection changes
  as the session's own references do.
\<close>

definition keeps_identity :: "p2pconn \<Rightarrow> p2pconn \<Rightarrow> bool" where
  "keeps_identity c c' \<longleftrightarrow> m_lRef c' = m_lRef c \<and> m_szKeyword c' = m_szKeyword c
     \<and> m_pMainTCPServer c' = m_pMainTCPServer c \<and> m_dwMainTCPID c' = m_dwMainTCPID c"

definition moves_refs :: "addr set \<Rightarrow> (addr \<Rightarrow> nat) \<Rightarrow> p2pconn \<Rightarrow> p2pconn \<Rightarrow> tcpheap \<Rightarrow> bool" where
  "moves_refs R n c c' h' \<longleftrightarrow> conn_wf c' \<and> keeps_identity c c'
     \<and> heap_ok (tcp_good R) (\<lambda>a. n a - role_refs c a + role_refs c' a) h'"

lemma moves_refs_same:
  assumes "heap_ok (tcp_good R) n h'" and "\<And>a. role_refs c a \<le> n a" and "conn_wf c'"
    and "keeps_identity c c'" and "m_pConnTCPServer c' = m_pConnTCPServer c"
  shows "moves_refs R n c c' h'"
proof -
  have "role_refs c' = role_refs c"
    using assms(4,5) by (simp add: role_refs_def keeps_identity_def fun_eq_iff)
  then have "(\<lambda>a. n a - role_refs c a + role_refs c' a) = n" using assms(2) by simp
  then show ?thesis using assms by (simp add: moves_refs_def)
qed

lemma conn_wf_pointers:
  assumes "conn_wf c" and "\<And>a. role_refs c a \<le> n a"
  obtains a where "m_pMainTCPServer c = Some a" and "0 < n a"
    and "m_eStatus c \<noteq> P2P_TCP_LISTENING \<Longrightarrow> \<exists>b. m_pConnTCPServer c = Some b \<and> 0 < n b"
proof -
  obtain a where a: "m_pMainTCPServer c = Some a" using assms(1) by (auto simp: conn_wf_def)
  have "0 < n x" if "m_pMainTCPServer c = Some x \<or> m_pConnTCPServer c = Some x" for x
    using assms(2)[of x] that by (auto simp: role_refs_def)
  then show thesis using that a assms(1) by (auto simp: conn_wf_def)
qed

lemma mismatch_ok:
  assumes h: "heap_ok (tcp_good R) n h" and wf: "conn_wf c" and refs: "\<And>a. role_refs c a \<le> n a"
  shows "moves_refs R n c c h"
  by (rule moves_refs_same[OF h refs wf]) (simp_all add: keeps_identity_def)

lemma TCPConnected_ok:
  assumes h: "heap_ok (tcp_good R) n h" and wf: "conn_wf c" and refs: "\<And>a. role_refs c a \<le> n a"
    and b: "0 < n b" "Suc (n b) < 4294967296" and d: "164 \<le> length d"
  shows "\<exists>r c' h'. TCPConnected d (Some b) c h = Some (r, c', h') \<and> moves_refs R n c c' h'"
proof (cases "m_eStatus c = P2P_TCP_LISTENING")
  case False
  then show ?thesis using TCPConnected_mismatch mismatch_ok[OF h wf refs] by blast
next
  case True
  obtain a where a: "m_pMainTCPServer c = Some a" "0 < n a"
    using conn_wf_pointers[OF wf refs] by metis
  obtain c' h' name i where t: "TCPConnected d (Some b) c h = Some (P2P_ERROR_NONE, c', h')"
    "c' = c\<lparr>m_pConnTCPServer := Some b, m_szConnTCPName := name, m_dwConnTCPID := i,
               m_stMainUDPServer := zero_CLIENT_INFO, m_stConnUDPServer := zero_CLIENT_INFO,
               m_eStatus := P2P_TCP_CONNECTED\<rparr>"
    "conn_wf c'" "heap_ok (tcp_good R) (n(b := Suc (n b))) h'"
    using TCPConnected_spec[OF h wf a b d True] by metis
  have "m_pConnTCPServer c = None" using wf True by (simp add: conn_wf_def)
  then have "(\<lambda>a. n a - role_refs c a + role_refs c' a) = n(b := Suc (n b))"
    using t(2) refs by (auto simp: role_refs_def fun_eq_iff a Suc_diff_le)
  then show ?thesis using t by (auto simp: moves_refs_def keeps_identity_def)
qed

lemma UDPListening_ok:
  assumes h: "heap_ok (tcp_good R) n h" and wf: "conn_wf c" and refs: "\<And>a. role_refs c a \<le> n a"
  shows "\<exists>r c' h'. UDPListening ci c h = Some (r, c', h') \<and> moves_refs R n c c' h'"
proof (cases "m_eStatus c = P2P_TCP_CONNECTED")
  case False
  then show ?thesis using mismatch_ok[OF h wf refs] by (simp add: UDPListening_def)
next
  case True
  then obtain a b where a: "m_pMainTCPServer c = Some a" "0 < n a"
      and b: "m_pConnTCPServer c = Some b" "0 < n b"
    using conn_wf_pointers[OF wf refs] by (metis P2P_STATUS.distinct)
  show ?thesis
    by (rule UDPListening_spec[OF h wf a b True, of ci], intro exI conjI, assumption)
      (rule moves_refs_same[OF _ refs]; simp add: keeps_identity_def)
qed

lemma UDPConnected_ok:
  assumes h: "heap_ok (tcp_good R) n h" and wf: "conn_wf c" and refs: "\<And>a. role_refs c a \<le> n a"
  shows "\<exists>r c' h'. UDPConnected ci c h = Some (r, c', h') \<and> moves_refs R n c c' h'"
proof (cases "m_eStatus c = P2P_UDP_LISTENING")
  case False
  then show ?thesis using mismatch_ok[OF h wf refs] by (simp add: UDPConnected_def)
next
  case True
  then obtain a b where a: "m_pMainTCPServer c = Some a" "0 < n a"
      and b: "m_pConnTCPServer c = Some b" "0 < n b"
    using conn_wf_pointers[OF wf refs] by (metis P2P_STATUS.distinct)
  show ?thesis
    by (rule UDPConnected_spec[OF h wf a b True, of ci], intro exI conjI, assumption)
      (rule moves_refs_same[OF _ refs]; simp add: keeps_identity_def)
qed

lemma SetP2POK_ok:
  assumes h: "heap_ok (tcp_good R) n h" and wf: "conn_wf c" and refs: "\<And>a. role_refs c a \<le> n a"
  shows "\<exists>r c' h'. SetP2POK Server c h = Some (r, c', h') \<and> moves_refs R n c c' h'"
proof (cases "m_eStatus c = P2P_PUNCHING")
  case False
  then show ?thesis using mismatch_ok[OF h wf refs] by (simp add: SetP2POK_def)
next
  case True
  then obtain a b where a: "m_pMainTCPServer c = Some a" "0 < n a"
      and b: "m_pConnTCPServer c = Some b" "0 < n b"
    using conn_wf_pointers[OF wf refs] by (metis P2P_STATUS.distinct)
  show ?thesis
  proof (cases "m_bMainUDPOK (note_ok Server c) \<and> m_bConnUDPOK (note_ok Server c)")
    case False
    have "moves_refs R n c (note_ok Server c) h"
      using wf by (intro moves_refs_same[OF h refs]) (simp_all add: keeps_identity_def conn_wf_def)
    then show ?thesis using SetP2POK_waits[OF h wf a b True False] by blast
  next
    case both: True
    show ?thesis
      by (rule SetP2POK_completes[OF h wf a b True both[THEN conjunct1] both[THEN conjunct2]],
          intro exI conjI, assumption)
        (rule moves_refs_same[OF _ refs]; simp add: keeps_identity_def)
  qed
qed

lemma TCPProxyRequest_ok:
  assumes h: "heap_ok (tcp_good R) n h" and wf: "conn_wf c" and refs: "\<And>a. role_refs c a \<le> n a"
  shows "\<exists>r c' h'. TCPProxyRequest c h = Some (r, c', h') \<and> moves_refs R n c c' h'"
proof (cases "m_pConnTCPServer c")
  case None
  then show ?thesis using mismatch_ok[OF h wf refs] by (simp add: TCPProxyRequest_def)
next
  case (Some b)
  then have "0 < n b" using refs[of b] by (simp add: role_refs_def split: if_splits)
  moreover obtain a where a: "m_pMainTCPServer c = Some a" "0 < n a"
    using conn_wf_pointers[OF wf refs] by metis
  ultimately obtain h' where "TCPProxyRequest c h = Some (P2P_ERROR_NONE, c, h')"
    "heap_ok (tcp_good R) n h'" using TCPProxyRequest_spec[OF h a Some] by metis
  moreover then have "moves_refs R n c c h'"
    by (intro moves_refs_same[OF _ refs wf]) (simp_all add: keeps_identity_def)
  ultimately show ?thesis by blast
qed

lemma ConnTCPDisconnect_ok:
  assumes h: "heap_ok (tcp_good R) n h" and wf: "conn_wf c" and refs: "\<And>a. role_refs c a \<le> n a"
    and b: "m_pConnTCPServer c = Some b"
  shows "\<exists>c' h'. ConnTCPDisconnect c h = Some (c', h') \<and> moves_refs R n c c' h'"
proof -
  obtain a where a: "m_pMainTCPServer c = Some a" "0 < n a"
    using conn_wf_pointers[OF wf refs] by metis
  obtain c' h' where t: "ConnTCPDisconnect c h = Some (c', h')"
    "c' = c\<lparr>m_pConnTCPServer := None, m_dwConnTCPID := 0,
               m_szConnTCPName := replicate NAME_SIZE 0,
               m_stMainUDPServer := zero_CLIENT_INFO, m_stConnUDPServer := zero_CLIENT_INFO,
               m_eStatus := P2P_TCP_LISTENING\<rparr>"
    "conn_wf c'" "heap_ok (tcp_good R) (n(b := n b - 1)) h'"
    using ConnTCPDisconnect_spec[OF h wf a b refs] by metis
  have "n x - role_refs c x + role_refs c' x = (n(b := n b - 1)) x" for x
    using t(2) refs[of x] b by (auto simp: role_refs_def a)
  then have "(\<lambda>x. n x - role_refs c x + role_refs c' x) = n(b := n b - 1)" by (rule ext)
  then show ?thesis using t by (auto simp: moves_refs_def keeps_identity_def)
qed

end
