(* ===== verification/UDPBase.thy ===== *)
theory UDPBase
  imports Protocol BaseObject SendQueue TCPCommon
begin

text \<open>
  \<^verbatim>\<open>src/clovertun/UDPBase.cpp\<close>: the datagram endpoint, with its byte checksum, its send
  queue and its receive filter. What the socket answers is an argument. Results: the checksum
  accepts what \<open>CalcCheckSum\<close> produced and rejects every single changed byte; the receive pass
  hands on exactly the well-formed datagrams, with the sender's address; the send queue keeps
  its contract.
\<close>

section \<open>Checksum\<close>

text \<open>The sum runs over the 247 bytes of \<open>data\<close>, in 8 bits.\<close>

definition data_sum :: "BYTE list \<Rightarrow> BYTE" where
  "data_sum data = foldl (+) 0 (take UDP_DATA_MAX data)"

definition IsCheckSumVaild :: "UDPBASE_PACKET \<Rightarrow> bool" where
  "IsCheckSumVaild Packet = (let checkS = data_sum (udp_data Packet) in
     if checkS \<noteq> checksum Packet then False else True)"

definition CalcCheckSum :: "UDPBASE_PACKET \<Rightarrow> UDPBASE_PACKET" where
  "CalcCheckSum Packet = Packet\<lparr>checksum := data_sum (udp_data Packet)\<rparr>"

section \<open>State\<close>

datatype udp_delegate = UdpServerDelegate | UdpClientDelegate

record udpbase = CBaseObject +
  udp_hSock :: "nat option"
  m_dwLocalPort :: WORD
  udp_hRecvThread :: bool
  udp_hSendThread :: bool
  udp_hStopEvent :: bool
  udp_hSendEvent :: bool
  udp_SendList :: "UDP_PACKET list"
  udp_pfnRecvFunc :: "udp_delegate option"
  udp_pRecvParam :: ptr

definition CUDPBase :: "nat option \<Rightarrow> udpbase" where
  "CUDPBase sock =
     \<lparr>m_lRef = 1, udp_hSock = sock, m_dwLocalPort = 0, udp_hRecvThread = False,
      udp_hSendThread = False, udp_hStopEvent = False, udp_hSendEvent = False,
      udp_SendList = [], udp_pfnRecvFunc = None, udp_pRecvParam = None\<rparr>"

text \<open>The destructor closes the socket.\<close>

definition CUDPBase_destroy :: "'a udpbase_scheme \<Rightarrow> 'a udpbase_scheme" where
  "CUDPBase_destroy udp =
     (let udp = udp\<lparr>udp_hRecvThread := False, udp_hSendThread := False\<rparr> in
      if udp_hSock udp \<noteq> None then udp\<lparr>udp_hSock := None\<rparr> else udp)"

section \<open>Operations\<close>

definition GetSocket :: "'a udpbase_scheme \<Rightarrow> nat option" where
  "GetSocket udp = udp_hSock udp"

text \<open>\<open>bound\<close>: the result of \<open>bind\<close> for this port is not negative.\<close>

definition UDP_Init :: "(WORD \<Rightarrow> bool) \<Rightarrow> WORD \<Rightarrow> 'a udpbase_scheme \<Rightarrow> bool \<times> 'a udpbase_scheme"
  where
  "UDP_Init bound UdpPort udp =
     (let udp = udp\<lparr>m_dwLocalPort := UdpPort\<rparr> in
      if \<not> bound UdpPort then (False, udp) else (True, udp))"

definition UDP_Start :: "'a udpbase_scheme \<Rightarrow> 'a udpbase_scheme" where
  "UDP_Start udp =
     (let udp = udp\<lparr>udp_hStopEvent := False\<rparr>;
          udp = (if udp_hSendThread udp then udp\<lparr>udp_hSendThread := False\<rparr> else udp);
          udp = (if udp_hRecvThread udp then udp\<lparr>udp_hRecvThread := False\<rparr> else udp);
          udp = CBaseObject_AddRef udp; udp = udp\<lparr>udp_hSendThread := True\<rparr>;
          udp = CBaseObject_AddRef udp
      in udp\<lparr>udp_hRecvThread := True\<rparr>)"

definition UDP_RegisterRecvProcess ::
    "(addr \<Rightarrow> 's \<Rightarrow> 's option) \<Rightarrow> (addr \<Rightarrow> 's \<Rightarrow> 's option) \<Rightarrow> udp_delegate option \<Rightarrow> ptr \<Rightarrow>
     'a udpbase_scheme \<Rightarrow> 's \<Rightarrow> ('a udpbase_scheme \<times> 's) option" where
  "UDP_RegisterRecvProcess addref release Process Param udp s =
     map_option (\<lambda>s. (udp\<lparr>udp_pfnRecvFunc := Process, udp_pRecvParam := Param\<rparr>, s))
       (register_param addref release Param (udp_pRecvParam udp) s)"

definition UDP_Stop ::
    "(addr \<Rightarrow> 's \<Rightarrow> 's option) \<Rightarrow> (addr \<Rightarrow> 's \<Rightarrow> 's option) \<Rightarrow>
     'a udpbase_scheme \<Rightarrow> 's \<Rightarrow> ('a udpbase_scheme \<times> 's) option" where
  "UDP_Stop addref release udp s =
     map_option (\<lambda>(udp, s). (udp\<lparr>udp_hStopEvent := True\<rparr>, s))
       (UDP_RegisterRecvProcess addref release None None udp s)"

definition prepare_packet :: "UDP_PACKET \<Rightarrow> UDP_PACKET" where
  "prepare_packet Packet = Packet\<lparr>BasePacket := CalcCheckSum (BasePacket Packet)\<rparr>"

definition UDP_SendPacket :: "UDP_PACKET \<Rightarrow> 'a udpbase_scheme \<Rightarrow> 'a udpbase_scheme" where
  "UDP_SendPacket Packet udp =
     udp\<lparr>udp_SendList := udp_SendList udp @ [prepare_packet Packet], udp_hSendEvent := True\<rparr>"

subsection \<open>The sending thread\<close>

definition UDP_SendDequeue :: "'a udpbase_scheme \<Rightarrow> UDP_PACKET option \<times> 'a udpbase_scheme" where
  "UDP_SendDequeue udp =
     (case udp_SendList udp of
        Packet # rest \<Rightarrow> (Some Packet, udp\<lparr>udp_SendList := rest\<rparr>)
      | [] \<Rightarrow> (None, udp\<lparr>udp_hSendEvent := False\<rparr>))"

text \<open>
  One pass. The datagram handed to the socket is the 256 bytes of the base packet, sent to the
  address in \<open>PacketInfo\<close>; the result of the send is not looked at.
\<close>

definition UDP_SendProcess ::
    "DWORD \<Rightarrow> 'a udpbase_scheme \<Rightarrow> bool \<times> 'a udpbase_scheme \<times> (CLIENT_INFO \<times> BYTE list) option"
  where
  "UDP_SendProcess Ret udp =
     (if Ret \<noteq> WAIT_OBJECT_0 then (False, udp, None)
      else case UDP_SendDequeue udp of
        (None, udp') \<Rightarrow> (True, udp', None)
      | (Some Packet, udp') \<Rightarrow>
          (True, udp', Some (PacketInfo Packet, udpbase_bytes (BasePacket Packet))))"

subsection \<open>The receiving thread\<close>

text \<open>
  One pass: \<open>ok\<close> and \<open>Length\<close> from \<open>UDPSocketRecvFrom\<close>, \<open>buf\<close> the 256 byte buffer after the
  call (cleared before it), \<open>other\<close> the sender's address. The callback works on a state \<open>'w\<close>.
\<close>

definition UDP_RecvProcess :: "('w \<Rightarrow> bool) \<Rightarrow> (UDP_PACKET \<Rightarrow> 'w \<Rightarrow> (bool \<times> 'w) option) \<Rightarrow>
    bool \<Rightarrow> DWORD \<Rightarrow> BYTE list \<Rightarrow> CLIENT_INFO \<Rightarrow> 'w \<Rightarrow> (bool \<times> 'w) option" where
  "UDP_RecvProcess registered f ok Length buf other w =
     (if \<not> ok then Some (False, w)
      else if Length = 0 then Some (False, w)
      else if Length \<noteq> of_nat sizeof_UDPBASE_PACKET then Some (True, w)
      else do {
        base \<leftarrow> udpbase_of_bytes buf;
        if \<not> IsCheckSumVaild base then Some (True, w)
        else if registered w then f \<lparr>BasePacket = base, PacketInfo = other\<rparr> w
        else Some (True, w)
      })"

text \<open>A pass on the Windows branch, for a datagram and the answers of the socket.\<close>

definition UDP_RecvProcess_win :: "('w \<Rightarrow> bool) \<Rightarrow> (UDP_PACKET \<Rightarrow> 'w \<Rightarrow> (bool \<times> 'w) option) \<Rightarrow>
    win_io \<Rightarrow> BYTE list \<Rightarrow> CLIENT_INFO \<Rightarrow> 'w \<Rightarrow> (bool \<times> 'w) option" where
  "UDP_RecvProcess_win registered f io buf other w = do {
     (ok, Length) \<leftarrow> UDPSocketRecvFrom_win io;
     UDP_RecvProcess registered f ok Length buf other w
   }"

section \<open>Lemmas\<close>

lemma foldl_sum_list: "foldl (+) (a :: BYTE) xs = a + sum_list xs"
  by (induction xs arbitrary: a) (simp_all add: add.assoc)

lemma data_sum_eq: "data_sum d = sum_list (take 247 d)"
  by (simp add: data_sum_def foldl_sum_list UDP_DATA_MAX_def)

lemma CalcCheckSum_simps [simp]:
  "udp_type (CalcCheckSum p) = udp_type p" "udp_length (CalcCheckSum p) = udp_length p"
  "udp_data (CalcCheckSum p) = udp_data p"
  by (simp_all add: CalcCheckSum_def)

lemma IsCheckSumVaild_iff: "IsCheckSumVaild p \<longleftrightarrow> checksum p = data_sum (udp_data p)"
  by (auto simp: IsCheckSumVaild_def Let_def)

lemma IsCheckSumVaild_Calc [simp]: "IsCheckSumVaild (CalcCheckSum p)"
  by (simp add: IsCheckSumVaild_iff CalcCheckSum_def)

lemma sum_list_update_BYTE:
  "i < length (xs :: BYTE list) \<Longrightarrow> sum_list (xs[i := b]) = sum_list xs - xs ! i + b"
proof (induction xs arbitrary: i)
  case (Cons x xs)
  then show ?case by (cases i) (simp_all add: algebra_simps)
qed simp

lemma data_sum_update:
  assumes "i < 247" and "length d = 247" and "b \<noteq> d ! i"
  shows "data_sum (d[i := b]) \<noteq> data_sum d"
  using assms by (simp add: data_sum_eq sum_list_update_BYTE)

interpretation udp_queue: send_queue UDP_SendPacket UDP_SendDequeue prepare_packet
    udp_SendList udp_hSendEvent
  by unfold_locales (auto simp: UDP_SendPacket_def UDP_SendDequeue_def)

section \<open>The loops of the two threads\<close>

text \<open>\<open>RecvProc\<close> over the successive answers of the socket: result, length, buffer and sender.\<close>

fun UDP_RecvProc :: "('w \<Rightarrow> bool) \<Rightarrow> (UDP_PACKET \<Rightarrow> 'w \<Rightarrow> (bool \<times> 'w) option) \<Rightarrow>
    (bool \<times> DWORD \<times> BYTE list \<times> CLIENT_INFO) list \<Rightarrow> 'w \<Rightarrow> (bool \<times> 'w) option" where
  "UDP_RecvProc registered f [] w = Some (True, w)"
| "UDP_RecvProc registered f ((ok, Length, buf, other) # rds) w =
     (case UDP_RecvProcess registered f ok Length buf other w of
        None \<Rightarrow> None
      | Some (cont, w) \<Rightarrow>
          if cont then UDP_RecvProc registered f rds w else Some (False, w))"

text \<open>A thread ends by giving back its reference; the last one runs the destructor.\<close>

definition UDP_RecvProc_exit :: "'a udpbase_scheme \<Rightarrow> 'a udpbase_scheme" where
  "UDP_RecvProc_exit udp =
     (case CBaseObject_Release udp of (udp, dead) \<Rightarrow> if dead then CUDPBase_destroy udp else udp)"

definition UDP_SendProc_exit :: "'a udpbase_scheme \<Rightarrow> 'a udpbase_scheme" where
  "UDP_SendProc_exit udp =
     (case CBaseObject_Release udp of (udp, dead) \<Rightarrow> if dead then CUDPBase_destroy udp else udp)"

text \<open>\<open>SendProc\<close> over the successive results of its wait; the datagrams sent, in order.\<close>

fun UDP_SendProc :: "DWORD list \<Rightarrow> 'a udpbase_scheme \<Rightarrow>
    bool \<times> 'a udpbase_scheme \<times> (CLIENT_INFO \<times> BYTE list) list" where
  "UDP_SendProc [] udp = (True, udp, [])"
| "UDP_SendProc (Ret # Rets) udp =
     (case UDP_SendProcess Ret udp of
        (False, udp, sent) \<Rightarrow> (False, udp, [])
      | (True, udp, sent) \<Rightarrow>
          (case UDP_SendProc Rets udp of
             (b, udp, rest) \<Rightarrow> (b, udp, (case sent of None \<Rightarrow> rest | Some d \<Rightarrow> d # rest))))"

section \<open>Properties\<close>

text \<open>The datagram of a queued packet.\<close>

abbreviation datagram_of :: "UDP_PACKET \<Rightarrow> CLIENT_INFO \<times> BYTE list" where
  "datagram_of Packet \<equiv> (PacketInfo Packet, udpbase_bytes (BasePacket (prepare_packet Packet)))"

lemma UDP_SendProc_queue:
  "UDP_SendProc (replicate (length (udp_SendList udp)) WAIT_OBJECT_0) udp
     = (True, udp\<lparr>udp_SendList := []\<rparr>,
        map (\<lambda>p. (PacketInfo p, udpbase_bytes (BasePacket p))) (udp_SendList udp))"
proof (induction "udp_SendList udp" arbitrary: udp)
  case (Cons p ps)
  have "udp_SendList (udp\<lparr>udp_SendList := ps\<rparr>) = ps" by simp
  note IH = Cons.hyps(1)[OF this[symmetric]]
  from Cons.hyps(2)[symmetric] show ?case
    using IH by (simp add: UDP_SendProcess_def UDP_SendDequeue_def)
qed simp

text \<open>
  C30: a datagram arrives as it was sent. For a packet with its 247 data bytes: after \<open>SendPacket\<close>
  on an idle endpoint one pass of the sending thread gives one datagram of 256 bytes to the
  address in the packet, and a receiver that gets it hands its callback the same type, length
  and data, with a valid checksum and the sender's address in place of the destination.
\<close>

theorem udp_datagram_roundtrip:
  assumes "length (udp_data (BasePacket p)) = 247" and "udp_SendList udp = []" and "registered w"
  shows "\<exists>udp' bytes base. UDP_SendProcess WAIT_OBJECT_0 (UDP_SendPacket p udp)
        = (True, udp', Some (PacketInfo p, bytes))
     \<and> length bytes = 256
     \<and> UDP_RecvProcess registered f True 256 bytes sender w
         = f \<lparr>BasePacket = base, PacketInfo = sender\<rparr> w
     \<and> udp_type base = udp_type (BasePacket p) \<and> udp_length base = udp_length (BasePacket p)
     \<and> udp_data base = udp_data (BasePacket p) \<and> IsCheckSumVaild base"
proof -
  let ?b = "CalcCheckSum (BasePacket p)"
  have "udpbase_of_bytes (udpbase_bytes ?b) = Some ?b" using assms(1) by (simp add: udpbase_roundtrip)
  then have "UDP_RecvProcess registered f True 256 (udpbase_bytes ?b) sender w
      = f \<lparr>BasePacket = ?b, PacketInfo = sender\<rparr> w"
    using assms(3) by (simp add: UDP_RecvProcess_def sizeof_UDPBASE_PACKET_def)
  moreover have "UDP_SendProcess WAIT_OBJECT_0 (UDP_SendPacket p udp)
      = (True, (UDP_SendPacket p udp)\<lparr>udp_SendList := []\<rparr>, Some (PacketInfo p, udpbase_bytes ?b))"
    using assms(2)
    by (simp add: UDP_SendProcess_def UDP_SendDequeue_def UDP_SendPacket_def prepare_packet_def)
  ultimately show ?thesis using assms(1)
    by (intro exI[of _ "(UDP_SendPacket p udp)\<lparr>udp_SendList := []\<rparr>"] exI[of _ "udpbase_bytes ?b"]
        exI[of _ ?b]) simp
qed

definition demo_udp_packet :: UDP_PACKET where
  "demo_udp_packet = \<lparr>BasePacket = \<lparr>udp_type = 2, udp_length = 4, udp_data = 9 # replicate 246 1,
     checksum = 0\<rparr>, PacketInfo = \<lparr>ipaddr = 16777343, port = 18545\<rparr>\<rparr>"

theorem udp_datagram_roundtrip_witness:
  "\<exists>bytes base. UDP_SendProcess WAIT_OBJECT_0 (UDP_SendPacket demo_udp_packet (CUDPBase None))
       = (True, (UDP_SendPacket demo_udp_packet (CUDPBase None))\<lparr>udp_SendList := []\<rparr>,
          Some (PacketInfo demo_udp_packet, bytes))
     \<and> UDP_RecvProcess (\<lambda>_. True) (\<lambda>p w. Some (True, p)) True 256 bytes zero_CLIENT_INFO demo_udp_packet
         = Some (True, \<lparr>BasePacket = base, PacketInfo = zero_CLIENT_INFO\<rparr>)
     \<and> udp_data base = 9 # replicate 246 1"
proof -
  have "length (udp_data (BasePacket demo_udp_packet)) = 247" "udp_SendList (CUDPBase None) = []"
    by (simp_all add: demo_udp_packet_def CUDPBase_def)
  from udp_datagram_roundtrip[where registered = "\<lambda>_. True" and w = demo_udp_packet
      and f = "\<lambda>p w. Some (True, p)" and sender = zero_CLIENT_INFO, OF this]
  obtain udp' bytes base where
    "UDP_SendProcess WAIT_OBJECT_0 (UDP_SendPacket demo_udp_packet (CUDPBase None))
        = (True, udp', Some (PacketInfo demo_udp_packet, bytes))"
    "UDP_RecvProcess (\<lambda>_. True) (\<lambda>p w. Some (True, p)) True 256 bytes zero_CLIENT_INFO demo_udp_packet
         = Some (True, \<lparr>BasePacket = base, PacketInfo = zero_CLIENT_INFO\<rparr>)"
    "udp_data base = udp_data (BasePacket demo_udp_packet)" by auto
  moreover from this(1) have "udp' = (UDP_SendPacket demo_udp_packet (CUDPBase None))\<lparr>udp_SendList := []\<rparr>"
    by (auto simp: UDP_SendProcess_def UDP_SendDequeue_def UDP_SendPacket_def CUDPBase_def)
  moreover have "udp_data (BasePacket demo_udp_packet) = 9 # replicate 246 1"
    by (simp add: demo_udp_packet_def)
  ultimately show ?thesis by metis
qed

text \<open>
  C31: the checksum catches every damage of one data byte. When one of the 247 data bytes of a
  datagram differs from what was sent, the receiver drops it: the callback is not called, its
  state does not change, and the thread goes on.
\<close>

theorem udp_single_byte_damage_dropped:
  assumes "length (udp_data (BasePacket p)) = 247" and "i < 247"
    and "b \<noteq> udp_data (BasePacket p) ! i"
  shows "UDP_RecvProcess registered f True 256
      ((udpbase_bytes (BasePacket (prepare_packet p)))[8 + i := b]) sender w = Some (True, w)"
proof -
  let ?d = "udp_data (BasePacket p)"
  let ?c = "CalcCheckSum (BasePacket p)"
  let ?q = "?c\<lparr>udp_data := ?d[i := b]\<rparr>"
  have "(udpbase_bytes ?c)[8 + i := b] = udpbase_bytes ?q"
    using assms(1,2) by (simp add: udpbase_bytes_def list_update_append CalcCheckSum_def)
  moreover have "udpbase_of_bytes (udpbase_bytes ?q) = Some ?q"
    using assms(1) by (simp add: udpbase_roundtrip)
  moreover have "\<not> IsCheckSumVaild ?q"
    using data_sum_update[OF assms(2,1,3)] by (simp add: IsCheckSumVaild_iff CalcCheckSum_def)
  ultimately show ?thesis
    by (simp add: UDP_RecvProcess_def prepare_packet_def sizeof_UDPBASE_PACKET_def)
qed

theorem udp_single_byte_damage_dropped_witness:
  "UDP_RecvProcess (\<lambda>_. True) (\<lambda>p w. None) True 256
      ((udpbase_bytes (BasePacket (prepare_packet demo_udp_packet)))[8 + 0 := 10]) zero_CLIENT_INFO
      (5 :: nat) = Some (True, 5)"
  by (rule udp_single_byte_damage_dropped) (simp_all add: demo_udp_packet_def)

text \<open>
  An empty datagram stops the UDP receiver. Anyone who can reach the port ends the receiving
  thread with a datagram of length zero; whatever arrives after it is never looked at.
\<close>

theorem udp_empty_datagram_stops_receiver:
  assumes "\<not> io_error io" and "io_wait io = WAIT_OBJECT_0" and "io_result io" and "io_bytes io = 0"
  shows "\<exists>ok n. UDPSocketRecvFrom_win io = Some (ok, n)
     \<and> UDP_RecvProc registered f ((ok, n, buf, sender) # later) w = Some (False, w)"
  using assms
  by (intro exI[of _ False] exI[of _ 0]) (simp add: UDPSocketRecvFrom_win_def UDP_RecvProcess_def)

theorem udp_empty_datagram_stops_receiver_witness:
  "let io = \<lparr>io_event = True, io_error = False, io_pending = False, io_bytes0 = 0, io_wait = 0,
       io_result = True, io_bytes = 0\<rparr> in
   \<exists>ok n. UDPSocketRecvFrom_win io = Some (ok, n)
     \<and> UDP_RecvProc (\<lambda>_. True) (\<lambda>p w. Some (True, p # w)) ((ok, n, [], zero_CLIENT_INFO)
          # [(True, 256, udpbase_bytes (BasePacket (prepare_packet demo_udp_packet)), zero_CLIENT_INFO)]) []
        = Some (False, [])"
  unfolding Let_def by (rule udp_empty_datagram_stops_receiver) (simp_all add: WAIT_OBJECT_0_def)

text \<open>
  C32: the UDP endpoint sends everything, in order. From an endpoint with an empty queue, after any
  sequence of \<open>SendPacket\<close> calls the sending thread, woken once for each packet, sends exactly
  their datagrams in the order of the calls, to the address of each packet, and leaves the queue
  empty.
\<close>

theorem udp_sends_in_order:
  assumes "udp_SendList udp = []"
  shows "\<exists>udp'. UDP_SendProc (replicate (length ps) WAIT_OBJECT_0) (fold UDP_SendPacket ps udp)
       = (True, udp', map datagram_of ps) \<and> udp_SendList udp' = []"
proof -
  have q: "udp_SendList (fold UDP_SendPacket ps v) = udp_SendList v @ map prepare_packet ps" for v :: "'a udpbase_scheme"
    by (induction ps arbitrary: v) (simp_all add: UDP_SendPacket_def)
  have "length ps = length (udp_SendList (fold UDP_SendPacket ps udp))" using assms q by simp
  then show ?thesis
    using UDP_SendProc_queue[of "fold UDP_SendPacket ps udp"] assms q
    by (simp add: prepare_packet_def)
qed

theorem udp_sends_in_order_witness:
  "\<exists>udp'. UDP_SendProc (replicate 2 WAIT_OBJECT_0)
       (fold UDP_SendPacket [demo_udp_packet, demo_udp_packet] (CUDPBase (Some 3)))
     = (True, udp', [datagram_of demo_udp_packet, datagram_of demo_udp_packet])"
proof -
  have len: "length [demo_udp_packet, demo_udp_packet] = 2" by simp
  have "udp_SendList (CUDPBase (Some 3)) = []" by (simp add: CUDPBase_def)
  from udp_sends_in_order[OF this, of "[demo_udp_packet, demo_udp_packet]"]
  show ?thesis unfolding len list.map by blast
qed

end
