(* ===== verification/StdMap.thy ===== *)
theory StdMap
  imports Prelude
begin

text \<open>
  \<open>std::map\<close> with 32-bit keys, as the server keeps its connections and sessions: an association
  list in ascending key order, which is the order of iteration. \<open>map_put\<close> is
  \<open>m[k] = v\<close>, \<open>map_find\<close> is \<open>find\<close>, \<open>map_erase\<close> is \<open>erase\<close> of the entry of a key. The contract
  \<open>std_map\<close> is what the code relies on; the lemmas on \<open>next_free\<close>, the search for an unused key,
  are proved from it.
\<close>

type_synonym 'v stdmap = "(DWORD \<times> 'v) list"

definition map_find :: "DWORD \<Rightarrow> 'v stdmap \<Rightarrow> 'v option" where
  "map_find k m = map_of m k"

fun map_put :: "DWORD \<Rightarrow> 'v \<Rightarrow> 'v stdmap \<Rightarrow> 'v stdmap" where
  "map_put k v [] = [(k, v)]"
| "map_put k v ((k', v') # m) =
     (if k < k' then (k, v) # (k', v') # m
      else if k = k' then (k, v) # m
      else (k', v') # map_put k v m)"

definition map_erase :: "DWORD \<Rightarrow> 'v stdmap \<Rightarrow> 'v stdmap" where
  "map_erase k m = filter (\<lambda>e. fst e \<noteq> k) m"

definition map_ok :: "'v stdmap \<Rightarrow> bool" where
  "map_ok m \<longleftrightarrow> sorted_wrt (<) (map fst m)"

section \<open>The contract\<close>

locale std_map =
  fixes find :: "DWORD \<Rightarrow> 'm \<Rightarrow> 'v option"
    and put :: "DWORD \<Rightarrow> 'v \<Rightarrow> 'm \<Rightarrow> 'm"
    and erase :: "DWORD \<Rightarrow> 'm \<Rightarrow> 'm"
    and size :: "'m \<Rightarrow> nat"
    and ok :: "'m \<Rightarrow> bool"
  assumes find_put: "ok m \<Longrightarrow> find k' (put k v m) = (if k' = k then Some v else find k' m)"
    and find_erase: "ok m \<Longrightarrow> find k' (erase k m) = (if k' = k then None else find k' m)"
    and ok_put: "ok m \<Longrightarrow> ok (put k v m)"
    and ok_erase: "ok m \<Longrightarrow> ok (erase k m)"
    and size_dom: "ok m \<Longrightarrow> finite {k. find k m \<noteq> None} \<and> card {k. find k m \<noteq> None} = size m"
begin

text \<open>A map with fewer entries than there are keys has a free key among any run of keys longer
  than its size.\<close>

lemma free_key:
  assumes "ok m" and "size m < 4294967296"
  shows "\<exists>i \<le> size m. find (k + of_nat i) m = None"
proof (rule ccontr)
  assume "\<not> ?thesis"
  then have all: "\<And>i. i \<le> size m \<Longrightarrow> find (k + of_nat i) m \<noteq> None" by auto
  let ?K = "(\<lambda>i. k + of_nat i :: DWORD) ` {0 .. size m}"
  have "inj_on (\<lambda>i. k + of_nat i :: DWORD) {0 .. size m}"
  proof (rule inj_onI)
    fix i j assume ij: "i \<in> {0 .. size m}" "j \<in> {0 .. size m}"
      and "k + of_nat i = k + (of_nat j :: DWORD)"
    then have "unat (of_nat i :: DWORD) = unat (of_nat j :: DWORD)" by simp
    then show "i = j" using ij assms(2) by (simp add: unat_of_nat_DWORD)
  qed
  then have "card ?K = Suc (size m)" by (simp add: card_image)
  moreover have "?K \<subseteq> {k. find k m \<noteq> None}" using all by auto
  ultimately show False
    using size_dom[OF assms(1)] card_mono[of "{k. find k m \<noteq> None}" ?K] by simp
qed

text \<open>Inserting under a free key adds one entry.\<close>

lemma size_put_free:
  assumes m: "ok m" "find k m = None"
  shows "size (put k v m) = Suc (size m)"
proof -
  let ?D = "{k'. find k' m \<noteq> None}"
  have "size (put k v m) = card {k'. find k' (put k v m) \<noteq> None}"
    using size_dom[OF ok_put[OF m(1)]] by simp
  also have "{k'. find k' (put k v m) \<noteq> None} = insert k ?D"
    using m by (auto simp: find_put)
  also have "card (insert k ?D) = Suc (card ?D)"
    using size_dom[OF m(1)] m(2) by (intro card_insert_disjoint) auto
  finally show "size (put k v m) = Suc (size m)"
    using size_dom[OF m(1)] by simp
qed

text \<open>Inserting under a key that is there replaces its entry.\<close>

lemma size_put_known:
  assumes m: "ok m" "find k m \<noteq> None"
  shows "size (put k v m) = size m"
proof -
  have D: "{k'. find k' (put k v m) \<noteq> None} = {k'. find k' m \<noteq> None}"
    using m by (auto simp: find_put)
  show ?thesis
    using size_dom[OF ok_put[OF m(1)], of k v, unfolded D] size_dom[OF m(1)] by (metis (no_types))
qed

end

section \<open>The association list keeps the contract\<close>

lemma map_find_simps [simp]:
  "map_find k [] = None"
  "map_find k ((k', v) # m) = (if k = k' then Some v else map_find k m)"
  by (auto simp: map_find_def)

lemma map_ok_simps [simp]:
  "map_ok []" "map_ok ((k, v) # m) \<longleftrightarrow> (\<forall>k'\<in>fst ` set m. k < k') \<and> map_ok m"
  by (auto simp: map_ok_def)

lemma map_find_put: "map_find k' (map_put k v m) = (if k' = k then Some v else map_find k' m)"
  if "map_ok m"
  using that by (induction k v m rule: map_put.induct) (auto simp: map_find_def)

lemma set_map_put_keys: "fst ` set (map_put k v m) = insert k (fst ` set m)"
  by (induction k v m rule: map_put.induct) auto

lemma map_ok_put: "map_ok m \<Longrightarrow> map_ok (map_put k v m)"
  by (induction k v m rule: map_put.induct) (auto simp: set_map_put_keys)

lemma map_find_erase: "map_find k' (map_erase k m) = (if k' = k then None else map_find k' m)"
  by (induction m) (auto simp: map_erase_def)

lemma map_ok_erase: "map_ok m \<Longrightarrow> map_ok (map_erase k m)"
  by (induction m) (auto simp: map_erase_def)

lemma map_find_None_iff: "map_find k m = None \<longleftrightarrow> k \<notin> fst ` set m"
  by (simp add: map_find_def map_of_eq_None_iff)

lemma map_ok_distinct: "map_ok m \<Longrightarrow> distinct (map fst m)"
  by (induction m) fastforce+

lemma map_size_dom:
  assumes "map_ok m"
  shows "finite {k. map_find k m \<noteq> None} \<and> card {k. map_find k m \<noteq> None} = length m"
proof -
  have "{k. map_find k m \<noteq> None} = fst ` set m" by (auto simp: map_find_None_iff)
  moreover have "card (fst ` set m) = length m"
    using map_ok_distinct[OF assms] by (metis distinct_card length_map list.set_map)
  ultimately show ?thesis by simp
qed

interpretation smap: std_map map_find map_put map_erase length map_ok
  by unfold_locales
    (use map_size_dom in \<open>simp_all add: map_find_put map_find_erase map_ok_put map_ok_erase\<close>)

text \<open>Membership, for the loops that iterate over a map.\<close>

lemma map_find_in: "map_ok m \<Longrightarrow> (k, v) \<in> set m \<longleftrightarrow> map_find k m = Some v"
  by (simp add: map_find_def map_of_eq_Some_iff map_ok_distinct)

lemma map_put_set:
  "map_ok m \<Longrightarrow> set (map_put k v m) = insert (k, v) {e \<in> set m. fst e \<noteq> k}"
  by (induction k v m rule: map_put.induct) auto

lemma map_erase_set: "set (map_erase k m) = {e \<in> set m. fst e \<noteq> k}"
  by (simp add: map_erase_def)

end
