(* ===== verification/P2PServer.thy ===== *)
theory P2PServer
  imports P2PConnection UDPBase StdMap
begin

text \<open>
  \<^verbatim>\<open>src/clovertun/P2PServer.cpp\<close>: the rendezvous server. Its state is the table of TCP
  connections, the table of sessions, and the heaps of the two kinds of objects they point to.
  Each callback (a packet, a datagram, a new socket, the end of a connection) is one step.
  \<open>None\<close> is undefined behaviour. An address returned by \<open>new\<close> is an argument.
\<close>

section \<open>State\<close>

record p2pserver = CBaseObject +
  tcps :: tcpheap
  conns :: "addr \<Rightarrow> p2pconn option"
  m_P2PConnectList :: "addr stdmap"
  m_TCPList :: "addr stdmap"
  m_dwTCPid :: DWORD
  m_dwTCPPort :: WORD
  m_dwUDPPort :: WORD
  m_pUDP :: "udpbase option"
  m_pTCPService :: "tcpservice option"

definition CP2PServer :: "nat option \<Rightarrow> WORD \<Rightarrow> p2pserver" where
  "CP2PServer udpsock TCPPort =
     \<lparr>m_lRef = 1, tcps = Map.empty, conns = Map.empty, m_P2PConnectList = [], m_TCPList = [],
      m_dwTCPid = 1, m_dwTCPPort = TCPPort, m_dwUDPPort = 0,
      m_pUDP = Some (CUDPBase udpsock), m_pTCPService = Some (CTCPService TCPPort)\<rparr>"

definition CP2PServer_destroy :: "p2pserver \<Rightarrow> p2pserver" where
  "CP2PServer_destroy s = s\<lparr>m_pUDP := None, m_pTCPService := None\<rparr>"

text \<open>The server object itself is reference counted: it is the parameter of every callback.\<close>

definition self :: addr where "self = 0"

definition server_AddRef :: "addr \<Rightarrow> p2pserver \<Rightarrow> p2pserver option" where
  "server_AddRef p s = Some (CBaseObject_AddRef s)"

definition server_Release :: "addr \<Rightarrow> p2pserver \<Rightarrow> p2pserver option" where
  "server_Release p s =
     (case CBaseObject_Release s of
        (s', dead) \<Rightarrow> Some (if dead then CP2PServer_destroy s' else s'))"

text \<open>The heap operations, lifted to the server state.\<close>

definition tcp_AddRef :: "addr \<Rightarrow> p2pserver \<Rightarrow> p2pserver option" where
  "tcp_AddRef a s = map_option (\<lambda>h. s\<lparr>tcps := h\<rparr>) (AddRef a (tcps s))"

definition tcp_Release :: "addr \<Rightarrow> p2pserver \<Rightarrow> p2pserver option" where
  "tcp_Release a s = map_option (\<lambda>h. s\<lparr>tcps := h\<rparr>) (Release a (tcps s))"

definition tcp_Send :: "addr \<Rightarrow> BYTE list \<Rightarrow> p2pserver \<Rightarrow> p2pserver option" where
  "tcp_Send a Packet s = map_option (\<lambda>h. s\<lparr>tcps := h\<rparr>) (SendPacket_to (Some a) Packet (tcps s))"

definition conn_AddRef :: "addr \<Rightarrow> p2pserver \<Rightarrow> p2pserver option" where
  "conn_AddRef a s = map_option (\<lambda>h. s\<lparr>conns := h\<rparr>) (AddRef a (conns s))"

text \<open>The last reference to a session runs its destructor, which releases its connections.\<close>

definition conn_Release :: "addr \<Rightarrow> p2pserver \<Rightarrow> p2pserver option" where
  "conn_Release a s = do {
     c \<leftarrow> conns s a;
     case CBaseObject_Release c of (c', dead) \<Rightarrow>
       if dead then do {
         h \<leftarrow> CP2PConnection_destroy c' (tcps s);
         Some (s\<lparr>tcps := h, conns := (conns s)(a := None)\<rparr>)
       } else Some (s\<lparr>conns := (conns s)(a \<mapsto> c')\<rparr>)
   }"

text \<open>A method of the session at \<open>a\<close>.\<close>

definition conn_call ::
    "(p2pconn \<Rightarrow> tcpheap \<Rightarrow> (P2P_ERROR \<times> p2pconn \<times> tcpheap) option) \<Rightarrow> addr \<Rightarrow> p2pserver \<Rightarrow>
     (P2P_ERROR \<times> p2pserver) option" where
  "conn_call m a s = do {
     c \<leftarrow> conns s a;
     (r, c, h) \<leftarrow> m c (tcps s);
     Some (r, s\<lparr>tcps := h, conns := (conns s)(a \<mapsto> c)\<rparr>)
   }"

definition conn_void :: "(p2pconn \<Rightarrow> tcpheap \<Rightarrow> (p2pconn \<times> tcpheap) option) \<Rightarrow> addr \<Rightarrow>
    p2pserver \<Rightarrow> p2pserver option" where
  "conn_void m a s = do {
     c \<leftarrow> conns s a;
     (c, h) \<leftarrow> m c (tcps s);
     Some (s\<lparr>tcps := h, conns := (conns s)(a \<mapsto> c)\<rparr>)
   }"

section \<open>The tables\<close>

definition GetTCPServer :: "DWORD \<Rightarrow> p2pserver \<Rightarrow> (ptr \<times> p2pserver) option" where
  "GetTCPServer tcpip s =
     (case map_find tcpip (m_TCPList s) of
        None \<Rightarrow> Some (None, s)
      | Some a \<Rightarrow> map_option (\<lambda>s. (Some a, s)) (tcp_AddRef a s))"

text \<open>
  The search for an unused id. The loop has no bound of its own; it is run with one unit of
  fuel more than the table has entries (\<open>CreateTCPID_total\<close>: that is enough).
\<close>

fun TCPIDLoop :: "nat \<Rightarrow> addr stdmap \<Rightarrow> DWORD \<Rightarrow> DWORD option" where
  "TCPIDLoop 0 m i = None"
| "TCPIDLoop (Suc fuel) m i =
     (if map_find i m = None then Some i else TCPIDLoop fuel m (i + 1))"

definition CreateTCPID :: "addr \<Rightarrow> p2pserver \<Rightarrow> (DWORD \<times> p2pserver) option" where
  "CreateTCPID tcp s = do {
     tcpid \<leftarrow> TCPIDLoop (Suc (length (m_TCPList s))) (m_TCPList s) (m_dwTCPid s);
     let s = s\<lparr>m_TCPList := map_put tcpid tcp (m_TCPList s)\<rparr>;
     s \<leftarrow> tcp_AddRef tcp s;
     Some (tcpid, s\<lparr>m_dwTCPid := tcpid + 1\<rparr>)
   }"

text \<open>The callbacks of a connection are unregistered: recv first, then end.\<close>

definition tcp_unregister :: "addr \<Rightarrow> p2pserver \<Rightarrow> p2pserver option" where
  "tcp_unregister a s = do {
     tcp \<leftarrow> tcps s a;
     (tcp, s) \<leftarrow> RegisterRecvProcess server_AddRef server_Release None None tcp s;
     (tcp, s) \<leftarrow> RegisterEndProcess server_AddRef server_Release None None tcp s;
     Some (s\<lparr>tcps := (tcps s)(a \<mapsto> tcp)\<rparr>)
   }"

definition RemoveTCPID :: "addr \<Rightarrow> p2pserver \<Rightarrow> p2pserver option" where
  "RemoveTCPID server s =
     (case find (\<lambda>e. snd e = server) (m_TCPList s) of
        None \<Rightarrow> Some s
      | Some (k, _) \<Rightarrow> do {
          let s = s\<lparr>m_TCPList := map_erase k (m_TCPList s)\<rparr>;
          s \<leftarrow> tcp_unregister server s;
          tcp_Release server s
        })"

text \<open>
  \<open>FindP2PConnection (Keyword)\<close> goes through the whole table: a later match replaces an earlier
  one, and every match takes a reference. \<open>Keyword\<close> is the memory at the argument.
\<close>

fun FindKeywordLoop :: "addr stdmap \<Rightarrow> BYTE list \<Rightarrow> ptr \<Rightarrow> p2pserver \<Rightarrow> (ptr \<times> p2pserver) option"
  where
  "FindKeywordLoop [] Keyword Ret s = Some (Ret, s)"
| "FindKeywordLoop ((k, a) # m) Keyword Ret s =
     (case conns s a of
        None \<Rightarrow> None
      | Some c \<Rightarrow>
          (case strcmp_eq (GetKeyword c) Keyword of
             None \<Rightarrow> None
           | Some False \<Rightarrow> FindKeywordLoop m Keyword Ret s
           | Some True \<Rightarrow>
               (case conn_AddRef a s of
                  None \<Rightarrow> None
                | Some s \<Rightarrow> FindKeywordLoop m Keyword (Some a) s)))"

definition FindP2PConnection :: "BYTE list \<Rightarrow> p2pserver \<Rightarrow> (ptr \<times> p2pserver) option" where
  "FindP2PConnection Keyword s = FindKeywordLoop (m_P2PConnectList s) Keyword None s"

definition FindP2PConnection_id :: "DWORD \<Rightarrow> p2pserver \<Rightarrow> (ptr \<times> p2pserver) option" where
  "FindP2PConnection_id Peerid s =
     (case map_find Peerid (m_P2PConnectList s) of
        None \<Rightarrow> Some (None, s)
      | Some a \<Rightarrow> map_option (\<lambda>s. (Some a, s)) (conn_AddRef a s))"

definition CreateP2PConnection :: "addr \<Rightarrow> BYTE list \<Rightarrow> ptr \<Rightarrow> p2pserver \<Rightarrow> p2pserver option" where
  "CreateP2PConnection new Packet Server s = do {
     (c, h) \<leftarrow> CP2PConnection Packet Server (tcps s);
     tcpid \<leftarrow> rd_dword 0 Packet;
     Some (s\<lparr>tcps := h, conns := (conns s)(new \<mapsto> c),
             m_P2PConnectList := map_put tcpid new (m_P2PConnectList s)\<rparr>)
   }"

section \<open>Callbacks\<close>

text \<open>\<open>p->Release ()\<close> on a pointer that was tested.\<close>

definition release_found :: "ptr \<Rightarrow> p2pserver \<Rightarrow> p2pserver option" where
  "release_found p s = (case p of None \<Rightarrow> Some s | Some a \<Rightarrow> conn_Release a s)"

text \<open>The keyword of the packet structure whose memory is \<open>d\<close>.\<close>

definition keyword_at :: "BYTE list \<Rightarrow> BYTE list" where
  "keyword_at d = take KEYWORD_SIZE (drop 4 d)"

definition recv_WAITING :: "addr \<Rightarrow> BYTE list \<Rightarrow> p2pserver \<Rightarrow> p2pserver option" where
  "recv_WAITING new d s = do {
     tcpid \<leftarrow> rd_dword 0 d;
     (Server, s) \<leftarrow> GetTCPServer tcpid s;
     case Server of
       None \<Rightarrow> Some s
     | Some a \<Rightarrow> do {
         (p2p, s) \<leftarrow> FindP2PConnection (keyword_at d) s;
         (Result, s) \<leftarrow> (case p2p of
             None \<Rightarrow> do {
               s \<leftarrow> CreateP2PConnection new d Server s;
               Some (P2P_ERROR_NONE, s)
             }
           | Some c \<Rightarrow> do {
               print_str (keyword_at d);
               s \<leftarrow> conn_Release c s;
               Some (P2P_KEYWORD_DUPLICATE, s)
             });
         s \<leftarrow> tcp_Send a (CreateTCPResultPkt TPT_WAIT_RESULT tcpid (err_num Result)) s;
         tcp_Release a s
       }
   }"

definition recv_CONNECT :: "BYTE list \<Rightarrow> p2pserver \<Rightarrow> p2pserver option" where
  "recv_CONNECT d s = do {
     tcpid \<leftarrow> rd_dword 0 d;
     (Server, s) \<leftarrow> GetTCPServer tcpid s;
     case Server of
       None \<Rightarrow> Some s
     | Some a \<Rightarrow> do {
         (p2p, s) \<leftarrow> FindP2PConnection (keyword_at d) s;
         (Result, s) \<leftarrow> (case p2p of
             Some c \<Rightarrow> do {
               (Result, s) \<leftarrow> conn_call (TCPConnected d Server) c s;
               s \<leftarrow> conn_Release c s;
               Some (Result, s)
             }
           | None \<Rightarrow> do {
               print_str (keyword_at d);
               Some (P2P_KEYWORD_NOT_FOUND, s)
             });
         s \<leftarrow> (if Result \<noteq> P2P_ERROR_NONE
               then tcp_Send a (CreateTCPResultPkt TPT_CONNECT_RESULT tcpid (err_num Result)) s
               else Some s);
         tcp_Release a s
       }
   }"

definition recv_P2P_RESULT :: "BYTE list \<Rightarrow> p2pserver \<Rightarrow> p2pserver option" where
  "recv_P2P_RESULT d s = do {
     tcpid \<leftarrow> rd_dword 0 d;
     (Server, s) \<leftarrow> GetTCPServer tcpid s;
     case Server of
       None \<Rightarrow> Some s
     | Some a \<Rightarrow> do {
         (p2p, s) \<leftarrow> FindP2PConnection (keyword_at d) s;
         s \<leftarrow> (case p2p of
             Some c \<Rightarrow> do {
               (Result, s) \<leftarrow> conn_call (SetP2POK Server) c s;
               conn_Release c s
             }
           | None \<Rightarrow> Some s);
         tcp_Release a s
       }
   }"

definition recv_PROXY_REQUEST :: "BYTE list \<Rightarrow> p2pserver \<Rightarrow> p2pserver option" where
  "recv_PROXY_REQUEST d s = do {
     tcpid \<leftarrow> rd_dword 0 d;
     (Server, s) \<leftarrow> GetTCPServer tcpid s;
     case Server of
       None \<Rightarrow> Some s
     | Some a \<Rightarrow> do {
         (p2p, s) \<leftarrow> FindP2PConnection (keyword_at d) s;
         (Result, s) \<leftarrow> (case p2p of
             Some c \<Rightarrow> do {
               (Result, s) \<leftarrow> conn_call TCPProxyRequest c s;
               s \<leftarrow> conn_Release c s;
               Some (Result, s)
             }
           | None \<Rightarrow> do {
               print_str (keyword_at d);
               Some (P2P_KEYWORD_NOT_FOUND, s)
             });
         s \<leftarrow> (if Result \<noteq> P2P_ERROR_NONE
               then tcp_Send a (CreateTCPProxyResultPkt tcpid 0 (err_num Result)) s
               else Some s);
         tcp_Release a s
       }
   }"

text \<open>
  The relay case converts the \<open>DWORD\<close> peer id to a pointer, which selects the keyword search:
  \<open>mem p\<close> is the memory readable at address \<open>p\<close>, empty where nothing is mapped.
\<close>

definition recv_DATA_PROXY :: "(DWORD \<Rightarrow> BYTE list) \<Rightarrow> DWORD \<Rightarrow> BYTE list \<Rightarrow> p2pserver \<Rightarrow>
    p2pserver option" where
  "recv_DATA_PROXY mem Length d s = do {
     Peerid \<leftarrow> rd_dword 0 d;
     (p2p, s) \<leftarrow> FindP2PConnection (mem Peerid) s;
     case p2p of
       None \<Rightarrow> Some s
     | Some c \<Rightarrow> do {
         (Result, s) \<leftarrow> conn_call (TCPDataProxy d (Length - BASE_PACKET_HEADER_LEN)) c s;
         conn_Release c s
       }
   }"

definition RecvTCPPacketProcess :: "(DWORD \<Rightarrow> BYTE list) \<Rightarrow> addr \<Rightarrow> BYTE list \<Rightarrow> p2pserver \<Rightarrow>
    (bool \<times> p2pserver) option" where
  "RecvTCPPacketProcess mem new Packet s = do {
     Type \<leftarrow> pkt_type Packet;
     s \<leftarrow> (case tpt_of Type of
         Some TPT_WAITING \<Rightarrow> recv_WAITING new (pkt_data Packet) s
       | Some TPT_CONNECT \<Rightarrow> recv_CONNECT (pkt_data Packet) s
       | Some TPT_P2P_RESULT \<Rightarrow> recv_P2P_RESULT (pkt_data Packet) s
       | Some TPT_PROXY_REQUEST \<Rightarrow> recv_PROXY_REQUEST (pkt_data Packet) s
       | Some TPT_DATA_PROXY \<Rightarrow> do {
           Length \<leftarrow> pkt_length Packet;
           recv_DATA_PROXY mem Length (pkt_data Packet) s
         }
       | _ \<Rightarrow> Some s);
     Some (True, s)
   }"

definition RecvUDPPacketProcess :: "UDP_PACKET \<Rightarrow> p2pserver \<Rightarrow> (bool \<times> p2pserver) option" where
  "RecvUDPPacketProcess Packet s = do {
     let kw = keyword_at (udp_data (BasePacket Packet));
     s \<leftarrow> (case upt_of (udp_type (BasePacket Packet)) of
         Some UPT_WAITING \<Rightarrow> do {
           (p2p, s) \<leftarrow> FindP2PConnection kw s;
           case p2p of
             None \<Rightarrow> Some s
           | Some c \<Rightarrow> do {
               (Result, s) \<leftarrow> conn_call (UDPListening (PacketInfo Packet)) c s;
               conn_Release c s
             }
         }
       | Some UPT_CONNECT \<Rightarrow> do {
           (p2p, s) \<leftarrow> FindP2PConnection kw s;
           case p2p of
             None \<Rightarrow> Some s
           | Some c \<Rightarrow> do {
               (Result, s) \<leftarrow> conn_call (UDPConnected (PacketInfo Packet)) c s;
               conn_Release c s
             }
         }
       | _ \<Rightarrow> Some s);
     Some (True, s)
   }"

text \<open>
  A new socket: \<open>new\<close> is the address of the new \<open>CTCPServer\<close>, \<open>rawdst\<close> and \<open>rawsrc\<close> its
  uninitialised arrays, \<open>peer\<close> the answer of \<open>getpeername\<close>.
\<close>

definition AcceptTCPSocketProcess :: "addr \<Rightarrow> BYTE list \<Rightarrow> BYTE list \<Rightarrow>
    (BYTE list \<times> WORD) option \<Rightarrow> nat \<Rightarrow> p2pserver \<Rightarrow> (bool \<times> p2pserver) option" where
  "AcceptTCPSocketProcess new rawdst rawsrc peer sock s = do {
     tcp \<leftarrow> CTCPServer rawdst rawsrc sock (m_dwTCPPort s);
     (tcp, s) \<leftarrow> RegisterRecvProcess server_AddRef server_Release (Some ServerDelegate)
        (Some self) tcp s;
     (tcp, s) \<leftarrow> RegisterEndProcess server_AddRef server_Release (Some ServerDelegate)
        (Some self) tcp s;
     (ok, tcp) \<leftarrow> CTCPServer_Init peer tcp;
     let s = s\<lparr>tcps := (tcps s)(new \<mapsto> tcp)\<rparr>;
     s \<leftarrow> (if ok then do {
         (tcpid, s) \<leftarrow> CreateTCPID new s;
         tcp_Send new (CreateTCPInitPkt tcpid (m_dwUDPPort s)) s
       } else Some s);
     s \<leftarrow> tcp_Release new s;
     Some (True, s)
   }"

text \<open>The scan of \<open>TCPEndProcess\<close> stops at the first session that the connection takes part in.\<close>

fun EndLoop :: "addr stdmap \<Rightarrow> addr \<Rightarrow> p2pserver \<Rightarrow> p2pserver option" where
  "EndLoop [] server s = Some s"
| "EndLoop ((k, a) # m) server s =
     (case conns s a of
        None \<Rightarrow> None
      | Some c \<Rightarrow>
          if IsConnTCPServer (Some server) c then conn_void ConnTCPDisconnect a s
          else if IsMainTCPServer (Some server) c then
            (case conn_void MainTCPDisconnect a s of
               None \<Rightarrow> None
             | Some s \<Rightarrow>
                 conn_Release a (s\<lparr>m_P2PConnectList := map_erase k (m_P2PConnectList s)\<rparr>))
          else EndLoop m server s)"

definition TCPEndProcess :: "addr \<Rightarrow> p2pserver \<Rightarrow> p2pserver option" where
  "TCPEndProcess server s = do {
     s \<leftarrow> EndLoop (m_P2PConnectList s) server s;
     RemoveTCPID server s
   }"

definition TCPEndProcessDelegate :: "addr \<Rightarrow> p2pserver \<Rightarrow> p2pserver option" where
  "TCPEndProcessDelegate tcp s = do {
     s \<leftarrow> server_AddRef self s;
     s \<leftarrow> TCPEndProcess tcp s;
     server_Release self s
   }"

text \<open>
  The functions that are registered as callbacks: they check the parameter and call the method.
  \<open>Param\<close> is a pointer to the server or NULL.
\<close>

definition AcceptTCPSocketProcessDelegate :: "addr \<Rightarrow> BYTE list \<Rightarrow> BYTE list \<Rightarrow>
    (BYTE list \<times> WORD) option \<Rightarrow> nat \<Rightarrow> ptr \<Rightarrow> p2pserver \<Rightarrow> (bool \<times> p2pserver) option" where
  "AcceptTCPSocketProcessDelegate new rawdst rawsrc peer sock Param s =
     (if Param \<noteq> None then AcceptTCPSocketProcess new rawdst rawsrc peer sock s else Some (False, s))"

definition RecvUDPPacketProcessDelegate :: "UDP_PACKET \<Rightarrow> ptr \<Rightarrow> p2pserver \<Rightarrow> (bool \<times> p2pserver) option"
  where
  "RecvUDPPacketProcessDelegate Packet Param s =
     (if Param \<noteq> None then RecvUDPPacketProcess Packet s else Some (False, s))"

definition RecvTCPPacketProcessDelegate :: "(DWORD \<Rightarrow> BYTE list) \<Rightarrow> addr \<Rightarrow> BYTE list \<Rightarrow> ptr \<Rightarrow>
    p2pserver \<Rightarrow> (bool \<times> p2pserver) option" where
  "RecvTCPPacketProcessDelegate mem new Packet Param s =
     (if Param \<noteq> None then RecvTCPPacketProcess mem new Packet s else Some (False, s))"

text \<open>The end of the receiving thread (\<open>CTCPBase::RecvProc\<close> after its loop) of a connection.\<close>

definition RecvProc_exit :: "addr \<Rightarrow> p2pserver \<Rightarrow> p2pserver option" where
  "RecvProc_exit a s = do {
     tcp \<leftarrow> tcps s a;
     s \<leftarrow> (if m_pfnEndFunc tcp \<noteq> None then TCPEndProcessDelegate a s else Some s);
     tcp \<leftarrow> tcps s a;
     let s = s\<lparr>tcps := (tcps s)(a \<mapsto> tcp\<lparr>m_hStopEvent := True\<rparr>)\<rparr>;
     tcp_Release a s
   }"

text \<open>The end of the sending thread.\<close>

definition SendProc_exit :: "addr \<Rightarrow> p2pserver \<Rightarrow> p2pserver option" where
  "SendProc_exit a s = tcp_Release a s"

text \<open>\<open>Init\<close>: the first free UDP port from the base on; \<open>bound\<close> answers \<open>bind\<close> for a port.\<close>

fun PortLoop :: "nat \<Rightarrow> (WORD \<Rightarrow> bool) \<Rightarrow> WORD \<Rightarrow> 'a udpbase_scheme \<Rightarrow> (WORD \<times> 'a udpbase_scheme) loop"
  where
  "PortLoop 0 bound p udp = NoFuel"
| "PortLoop (Suc fuel) bound p udp =
     (case UDP_Init bound p udp of
        (False, udp) \<Rightarrow> PortLoop fuel bound (p + 1) udp
      | (True, udp) \<Rightarrow> Stop (p, UDP_Start udp))"

definition P2PServer_Init :: "nat \<Rightarrow> (WORD \<Rightarrow> bool) \<Rightarrow> nat option \<Rightarrow> bool \<Rightarrow> p2pserver \<Rightarrow>
    (bool \<times> p2pserver) option loop" where
  "P2PServer_Init fuel bound lsock lbound s =
     (case m_pUDP s of
        None \<Rightarrow> Stop None
      | Some udp \<Rightarrow>
          (case UDP_RegisterRecvProcess server_AddRef server_Release (Some UdpServerDelegate)
                  (Some self) udp s of
             None \<Rightarrow> Stop None
           | Some (udp, s) \<Rightarrow>
               map_loop (\<lambda>(p, udp).
                   let s = s\<lparr>m_dwUDPPort := p, m_pUDP := Some udp\<rparr> in
                   case m_pTCPService s of
                     None \<Rightarrow> None
                   | Some svc \<Rightarrow> do {
                       (svc, s) \<leftarrow> RegisterSocketAcceptProcess server_AddRef server_Release True
                          (Some self) svc s;
                       let svc = snd (CTCPService_Init lsock lbound svc);
                       Some (True, s\<lparr>m_pTCPService := Some svc\<rparr>)
                     })
                 (PortLoop fuel bound UDP_PORT_SERVER_BASE udp)))"

end
