(* ===== verification/ServerInvariant.thy ===== *)
theory ServerInvariant
  imports P2PServer
begin

text \<open>
  The invariant of the server and its operations. \<open>core R x y s\<close>: every connection object has as
  many counted references as sessions refer to it, plus \<open>x\<close> (the table of connections, the
  threads, references held by a running handler); every session object has one reference plus
  \<open>y\<close> (held by a running handler); every entry of the session table is a live session registered
  under its host's id; and no two entries have the same keyword. The lemmas take each
  operation of the server from \<open>core\<close> to \<open>core\<close>: no operation fails (\<open>None\<close>), and the owners are
  counted right.
\<close>

section \<open>References held by the sessions\<close>

definition conn_refs :: "p2pconn option \<Rightarrow> addr \<Rightarrow> nat" where
  "conn_refs v a = (case v of None \<Rightarrow> 0 | Some c \<Rightarrow> role_refs c a)"

definition session_refs :: "(addr \<Rightarrow> p2pconn option) \<Rightarrow> addr \<Rightarrow> nat" where
  "session_refs cs a = total (\<lambda>c. role_refs c a) cs"

lemma conn_refs_weight: "conn_refs v a = weight (\<lambda>c. role_refs c a) v"
  by (simp add: conn_refs_def weight_def)

lemma session_refs_upd:
  "finite (dom cs) \<Longrightarrow> session_refs (cs(p := v)) a + conn_refs (cs p) a = session_refs cs a + conn_refs v a"
  by (simp add: session_refs_def conn_refs_weight total_upd)

lemma session_refs_ge: "finite (dom cs) \<Longrightarrow> conn_refs (cs p) a \<le> session_refs cs a"
  by (simp add: session_refs_def conn_refs_weight total_ge)

lemma session_refs_same:
  "finite (dom cs) \<Longrightarrow> cs p = Some c \<Longrightarrow> role_refs c' = role_refs c \<Longrightarrow>
     session_refs (cs(p \<mapsto> c')) = session_refs cs"
  using session_refs_upd[of cs p "Some c'"] by (auto simp: conn_refs_def fun_eq_iff)

lemma role_refs_lRef [simp]: "role_refs (c\<lparr>m_lRef := r\<rparr>) = role_refs c"
  by (simp add: role_refs_def fun_eq_iff)

lemma conn_wf_lRef [simp]: "conn_wf (c\<lparr>m_lRef := r\<rparr>) = conn_wf c"
  by (simp add: conn_wf_def)

section \<open>The invariant\<close>

definition kw_of :: "p2pserver \<Rightarrow> addr \<Rightarrow> BYTE list option" where
  "kw_of s p = map_option (\<lambda>c. cstr (m_szKeyword c)) (conns s p)"

definition entry_ok :: "p2pserver \<Rightarrow> DWORD \<times> addr \<Rightarrow> bool" where
  "entry_ok s e \<longleftrightarrow> (\<exists>c. conns s (snd e) = Some c \<and> m_dwMainTCPID c = fst e)"

definition kw_unique :: "p2pserver \<Rightarrow> bool" where
  "kw_unique s \<longleftrightarrow> (\<forall>e\<in>set (m_P2PConnectList s). \<forall>e'\<in>set (m_P2PConnectList s).
     kw_of s (snd e) = kw_of s (snd e') \<longrightarrow> e = e')"

definition session_ok :: "nat \<Rightarrow> p2pconn \<Rightarrow> bool" where
  "session_ok k c \<longleftrightarrow> conn_wf c \<and> m_lRef c = of_nat (Suc k)"

definition owners :: "p2pserver \<Rightarrow> (addr \<Rightarrow> nat) \<Rightarrow> addr \<Rightarrow> nat" where
  "owners s x a = session_refs (conns s) a + x a"

definition core :: "addr set \<Rightarrow> (addr \<Rightarrow> nat) \<Rightarrow> (addr \<Rightarrow> nat) \<Rightarrow> p2pserver \<Rightarrow> bool" where
  "core R x y s \<longleftrightarrow> map_ok (m_P2PConnectList s) \<and> finite (dom (conns s))
     \<and> heap_ok (tcp_good R) (owners s x) (tcps s)
     \<and> (\<forall>p c. conns s p = Some c \<longrightarrow> session_ok (y p) c) \<and> (\<forall>p. conns s p = None \<longrightarrow> y p = 0)
     \<and> (\<forall>e\<in>set (m_P2PConnectList s). entry_ok s e) \<and> kw_unique s"

text \<open>
  The three ways in which an operation changes the sessions: none comes or goes; one is created and
  entered in the table, in place of what was there under the same id; one is taken out of the
  table and deleted.
\<close>

definition sessions_change :: "p2pserver \<Rightarrow> p2pserver \<Rightarrow> bool" where
  "sessions_change s s' \<longleftrightarrow>
     (m_P2PConnectList s' = m_P2PConnectList s \<and> dom (conns s') = dom (conns s))
   \<or> (\<exists>i new. conns s new = None \<and> m_P2PConnectList s' = map_put i new (m_P2PConnectList s)
        \<and> dom (conns s') = insert new (dom (conns s)))
   \<or> (\<exists>i p. (i, p) \<in> set (m_P2PConnectList s)
        \<and> m_P2PConnectList s' = map_erase i (m_P2PConnectList s) \<and> dom (conns s') = dom (conns s) - {p})"

lemma sessions_change_same:
  "m_P2PConnectList s' = m_P2PConnectList s \<Longrightarrow> dom (conns s') = dom (conns s) \<Longrightarrow> sessions_change s s'"
  by (simp add: sessions_change_def)

lemma sessions_change_cong:
  assumes "m_P2PConnectList t = m_P2PConnectList s" and "dom (conns t) = dom (conns s)"
  shows "sessions_change s0 t = sessions_change s0 s" and "sessions_change t s0 = sessions_change s s0"
proof -
  have "conns t new = None \<longleftrightarrow> conns s new = None" for new using assms(2) by (metis domIff)
  then show "sessions_change s0 t = sessions_change s0 s" "sessions_change t s0 = sessions_change s s0"
    by (simp_all add: sessions_change_def assms)
qed

text \<open>What the handlers leave alone, how they change the sessions, and how far they let a count
  grow.\<close>

definition same_tcp :: "p2pserver \<Rightarrow> p2pserver \<Rightarrow> bool" where
  "same_tcp s s' \<longleftrightarrow> m_TCPList s' = m_TCPList s \<and> m_lRef s' = m_lRef s \<and> sessions_change s s'
     \<and> (\<forall>a. session_refs (conns s') a \<le> Suc (session_refs (conns s) a))"

section \<open>References to connections\<close>

lemma owners_tcps [simp]: "owners (s\<lparr>tcps := h\<rparr>) x = owners s x"
  by (simp add: owners_def fun_eq_iff)

lemma core_tcps:
  "core R x y s \<Longrightarrow> heap_ok (tcp_good R) (owners s x') h \<Longrightarrow> core R x' y (s\<lparr>tcps := h\<rparr>)"
  by (simp add: core_def entry_ok_def kw_unique_def kw_of_def)

lemma owners_upd: "(owners s x)(a := owners s x a + 1) = owners s (x(a := x a + 1))"
  by (simp add: owners_def fun_eq_iff)

lemma tcp_AddRef_core:
  assumes "core R x y s" and "0 < owners s x a" and "Suc (owners s x a) < 4294967296"
  obtains h where "tcp_AddRef a s = Some (s\<lparr>tcps := h\<rparr>)"
    and "core R (x(a := x a + 1)) y (s\<lparr>tcps := h\<rparr>)"
proof -
  have "heap_ok (tcp_good R) (owners s x) (tcps s)" using assms(1) by (simp add: core_def)
  from tcp_heap.AddRef_ok[OF this assms(2,3)]
  obtain h where h: "AddRef a (tcps s) = Some h"
    "heap_ok (tcp_good R) ((owners s x)(a := owners s x a + 1)) h" by auto
  then show thesis
    using that[of h] core_tcps[OF assms(1)] by (simp only: owners_upd tcp_AddRef_def option.map)
qed

lemma Release_core:
  assumes "core R x y s" and "0 < x a"
  obtains h where "Release a (tcps s) = Some h"
    and "core R (x(a := x a - 1)) y (s\<lparr>tcps := h\<rparr>)"
proof -
  have "heap_ok (tcp_good R) (owners s x) (tcps s)" using assms(1) by (simp add: core_def)
  moreover have "0 < owners s x a" using assms(2) by (simp add: owners_def)
  ultimately obtain h where h: "Release a (tcps s) = Some h"
    "heap_ok (tcp_good R) ((owners s x)(a := owners s x a - 1)) h"
    using tcp_heap.Release_ok by blast
  moreover have "(owners s x)(a := owners s x a - 1) = owners s (x(a := x a - 1))"
    using assms(2) by (auto simp: owners_def fun_eq_iff)
  ultimately show thesis
    using that[of h] core_tcps[OF assms(1)] by simp
qed

lemma tcp_Release_core:
  assumes "core R x y s" and "0 < x a"
  obtains h where "tcp_Release a s = Some (s\<lparr>tcps := h\<rparr>)"
    and "core R (x(a := x a - 1)) y (s\<lparr>tcps := h\<rparr>)"
  by (rule Release_core[OF assms]) (simp add: tcp_Release_def)

lemma tcp_Send_core:
  assumes "core R x y s" and "0 < owners s x a"
  obtains h where "tcp_Send a p s = Some (s\<lparr>tcps := h\<rparr>)" and "core R x y (s\<lparr>tcps := h\<rparr>)"
proof -
  have "heap_ok (tcp_good R) (owners s x) (tcps s)" using assms(1) by (simp add: core_def)
  from SendPacket_to_ok[OF this assms(2), of p] obtain h where
    "SendPacket_to (Some a) p (tcps s) = Some h" "heap_ok (tcp_good R) (owners s x) h" by metis
  then show thesis using that[of h] core_tcps[OF assms(1)] by (simp add: tcp_Send_def)
qed

section \<open>References to sessions\<close>

lemma core_conn:
  assumes s: "core R x y s" and c: "conns s p = Some c" and c': "session_ok (y' p) c'"
    and y': "\<And>q. q \<noteq> p \<Longrightarrow> y' q = y q" and id: "m_szKeyword c' = m_szKeyword c"
      "m_dwMainTCPID c' = m_dwMainTCPID c"
    and h: "heap_ok (tcp_good R) (owners (s\<lparr>conns := (conns s)(p \<mapsto> c')\<rparr>) x) h"
  shows "core R x y' (s\<lparr>tcps := h, conns := (conns s)(p \<mapsto> c')\<rparr>)"
proof -
  let ?s = "s\<lparr>tcps := h, conns := (conns s)(p \<mapsto> c')\<rparr>"
  have kw: "kw_of ?s = kw_of s" using c id by (simp add: kw_of_def fun_eq_iff)
  have "entry_ok ?s e = entry_ok s e" for e
    using c id by (auto simp: entry_ok_def split: if_splits)
  moreover have "owners ?s x = owners (s\<lparr>conns := (conns s)(p \<mapsto> c')\<rparr>) x"
    by (simp add: owners_def fun_eq_iff)
  ultimately show ?thesis
    using s h c' y' by (auto simp: core_def kw_unique_def kw)
qed

lemma owners_conn_same:
  assumes "core R x y s" and "conns s p = Some c" and "role_refs c' = role_refs c"
  shows "owners (s\<lparr>conns := (conns s)(p \<mapsto> c')\<rparr>) x = owners s x"
  using assms session_refs_same[of "conns s" p c c']
  by (simp add: owners_def core_def fun_eq_iff)

lemma conn_AddRef_core:
  assumes s: "core R x y s" and c: "conns s p = Some c"
  shows "conn_AddRef p s = Some (s\<lparr>conns := (conns s)(p \<mapsto> c\<lparr>m_lRef := m_lRef c + 1\<rparr>)\<rparr>)"
    and "core R x (y(p := Suc (y p))) (s\<lparr>conns := (conns s)(p \<mapsto> c\<lparr>m_lRef := m_lRef c + 1\<rparr>)\<rparr>)"
proof -
  let ?c = "c\<lparr>m_lRef := m_lRef c + 1\<rparr>"
  show "conn_AddRef p s = Some (s\<lparr>conns := (conns s)(p \<mapsto> ?c)\<rparr>)"
    using c by (simp add: conn_AddRef_def AddRef_live)
  have "session_ok (y p) c" using s c by (simp add: core_def)
  then have "session_ok (Suc (y p)) ?c" by (simp add: session_ok_def)
  then have "core R x (y(p := Suc (y p))) (s\<lparr>tcps := tcps s, conns := (conns s)(p \<mapsto> ?c)\<rparr>)"
    using s owners_conn_same[OF s c, of ?c] by (intro core_conn[OF s c]) (simp_all add: core_def)
  then show "core R x (y(p := Suc (y p))) (s\<lparr>conns := (conns s)(p \<mapsto> ?c)\<rparr>)" by simp
qed

lemma conn_Release_core:
  assumes s: "core R x y s" and c: "conns s p = Some c" and y: "0 < y p" "y p < 4294967296"
  obtains c' where "conn_Release p s = Some (s\<lparr>conns := (conns s)(p \<mapsto> c')\<rparr>)"
    and "core R x (y(p := y p - 1)) (s\<lparr>conns := (conns s)(p \<mapsto> c')\<rparr>)"
    and "role_refs c' = role_refs c"
proof -
  let ?c = "c\<lparr>m_lRef := m_lRef c - 1\<rparr>"
  have ok: "session_ok (y p) c" using s c by (simp add: core_def)
  then have r: "m_lRef c - 1 = of_nat (y p)" by (simp add: session_ok_def)
  have "unat (of_nat (y p) :: LONG) \<noteq> 0" using y by (simp add: unat_of_nat_DWORD)
  then have "m_lRef c - 1 \<noteq> 0" by (metis r unat_0)
  then have 1: "conn_Release p s = Some (s\<lparr>conns := (conns s)(p \<mapsto> ?c)\<rparr>)"
    using c by (simp add: conn_Release_def CBaseObject_Release_def Let_def)
  have "session_ok (y p - 1) ?c" using ok y r by (simp add: session_ok_def)
  then have "core R x (y(p := y p - 1)) (s\<lparr>tcps := tcps s, conns := (conns s)(p \<mapsto> ?c)\<rparr>)"
    using s owners_conn_same[OF s c, of ?c] by (intro core_conn[OF s c]) (simp_all add: core_def)
  then show thesis using that[of ?c] 1 by simp
qed

text \<open>A method of a session, called through its address.\<close>

lemma conn_refs_le:
  assumes "core R x y s" and "conns s p = Some c" shows "role_refs c a \<le> owners s x a"
  using assms session_refs_ge[of "conns s" p a]
  by (simp add: core_def owners_def conn_refs_def)

lemma moved_core:
  assumes s: "core R x y s" and c: "conns s p = Some c"
    and m: "moves_refs R (owners s x) c c' h'"
  shows "core R x y (s\<lparr>tcps := h', conns := (conns s)(p \<mapsto> c')\<rparr>)"
    and "same_tcp s (s\<lparr>tcps := h', conns := (conns s)(p \<mapsto> c')\<rparr>)"
proof -
  have fin: "finite (dom (conns s))" using s by (simp add: core_def)
  have upd: "session_refs ((conns s)(p \<mapsto> c')) a + role_refs c a
      = session_refs (conns s) a + role_refs c' a" for a
    using session_refs_upd[OF fin, of p "Some c'" a] c by (simp add: conn_refs_def)
  have le: "role_refs c a \<le> session_refs (conns s) a" for a
    using session_refs_ge[OF fin, of p a] c by (simp add: conn_refs_def)
  have "owners s x a - role_refs c a + role_refs c' a
      = owners (s\<lparr>conns := (conns s)(p \<mapsto> c')\<rparr>) x a" for a
    using upd[of a] le[of a] by (simp add: owners_def)
  then have h: "heap_ok (tcp_good R) (owners (s\<lparr>conns := (conns s)(p \<mapsto> c')\<rparr>) x) h'"
    using m by (simp add: moves_refs_def)
  have id: "conn_wf c'" "keeps_identity c c'" using m by (simp_all add: moves_refs_def)
  have "session_ok (y p) c" using s c by (simp add: core_def)
  then have "session_ok (y p) c'" using id by (simp add: session_ok_def keeps_identity_def)
  then show "core R x y (s\<lparr>tcps := h', conns := (conns s)(p \<mapsto> c')\<rparr>)"
    using id by (intro core_conn[OF s c _ _ _ _ h]) (simp_all add: keeps_identity_def)
  have "role_refs c' a \<le> Suc (role_refs c a)" for a
    using id by (simp add: keeps_identity_def role_refs_def)
  then have "session_refs ((conns s)(p \<mapsto> c')) a \<le> Suc (session_refs (conns s) a)" for a
  proof -
    have "role_refs c' a \<le> Suc (role_refs c a)" by fact
    then show ?thesis using upd[of a] le[of a] by linarith
  qed
  moreover have "sessions_change s (s\<lparr>tcps := h', conns := (conns s)(p \<mapsto> c')\<rparr>)"
    using c by (intro sessions_change_same) auto
  ultimately show "same_tcp s (s\<lparr>tcps := h', conns := (conns s)(p \<mapsto> c')\<rparr>)"
    by (simp add: same_tcp_def)
qed

lemma conn_call_core:
  assumes s: "core R x y s" and c: "conns s p = Some c"
    and m: "\<exists>r c' h'. m c (tcps s) = Some (r, c', h') \<and> moves_refs R (owners s x) c c' h'"
  obtains r s' c' where "conn_call m p s = Some (r, s')" and "core R x y s'" and "same_tcp s s'"
    and "conns s' p = Some c'"
proof -
  obtain r c' h' where t: "m c (tcps s) = Some (r, c', h')" "moves_refs R (owners s x) c c' h'"
    using m by blast
  then show thesis
    using that[of r "s\<lparr>tcps := h', conns := (conns s)(p \<mapsto> c')\<rparr>"] moved_core[OF s c t(2)] c
    by (simp add: conn_call_def)
qed

lemma conn_void_core:
  assumes s: "core R x y s" and c: "conns s p = Some c"
    and m: "\<exists>c' h'. m c (tcps s) = Some (c', h') \<and> moves_refs R (owners s x) c c' h'"
  obtains s' where "conn_void m p s = Some s'" and "core R x y s'" and "same_tcp s s'"
proof -
  obtain c' h' where t: "m c (tcps s) = Some (c', h')" "moves_refs R (owners s x) c c' h'"
    using m by blast
  then show thesis
    using that[of "s\<lparr>tcps := h', conns := (conns s)(p \<mapsto> c')\<rparr>"] moved_core[OF s c t(2)] c
    by (simp add: conn_void_def)
qed

section \<open>Finding a session\<close>

lemma FindKeywordLoop_append:
  "FindKeywordLoop (m1 @ m2) kw Ret s
     = Option.bind (FindKeywordLoop m1 kw Ret s) (\<lambda>(Ret, s). FindKeywordLoop m2 kw Ret s)"
  by (induction m1 kw Ret s rule: FindKeywordLoop.induct) (auto split: option.split bool.split)

definition found :: "p2pserver \<Rightarrow> BYTE list \<Rightarrow> DWORD \<times> addr \<Rightarrow> bool" where
  "found s kw e \<longleftrightarrow> kw_of s (snd e) = Some (cstr kw)"

lemma FindKeywordLoop_none:
  assumes "nul_terminated kw"
    and "\<And>e. e \<in> set m \<Longrightarrow> \<not> found s kw e \<and>
           (\<exists>c. conns s (snd e) = Some c \<and> nul_terminated (m_szKeyword c))"
  shows "FindKeywordLoop m kw Ret s = Some (Ret, s)"
  using assms(2)
proof (induction m)
  case (Cons e m)
  obtain k p where e: "e = (k, p)" by fastforce
  obtain c where "conns s p = Some c" "nul_terminated (m_szKeyword c)"
      "cstr (m_szKeyword c) \<noteq> cstr kw"
    using Cons.prems[of e] e by (auto simp: found_def kw_of_def)
  then show ?case
    using Cons e assms(1) by (simp add: strcmp_eq_cstr GetKeyword_def)
qed simp

lemma core_entry:
  assumes "core R x y s" and "e \<in> set (m_P2PConnectList s)"
  obtains c where "conns s (snd e) = Some c" and "conn_wf c" and "m_dwMainTCPID c = fst e"
  using assms by (auto simp: core_def entry_ok_def session_ok_def)

lemma Find_core:
  assumes s: "core R x y s" and kw: "nul_terminated kw"
  obtains
    (none) "FindP2PConnection kw s = Some (None, s)"
      "\<And>e. e \<in> set (m_P2PConnectList s) \<Longrightarrow> \<not> found s kw e"
  | (one) k p c where "(k, p) \<in> set (m_P2PConnectList s)" "conns s p = Some c"
      "cstr (m_szKeyword c) = cstr kw"
      "FindP2PConnection kw s
         = Some (Some p, s\<lparr>conns := (conns s)(p \<mapsto> c\<lparr>m_lRef := m_lRef c + 1\<rparr>)\<rparr>)"
proof -
  let ?L = "m_P2PConnectList s"
  have live: "\<exists>c. conns s (snd e) = Some c \<and> nul_terminated (m_szKeyword c)" if "e \<in> set ?L" for e
    using core_entry[OF s that] by (metis conn_wf_def)
  show thesis
  proof (cases "\<exists>e\<in>set ?L. found s kw e")
    case False
    then show thesis
      using none FindKeywordLoop_none[OF kw, of ?L s None] live
      by (simp add: FindP2PConnection_def)
  next
    case True
    then obtain k p where kp: "(k, p) \<in> set ?L" "found s kw (k, p)" by auto
    then obtain m1 m2 where L: "?L = m1 @ (k, p) # m2" by (meson split_list)
    have dist: "distinct ?L" using s map_ok_distinct[of ?L] by (simp add: core_def distinct_map)
    have other: "\<not> found s kw e" if "e \<in> set m1 \<union> set m2" for e
    proof
      assume "found s kw e"
      then have "e = (k, p)"
        using s kp that L by (auto simp: core_def kw_unique_def found_def)
      then show False using dist that L by auto
    qed
    obtain c where c: "conns s p = Some c" "nul_terminated (m_szKeyword c)"
      using live[OF kp(1)] by auto
    then have eq: "cstr (m_szKeyword c) = cstr kw" using kp(2) by (simp add: found_def kw_of_def)
    let ?s = "s\<lparr>conns := (conns s)(p \<mapsto> c\<lparr>m_lRef := m_lRef c + 1\<rparr>)\<rparr>"
    have "found ?s kw e = found s kw e" for e using c by (simp add: found_def kw_of_def)
    moreover have "\<exists>c'. conns ?s (snd e) = Some c' \<and> nul_terminated (m_szKeyword c')"
      if "e \<in> set ?L" for e
      using live[OF that] c by (cases "snd e = p") auto
    ultimately have m2: "FindKeywordLoop m2 kw (Some p) ?s = Some (Some p, ?s)"
      using other L by (intro FindKeywordLoop_none[OF kw]) auto
    have m1: "FindKeywordLoop m1 kw None s = Some (None, s)"
      using other live L by (intro FindKeywordLoop_none[OF kw]) auto
    have "FindP2PConnection kw s = Some (Some p, ?s)"
      using m1 m2 c kw eq conn_AddRef_core(1)[OF s c(1)]
      by (simp add: FindP2PConnection_def L FindKeywordLoop_append strcmp_eq_cstr GetKeyword_def)
    then show thesis using one kp(1) c(1) eq by blast
  qed
qed

section \<open>The handlers\<close>

lemma same_tcp_tcps [simp]:
  "same_tcp s (s'\<lparr>tcps := h\<rparr>) = same_tcp s s'" "same_tcp (s\<lparr>tcps := h\<rparr>) s' = same_tcp s s'"
  by (simp_all add: same_tcp_def sessions_change_def)

lemma same_tcp_refl [simp]: "same_tcp s s"
  by (simp add: same_tcp_def sessions_change_same)

lemma same_tcp_conn:
  assumes "core R x y s" and "conns s p = Some c" and "role_refs c' = role_refs c"
  shows "same_tcp s0 (s\<lparr>conns := (conns s)(p \<mapsto> c')\<rparr>) = same_tcp s0 s"
    and "same_tcp (s\<lparr>conns := (conns s)(p \<mapsto> c')\<rparr>) s0 = same_tcp s s0"
proof -
  let ?t = "s\<lparr>conns := (conns s)(p \<mapsto> c')\<rparr>"
  have "sessions_change s0 ?t = sessions_change s0 s" "sessions_change ?t s0 = sessions_change s s0"
    using assms(2) by (intro sessions_change_cong; auto)+
  then show "same_tcp s0 ?t = same_tcp s0 s" "same_tcp ?t s0 = same_tcp s s0"
    using assms session_refs_same[of "conns s" p c c'] by (simp_all add: same_tcp_def core_def)
qed

lemma find_call_core:
  assumes s: "core R x y s" and kw: "nul_terminated kw" and y: "\<And>p. Suc (y p) < 4294967296"
    and m: "\<And>c h. heap_ok (tcp_good R) (owners s x) h \<Longrightarrow> conn_wf c \<Longrightarrow>
       (\<And>a. role_refs c a \<le> owners s x a) \<Longrightarrow>
       \<exists>r c' h'. m c h = Some (r, c', h') \<and> moves_refs R (owners s x) c c' h'"
  obtains
    (none) "FindP2PConnection kw s = Some (None, s)"
  | (one) p s1 r s2 s3 where "FindP2PConnection kw s = Some (Some p, s1)"
      "conn_call m p s1 = Some (r, s2)" "conn_Release p s2 = Some s3"
      "core R x y s3" "same_tcp s s3"
proof (rule Find_core[OF s kw])
  fix k p and c :: p2pconn
  let ?c = "c\<lparr>m_lRef := m_lRef c + 1\<rparr>"
  let ?s = "s\<lparr>conns := (conns s)(p \<mapsto> ?c)\<rparr>"
  assume c: "conns s p = Some c" and find: "FindP2PConnection kw s = Some (Some p, ?s)"
  have s1: "core R x (y(p := Suc (y p))) ?s" by (rule conn_AddRef_core(2)[OF s c])
  have own: "owners ?s x = owners s x" by (rule owners_conn_same[OF s c]) simp
  have "heap_ok (tcp_good R) (owners s x) (tcps ?s)" using s by (simp add: core_def)
  moreover have "conn_wf ?c" using s c by (simp add: core_def session_ok_def)
  moreover have "\<And>a. role_refs ?c a \<le> owners s x a" using conn_refs_le[OF s c] by simp
  ultimately have call: "\<exists>r c' h'. m ?c (tcps ?s) = Some (r, c', h')
      \<and> moves_refs R (owners ?s x) ?c c' h'"
    unfolding own by (rule m)
  have "conns ?s p = Some ?c" by simp
  from conn_call_core[where m = m, OF s1 this call]
  obtain r s2 c' where s2: "conn_call m p ?s = Some (r, s2)"
    "core R x (y(p := Suc (y p))) s2" "same_tcp ?s s2" "conns s2 p = Some c'" by blast
  have "0 < (y(p := Suc (y p))) p" "(y(p := Suc (y p))) p < 4294967296" using y by simp_all
  from conn_Release_core[OF s2(2,4) this] obtain c'' where s3:
    "conn_Release p s2 = Some (s2\<lparr>conns := (conns s2)(p \<mapsto> c'')\<rparr>)"
    "core R x ((y(p := Suc (y p)))(p := (y(p := Suc (y p))) p - 1))
       (s2\<lparr>conns := (conns s2)(p \<mapsto> c'')\<rparr>)"
    "role_refs c'' = role_refs c'" by blast
  have "same_tcp s s2" using s2(3) same_tcp_conn(2)[OF s c, of ?c] by simp
  then have "same_tcp s (s2\<lparr>conns := (conns s2)(p \<mapsto> c'')\<rparr>)"
    using same_tcp_conn(1)[OF s2(2,4) s3(3)] by simp
  then show thesis using one[OF find s2(1) s3(1)] s3(2) by simp
qed (use none in blast)

text \<open>The sender of a packet: a reference is taken for the time of the handler.\<close>

definition tabled :: "(addr \<Rightarrow> nat) \<Rightarrow> p2pserver \<Rightarrow> bool" where
  "tabled x s \<longleftrightarrow> (\<forall>e\<in>set (m_TCPList s). 0 < x (snd e))"

lemma GetTCPServer_core:
  assumes s: "core R x y s" and t: "tabled x s" and b: "\<And>a. Suc (owners s x a) < 4294967296"
  obtains (none) "GetTCPServer i s = Some (None, s)"
  | (one) a h where "GetTCPServer i s = Some (Some a, s\<lparr>tcps := h\<rparr>)"
      "core R (x(a := x a + 1)) y (s\<lparr>tcps := h\<rparr>)" "0 < x a" "(i, a) \<in> set (m_TCPList s)"
proof (cases "map_find i (m_TCPList s)")
  case None
  then show thesis using none by (simp add: GetTCPServer_def)
next
  case (Some a)
  then have in_tab: "(i, a) \<in> set (m_TCPList s)"
    unfolding map_find_def by (rule map_of_SomeD)
  then have "0 < x a" using t by (auto simp: tabled_def)
  moreover from this have "0 < owners s x a" by (simp add: owners_def)
  from tcp_AddRef_core[OF s this b] obtain h where
    "tcp_AddRef a s = Some (s\<lparr>tcps := h\<rparr>)" "core R (x(a := x a + 1)) y (s\<lparr>tcps := h\<rparr>)" .
  ultimately show thesis using one in_tab Some by (simp add: GetTCPServer_def)
qed

text \<open>A packet the server can read: it is long enough, and its strings end inside it.\<close>

definition keyword_ok :: "BYTE list \<Rightarrow> bool" where
  "keyword_ok d \<longleftrightarrow> 36 \<le> length d \<and> nul_terminated (keyword_at d)"

definition wait_ok :: "BYTE list \<Rightarrow> bool" where
  "wait_ok d \<longleftrightarrow> keyword_ok d \<and> 164 \<le> length d \<and> nul_terminated (take NAME_SIZE (drop 36 d))"

text \<open>Room for the references a handler takes for a while.\<close>

definition room :: "(addr \<Rightarrow> nat) \<Rightarrow> p2pserver \<Rightarrow> bool" where
  "room x s \<longleftrightarrow> (\<forall>a. owners s x a + 2 < 4294967296)"

lemma roomD: "room x s \<Longrightarrow> Suc (owners s x a) < 4294967296"
  "room x s \<Longrightarrow> Suc (owners s (x(b := x b + 1)) a) < 4294967296"
  by (auto simp: room_def owners_def elim!: allE[of _ a])

lemma rd_keyword: "keyword_ok d \<Longrightarrow> \<exists>i. rd_dword 0 d = Some i"
  by (cases "rd_dword 0 d") (simp_all add: keyword_ok_def)

lemma print_keyword: "keyword_ok d \<Longrightarrow> print_str (keyword_at d) = Some ()"
  by (simp add: keyword_ok_def print_str_def)

definition handled :: "addr set \<Rightarrow> (addr \<Rightarrow> nat) \<Rightarrow> (addr \<Rightarrow> nat) \<Rightarrow> p2pserver \<Rightarrow> p2pserver option \<Rightarrow> bool"
  where
  "handled R x y s r \<longleftrightarrow> (\<exists>s'. r = Some s' \<and> core R x y s' \<and> same_tcp s s')"

lemma handledI: "r = Some s' \<Longrightarrow> core R x y s' \<Longrightarrow> same_tcp s s' \<Longrightarrow> handled R x y s r"
  by (auto simp: handled_def)

text \<open>The end of a handler: an answer, or none, and the reference is returned.\<close>

lemma reply_quiet:
  assumes "core R (x(a := x a + 1)) y s"
  obtains s' where "Option.bind (if b then tcp_Send a pk s else Some s) (tcp_Release a) = Some s'"
    and "core R x y s'" and "\<And>s0. same_tcp s0 s' = same_tcp s0 s"
proof -
  have "0 < owners s (x(a := x a + 1)) a" by (simp add: owners_def)
  from tcp_Send_core[OF assms this, of pk] obtain h where
    h: "tcp_Send a pk s = Some (s\<lparr>tcps := h\<rparr>)" "core R (x(a := x a + 1)) y (s\<lparr>tcps := h\<rparr>)" .
  obtain s1 where s1: "(if b then tcp_Send a pk s else Some s) = Some s1"
      "core R (x(a := x a + 1)) y s1" "\<And>s0. same_tcp s0 s1 = same_tcp s0 s"
    using h assms by (cases b) auto
  have "0 < (x(a := x a + 1)) a" by simp
  from tcp_Release_core[OF s1(2) this] obtain h' where
    "tcp_Release a s1 = Some (s1\<lparr>tcps := h'\<rparr>)"
    "core R ((x(a := x a + 1))(a := (x(a := x a + 1)) a - 1)) y (s1\<lparr>tcps := h'\<rparr>)" .
  then show thesis using that[of "s1\<lparr>tcps := h'\<rparr>"] s1 by simp
qed

lemma release_quiet:
  assumes "core R (x(a := x a + 1)) y s"
  obtains s' where "tcp_Release a s = Some s'" and "core R x y s'"
    and "\<And>s0. same_tcp s0 s' = same_tcp s0 s"
  by (rule reply_quiet[OF assms, of False]) auto

lemma recv_CONNECT_ok:
  assumes s: "core R x (\<lambda>_. 0) s" and t: "tabled x s" and room: "room x s" and d: "wait_ok d"
  shows "handled R x (\<lambda>_. 0) s (recv_CONNECT d s)"
proof -
  have d': "keyword_ok d" "164 \<le> length d" "nul_terminated (keyword_at d)"
    using d by (simp_all add: wait_ok_def keyword_ok_def)
  obtain i where i: "rd_dword 0 d = Some i" using rd_keyword[OF d'(1)] by blast
  show ?thesis
  proof (rule GetTCPServer_core[OF s t roomD(1)[OF room], of i])
    assume "GetTCPServer i s = Some (None, s)"
    then show ?thesis using i s by (simp add: recv_CONNECT_def handled_def)
  next
    fix a h
    let ?s = "s\<lparr>tcps := h\<rparr>" and ?x = "x(a := x a + 1)"
    assume a: "GetTCPServer i s = Some (Some a, ?s)" "core R ?x (\<lambda>_. 0) ?s"
    have own: "0 < owners ?s ?x a" by (simp add: owners_def)
    show ?thesis
    proof (rule find_call_core[where m = "TCPConnected d (Some a)", OF a(2) d'(3)])
      fix c h
      assume "heap_ok (tcp_good R) (owners ?s ?x) h" "conn_wf c"
        "\<And>b. role_refs c b \<le> owners ?s ?x b"
      then show "\<exists>r c' h'. TCPConnected d (Some a) c h = Some (r, c', h')
          \<and> moves_refs R (owners ?s ?x) c c' h'"
        using roomD(2)[OF room, of a a] own d'(2) by (intro TCPConnected_ok) simp_all
    next
      assume none: "FindP2PConnection (keyword_at d) ?s = Some (None, ?s)"
      obtain s' where "Option.bind (tcp_Send a (CreateTCPResultPkt TPT_CONNECT_RESULT i
          (err_num P2P_KEYWORD_NOT_FOUND)) ?s) (tcp_Release a) = Some s'"
        "core R x (\<lambda>_. 0) s'" "same_tcp ?s s'"
        using reply_quiet[OF a(2), of True] by (metis same_tcp_refl)
      then show ?thesis
        using i a none print_keyword[OF d'(1)]
        by (intro handledI[of _ s']) (simp_all add: recv_CONNECT_def)
    next
      fix p s1 r s2 s3
      assume one: "FindP2PConnection (keyword_at d) ?s = Some (Some p, s1)"
        "conn_call (TCPConnected d (Some a)) p s1 = Some (r, s2)" "conn_Release p s2 = Some s3"
        "core R ?x (\<lambda>_. 0) s3" "same_tcp ?s s3"
      obtain s' where "Option.bind (if r \<noteq> P2P_ERROR_NONE then
            tcp_Send a (CreateTCPResultPkt TPT_CONNECT_RESULT i (err_num r)) s3 else Some s3)
          (tcp_Release a) = Some s'" "core R x (\<lambda>_. 0) s'" "same_tcp s s' = same_tcp s s3"
        using reply_quiet[OF one(4), of "r \<noteq> P2P_ERROR_NONE"] by metis
      then show ?thesis
        using i a one
        by (intro handledI[of _ s']) (simp_all add: recv_CONNECT_def)
    qed simp
  qed
qed

lemma recv_P2P_RESULT_ok:
  assumes s: "core R x (\<lambda>_. 0) s" and t: "tabled x s" and room: "room x s" and d: "keyword_ok d"
  shows "handled R x (\<lambda>_. 0) s (recv_P2P_RESULT d s)"
proof -
  have kw: "nul_terminated (keyword_at d)" using d by (simp add: keyword_ok_def)
  obtain i where i: "rd_dword 0 d = Some i" using rd_keyword[OF d] by blast
  show ?thesis
  proof (rule GetTCPServer_core[OF s t roomD(1)[OF room], of i])
    assume "GetTCPServer i s = Some (None, s)"
    then show ?thesis using i s by (simp add: recv_P2P_RESULT_def handled_def)
  next
    fix a h
    let ?s = "s\<lparr>tcps := h\<rparr>" and ?x = "x(a := x a + 1)"
    assume a: "GetTCPServer i s = Some (Some a, ?s)" "core R ?x (\<lambda>_. 0) ?s"
    show ?thesis
    proof (rule find_call_core[where m = "SetP2POK (Some a)", OF a(2) kw])
      assume none: "FindP2PConnection (keyword_at d) ?s = Some (None, ?s)"
      obtain s' where "tcp_Release a ?s = Some s'" "core R x (\<lambda>_. 0) s'" "same_tcp ?s s'"
        using release_quiet[OF a(2)] by (metis same_tcp_refl)
      then show ?thesis
        using i a none by (intro handledI[of _ s']) (simp_all add: recv_P2P_RESULT_def)
    next
      fix p s1 r s2 s3
      assume one: "FindP2PConnection (keyword_at d) ?s = Some (Some p, s1)"
        "conn_call (SetP2POK (Some a)) p s1 = Some (r, s2)" "conn_Release p s2 = Some s3"
        "core R ?x (\<lambda>_. 0) s3" "same_tcp ?s s3"
      obtain s' where "tcp_Release a s3 = Some s'" "core R x (\<lambda>_. 0) s'"
          "same_tcp s s' = same_tcp s s3"
        using release_quiet[OF one(4)] by metis
      then show ?thesis
        using i a one by (intro handledI[of _ s']) (simp_all add: recv_P2P_RESULT_def)
    qed (use SetP2POK_ok in auto)
  qed
qed

lemma recv_PROXY_REQUEST_ok:
  assumes s: "core R x (\<lambda>_. 0) s" and t: "tabled x s" and room: "room x s" and d: "keyword_ok d"
  shows "handled R x (\<lambda>_. 0) s (recv_PROXY_REQUEST d s)"
proof -
  have kw: "nul_terminated (keyword_at d)" using d by (simp add: keyword_ok_def)
  obtain i where i: "rd_dword 0 d = Some i" using rd_keyword[OF d] by blast
  show ?thesis
  proof (rule GetTCPServer_core[OF s t roomD(1)[OF room], of i])
    assume "GetTCPServer i s = Some (None, s)"
    then show ?thesis using i s by (simp add: recv_PROXY_REQUEST_def handled_def)
  next
    fix a h
    let ?s = "s\<lparr>tcps := h\<rparr>" and ?x = "x(a := x a + 1)"
    assume a: "GetTCPServer i s = Some (Some a, ?s)" "core R ?x (\<lambda>_. 0) ?s"
    show ?thesis
    proof (rule find_call_core[where m = TCPProxyRequest, OF a(2) kw])
      assume none: "FindP2PConnection (keyword_at d) ?s = Some (None, ?s)"
      obtain s' where "Option.bind (tcp_Send a (CreateTCPProxyResultPkt i 0
          (err_num P2P_KEYWORD_NOT_FOUND)) ?s) (tcp_Release a) = Some s'"
        "core R x (\<lambda>_. 0) s'" "same_tcp ?s s'"
        using reply_quiet[OF a(2), of True] by (metis same_tcp_refl)
      then show ?thesis
        using i a none print_keyword[OF d]
        by (intro handledI[of _ s']) (simp_all add: recv_PROXY_REQUEST_def)
    next
      fix p s1 r s2 s3
      assume one: "FindP2PConnection (keyword_at d) ?s = Some (Some p, s1)"
        "conn_call TCPProxyRequest p s1 = Some (r, s2)" "conn_Release p s2 = Some s3"
        "core R ?x (\<lambda>_. 0) s3" "same_tcp ?s s3"
      obtain s' where "Option.bind (if r \<noteq> P2P_ERROR_NONE then
            tcp_Send a (CreateTCPProxyResultPkt i 0 (err_num r)) s3 else Some s3)
          (tcp_Release a) = Some s'" "core R x (\<lambda>_. 0) s'" "same_tcp s s' = same_tcp s s3"
        using reply_quiet[OF one(4), of "r \<noteq> P2P_ERROR_NONE"] by metis
      then show ?thesis
        using i a one by (intro handledI[of _ s']) (simp_all add: recv_PROXY_REQUEST_def)
    qed (use TCPProxyRequest_ok in auto)
  qed
qed

text \<open>The UDP handler works on the session alone.\<close>

lemma RecvUDPPacketProcess_ok:
  assumes s: "core R x (\<lambda>_. 0) s" and kw: "nul_terminated (keyword_at (udp_data (BasePacket p)))"
  shows "\<exists>s'. RecvUDPPacketProcess p s = Some (True, s') \<and> core R x (\<lambda>_. 0) s' \<and> same_tcp s s'"
proof -
  let ?type = "upt_of (udp_type (BasePacket p))" and ?ci = "PacketInfo p"
  have listening: "\<exists>r c' h'. UDPListening ?ci c h = Some (r, c', h') \<and> moves_refs R n c c' h'"
    if "heap_ok (tcp_good R) n h" "conn_wf c" "\<And>a. role_refs c a \<le> n a" for n c h
    by (rule UDPListening_ok[OF that])
  have connected: "\<exists>r c' h'. UDPConnected ?ci c h = Some (r, c', h') \<and> moves_refs R n c c' h'"
    if "heap_ok (tcp_good R) n h" "conn_wf c" "\<And>a. role_refs c a \<le> n a" for n c h
    by (rule UDPConnected_ok[OF that])
  consider (wait) "?type = Some UPT_WAITING" | (conn) "?type = Some UPT_CONNECT"
    | (other) "?type \<noteq> Some UPT_WAITING" "?type \<noteq> Some UPT_CONNECT" by blast
  then show ?thesis
  proof cases
    case wait
    show ?thesis
      by (rule find_call_core[where m = "UDPListening ?ci", OF s kw])
        (use wait s listening in \<open>simp_all add: RecvUDPPacketProcess_def\<close>)
  next
    case conn
    show ?thesis
      by (rule find_call_core[where m = "UDPConnected ?ci", OF s kw])
        (use conn s connected in \<open>simp_all add: RecvUDPPacketProcess_def\<close>)
  next
    case other
    then have "RecvUDPPacketProcess p s = Some (True, s)"
      by (auto simp: RecvUDPPacketProcess_def Let_def split: option.split UDPBASE_PACKET_TYPE.split)
    then show ?thesis using s by simp
  qed
qed

text \<open>A new session: \<open>new\<close> is the fresh address of the object.\<close>

lemma core_new_session:
  assumes s: "core R x y s" and fresh: "conns s new = None" and c: "session_ok 0 c"
    and id: "m_dwMainTCPID c = i"
    and kw: "\<And>e. e \<in> set (m_P2PConnectList s) \<Longrightarrow> kw_of s (snd e) \<noteq> Some (cstr (m_szKeyword c))"
    and h: "heap_ok (tcp_good R) (\<lambda>a. owners s x a + role_refs c a) h"
  shows "core R x y (s\<lparr>tcps := h, conns := (conns s)(new \<mapsto> c),
           m_P2PConnectList := map_put i new (m_P2PConnectList s)\<rparr>)" (is "core R x _ ?s")
    and "session_refs ((conns s)(new \<mapsto> c)) a = session_refs (conns s) a + role_refs c a"
proof -
  have fin: "finite (dom (conns s))" and ok: "map_ok (m_P2PConnectList s)"
    using s by (simp_all add: core_def)
  show refs: "session_refs ((conns s)(new \<mapsto> c)) a = session_refs (conns s) a + role_refs c a" for a
    using session_refs_upd[OF fin, of new "Some c" a] fresh by (simp add: conn_refs_def)
  have own: "owners ?s x = (\<lambda>a. owners s x a + role_refs c a)"
    by (simp add: owners_def refs fun_eq_iff)
  have old: "snd e \<noteq> new" if "e \<in> set (m_P2PConnectList s)" for e
    by (rule core_entry[OF s that]) (use fresh in auto)
  have L: "set (m_P2PConnectList ?s)
      = insert (i, new) {e \<in> set (m_P2PConnectList s). fst e \<noteq> i}"
    by (simp add: map_put_set[OF ok])
  have kwo: "kw_of ?s (snd e) = kw_of s (snd e)" if "e \<in> set (m_P2PConnectList s)" for e
    using old[OF that] by (simp add: kw_of_def)
  have "entry_ok ?s e" if "e \<in> set (m_P2PConnectList ?s)" for e
  proof (cases "e = (i, new)")
    case True
    then show ?thesis using id by (simp add: entry_ok_def)
  next
    case False
    then have e: "e \<in> set (m_P2PConnectList s)" using that L by blast
    then have "entry_ok s e" using s by (simp add: core_def)
    then show ?thesis using old[OF e] by (simp add: entry_ok_def)
  qed
  moreover have "kw_unique ?s"
    unfolding kw_unique_def
  proof (intro ballI impI)
    fix e e' assume e: "e \<in> set (m_P2PConnectList ?s)" "e' \<in> set (m_P2PConnectList ?s)"
      and eq: "kw_of ?s (snd e) = kw_of ?s (snd e')"
    have new: "kw_of ?s new = Some (cstr (m_szKeyword c))" by (simp add: kw_of_def)
    consider "e = (i, new)" "e' = (i, new)"
      | "e = (i, new)" "e' \<in> set (m_P2PConnectList s)"
      | "e \<in> set (m_P2PConnectList s)" "e' = (i, new)"
      | "e \<in> set (m_P2PConnectList s)" "e' \<in> set (m_P2PConnectList s)"
      using e unfolding L by blast
    then show "e = e'"
    proof cases
      case 2 then show ?thesis using eq new kw[OF 2(2)] kwo[OF 2(2)] by simp
    next
      case 3 then show ?thesis using eq new kw[OF 3(1)] kwo[OF 3(1)] by simp
    next
      case 4 then show ?thesis using eq kwo s by (simp add: core_def kw_unique_def)
    qed simp
  qed
  moreover have "y new = 0" using s fresh by (simp add: core_def)
  then have "session_ok (y p) v" if "conns ?s p = Some v" for p v
    using that c s by (auto simp: core_def split: if_splits)
  moreover have "\<forall>p. conns ?s p = None \<longrightarrow> y p = 0" using s by (simp add: core_def)
  moreover have "map_ok (m_P2PConnectList ?s)" using map_ok_put[OF ok] by simp
  ultimately show "core R x y ?s"
    unfolding core_def own using h fin by simp
qed

lemma CreateP2PConnection_core:
  assumes s: "core R x y s" and a: "0 < owners s x a" "Suc (owners s x a) < 4294967296"
    and d: "wait_ok d" and i: "rd_dword 0 d = Some i" and fresh: "conns s new = None"
    and none: "\<forall>e\<in>set (m_P2PConnectList s). kw_of s (snd e) \<noteq> Some (cstr (keyword_at d))"
  obtains c h where "CreateP2PConnection new d (Some a) s = Some (s\<lparr>tcps := h,
       conns := (conns s)(new \<mapsto> c), m_P2PConnectList := map_put i new (m_P2PConnectList s)\<rparr>)"
    and "core R x y (s\<lparr>tcps := h, conns := (conns s)(new \<mapsto> c),
           m_P2PConnectList := map_put i new (m_P2PConnectList s)\<rparr>)"
    and "\<And>b. session_refs ((conns s)(new \<mapsto> c)) b \<le> Suc (session_refs (conns s) b)"
    and "m_szKeyword c = keyword_at d" and "m_pMainTCPServer c = Some a"
    and "m_eStatus c = P2P_TCP_LISTENING" and "outbox h = outbox (tcps s)"
proof -
  have kw: "nul_terminated (keyword_at d)" and len: "164 \<le> length d"
    and flds: "rd_bytes 4 32 d = Some (keyword_at d)"
    "rd_bytes 36 128 d = Some (take NAME_SIZE (drop 36 d))"
    "nul_terminated (take NAME_SIZE (drop 36 d))"
    using d by (simp_all add: wait_ok_def keyword_ok_def rd_bytes_def keyword_at_def
        KEYWORD_SIZE_def NAME_SIZE_def)
  have own: "heap_ok (tcp_good R) (owners s x) (tcps s)" using s by (simp add: core_def)
  obtain c h j where c: "CP2PConnection d (Some a) (tcps s) = Some (c, h)" "rd_dword 0 d = Some j"
    "conn_wf c" "m_lRef c = 1" "m_szKeyword c = keyword_at d" "m_pMainTCPServer c = Some a"
    "m_pConnTCPServer c = None" "m_dwMainTCPID c = j" "m_eStatus c = P2P_TCP_LISTENING"
    "heap_ok (tcp_good R) ((owners s x)(a := Suc (owners s x a))) h" "outbox h = outbox (tcps s)"
    using CP2PConnection_spec[OF own a len flds(1) kw flds(2,3)] .
  have refs: "role_refs c b = of_bool (b = a)" for b using c(6,7) by (auto simp: role_refs_def)
  have h: "heap_ok (tcp_good R) (\<lambda>b. owners s x b + role_refs c b) h"
    by (rule back_subst[where P = "\<lambda>n. heap_ok (tcp_good R) n h", OF c(10)])
      (simp add: fun_eq_iff refs)
  have kwc: "kw_of s (snd e) \<noteq> Some (cstr (m_szKeyword c))"
    if "e \<in> set (m_P2PConnectList s)" for e
    using none that c(5) by simp
  have "session_ok 0 c" "m_dwMainTCPID c = i" using c i by (simp_all add: session_ok_def)
  note new = core_new_session[OF s fresh this kwc h]
  show thesis
    by (rule that[OF _ new(1) _ c(5,6,9,11)])
      (use c(1) i new(2) refs in \<open>simp_all add: CreateP2PConnection_def\<close>)
qed

text \<open>The part of the handler that holds the lock of the session table.\<close>

definition register_step :: "addr \<Rightarrow> BYTE list \<Rightarrow> ptr \<Rightarrow> p2pserver \<Rightarrow> (P2P_ERROR \<times> p2pserver) option"
  where
  "register_step new d Server s = do {
     (p2p, s) \<leftarrow> FindP2PConnection (keyword_at d) s;
     case p2p of
       None \<Rightarrow> do {
         s \<leftarrow> CreateP2PConnection new d Server s;
         Some (P2P_ERROR_NONE, s)
       }
     | Some c \<Rightarrow> do {
         print_str (keyword_at d);
         s \<leftarrow> conn_Release c s;
         Some (P2P_KEYWORD_DUPLICATE, s)
       }
   }"

lemma recv_WAITING_register:
  "recv_WAITING new d s = do {
     tcpid \<leftarrow> rd_dword 0 d;
     (Server, s) \<leftarrow> GetTCPServer tcpid s;
     case Server of
       None \<Rightarrow> Some s
     | Some a \<Rightarrow> do {
         (Result, s) \<leftarrow> register_step new d Server s;
         s \<leftarrow> tcp_Send a (CreateTCPResultPkt TPT_WAIT_RESULT tcpid (err_num Result)) s;
         tcp_Release a s
       }
   }"
  by (simp add: recv_WAITING_def register_step_def case_prod_unfold cong: option.case_cong)

lemma register_step_core:
  assumes s: "core R x y s" and a: "0 < owners s x a" "Suc (owners s x a) < 4294967296"
    and d: "wait_ok d" and fresh: "conns s new = None" and y: "\<And>p. Suc (y p) < 4294967296"
  obtains r s' where "register_step new d (Some a) s = Some (r, s')" and "core R x y s'"
    and "same_tcp s s'"
proof -
  have d': "keyword_ok d" "nul_terminated (keyword_at d)"
    using d by (simp_all add: wait_ok_def keyword_ok_def)
  obtain i where i: "rd_dword 0 d = Some i" using rd_keyword[OF d'(1)] by blast
  show thesis
  proof (rule Find_core[OF s d'(2)])
    assume find: "FindP2PConnection (keyword_at d) s = Some (None, s)"
      and none: "\<And>e. e \<in> set (m_P2PConnectList s) \<Longrightarrow> \<not> found s (keyword_at d) e"
    have "\<forall>e\<in>set (m_P2PConnectList s). kw_of s (snd e) \<noteq> Some (cstr (keyword_at d))"
      using none by (simp add: found_def)
    from CreateP2PConnection_core[OF s a d i fresh this] obtain c h where
      new: "CreateP2PConnection new d (Some a) s = Some (s\<lparr>tcps := h,
         conns := (conns s)(new \<mapsto> c), m_P2PConnectList := map_put i new (m_P2PConnectList s)\<rparr>)"
      "core R x y (s\<lparr>tcps := h, conns := (conns s)(new \<mapsto> c),
         m_P2PConnectList := map_put i new (m_P2PConnectList s)\<rparr>)"
      "\<And>b. session_refs ((conns s)(new \<mapsto> c)) b \<le> Suc (session_refs (conns s) b)" by metis
    moreover have "sessions_change s (s\<lparr>tcps := h, conns := (conns s)(new \<mapsto> c),
        m_P2PConnectList := map_put i new (m_P2PConnectList s)\<rparr>)"
      using fresh unfolding sessions_change_def by (intro disjI2 disjI1 exI[of _ i] exI[of _ new]) simp
    ultimately show thesis
      by (intro that[OF _ new(2)]) (simp_all add: register_step_def find same_tcp_def)
  next
    fix k p and c :: p2pconn
    let ?c = "c\<lparr>m_lRef := m_lRef c + 1\<rparr>"
    let ?s = "s\<lparr>conns := (conns s)(p \<mapsto> ?c)\<rparr>"
    assume c: "conns s p = Some c" and find: "FindP2PConnection (keyword_at d) s = Some (Some p, ?s)"
    have s1: "core R x (y(p := Suc (y p))) ?s" by (rule conn_AddRef_core(2)[OF s c])
    have c1: "conns ?s p = Some ?c" by simp
    have "0 < (y(p := Suc (y p))) p" "(y(p := Suc (y p))) p < 4294967296" using y by simp_all
    from conn_Release_core[OF s1 c1 this] obtain c' where
      c': "conn_Release p ?s = Some (?s\<lparr>conns := (conns ?s)(p \<mapsto> c')\<rparr>)"
      "core R x ((y(p := Suc (y p)))(p := (y(p := Suc (y p))) p - 1))
         (?s\<lparr>conns := (conns ?s)(p \<mapsto> c')\<rparr>)" "role_refs c' = role_refs ?c" .
    have c2: "core R x y (?s\<lparr>conns := (conns ?s)(p \<mapsto> c')\<rparr>)" using c'(2) by simp
    have "same_tcp s (?s\<lparr>conns := (conns ?s)(p \<mapsto> c')\<rparr>)"
      using same_tcp_conn(1)[OF s1 c1 c'(3), of s] same_tcp_conn(1)[OF s c, of ?c s] by simp
    then show thesis
      using that[OF _ c2] c'(1) find print_keyword[OF d'(1)] by (simp add: register_step_def)
  qed
qed

lemma recv_WAITING_ok:
  assumes s: "core R x (\<lambda>_. 0) s" and t: "tabled x s" and room: "room x s" and d: "wait_ok d"
    and fresh: "conns s new = None"
  shows "handled R x (\<lambda>_. 0) s (recv_WAITING new d s)"
proof -
  obtain i where i: "rd_dword 0 d = Some i" using rd_keyword[of d] d by (auto simp: wait_ok_def)
  show ?thesis
  proof (rule GetTCPServer_core[OF s t roomD(1)[OF room], of i])
    assume "GetTCPServer i s = Some (None, s)"
    then show ?thesis using i s by (simp add: recv_WAITING_def handled_def)
  next
    fix a h
    let ?s = "s\<lparr>tcps := h\<rparr>" and ?x = "x(a := x a + 1)"
    assume a: "GetTCPServer i s = Some (Some a, ?s)" "core R ?x (\<lambda>_. 0) ?s"
    have "0 < owners ?s ?x a" "Suc (owners ?s ?x a) < 4294967296" "conns ?s new = None"
      using roomD(2)[OF room, of a a] fresh by (simp_all add: owners_def)
    from register_step_core[OF a(2) this(1,2) d this(3)] obtain r s2 where
      s2: "register_step new d (Some a) ?s = Some (r, s2)" "core R ?x (\<lambda>_. 0) s2" "same_tcp ?s s2"
      by auto
    note quiet = reply_quiet[OF s2(2), of True]
    obtain s' where "Option.bind (tcp_Send a (CreateTCPResultPkt TPT_WAIT_RESULT i (err_num r)) s2)
        (tcp_Release a) = Some s'" "core R x (\<lambda>_. 0) s'" "same_tcp s s' = same_tcp s s2"
      using quiet by metis
    then show ?thesis
      using i a(1) s2(1,3) by (intro handledI[of _ s']) (simp_all add: recv_WAITING_register)
  qed
qed

section \<open>The end of a connection\<close>

text \<open>The host leaves: the session is taken out of the table and deleted.\<close>

definition drop_session :: "DWORD \<Rightarrow> addr \<Rightarrow> tcpheap \<Rightarrow> p2pserver \<Rightarrow> p2pserver" where
  "drop_session k p h s = s\<lparr>tcps := h, conns := (conns s)(p := None),
     m_P2PConnectList := map_erase k (m_P2PConnectList s)\<rparr>"

lemma drop_session_core:
  assumes s: "core R x y s" and e: "(k, p) \<in> set (m_P2PConnectList s)"
    and c: "conns s p = Some c" and y: "y p = 0"
    and h: "heap_ok (tcp_good R) (\<lambda>a. owners s x a - role_refs c a) h"
  shows "core R x y (drop_session k p h s)" and "same_tcp s (drop_session k p h s)"
proof -
  let ?s = "drop_session k p h s"
  have fin: "finite (dom (conns s))" using s by (simp add: core_def)
  have upd: "session_refs ((conns s)(p := None)) a + role_refs c a = session_refs (conns s) a" for a
    using session_refs_upd[OF fin, of p None a] c by (simp add: conn_refs_def)
  have "owners ?s x a + role_refs c a = owners s x a" for a
    using upd[of a] by (simp add: owners_def drop_session_def)
  then have own: "owners ?s x = (\<lambda>a. owners s x a - role_refs c a)"
    by (metis add_diff_cancel_right')
  have L: "set (m_P2PConnectList ?s) = {e \<in> set (m_P2PConnectList s). fst e \<noteq> k}"
    by (simp add: drop_session_def map_erase_set)
  have k: "m_dwMainTCPID c = k" using core_entry[OF s e] c by auto
  have other: "snd e \<noteq> p \<and> e \<in> set (m_P2PConnectList s)" if "e \<in> set (m_P2PConnectList ?s)" for e
  proof -
    have mem: "e \<in> set (m_P2PConnectList s)" "fst e \<noteq> k" using that L by auto
    obtain c' where "conns s (snd e) = Some c'" "m_dwMainTCPID c' = fst e"
      using core_entry[OF s mem(1)] by metis
    then show ?thesis using mem c k by auto
  qed
  have "entry_ok ?s e" if "e \<in> set (m_P2PConnectList ?s)" for e
    using other[OF that] s by (auto simp: core_def entry_ok_def drop_session_def)
  moreover have "kw_of ?s (snd e) = kw_of s (snd e)" if "e \<in> set (m_P2PConnectList ?s)" for e
    using other[OF that] by (simp add: kw_of_def drop_session_def)
  then have "kw_unique ?s" using s other by (simp add: core_def kw_unique_def)
  moreover have "finite (dom (conns ?s))" using fin by (simp add: drop_session_def)
  moreover have "map_ok (m_P2PConnectList ?s)" "tcps ?s = h"
    using s by (simp_all add: core_def drop_session_def map_ok_erase)
  moreover have "session_ok (y q) v" if "conns ?s q = Some v" for q v
    using that s by (auto simp: core_def drop_session_def split: if_splits)
  moreover have "\<forall>q. conns ?s q = None \<longrightarrow> y q = 0"
    using s y by (simp add: core_def drop_session_def)
  ultimately show "core R x y ?s" unfolding core_def own using h by simp
  have "session_refs ((conns s)(p := None)) a \<le> session_refs (conns s) a" for a
    using upd[of a] by linarith
  moreover have "sessions_change s ?s"
    using e unfolding sessions_change_def
    by (intro disjI2 exI[of _ k] exI[of _ p]) (simp add: drop_session_def)
  ultimately show "same_tcp s ?s" by (simp add: same_tcp_def drop_session_def le_SucI)
qed

lemma EndLoop_ok:
  assumes s: "core R x y s" and y: "\<And>p c. conns s p = Some c \<Longrightarrow> m_pMainTCPServer c = Some a \<Longrightarrow> y p = 0"
  shows "set m \<subseteq> set (m_P2PConnectList s) \<Longrightarrow> handled R x y s (EndLoop m a s)"
proof (induction m)
  case Nil
  then show ?case using s by (simp add: handled_def)
next
  case (Cons e m)
  obtain k p where e: "e = (k, p)" by fastforce
  have mem: "(k, p) \<in> set (m_P2PConnectList s)" using Cons.prems e by simp
  from core_entry[OF s this] obtain c where c: "conns s p = Some c" "conn_wf c" by auto
  have own: "heap_ok (tcp_good R) (owners s x) (tcps s)" using s by (simp add: core_def)
  note refs = conn_refs_le[OF s c(1)]
  show ?case
  proof (cases "m_pConnTCPServer c = Some a")
    case True
    from conn_void_core[where m = ConnTCPDisconnect, OF s c(1) ConnTCPDisconnect_ok[OF own c(2) refs True]]
    show ?thesis using True c(1) e by (auto simp: handled_def IsConnTCPServer_def)
  next
    case noconn: False
    show ?thesis
    proof (cases "m_pMainTCPServer c = Some a")
      case False
      then show ?thesis using Cons noconn c(1) e
        by (simp add: IsConnTCPServer_def IsMainTCPServer_def)
    next
      case True
      obtain c' h' where m: "MainTCPDisconnect c (tcps s) = Some (c', h')"
        "m_pMainTCPServer c' = None" "m_pConnTCPServer c' = None" "m_lRef c' = m_lRef c"
        "heap_ok (tcp_good R) (\<lambda>a. owners s x a - role_refs c a) h'"
        by (rule MainTCPDisconnect_spec[OF own c(2) refs]) auto
      have yp: "y p = 0" by (rule y[OF c(1) True])
      then have "m_lRef c = 1" using s c(1) by (auto simp: core_def session_ok_def)
      then have "EndLoop (e # m) a s = Some (drop_session k p h' s)"
        using True noconn c(1) e m
        by (simp add: IsConnTCPServer_def IsMainTCPServer_def conn_void_def conn_Release_def
            CBaseObject_Release_def Let_def CP2PConnection_destroy_def Release_ptr_def
            drop_session_def)
      then show ?thesis
        using drop_session_core[where y = y, OF s mem c(1) yp m(5)] by (simp add: handled_def)
    qed
  qed
qed

end
