(* ===== verification/ServerSystem.thy ===== *)
theory ServerSystem
  imports ServerInvariant
begin

text \<open>
  The server as a transition system. A state is the server with the sets of connections whose
  receiving and sending thread still runs; an event is one callback: an accepted socket, a packet
  received on a connection, a datagram, the end of one of the threads. \<open>reach k\<close> holds of the
  states after \<open>k\<close> events of a server that was initialised. Events are bounded by \<open>2 ^ 28\<close>, so
  that no 32-bit reference count wraps.
\<close>

record server_sys =
  srv :: p2pserver
  recv_thr :: "addr set"
  send_thr :: "addr set"

datatype server_event =
    Accepted addr "BYTE list" "BYTE list" "BYTE list" WORD nat
  | Received addr addr "BYTE list"
  | Datagram UDP_PACKET
  | RecvEnds addr
  | SendEnds addr

text \<open>A packet that the server can process: long enough, with its strings terminated, and not a
  packet to relay.\<close>

definition packet_ok :: "BYTE list \<Rightarrow> bool" where
  "packet_ok Packet \<longleftrightarrow> pkt_type Packet \<noteq> None \<and>
     (case Option.bind (pkt_type Packet) tpt_of of
        Some TPT_WAITING \<Rightarrow> wait_ok (pkt_data Packet)
      | Some TPT_CONNECT \<Rightarrow> wait_ok (pkt_data Packet)
      | Some TPT_P2P_RESULT \<Rightarrow> keyword_ok (pkt_data Packet)
      | Some TPT_PROXY_REQUEST \<Rightarrow> keyword_ok (pkt_data Packet)
      | Some TPT_DATA_PROXY \<Rightarrow> False
      | _ \<Rightarrow> True)"

definition enabled :: "server_event \<Rightarrow> server_sys \<Rightarrow> bool" where
  "enabled e \<sigma> = (case e of
      Accepted new rawdst rawsrc peer pt sock \<Rightarrow>
        tcps (srv \<sigma>) new = None \<and> length rawdst = 128 \<and> length rawsrc = 128
        \<and> nul_terminated peer \<and> length peer \<le> 128
    | Received a new Packet \<Rightarrow>
        a \<in> recv_thr \<sigma> \<and> conns (srv \<sigma>) new = None \<and> packet_ok Packet
    | Datagram p \<Rightarrow> nul_terminated (keyword_at (udp_data (BasePacket p)))
    | RecvEnds a \<Rightarrow> a \<in> recv_thr \<sigma>
    | SendEnds a \<Rightarrow> a \<in> send_thr \<sigma>)"

definition exec :: "server_event \<Rightarrow> server_sys \<Rightarrow> server_sys option" where
  "exec e \<sigma> = (case e of
      Accepted new rawdst rawsrc peer pt sock \<Rightarrow>
        map_option (\<lambda>(r, s). \<sigma>\<lparr>srv := s, recv_thr := insert new (recv_thr \<sigma>),
                                   send_thr := insert new (send_thr \<sigma>)\<rparr>)
          (AcceptTCPSocketProcess new rawdst rawsrc (Some (peer, pt)) sock (srv \<sigma>))
    | Received a new Packet \<Rightarrow>
        map_option (\<lambda>(r, s). \<sigma>\<lparr>srv := s\<rparr>) (RecvTCPPacketProcess (\<lambda>_. []) new Packet (srv \<sigma>))
    | Datagram p \<Rightarrow> map_option (\<lambda>(r, s). \<sigma>\<lparr>srv := s\<rparr>) (RecvUDPPacketProcess p (srv \<sigma>))
    | RecvEnds a \<Rightarrow>
        map_option (\<lambda>s. \<sigma>\<lparr>srv := s, recv_thr := recv_thr \<sigma> - {a}\<rparr>) (RecvProc_exit a (srv \<sigma>))
    | SendEnds a \<Rightarrow>
        map_option (\<lambda>s. \<sigma>\<lparr>srv := s, send_thr := send_thr \<sigma> - {a}\<rparr>) (SendProc_exit a (srv \<sigma>)))"

text \<open>The server after a successful start.\<close>

definition started :: "p2pserver \<Rightarrow> bool" where
  "started s \<longleftrightarrow> (\<exists>fuel bound udpsock pt lsock lbound.
     P2PServer_Init fuel bound lsock lbound (CP2PServer (Some udpsock) pt) = Stop (Some (True, s)))"

inductive reach :: "nat \<Rightarrow> server_sys \<Rightarrow> bool" where
  reach_start: "started s \<Longrightarrow> reach 0 \<lparr>srv = s, recv_thr = {}, send_thr = {}\<rparr>"
| reach_event: "reach k \<sigma> \<Longrightarrow> enabled e \<sigma> \<Longrightarrow> exec e \<sigma> = Some \<sigma>' \<Longrightarrow> reach (Suc k) \<sigma>'"

inductive_cases reach_SucE: "reach (Suc k) \<sigma>"
inductive_simps reach_0: "reach 0 \<sigma>"

section \<open>The invariant of the system\<close>

text \<open>The owners of a connection besides the sessions: the table, and the two threads.\<close>

definition tab_refs :: "p2pserver \<Rightarrow> addr \<Rightarrow> nat" where
  "tab_refs s a = of_bool (a \<in> snd ` set (m_TCPList s))"

definition thr_refs :: "addr set \<Rightarrow> addr set \<Rightarrow> addr \<Rightarrow> nat" where
  "thr_refs R S a = of_bool (a \<in> R) + of_bool (a \<in> S)"

definition held :: "addr set \<Rightarrow> addr set \<Rightarrow> p2pserver \<Rightarrow> addr \<Rightarrow> nat" where
  "held R S s a = tab_refs s a + thr_refs R S a"

text \<open>The table holds the connections whose receiving thread runs. The server object is referenced
  by its creator, by the UDP and the listening service, and twice by each connection in the
  table.\<close>

definition table_ok :: "addr set \<Rightarrow> p2pserver \<Rightarrow> bool" where
  "table_ok R s \<longleftrightarrow> map_ok (m_TCPList s) \<and> inj_on snd (set (m_TCPList s))
     \<and> snd ` set (m_TCPList s) = R"

definition server_inv :: "nat \<Rightarrow> server_sys \<Rightarrow> bool" where
  "server_inv k \<sigma> \<longleftrightarrow>
     core (recv_thr \<sigma>) (held (recv_thr \<sigma>) (send_thr \<sigma>) (srv \<sigma>)) (\<lambda>_. 0) (srv \<sigma>)
     \<and> table_ok (recv_thr \<sigma>) (srv \<sigma>)
     \<and> m_lRef (srv \<sigma>) = of_nat (3 + 2 * length (m_TCPList (srv \<sigma>))) \<and> length (m_TCPList (srv \<sigma>)) \<le> k
     \<and> (\<forall>a. session_refs (conns (srv \<sigma>)) a \<le> k)"

text \<open>
  The same with references held from outside: \<open>u\<close> counts those on connections, \<open>y\<close> those on
  sessions. \<open>ServerThreads\<close> uses it for handlers that are under way.
\<close>

definition sys_inv :: "(addr \<Rightarrow> nat) \<Rightarrow> (addr \<Rightarrow> nat) \<Rightarrow> nat \<Rightarrow> server_sys \<Rightarrow> bool" where
  "sys_inv u y k \<sigma> \<longleftrightarrow>
     core (recv_thr \<sigma>) (\<lambda>a. held (recv_thr \<sigma>) (send_thr \<sigma>) (srv \<sigma>) a + u a) y (srv \<sigma>)
     \<and> table_ok (recv_thr \<sigma>) (srv \<sigma>)
     \<and> m_lRef (srv \<sigma>) = of_nat (3 + 2 * length (m_TCPList (srv \<sigma>))) \<and> length (m_TCPList (srv \<sigma>)) \<le> k
     \<and> (\<forall>a. session_refs (conns (srv \<sigma>)) a \<le> k)"

lemma server_inv_sys: "server_inv k \<sigma> = sys_inv (\<lambda>_. 0) (\<lambda>_. 0) k \<sigma>"
  by (simp add: server_inv_def sys_inv_def)

lemma held_le: "held R S s a \<le> 3"
  by (simp add: held_def tab_refs_def thr_refs_def)

lemma server_inv_room:
  assumes "server_inv k \<sigma>" and "k < 268435456"
  shows "room (held (recv_thr \<sigma>) (send_thr \<sigma>) (srv \<sigma>)) (srv \<sigma>)"
  unfolding room_def owners_def
proof
  fix a
  have "session_refs (conns (srv \<sigma>)) a \<le> k" using assms(1) by (simp add: server_inv_def)
  then show "session_refs (conns (srv \<sigma>)) a + held (recv_thr \<sigma>) (send_thr \<sigma>) (srv \<sigma>) a + 2
      < 4294967296"
    using held_le[of "recv_thr \<sigma>" "send_thr \<sigma>" "srv \<sigma>" a] assms(2) by linarith
qed

lemma server_inv_tabled:
  "server_inv k \<sigma> \<Longrightarrow> tabled (held (recv_thr \<sigma>) (send_thr \<sigma>) (srv \<sigma>)) (srv \<sigma>)"
  by (auto simp: tabled_def held_def tab_refs_def)

text \<open>A handler that leaves the table alone.\<close>

lemma held_same: "m_TCPList s' = m_TCPList s \<Longrightarrow> held R S s' = held R S s"
  by (simp add: held_def tab_refs_def fun_eq_iff)

lemma server_inv_handled:
  assumes inv: "server_inv k \<sigma>"
    and c: "core (recv_thr \<sigma>) (held (recv_thr \<sigma>) (send_thr \<sigma>) (srv \<sigma>)) (\<lambda>_. 0) s'"
    and same: "same_tcp (srv \<sigma>) s'"
  shows "server_inv (Suc k) (\<sigma>\<lparr>srv := s'\<rparr>)"
proof -
  have "session_refs (conns s') a \<le> Suc k" for a
    using inv same by (auto simp: server_inv_def same_tcp_def intro: order_trans)
  moreover have "held (recv_thr \<sigma>) (send_thr \<sigma>) s' = held (recv_thr \<sigma>) (send_thr \<sigma>) (srv \<sigma>)"
    using same by (intro held_same) (simp add: same_tcp_def)
  ultimately show ?thesis
    using inv c same by (simp add: server_inv_def table_ok_def same_tcp_def le_SucI)
qed

lemma Received_inv:
  assumes inv: "server_inv k \<sigma>" and k: "k < 268435456" and en: "enabled (Received a new p) \<sigma>"
  shows "\<exists>\<sigma>'. exec (Received a new p) \<sigma> = Some \<sigma>' \<and> server_inv (Suc k) \<sigma>' \<and> sessions_change (srv \<sigma>) (srv \<sigma>')"
proof -
  let ?x = "held (recv_thr \<sigma>) (send_thr \<sigma>) (srv \<sigma>)"
  have c: "core (recv_thr \<sigma>) ?x (\<lambda>_. 0) (srv \<sigma>)" using inv by (simp add: server_inv_def)
  note pre = c server_inv_tabled[OF inv] server_inv_room[OF inv k]
  have fresh: "conns (srv \<sigma>) new = None" using en by (simp add: enabled_def)
  have ok: "packet_ok p" using en by (simp add: enabled_def)
  then obtain t where t: "pkt_type p = Some t" by (auto simp: packet_ok_def)
  have self: "handled (recv_thr \<sigma>) ?x (\<lambda>_. 0) (srv \<sigma>) (Some (srv \<sigma>))" using c by (simp add: handled_def)
  have "\<exists>s'. RecvTCPPacketProcess (\<lambda>_. []) new p (srv \<sigma>) = Some (True, s')
      \<and> handled (recv_thr \<sigma>) ?x (\<lambda>_. 0) (srv \<sigma>) (Some s')"
  proof -
    let ?d = "pkt_data p"
    consider "tpt_of t = Some TPT_WAITING" "wait_ok ?d" | "tpt_of t = Some TPT_CONNECT" "wait_ok ?d"
      | "tpt_of t = Some TPT_P2P_RESULT" "keyword_ok ?d"
      | "tpt_of t = Some TPT_PROXY_REQUEST" "keyword_ok ?d"
      | "tpt_of t \<notin> {Some TPT_WAITING, Some TPT_CONNECT, Some TPT_P2P_RESULT,
           Some TPT_PROXY_REQUEST, Some TPT_DATA_PROXY}"
      using ok t by (cases "tpt_of t"; cases "the (tpt_of t)") (auto simp: packet_ok_def)
    then show ?thesis
    proof cases
      case 1
      with recv_WAITING_ok[OF pre 1(2) fresh] show ?thesis
        by (auto simp: RecvTCPPacketProcess_def t handled_def)
    next
      case 2
      with recv_CONNECT_ok[OF pre 2(2)] show ?thesis
        by (auto simp: RecvTCPPacketProcess_def t handled_def)
    next
      case 3
      with recv_P2P_RESULT_ok[OF pre 3(2)] show ?thesis
        by (auto simp: RecvTCPPacketProcess_def t handled_def)
    next
      case 4
      with recv_PROXY_REQUEST_ok[OF pre 4(2)] show ?thesis
        by (auto simp: RecvTCPPacketProcess_def t handled_def)
    next
      case 5
      then have "RecvTCPPacketProcess (\<lambda>_. []) new p (srv \<sigma>) = Some (True, srv \<sigma>)"
        by (cases "tpt_of t"; cases "the (tpt_of t)") (auto simp: RecvTCPPacketProcess_def t)
      then show ?thesis using self by blast
    qed
  qed
  then show ?thesis
    using server_inv_handled[OF inv] by (auto simp: exec_def handled_def same_tcp_def)
qed

lemma Datagram_inv:
  assumes inv: "server_inv k \<sigma>" and en: "enabled (Datagram p) \<sigma>"
  shows "\<exists>\<sigma>'. exec (Datagram p) \<sigma> = Some \<sigma>' \<and> server_inv (Suc k) \<sigma>' \<and> sessions_change (srv \<sigma>) (srv \<sigma>')"
proof -
  have "core (recv_thr \<sigma>) (held (recv_thr \<sigma>) (send_thr \<sigma>) (srv \<sigma>)) (\<lambda>_. 0) (srv \<sigma>)"
    using inv by (simp add: server_inv_def)
  from RecvUDPPacketProcess_ok[OF this, of p] en show ?thesis
    using server_inv_handled[OF inv] by (auto simp: exec_def enabled_def same_tcp_def)
qed

section \<open>Connections end\<close>

lemma core_lRef: "core R x y (s\<lparr>m_lRef := r\<rparr>) = core R x y s"
  by (simp add: core_def entry_ok_def kw_unique_def kw_of_def owners_def[abs_def])

lemma core_TCPList: "core R x y (s\<lparr>m_TCPList := m\<rparr>) = core R x y s"
  by (simp add: core_def entry_ok_def kw_unique_def kw_of_def owners_def[abs_def])

lemma core_TCPid: "core R x y (s\<lparr>m_dwTCPid := i\<rparr>) = core R x y s"
  by (simp add: core_def entry_ok_def kw_unique_def kw_of_def owners_def[abs_def])

lemma core_weaken:
  assumes "core R x y s" and "R' \<subseteq> R" shows "core R' x y s"
proof -
  have "heap_ok (tcp_good R') n h" if "heap_ok (tcp_good R) n h" for n and h :: tcpheap
    using that assms(2) by (fastforce simp: heap_ok_def tcp_good_def)
  then show ?thesis using assms(1) by (simp add: core_def)
qed

lemma core_ext: "core R x y s \<Longrightarrow> (\<And>a. x a = x' a) \<Longrightarrow> core R x' y s"
  by (metis ext)

text \<open>Replacing a connection object by one with the same count.\<close>

lemma core_write:
  assumes "core R x y s" and "tcps s a = Some tcp" and "m_lRef tcp' = m_lRef tcp"
    and "tcp_good R' a tcp'" and "R' \<subseteq> R"
  shows "core R' x y (s\<lparr>tcps := (tcps s)(a \<mapsto> tcp')\<rparr>)"
proof -
  have c: "core R' x y s" by (rule core_weaken[OF assms(1,5)])
  then have h: "heap_ok (tcp_good R') (owners s x) (tcps s)" by (simp add: core_def)
  then have "0 < owners s x a" "m_lRef tcp = of_nat (owners s x a)"
    using assms(2) by (auto simp: heap_ok_def)
  then show ?thesis using heap_ok_write[OF h, of a tcp'] core_tcps[OF c] assms(3,4) by simp
qed

lemma SendEnds_sys:
  assumes inv: "sys_inv u y k \<sigma>" and en: "enabled (SendEnds a) \<sigma>"
  shows "\<exists>\<sigma>'. exec (SendEnds a) \<sigma> = Some \<sigma>' \<and> sys_inv u y (Suc k) \<sigma>' \<and> sessions_change (srv \<sigma>) (srv \<sigma>')"
proof -
  let ?x = "\<lambda>a. held (recv_thr \<sigma>) (send_thr \<sigma>) (srv \<sigma>) a + u a"
  have c: "core (recv_thr \<sigma>) ?x y (srv \<sigma>)" using inv by (simp add: sys_inv_def)
  have a: "a \<in> send_thr \<sigma>" using en by (simp add: enabled_def)
  then have "0 < ?x a" by (simp add: held_def thr_refs_def)
  from tcp_Release_core[OF c this] obtain h where
    h: "tcp_Release a (srv \<sigma>) = Some ((srv \<sigma>)\<lparr>tcps := h\<rparr>)"
    "core (recv_thr \<sigma>) (?x(a := ?x a - 1)) y ((srv \<sigma>)\<lparr>tcps := h\<rparr>)" .
  have "?x(a := ?x a - 1) = (\<lambda>b. held (recv_thr \<sigma>) (send_thr \<sigma> - {a}) ((srv \<sigma>)\<lparr>tcps := h\<rparr>) b + u b)"
    using a by (auto simp: fun_eq_iff held_def thr_refs_def tab_refs_def)
  then have "sys_inv u y (Suc k) (\<sigma>\<lparr>srv := (srv \<sigma>)\<lparr>tcps := h\<rparr>, send_thr := send_thr \<sigma> - {a}\<rparr>)"
    using inv h(2) by (simp add: sys_inv_def table_ok_def le_SucI)
  moreover have "sessions_change (srv \<sigma>) ((srv \<sigma>)\<lparr>tcps := h\<rparr>)" by (simp add: sessions_change_same)
  ultimately show ?thesis using h(1) by (auto simp: exec_def SendProc_exit_def)
qed

lemma find_snd:
  assumes "inj_on snd (set m)" and "(i, a) \<in> set m"
  shows "find (\<lambda>e. snd e = a) m = Some (i, a)"
proof -
  have "find (\<lambda>e. snd e = a) m \<noteq> None" using assms(2) by (auto simp: find_None_iff)
  then obtain e where e: "find (\<lambda>e. snd e = a) m = Some e" by blast
  then have "e \<in> set m" "snd e = a" by (auto simp: find_Some_iff)
  then show ?thesis using assms e by (metis inj_onD snd_conv)
qed

lemma length_map_erase:
  assumes "map_ok m" and "(i, a) \<in> set m" shows "Suc (length (map_erase i m)) = length m"
  using assms
proof (induction m)
  case (Cons e m)
  show ?case
  proof (cases "fst e = i")
    case True
    have "\<forall>e'\<in>set m. fst e' \<noteq> i" using Cons.prems(1) True by (cases e) auto
    then have "map_erase i (e # m) = m" using True by (simp add: map_erase_def)
    then show ?thesis by simp
  next
    case False
    then have "(i, a) \<in> set m" "map_ok m" using Cons.prems by (cases e; auto)+
    then show ?thesis using Cons.IH False by (simp add: map_erase_def)
  qed
qed simp

lemma RemoveTCPID_sessions:
  "RemoveTCPID a s = Some s' \<Longrightarrow> conns s' = conns s \<and> m_P2PConnectList s' = m_P2PConnectList s"
  by (auto simp: RemoveTCPID_def tcp_unregister_def RegisterRecvProcess_def RegisterEndProcess_def
      register_param_def server_Release_def tcp_Release_def CBaseObject_Release_def Let_def
      CP2PServer_destroy_def bind_Some_iff split: option.splits if_splits)

text \<open>\<open>RemoveTCPID\<close> of a registered connection.\<close>

lemma server_Release_alive:
  "m_lRef v \<noteq> 1 \<Longrightarrow> server_Release p v = Some (v\<lparr>m_lRef := m_lRef v - 1\<rparr>)"
  by (simp add: server_Release_def CBaseObject_Release_def Let_def)

lemma RemoveTCPID_ok:
  assumes s: "core R x y s" and t: "table_ok R s" and a: "a \<in> R" and x: "0 < x a"
    and r: "m_lRef s \<noteq> 1" "m_lRef s \<noteq> 2"
  obtains i h where "(i, a) \<in> set (m_TCPList s)"
    and "RemoveTCPID a s = Some (s\<lparr>tcps := h, m_TCPList := map_erase i (m_TCPList s),
           m_lRef := m_lRef s - 2\<rparr>)"
    and "core (R - {a}) (x(a := x a - 1)) y (s\<lparr>tcps := h\<rparr>)"
proof -
  obtain i where i: "(i, a) \<in> set (m_TCPList s)" using t a by (auto simp: table_ok_def)
  have find: "find (\<lambda>e. snd e = a) (m_TCPList s) = Some (i, a)"
    using t i by (intro find_snd) (simp_all add: table_ok_def)
  have hp: "heap_ok (tcp_good R) (owners s x) (tcps s)" using s by (simp add: core_def)
  have "0 < owners s x a" using x by (simp add: owners_def)
  then obtain tcp where tcp: "tcps s a = Some tcp" "tcp_good R a tcp"
    using heap_okD[OF hp] by metis
  then have reg: "m_pRecvParam tcp = Some 0" "m_pEndParam tcp = Some 0"
    using a by (simp_all add: tcp_good_def registered_def)
  let ?tcp = "tcp\<lparr>m_pfnRecvFunc := None, m_pRecvParam := None, m_pfnEndFunc := None,
    m_pEndParam := None\<rparr>"
  let ?h = "(tcps s)(a \<mapsto> ?tcp)" and ?s = "s\<lparr>m_TCPList := map_erase i (m_TCPList s)\<rparr>"
  have w: "core (R - {a}) x y (s\<lparr>tcps := ?h\<rparr>)"
    using tcp by (intro core_write[OF s tcp(1)]) (auto simp: tcp_good_def)
  have "Release a (tcps (s\<lparr>tcps := ?h\<rparr>)) = Release a ?h" by simp
  then obtain h where
    h: "Release a ?h = Some h" "core (R - {a}) (x(a := x a - 1)) y (s\<lparr>tcps := h\<rparr>)"
    using Release_core[OF w x] by (metis p2pserver.update_convs(1) p2pserver.surjective)
  have "m_lRef s - 1 \<noteq> 1" using r(2) by (simp add: diff_eq_eq)
  then have un: "tcp_unregister a ?s = Some (?s\<lparr>tcps := ?h, m_lRef := m_lRef s - 2\<rparr>)"
  proof -
    have r1: "server_Release 0 ?s = Some (?s\<lparr>m_lRef := m_lRef s - 1\<rparr>)"
      using r(1) by (subst server_Release_alive) simp_all
    have r2: "server_Release 0 (?s\<lparr>m_lRef := m_lRef s - 1\<rparr>) = Some (?s\<lparr>m_lRef := m_lRef s - 2\<rparr>)"
      using \<open>m_lRef s - 1 \<noteq> 1\<close> by (subst server_Release_alive) simp_all
    have "tcps ?s a = Some tcp" using tcp(1) by simp
    moreover have "RegisterRecvProcess server_AddRef server_Release None None tcp ?s
        = Some (tcp\<lparr>m_pfnRecvFunc := None, m_pRecvParam := None\<rparr>, ?s\<lparr>m_lRef := m_lRef s - 1\<rparr>)"
      using reg(1) r1 by (simp add: RegisterRecvProcess_def register_param_def)
    moreover have "RegisterEndProcess server_AddRef server_Release None None
        (tcp\<lparr>m_pfnRecvFunc := None, m_pRecvParam := None\<rparr>) (?s\<lparr>m_lRef := m_lRef s - 1\<rparr>)
        = Some (?tcp, ?s\<lparr>m_lRef := m_lRef s - 2\<rparr>)"
      using reg(2) r2 by (simp add: RegisterEndProcess_def register_param_def)
    ultimately show ?thesis by (simp add: tcp_unregister_def)
  qed
  show thesis
  proof (rule that[OF i _ h(2)])
    show "RemoveTCPID a s = Some (s\<lparr>tcps := h, m_TCPList := map_erase i (m_TCPList s),
        m_lRef := m_lRef s - 2\<rparr>)"
      using find un h(1) by (simp add: RemoveTCPID_def tcp_Release_def)
  qed
qed

lemma of_nat_DWORD_neq:
  assumes "n < 4294967296" and "2 < n" shows "(of_nat n :: DWORD) \<noteq> 1" "(of_nat n :: DWORD) \<noteq> 2"
proof -
  have "unat (of_nat n :: DWORD) = n" using assms(1) by (rule unat_of_nat_DWORD)
  then show "(of_nat n :: DWORD) \<noteq> 1" "(of_nat n :: DWORD) \<noteq> 2" using assms(2) by auto
qed

text \<open>The callback for the end of a connection: the sessions, then the table.\<close>

lemma TCPEndProcessDelegate_ok:
  assumes c: "core R x y s" and t: "table_ok R s" and a: "a \<in> R" and x: "0 < x a"
    and m: "m_lRef s = of_nat (3 + 2 * length (m_TCPList s))" and len: "length (m_TCPList s) < 268435456"
    and y: "\<And>p c. conns s p = Some c \<Longrightarrow> m_pMainTCPServer c = Some a \<Longrightarrow> y p = 0"
  obtains s' i where "TCPEndProcessDelegate a s = Some s'"
    and "core (R - {a}) (x(a := x a - 1)) y s'" and "(i, a) \<in> set (m_TCPList s)"
    and "m_TCPList s' = map_erase i (m_TCPList s)" and "m_lRef s' = m_lRef s - 2"
    and "\<forall>b. session_refs (conns s') b \<le> Suc (session_refs (conns s) b)" and "sessions_change s s'"
proof -
  let ?N = "3 + 2 * length (m_TCPList s)"
  have m': "m_lRef s = of_nat ?N" "of_nat ?N + (1 :: DWORD) = of_nat (?N + 1)"
    "of_nat ?N - (1 :: DWORD) = of_nat (?N - 1)"
    using m by (simp_all add: of_nat_diff)
  have "m_TCPList s \<noteq> []" using t a by (auto simp: table_ok_def)
  then have "0 < length (m_TCPList s)" by simp
  then have ne: "m_lRef s + 1 \<noteq> 1" "m_lRef s + 1 \<noteq> 2" "m_lRef s - 1 \<noteq> 1"
    unfolding m' using len by (intro of_nat_DWORD_neq; simp)+
  let ?s1 = "s\<lparr>m_lRef := m_lRef s + 1\<rparr>"
  have c1: "core R x y ?s1" using c by (simp only: core_lRef)
  obtain s2 where s2: "EndLoop (m_P2PConnectList ?s1) a ?s1 = Some s2" "core R x y s2"
      "same_tcp ?s1 s2"
    using EndLoop_ok[OF c1 _ order_refl, of a] y by (auto simp: handled_def)
  have t2: "table_ok R s2" and l2: "m_lRef s2 = m_lRef s + 1" "m_TCPList s2 = m_TCPList s"
    using t s2(3) by (simp_all add: table_ok_def same_tcp_def)
  obtain i h where s3: "(i, a) \<in> set (m_TCPList s2)"
    "RemoveTCPID a s2 = Some (s2\<lparr>tcps := h, m_TCPList := map_erase i (m_TCPList s2),
           m_lRef := m_lRef s2 - 2\<rparr>)"
    "core (R - {a}) (x(a := x a - 1)) y (s2\<lparr>tcps := h\<rparr>)"
    by (rule RemoveTCPID_ok[OF s2(2) t2 a x]) (use ne l2 in simp_all)
  let ?s3 = "s2\<lparr>tcps := h, m_TCPList := map_erase i (m_TCPList s2), m_lRef := m_lRef s2 - 2\<rparr>"
  let ?s4 = "?s3\<lparr>m_lRef := m_lRef s - 2\<rparr>"
  have "m_lRef s2 - 2 = m_lRef s - 1" using l2 by simp
  then have rel: "server_Release self ?s3 = Some ?s4"
    using ne(3) by (subst server_Release_alive) simp_all
  show thesis
  proof (rule that[of ?s4 i])
    show "TCPEndProcessDelegate a s = Some ?s4"
      using s2(1) s3(2) rel
      by (simp add: TCPEndProcessDelegate_def server_AddRef_def CBaseObject_AddRef_def
          TCPEndProcess_def)
    have "core (R - {a}) (x(a := x a - 1)) y ?s3"
      using s3(3) by (simp only: core_lRef core_TCPList)
    then show "core (R - {a}) (x(a := x a - 1)) y ?s4" by (simp only: core_lRef)
    show "\<forall>b. session_refs (conns ?s4) b \<le> Suc (session_refs (conns s) b)"
      using s2(3) by (simp add: same_tcp_def)
    have "sessions_change ?s1 s2" using s2(3) by (simp add: same_tcp_def)
    then show "sessions_change s ?s4" by (simp add: sessions_change_def)
  qed (use s3(1) l2 in simp_all)
qed

lemma table_ok_erase:
  assumes t: "table_ok R s" and i: "(i, a) \<in> set (m_TCPList s)"
  shows "table_ok (R - {a}) (s\<lparr>m_TCPList := map_erase i (m_TCPList s)\<rparr>)"
proof -
  let ?m = "m_TCPList s"
  have ok: "map_ok ?m" "inj_on snd (set ?m)" "snd ` set ?m = R" using t by (simp_all add: table_ok_def)
  have "inj_on fst (set ?m)" using map_ok_distinct[OF ok(1)] by (simp add: distinct_map)
  then have "fst e = i \<longleftrightarrow> e = (i, a)" if "e \<in> set ?m" for e
    using inj_onD[of fst "set ?m" e "(i, a)"] that i by auto
  then have set2: "set (map_erase i ?m) = set ?m - {(i, a)}" by (auto simp: map_erase_set)
  have "snd ` (set ?m - {(i, a)}) = snd ` set ?m - snd ` {(i, a)}"
    using ok(2) i by (intro inj_on_image_set_diff) auto
  then show ?thesis
    using ok by (simp add: table_ok_def set2 map_ok_erase inj_on_diff)
qed

lemma RecvEnds_sys:
  assumes inv: "sys_inv u y k \<sigma>" and k: "k < 268435456" and en: "enabled (RecvEnds a) \<sigma>"
    and y: "\<And>p c. conns (srv \<sigma>) p = Some c \<Longrightarrow> m_pMainTCPServer c = Some a \<Longrightarrow> y p = 0"
  shows "\<exists>\<sigma>'. exec (RecvEnds a) \<sigma> = Some \<sigma>' \<and> sys_inv u y (Suc k) \<sigma>' \<and> sessions_change (srv \<sigma>) (srv \<sigma>')"
proof -
  define s R S where "s = srv \<sigma>" and "R = recv_thr \<sigma>" and "S = send_thr \<sigma>"
  define x where "x = (\<lambda>a. held R S s a + u a)"
  have c: "core R x y s" and t: "table_ok R s" and len: "length (m_TCPList s) \<le> k"
    and m: "m_lRef s = of_nat (3 + 2 * length (m_TCPList s))"
    and refs: "\<And>b. session_refs (conns s) b \<le> k"
    using inv by (simp_all add: sys_inv_def x_def s_def R_def S_def)
  have a: "a \<in> R" using en by (simp add: enabled_def R_def)
  have x: "x a = 2 + of_bool (a \<in> S) + u a" using a t
    by (simp add: x_def held_def tab_refs_def thr_refs_def table_ok_def)
  have len': "length (m_TCPList s) < 268435456" using len k by simp
  have hp: "heap_ok (tcp_good R) (owners s x) (tcps s)" using c by (simp add: core_def)
  have xa: "0 < x a" and "0 < owners s x a" using x by (simp_all add: owners_def)
  then obtain tcp where tcp: "tcps s a = Some tcp" "tcp_good R a tcp"
    using heap_okD[OF hp] by metis
  then have fn: "m_pfnEndFunc tcp \<noteq> None" using a by (simp add: registered_def tcp_good_def)
  have "y p = 0" if "conns s p = Some c" "m_pMainTCPServer c = Some a" for p c
    using y[of p c] that by (simp add: s_def)
  from TCPEndProcessDelegate_ok[OF c t a xa m len' this]
  obtain s' i where s': "TCPEndProcessDelegate a s = Some s'"
    "core (R - {a}) (x(a := x a - 1)) y s'" "(i, a) \<in> set (m_TCPList s)"
    "m_TCPList s' = map_erase i (m_TCPList s)" "m_lRef s' = m_lRef s - 2"
    "\<forall>b. session_refs (conns s') b \<le> Suc (session_refs (conns s) b)" "sessions_change s s'" .
  have hp': "heap_ok (tcp_good (R - {a})) (owners s' (x(a := x a - 1))) (tcps s')"
    using s'(2) by (simp add: core_def)
  have "0 < owners s' (x(a := x a - 1)) a" using x by (simp add: owners_def)
  then obtain tcp' where tcp': "tcps s' a = Some tcp'" "tcp_good (R - {a}) a tcp'"
    using heap_okD[OF hp'] by metis
  let ?h = "(tcps s')(a \<mapsto> tcp'\<lparr>m_hStopEvent := True\<rparr>)"
  have w: "core (R - {a}) (x(a := x a - 1)) y (s'\<lparr>tcps := ?h\<rparr>)"
    using tcp' by (intro core_write[OF s'(2) tcp'(1)]) (auto simp: tcp_good_def)
  have "0 < (x(a := x a - 1)) a" using x by simp
  from tcp_Release_core[OF w this] obtain h where
    h: "tcp_Release a (s'\<lparr>tcps := ?h\<rparr>) = Some (s'\<lparr>tcps := ?h, tcps := h\<rparr>)"
    "core (R - {a}) ((x(a := x a - 1))(a := (x(a := x a - 1)) a - 1)) y
       (s'\<lparr>tcps := ?h, tcps := h\<rparr>)" .
  let ?s = "s'\<lparr>tcps := ?h, tcps := h\<rparr>"
  have ok: "map_ok (m_TCPList s)" "snd ` set (m_TCPList s) = R"
    using t by (simp_all add: table_ok_def)
  have len2: "Suc (length (m_TCPList ?s)) = length (m_TCPList s)"
    using length_map_erase[OF ok(1) s'(3)] s'(4) by simp
  have t': "table_ok (R - {a}) ?s"
    using table_ok_erase[OF t s'(3)] s'(4) by (simp add: table_ok_def)
  have "held (R - {a}) S ?s b + u b = ((x(a := x a - 1))(a := (x(a := x a - 1)) a - 1)) b" for b
    using t' ok(2) x by (simp add: held_def tab_refs_def thr_refs_def table_ok_def x_def)
  then have "core (R - {a}) (\<lambda>b. held (R - {a}) S ?s b + u b) y ?s"
    by (intro core_ext[OF h(2)]) simp
  moreover have "m_lRef ?s = of_nat (3 + 2 * length (m_TCPList ?s))"
    using s'(5) m by (simp flip: len2)
  moreover have "session_refs (conns ?s) b \<le> Suc k" for b
    using s'(6) refs[of b] by (simp add: le_trans[OF spec[of _ b]])
  ultimately have "sys_inv u y (Suc k) (\<sigma>\<lparr>srv := ?s, recv_thr := R - {a}\<rparr>)"
    using t' len len2 by (simp add: sys_inv_def S_def)
  moreover have "RecvProc_exit a s = Some ?s"
    using tcp(1) fn s'(1) tcp'(1) h(1) by (simp add: RecvProc_exit_def)
  moreover have "sessions_change s ?s" using s'(7) by (simp add: sessions_change_def)
  ultimately show ?thesis by (auto simp: exec_def s_def R_def)
qed

section \<open>A new connection\<close>

text \<open>The search for an unused id ends, because the table has fewer entries than there are ids.\<close>

lemma TCPIDLoop_found:
  assumes "map_find (i + of_nat d) m = None" and "d < fuel"
  shows "\<exists>j. TCPIDLoop fuel m i = Some j \<and> map_find j m = None"
  using assms
proof (induction fuel arbitrary: i d)
  case (Suc fuel)
  show ?case
  proof (cases "map_find i m = None")
    case False
    then obtain d' where d: "d = Suc d'" using Suc.prems(1) by (cases d) auto
    then have "map_find (i + 1 + of_nat d') m = None" using Suc.prems(1) by (simp add: ac_simps)
    then show ?thesis using Suc.IH[of "i + 1" d'] Suc.prems(2) d False by simp
  qed simp
qed simp

lemma TCPIDLoop_total:
  assumes "map_ok m" and "length m < 4294967296"
  shows "\<exists>j. TCPIDLoop (Suc (length m)) m i = Some j \<and> map_find j m = None"
proof -
  obtain d where "d \<le> length m" "map_find (i + of_nat d) m = None"
    using smap.free_key[OF assms, of i] by blast
  then show ?thesis by (intro TCPIDLoop_found[of i d]) auto
qed

lemma CreateTCPID_ok:
  assumes m: "map_ok (m_TCPList s)" "length (m_TCPList s) < 4294967296"
    and a: "tcps s a = Some tcp"
  obtains i where "map_find i (m_TCPList s) = None"
    and "CreateTCPID a s = Some (i, s\<lparr>m_TCPList := map_put i a (m_TCPList s),
           tcps := (tcps s)(a \<mapsto> tcp\<lparr>m_lRef := m_lRef tcp + 1\<rparr>), m_dwTCPid := i + 1\<rparr>)"
proof -
  obtain i where i: "TCPIDLoop (Suc (length (m_TCPList s))) (m_TCPList s) (m_dwTCPid s) = Some i"
      "map_find i (m_TCPList s) = None"
    using TCPIDLoop_total[OF m] by blast
  show thesis
  proof (rule that[OF i(2)])
    show "CreateTCPID a s = Some (i, s\<lparr>m_TCPList := map_put i a (m_TCPList s),
           tcps := (tcps s)(a \<mapsto> tcp\<lparr>m_lRef := m_lRef tcp + 1\<rparr>), m_dwTCPid := i + 1\<rparr>)"
      using i(1) a by (simp add: CreateTCPID_def tcp_AddRef_def AddRef_live)
  qed
qed

lemma table_ok_put:
  assumes t: "table_ok R s" and i: "map_find i (m_TCPList s) = None" and a: "a \<notin> R"
  shows "table_ok (insert a R) (s\<lparr>m_TCPList := map_put i a (m_TCPList s)\<rparr>)"
proof -
  let ?m = "m_TCPList s"
  have ok: "map_ok ?m" "inj_on snd (set ?m)" "snd ` set ?m = R" using t by (simp_all add: table_ok_def)
  have "fst e \<noteq> i" if "e \<in> set ?m" for e
    using i that by (metis image_eqI map_find_None_iff)
  then have "set (map_put i a ?m) = insert (i, a) (set ?m)" by (auto simp: map_put_set[OF ok(1)])
  then show ?thesis using ok a by (auto simp: table_ok_def map_ok_put)
qed

text \<open>\<open>AcceptTCPSocketProcess\<close> adds one object with three owners, registered with the server.\<close>

lemma Accept_ok:
  assumes new: "tcps s new = None" and len: "length rawdst = 128" "length rawsrc = 128"
    and peer: "nul_terminated peer" "length peer \<le> 128"
    and m: "map_ok (m_TCPList s)" "length (m_TCPList s) < 4294967296"
    and r: "m_lRef s + 1 \<noteq> 0"
  obtains i tcp where "AcceptTCPSocketProcess new rawdst rawsrc (Some (peer, pt)) sock s
      = Some (True, s\<lparr>tcps := (tcps s)(new \<mapsto> tcp), m_TCPList := map_put i new (m_TCPList s),
          m_dwTCPid := i + 1, m_lRef := m_lRef s + 2\<rparr>)"
    and "map_find i (m_TCPList s) = None" and "m_lRef tcp = 3"
    and "nul_terminated (m_szDstAddress tcp)" and "registered tcp"
    and "m_SendList tcp = [CreateTCPInitPkt i (m_dwUDPPort s)]"
proof -
  obtain src where src: "CTCPServer rawdst rawsrc sock (m_dwTCPPort s)
      = Some (CTCPBase (Some sock) rawdst 0 src (m_dwTCPPort s))"
    using CTCPServer_defined[OF len(2)] by blast
  have "length (cstr peer) < 128" using cstr_length_less[OF peer(1)] peer(2) by simp
  then obtain dst where dst: "strcpy rawdst peer = Some dst" "nul_terminated dst"
    using peer(1) len(1) by (auto simp: strcpy_def)
  let ?t0 = "CTCPBase (Some sock) rawdst 0 src (m_dwTCPPort s)"
  let ?t1 = "?t0\<lparr>m_pfnRecvFunc := Some ServerDelegate, m_pRecvParam := Some self,
    m_pfnEndFunc := Some ServerDelegate, m_pEndParam := Some self\<rparr>"
  let ?t2 = "InitBase (?t1\<lparr>m_dwDstPort := pt, m_szDstAddress := dst\<rparr>)"
  let ?s1 = "s\<lparr>m_lRef := m_lRef s + 2\<rparr>"
  let ?s2 = "?s1\<lparr>tcps := (tcps s)(new \<mapsto> ?t2)\<rparr>"
  have reg: "RegisterRecvProcess server_AddRef server_Release (Some ServerDelegate) (Some self) ?t0 s
      = Some (?t0\<lparr>m_pfnRecvFunc := Some ServerDelegate, m_pRecvParam := Some self\<rparr>,
          s\<lparr>m_lRef := m_lRef s + 1\<rparr>)"
    "RegisterEndProcess server_AddRef server_Release (Some ServerDelegate) (Some self)
       (?t0\<lparr>m_pfnRecvFunc := Some ServerDelegate, m_pRecvParam := Some self\<rparr>)
       (s\<lparr>m_lRef := m_lRef s + 1\<rparr>) = Some (?t1, ?s1)"
    by (simp_all add: RegisterRecvProcess_def RegisterEndProcess_def register_param_def
        server_AddRef_def CBaseObject_AddRef_def CTCPBase_def)
  have init: "CTCPServer_Init (Some (peer, pt)) ?t1 = Some (True, ?t2)"
    using dst by (simp add: CTCPServer_Init_def CTCPBase_def)
  have m2: "map_ok (m_TCPList ?s2)" "length (m_TCPList ?s2) < 4294967296" "tcps ?s2 new = Some ?t2"
    using m by simp_all
  obtain i where i: "map_find i (m_TCPList s) = None"
    "CreateTCPID new ?s2 = Some (i, ?s2\<lparr>m_TCPList := map_put i new (m_TCPList s),
       tcps := (tcps ?s2)(new \<mapsto> ?t2\<lparr>m_lRef := m_lRef ?t2 + 1\<rparr>), m_dwTCPid := i + 1\<rparr>)"
    by (rule CreateTCPID_ok[OF m2]) simp
  let ?pk = "CreateTCPInitPkt i (m_dwUDPPort s)"
  let ?t3 = "SendPacket ?pk (?t2\<lparr>m_lRef := 4\<rparr>)" and ?t4 = "(SendPacket ?pk (?t2\<lparr>m_lRef := 4\<rparr>))\<lparr>m_lRef := 3\<rparr>"
  have cnt: "m_lRef ?t2 = 3" by (simp add: CTCPBase_def)
  let ?s3 = "?s1\<lparr>tcps := (tcps s)(new \<mapsto> ?t2\<lparr>m_lRef := 4\<rparr>), m_TCPList := map_put i new (m_TCPList s),
       m_dwTCPid := i + 1\<rparr>"
  have id: "CreateTCPID new ?s2 = Some (i, ?s3)" using i(2) cnt by simp
  have send: "tcp_Send new ?pk ?s3 = Some (?s3\<lparr>tcps := (tcps s)(new \<mapsto> ?t3)\<rparr>)"
    by (simp add: tcp_Send_def SendPacket_to_def)
  have rel: "tcp_Release new (?s3\<lparr>tcps := (tcps s)(new \<mapsto> ?t3)\<rparr>)
      = Some (?s3\<lparr>tcps := (tcps s)(new \<mapsto> ?t4)\<rparr>)"
    by (simp add: tcp_Release_def Release_def CBaseObject_Release_def SendPacket_def)
  show thesis
  proof (rule that)
    show "AcceptTCPSocketProcess new rawdst rawsrc (Some (peer, pt)) sock s
      = Some (True, s\<lparr>tcps := (tcps s)(new \<mapsto> ?t4), m_TCPList := map_put i new (m_TCPList s),
          m_dwTCPid := i + 1, m_lRef := m_lRef s + 2\<rparr>)"
      using src reg init id send rel by (simp add: AcceptTCPSocketProcess_def SendPacket_def)
  qed (use i dst in \<open>simp_all add: SendPacket_def registered_def self_def CTCPBase_def\<close>)
qed

lemma core_new_tcp:
  assumes c: "core R x y s" and new: "tcps s a = None" and tcp: "m_lRef tcp = 3"
    "nul_terminated (m_szDstAddress tcp)" "registered tcp"
  shows "core (insert a R) (x(a := 3)) y (s\<lparr>tcps := (tcps s)(a \<mapsto> tcp)\<rparr>)"
proof -
  have h: "heap_ok (tcp_good R) (owners s x) (tcps s)" using c by (simp add: core_def)
  then have "owners s x a = 0" using new heap_ok_dead by metis
  then have own: "owners s (x(a := 3)) = (owners s x)(a := 3)" by (auto simp: owners_def)
  have "heap_ok (tcp_good (insert a R)) ((owners s x)(a := 3)) ((tcps s)(a \<mapsto> tcp))"
    unfolding heap_ok_def
  proof (intro allI conjI impI)
    fix b ob
    show "((owners s x)(a := 3)) b < 4294967296" using h by (simp add: heap_ok_def)
    show "((owners s x)(a := 3)) b = 0" if "((tcps s)(a \<mapsto> tcp)) b = None"
      using that h by (auto simp: heap_ok_def split: if_splits)
    assume ob: "((tcps s)(a \<mapsto> tcp)) b = Some ob"
    show "0 < ((owners s x)(a := 3)) b" "m_lRef ob = of_nat (((owners s x)(a := 3)) b)"
      using ob h tcp by (auto simp: heap_ok_def split: if_splits)
    show "tcp_good (insert a R) b ob"
      using ob h tcp by (cases "b = a") (auto simp: heap_ok_def tcp_good_def)
  qed
  then have h': "heap_ok (tcp_good (insert a R)) (owners s (x(a := 3))) ((tcps s)(a \<mapsto> tcp))"
    by (simp only: own)
  have "owners (s\<lparr>tcps := (tcps s)(a \<mapsto> tcp)\<rparr>) (x(a := 3)) = owners s (x(a := 3))" by simp
  then show ?thesis using c h' by (simp add: core_def entry_ok_def kw_unique_def kw_of_def)
qed

lemma Accepted_sys:
  assumes inv: "sys_inv u y k \<sigma>" and k: "k < 268435456"
    and en: "enabled (Accepted new rawdst rawsrc peer pt sock) \<sigma>"
  shows "\<exists>\<sigma>'. exec (Accepted new rawdst rawsrc peer pt sock) \<sigma> = Some \<sigma>' \<and> sys_inv u y (Suc k) \<sigma>' \<and> sessions_change (srv \<sigma>) (srv \<sigma>')"
proof -
  define s R S where "s = srv \<sigma>" and "R = recv_thr \<sigma>" and "S = send_thr \<sigma>"
  define x where "x = (\<lambda>a. held R S s a + u a)"
  have c: "core R x y s" and t: "table_ok R s" and len: "length (m_TCPList s) \<le> k"
    and m: "m_lRef s = of_nat (3 + 2 * length (m_TCPList s))"
    and refs: "\<And>b. session_refs (conns s) b \<le> k"
    using inv by (simp_all add: sys_inv_def x_def s_def R_def S_def)
  have e: "tcps s new = None" "length rawdst = 128" "length rawsrc = 128"
    "nul_terminated peer" "length peer \<le> 128"
    using en by (simp_all add: enabled_def s_def)
  have ok: "map_ok (m_TCPList s)" using t by (simp add: table_ok_def)
  have len': "length (m_TCPList s) < 4294967296" using len k by simp
  have "unat (of_nat (3 + 2 * length (m_TCPList s) + 1) :: LONG) = 3 + 2 * length (m_TCPList s) + 1"
    using len k by (intro unat_of_nat_DWORD) simp
  then have "(of_nat (3 + 2 * length (m_TCPList s) + 1) :: LONG) \<noteq> 0" by (metis Suc_eq_plus1 nat.distinct(1) unat_0)
  then have nz: "m_lRef s + 1 \<noteq> 0" by (simp add: m ac_simps)
  obtain i tcp where a: "AcceptTCPSocketProcess new rawdst rawsrc (Some (peer, pt)) sock s
      = Some (True, s\<lparr>tcps := (tcps s)(new \<mapsto> tcp), m_TCPList := map_put i new (m_TCPList s),
          m_dwTCPid := i + 1, m_lRef := m_lRef s + 2\<rparr>)"
    "map_find i (m_TCPList s) = None" "m_lRef tcp = 3"
    "nul_terminated (m_szDstAddress tcp)" "registered tcp"
    by (rule Accept_ok[OF e ok len' nz])
  let ?s = "s\<lparr>tcps := (tcps s)(new \<mapsto> tcp), m_TCPList := map_put i new (m_TCPList s),
          m_dwTCPid := i + 1, m_lRef := m_lRef s + 2\<rparr>"
  have h: "heap_ok (tcp_good R) (owners s x) (tcps s)" using c by (simp add: core_def)
  then have "owners s x new = 0" using e(1) heap_ok_dead by metis
  then have x0: "held R S s new = 0" "u new = 0" by (simp_all add: owners_def x_def)
  then have notR: "new \<notin> R" "new \<notin> S" by (simp_all add: held_def thr_refs_def split: if_splits)
  have t': "table_ok (insert new R) ?s"
    using table_ok_put[OF t a(2) notR(1)] by (simp add: table_ok_def)
  have "core (insert new R) (x(new := 3)) y (s\<lparr>tcps := (tcps s)(new \<mapsto> tcp)\<rparr>)"
    by (rule core_new_tcp[OF c e(1) a(3,4,5)])
  then have c': "core (insert new R) (x(new := 3)) y ?s"
    by (simp only: core_lRef core_TCPid core_TCPList)
  have "(x(new := 3)) b = held (insert new R) (insert new S) ?s b + u b" for b
    using t t' notR x0(2) by (simp add: x_def held_def tab_refs_def thr_refs_def table_ok_def)
  then have "core (insert new R) (\<lambda>b. held (insert new R) (insert new S) ?s b + u b) y ?s"
    by (intro core_ext[OF c']) simp
  moreover have l: "length (map_put i new (m_TCPList s)) = Suc (length (m_TCPList s))"
    by (rule smap.size_put_free[OF ok a(2)])
  moreover have "m_lRef ?s = of_nat (3 + 2 * length (m_TCPList ?s))"
    using m l by simp
  ultimately have "sys_inv u y (Suc k) (\<sigma>\<lparr>srv := ?s, recv_thr := insert new R,
      send_thr := insert new S\<rparr>)"
    using t' len refs by (simp add: sys_inv_def le_SucI)
  moreover have "sessions_change s ?s" by (simp add: sessions_change_same)
  ultimately show ?thesis using a(1) by (auto simp: exec_def s_def R_def S_def)
qed

section \<open>The start\<close>

lemma PortLoop_found:
  "PortLoop fuel bound p udp = Stop r \<Longrightarrow> bound (fst r)"
  by (induction fuel bound p udp rule: PortLoop.induct)
    (auto simp: UDP_Init_def Let_def split: if_splits)

lemma started_empty:
  assumes "started s"
  shows "tcps s = Map.empty \<and> conns s = Map.empty \<and> m_P2PConnectList s = [] \<and> m_TCPList s = []
      \<and> m_lRef s = 3"
  using assms
  by (auto simp: started_def P2PServer_Init_def CP2PServer_def CUDPBase_def Let_def
      UDP_RegisterRecvProcess_def RegisterSocketAcceptProcess_def register_param_def
      server_AddRef_def CBaseObject_AddRef_def CTCPService_def
      split: option.splits)

lemma started_inv:
  assumes "started s" shows "server_inv 0 \<lparr>srv = s, recv_thr = {}, send_thr = {}\<rparr>"
  using started_empty[OF assms]
  by (simp add: server_inv_def table_ok_def core_def heap_ok_def owners_def kw_unique_def
      session_refs_def held_def tab_refs_def thr_refs_def)

section \<open>All reachable states\<close>

lemma exec_inv:
  assumes "server_inv k \<sigma>" and "k < 268435456" and "enabled e \<sigma>"
  shows "\<exists>\<sigma>'. exec e \<sigma> = Some \<sigma>' \<and> server_inv (Suc k) \<sigma>' \<and> sessions_change (srv \<sigma>) (srv \<sigma>')"
proof (cases e)
  case (Accepted new rawdst rawsrc peer pt sock)
  then show ?thesis using Accepted_sys[OF assms(1)[unfolded server_inv_sys] assms(2)] assms(3) by (simp add: server_inv_sys)
next
  case (Received a new p)
  then show ?thesis using Received_inv[OF assms(1,2)] assms(3) by simp
next
  case (Datagram p)
  then show ?thesis using Datagram_inv[OF assms(1)] assms(3) by simp
next
  case (RecvEnds a)
  then show ?thesis using RecvEnds_sys[OF assms(1)[unfolded server_inv_sys] assms(2)] assms(3) by (simp add: server_inv_sys)
next
  case (SendEnds a)
  then show ?thesis using SendEnds_sys[OF assms(1)[unfolded server_inv_sys]] assms(3) by (simp add: server_inv_sys)
qed

lemma reach_inv: "reach k \<sigma> \<Longrightarrow> k \<le> 268435456 \<Longrightarrow> server_inv k \<sigma>"
proof (induction rule: reach.induct)
  case (reach_start s)
  then show ?case by (simp add: started_inv)
next
  case (reach_event k \<sigma> e \<sigma>')
  then show ?case using exec_inv[of k \<sigma> e] by auto
qed

section \<open>The owners of the sessions\<close>

text \<open>
  A session is owned by its entry in the table. A registration under an id that already has an
  entry overwrites the entry: the old session keeps the reference of its creation, and nothing
  leads to it any more. \<open>overwritten s s'\<close> are the sessions that lose their entry so on the way
  from \<open>s\<close> to \<open>s'\<close>, and \<open>reach_lost L k\<close> is \<open>reach k\<close> with \<open>L\<close> the sessions lost so far.
\<close>

definition overwritten :: "p2pserver \<Rightarrow> p2pserver \<Rightarrow> addr set" where
  "overwritten s s' = {p. \<exists>i q. (i, p) \<in> set (m_P2PConnectList s)
     \<and> (i, q) \<in> set (m_P2PConnectList s') \<and> q \<noteq> p}"

inductive reach_lost :: "addr set \<Rightarrow> nat \<Rightarrow> server_sys \<Rightarrow> bool" where
  lost_start: "started s \<Longrightarrow> reach_lost {} 0 \<lparr>srv = s, recv_thr = {}, send_thr = {}\<rparr>"
| lost_event: "reach_lost L k \<sigma> \<Longrightarrow> enabled e \<sigma> \<Longrightarrow> exec e \<sigma> = Some \<sigma>' \<Longrightarrow>
    reach_lost (L \<union> overwritten (srv \<sigma>) (srv \<sigma>')) (Suc k) \<sigma>'"

lemma reach_lost_reach: "reach_lost L k \<sigma> \<Longrightarrow> reach k \<sigma>"
  by (induction rule: reach_lost.induct) (auto intro: reach.intros)

lemma reach_lost_ex: "reach k \<sigma> \<Longrightarrow> \<exists>L. reach_lost L k \<sigma>"
  by (induction rule: reach.induct) (blast intro: reach_lost.intros)+

text \<open>The references that own a session: its entries in the table, and the one that is lost.\<close>

definition session_owners :: "addr set \<Rightarrow> p2pserver \<Rightarrow> addr \<Rightarrow> nat" where
  "session_owners L s p = card {e \<in> set (m_P2PConnectList s). snd e = p} + of_bool (p \<in> L)"

definition accounted :: "addr set \<Rightarrow> p2pserver \<Rightarrow> bool" where
  "accounted L s \<longleftrightarrow> L \<inter> snd ` set (m_P2PConnectList s) = {}
     \<and> dom (conns s) = snd ` set (m_P2PConnectList s) \<union> L"

lemma entry_key:
  assumes "core R x y s" and "(i, p) \<in> set (m_P2PConnectList s)" and "(j, q) \<in> set (m_P2PConnectList s)"
  shows "i = j \<longleftrightarrow> p = q"
proof -
  have "inj_on fst (set (m_P2PConnectList s))"
    using assms(1) map_ok_distinct by (auto simp: core_def distinct_map)
  from inj_onD[OF this _ assms(2,3)] have "i = j \<Longrightarrow> p = q" by simp
  moreover have "p = q \<Longrightarrow> i = j" using core_entry[OF assms(1,2)] core_entry[OF assms(1,3)]
    by (metis fst_conv option.inject snd_conv)
  ultimately show ?thesis by blast
qed

lemma accounted_owners:
  assumes "core R x y s" and "accounted L s"
  shows "session_owners L s p = of_bool (conns s p \<noteq> None)"
proof -
  let ?E = "{e \<in> set (m_P2PConnectList s). snd e = p}"
  have "card ?E = of_bool (p \<in> snd ` set (m_P2PConnectList s))"
  proof (cases "p \<in> snd ` set (m_P2PConnectList s)")
    case True
    then obtain i where "(i, p) \<in> set (m_P2PConnectList s)" by auto
    then have "?E = {(i, p)}" using entry_key[OF assms(1)] by fastforce
    then show ?thesis using True by simp
  next
    case False
    then have "?E = {}" by (auto simp: image_iff)
    then show ?thesis using False by simp
  qed
  moreover have "conns s p \<noteq> None \<longleftrightarrow> p \<in> snd ` set (m_P2PConnectList s) \<union> L"
    using assms(2) by (metis accounted_def domIff)
  ultimately show ?thesis using assms(2) by (auto simp: session_owners_def accounted_def)
qed

text \<open>Each way in which the sessions change keeps the account.\<close>

lemma accounted_change:
  assumes c: "core R x y s" and a: "accounted L s" and ch: "sessions_change s s'"
  shows "accounted (L \<union> overwritten s s') s'"
proof -
  let ?T = "m_P2PConnectList s" and ?T' = "m_P2PConnectList s'"
  note uniq = entry_key[OF c]
  have L: "L \<inter> snd ` set ?T = {}" "dom (conns s) = snd ` set ?T \<union> L" using a by (simp_all add: accounted_def)
  consider (same) "?T' = ?T" "dom (conns s') = dom (conns s)"
    | (put) i new where "conns s new = None" "?T' = map_put i new ?T"
        "dom (conns s') = insert new (dom (conns s))"
    | (erase) i p where "(i, p) \<in> set ?T" "?T' = map_erase i ?T" "dom (conns s') = dom (conns s) - {p}"
    using ch by (auto simp: sessions_change_def)
  then show ?thesis
  proof cases
    case same
    then have "overwritten s s' = {}" using uniq by (fastforce simp: overwritten_def)
    then show ?thesis using same a by (simp add: accounted_def)
  next
    case put
    have T': "set ?T' = insert (i, new) {e \<in> set ?T. fst e \<noteq> i}"
      using c put(2) map_put_set[of ?T i new] by (simp add: core_def)
    have new: "new \<notin> snd ` set ?T" "new \<notin> L" using put(1) L(2) by blast+
    have O: "overwritten s s' = {p. (i, p) \<in> set ?T}"
    proof (intro set_eqI iffI; clarsimp simp: overwritten_def T')
      fix p j q
      assume "(j, p) \<in> set ?T" "j = i \<and> q = new \<or> (j, q) \<in> set ?T \<and> j \<noteq> i" "q \<noteq> p"
      then show "(i, p) \<in> set ?T" using uniq by blast
    next
      fix p assume p: "(i, p) \<in> set ?T"
      then have "new \<noteq> p" using new(1) by force
      then show "\<exists>j. (j, p) \<in> set ?T \<and> (\<exists>q. (j = i \<and> q = new \<or> (j, q) \<in> set ?T \<and> j \<noteq> i) \<and> q \<noteq> p)"
        using p by blast
    qed
    have split: "snd ` set ?T = snd ` {e \<in> set ?T. fst e \<noteq> i} \<union> {p. (i, p) \<in> set ?T}" by force
    have "{p. (i, p) \<in> set ?T} \<inter> snd ` {e \<in> set ?T. fst e \<noteq> i} = {}" using uniq by fastforce
    then have "(L \<union> overwritten s s') \<inter> snd ` set ?T' = {}" using L(1) new split by (auto simp: O T')
    moreover have "dom (conns s') = snd ` set ?T' \<union> (L \<union> overwritten s s')"
      unfolding put(3) L(2) O T' split by auto
    ultimately show ?thesis by (simp add: accounted_def)
  next
    case erase
    have T': "set ?T' = {e \<in> set ?T. fst e \<noteq> i}" using erase(2) by (simp add: map_erase_set)
    then have O: "overwritten s s' = {}" using uniq by (fastforce simp: overwritten_def)
    have "snd ` set ?T' = snd ` set ?T - {p}" unfolding T' using uniq[OF erase(1)] by fastforce
    moreover have "p \<in> snd ` set ?T" using erase(1) by force
    ultimately show ?thesis using erase(3) L by (auto simp: accounted_def O)
  qed
qed

lemma reach_accounted: "reach_lost L k \<sigma> \<Longrightarrow> k \<le> 268435456 \<Longrightarrow> accounted L (srv \<sigma>)"
proof (induction rule: reach_lost.induct)
  case (lost_start s)
  have "conns s = Map.empty \<and> m_P2PConnectList s = []"
    using started_empty[OF lost_start.hyps] by blast
  then show ?case by (simp add: accounted_def)
next
  case (lost_event L k \<sigma> e \<sigma>')
  have k: "k \<le> 268435456" "k < 268435456" using lost_event.prems by simp_all
  have inv: "server_inv k \<sigma>" using reach_lost_reach[OF lost_event.hyps(1)] k(1) by (rule reach_inv)
  then have c: "core (recv_thr \<sigma>) (held (recv_thr \<sigma>) (send_thr \<sigma>) (srv \<sigma>)) (\<lambda>_. 0) (srv \<sigma>)"
    by (simp add: server_inv_def)
  have "sessions_change (srv \<sigma>) (srv \<sigma>')"
    using exec_inv[OF inv k(2) lost_event.hyps(2)] lost_event.hyps(3) by auto
  then show ?case using accounted_change[OF c lost_event.IH[OF k(1)]] by blast
qed

end
