(* ===== verification/ServerProperties.thy ===== *)
theory ServerProperties
  imports ServerSystem
begin

text \<open>
  What the invariant of \<open>ServerSystem\<close> means for the server: no event in a reachable state runs
  into undefined behaviour, the counts of connections and sessions are the numbers of their owners, the keywords are unique and the
  sessions well formed. Concrete runs of the server witness the hypotheses.
\<close>

section \<open>Runs\<close>

text \<open>A sequence of events, each enabled when it happens.\<close>

fun run :: "server_event list \<Rightarrow> server_sys \<Rightarrow> server_sys option" where
  "run [] \<sigma> = Some \<sigma>"
| "run (e # es) \<sigma> = (if enabled e \<sigma> then Option.bind (exec e \<sigma>) (run es) else None)"

lemma reach_run: "reach k \<sigma> \<Longrightarrow> run es \<sigma> = Some \<sigma>' \<Longrightarrow> reach (k + length es) \<sigma>'"
proof (induction es arbitrary: k \<sigma>)
  case (Cons e es)
  then obtain \<sigma>1 where "enabled e \<sigma>" "exec e \<sigma> = Some \<sigma>1" "run es \<sigma>1 = Some \<sigma>'"
    by (auto simp: bind_Some_iff split: if_splits)
  then show ?case using Cons.IH[OF reach_event[OF Cons.prems(1)]] by simp
qed simp

text \<open>A server whose first UDP port was free.\<close>

definition boot :: server_sys where
  "boot = \<lparr>srv = (case P2PServer_Init 1 (\<lambda>_. True) (Some 4) True (CP2PServer (Some 3) 5000) of
      Stop (Some (True, s)) \<Rightarrow> s | _ \<Rightarrow> CP2PServer None 0), recv_thr = {}, send_thr = {}\<rparr>"

lemma reach_boot: "reach 0 boot"
proof -
  have "\<exists>s. P2PServer_Init 1 (\<lambda>_. True) (Some 4) True (CP2PServer (Some 3) 5000)
      = Stop (Some (True, s))"
    by (simp add: P2PServer_Init_def CP2PServer_def CUDPBase_def UDP_RegisterRecvProcess_def
        register_param_def server_AddRef_def UDP_Init_def UDP_Start_def CTCPService_def
        RegisterSocketAcceptProcess_def CTCPService_Init_def Let_def CBaseObject_AddRef_def)
  then obtain s where s: "P2PServer_Init 1 (\<lambda>_. True) (Some 4) True (CP2PServer (Some 3) 5000)
      = Stop (Some (True, s))" by blast
  then have "started s" unfolding started_def by blast
  then have "reach 0 \<lparr>srv = s, recv_thr = {}, send_thr = {}\<rparr>" by (rule reach_start)
  then show ?thesis using s by (simp add: boot_def)
qed

text \<open>A host at address 1 registers the keyword \<open>7\<close>, a guest at address 2 joins it.\<close>

definition demo_keyword :: "BYTE list" where "demo_keyword = 55 # replicate 31 0"

definition demo_name :: "BYTE list" where "demo_name = 65 # replicate 127 0"

definition demo_accept :: "addr \<Rightarrow> server_event" where
  "demo_accept a = Accepted a (replicate 128 0) (replicate 128 0) [49, 0] 7000 a"

definition demo_packet :: "TCPBASE_PACKET_TYPE \<Rightarrow> DWORD \<Rightarrow> BYTE list" where
  "demo_packet t i = dword_bytes 172 @ dword_bytes (tpt_num t) @ dword_bytes i @ demo_keyword
     @ demo_name"

definition demo_run :: "server_event list" where
  "demo_run = [demo_accept 1, demo_accept 2, Received 1 10 (demo_packet TPT_WAITING 1),
     Received 2 11 (demo_packet TPT_CONNECT 2)]"

lemma demo_reach:
  obtains \<sigma> where "run demo_run boot = Some \<sigma>" and "reach 4 \<sigma>" and "enabled (RecvEnds 1) \<sigma>"
    and "map_option m_lRef (tcps (srv \<sigma>) 1) = Some 4" and "m_P2PConnectList (srv \<sigma>) = [(1, 10)]"
    and "map_option m_eStatus (conns (srv \<sigma>) 10) = Some P2P_TCP_CONNECTED"
proof -
  have ok: "case run demo_run boot of None \<Rightarrow> False
    | Some \<sigma> \<Rightarrow> enabled (RecvEnds 1) \<sigma> \<and> map_option m_lRef (tcps (srv \<sigma>) 1) = Some 4
        \<and> m_P2PConnectList (srv \<sigma>) = [(1, 10)]
        \<and> map_option m_eStatus (conns (srv \<sigma>) 10) = Some P2P_TCP_CONNECTED" by code_simp
  then obtain \<sigma> where \<sigma>: "run demo_run boot = Some \<sigma>" by (cases "run demo_run boot") simp_all
  have "reach (0 + length demo_run) \<sigma>" by (rule reach_run[OF reach_boot \<sigma>])
  moreover have "0 + length demo_run = 4" by (simp add: demo_run_def)
  ultimately have "reach 4 \<sigma>" by (simp only:)
  with \<sigma> ok show thesis using that by simp
qed

section \<open>What holds in every reachable state\<close>

lemma reach_core:
  assumes "reach k \<sigma>" and "k \<le> 268435456"
  shows "core (recv_thr \<sigma>) (held (recv_thr \<sigma>) (send_thr \<sigma>) (srv \<sigma>)) (\<lambda>_. 0) (srv \<sigma>)"
    and "table_ok (recv_thr \<sigma>) (srv \<sigma>)"
    and "m_lRef (srv \<sigma>) = of_nat (3 + 2 * length (m_TCPList (srv \<sigma>)))"
  using reach_inv[OF assms] by (simp_all add: server_inv_def)

text \<open>A connection that a session refers to is a live object.\<close>

lemma session_pointer_live:
  assumes "reach k \<sigma>" and "k \<le> 268435456" and "conns (srv \<sigma>) p = Some c" and "0 < role_refs c a"
  shows "\<exists>tcp. tcps (srv \<sigma>) a = Some tcp"
proof -
  note c = reach_core(1)[OF assms(1,2)]
  have "0 < owners (srv \<sigma>) (held (recv_thr \<sigma>) (send_thr \<sigma>) (srv \<sigma>)) a"
    using conn_refs_le[OF c assms(3), of a] assms(4) by simp
  with c show ?thesis by (auto simp: core_def elim: heap_okD)
qed

text \<open>
  C1: the rendezvous server never runs into undefined behaviour. In every state that a started
  server reaches, every event that can happen (a socket accepted, a well formed packet other than
  the relay packet, a datagram, the end of a connection's receiving or sending thread) is
  processed without following a null or dangling pointer, and leads to a reachable state again.
\<close>

theorem server_never_faults:
  assumes "reach k \<sigma>" and "k < 268435456" and "enabled e \<sigma>"
  shows "\<exists>\<sigma>'. exec e \<sigma> = Some \<sigma>' \<and> reach (Suc k) \<sigma>'"
proof -
  have "server_inv k \<sigma>" using assms(1,2) by (simp add: reach_inv)
  from exec_inv[OF this assms(2,3)] obtain \<sigma>' where "exec e \<sigma> = Some \<sigma>'" by blast
  then show ?thesis using reach_event[OF assms(1,3)] by blast
qed

theorem server_never_faults_witness:
  "case run demo_run boot of None \<Rightarrow> False
   | Some \<sigma> \<Rightarrow> \<exists>\<sigma>'. exec (RecvEnds 1) \<sigma> = Some \<sigma>' \<and> reach 5 \<sigma>'"
proof -
  obtain \<sigma> where \<sigma>: "run demo_run boot = Some \<sigma>" "reach 4 \<sigma>" "enabled (RecvEnds 1) \<sigma>"
    by (rule demo_reach)
  have "\<exists>\<sigma>'. exec (RecvEnds 1) \<sigma> = Some \<sigma>' \<and> reach (Suc 4) \<sigma>'"
    by (rule server_never_faults[OF \<sigma>(2) _ \<sigma>(3)]) simp
  then show ?thesis using \<sigma>(1) by simp
qed

text \<open>
  C7: the reference counts of the connections, the sessions and the server object are the numbers of
  their owners. In every reachable state a connection exists exactly while something refers to it,
  and its count is the number of the sessions that hold it as host or guest, of its entries in the
  table of connections and of its running threads. The count of a session is the number of its
  entries in the session table, plus one when a second registration under the id of its host
  has overwritten its entry: then nothing owns the reference of its creation any more. A session
  exists exactly when it is in the table or lost in this way. The count of the server object is
  three (creator, UDP service, listener) and two for every connection.
\<close>

theorem server_counts_exact:
  assumes "reach_lost L k \<sigma>" and "k \<le> 268435456"
  defines "s \<equiv> srv \<sigma>"
  shows "(case tcps s a of
       None \<Rightarrow> session_refs (conns s) a + held (recv_thr \<sigma>) (send_thr \<sigma>) s a = 0
     | Some tcp \<Rightarrow> unat (m_lRef tcp)
         = session_refs (conns s) a + held (recv_thr \<sigma>) (send_thr \<sigma>) s a
       \<and> 0 < unat (m_lRef tcp))
     \<and> (case conns s p of None \<Rightarrow> session_owners L s p = 0
        | Some c \<Rightarrow> unat (m_lRef c) = session_owners L s p \<and> 0 < unat (m_lRef c))
     \<and> L \<inter> snd ` set (m_P2PConnectList s) = {}
     \<and> unat (m_lRef s) = 3 + 2 * length (m_TCPList s)"
proof -
  have r: "reach k \<sigma>" using assms(1) by (rule reach_lost_reach)
  note c = reach_core[OF r assms(2), folded s_def]
  let ?n = "owners s (held (recv_thr \<sigma>) (send_thr \<sigma>) s)"
  have h: "heap_ok (tcp_good (recv_thr \<sigma>)) ?n (tcps s)" using c(1) by (simp add: core_def)
  then have "?n a < 4294967296" "tcps s a = None \<Longrightarrow> ?n a = 0"
    "\<And>tcp. tcps s a = Some tcp \<Longrightarrow> 0 < ?n a \<and> m_lRef tcp = of_nat (?n a)"
    by (simp_all add: heap_ok_def)
  then have "case tcps s a of None \<Rightarrow> ?n a = 0
     | Some tcp \<Rightarrow> unat (m_lRef tcp) = ?n a \<and> 0 < unat (m_lRef tcp)"
    by (cases "tcps s a") (auto simp: unat_of_nat_DWORD)
  moreover have acc: "accounted L s" unfolding s_def by (rule reach_accounted[OF assms(1,2)])
  then have "case conns s p of None \<Rightarrow> session_owners L s p = 0
      | Some c \<Rightarrow> unat (m_lRef c) = session_owners L s p \<and> 0 < unat (m_lRef c)"
    using c(1) accounted_owners[OF c(1) acc]
    by (auto simp: core_def session_ok_def split: option.split)
  moreover have "length (m_TCPList s) \<le> k" using reach_inv[OF r assms(2)] by (simp add: server_inv_def s_def)
  then have "unat (m_lRef s) = 3 + 2 * length (m_TCPList s)"
    using assms(2) by (simp only: c(3)) (rule unat_of_nat_DWORD, simp)
  ultimately show ?thesis using acc unfolding owners_def accounted_def by blast
qed

text \<open>The host registers a second keyword: the first session, at address 10, loses its entry.\<close>

definition demo_second :: "server_event list" where
  "demo_second = [demo_accept 1, Received 1 10 (demo_packet TPT_WAITING 1),
     Received 1 12 (dword_bytes 172 @ dword_bytes (tpt_num TPT_WAITING) @ dword_bytes 1
       @ (56 # replicate 31 0) @ demo_name)]"

theorem server_counts_exact_witness:
  "\<exists>L \<sigma>. run demo_second boot = Some \<sigma> \<and> reach_lost L 3 \<sigma> \<and> m_P2PConnectList (srv \<sigma>) = [(1, 12)]
     \<and> session_owners L (srv \<sigma>) 10 = 1 \<and> session_owners L (srv \<sigma>) 12 = 1"
proof -
  have ok: "case run demo_second boot of None \<Rightarrow> False
    | Some \<sigma> \<Rightarrow> m_P2PConnectList (srv \<sigma>) = [(1, 12)]
        \<and> map_option m_lRef (conns (srv \<sigma>) 10) = Some 1
        \<and> map_option m_lRef (conns (srv \<sigma>) 12) = Some 1" by code_simp
  then obtain \<sigma> where \<sigma>: "run demo_second boot = Some \<sigma>" by (cases "run demo_second boot") simp_all
  then have ok': "m_P2PConnectList (srv \<sigma>) = [(1, 12)]" "map_option m_lRef (conns (srv \<sigma>) 10) = Some 1"
    "map_option m_lRef (conns (srv \<sigma>) 12) = Some 1" using ok by simp_all
  have "reach (0 + length demo_second) \<sigma>" by (rule reach_run[OF reach_boot \<sigma>])
  then have "reach 3 \<sigma>" by (simp add: demo_second_def numeral_3_eq_3)
  then obtain L where L: "reach_lost L 3 \<sigma>" using reach_lost_ex by blast
  have "(3 :: nat) \<le> 268435456" by simp
  note exact = server_counts_exact[OF L this]
  from exact[of _ 10] exact[of _ 12] ok' \<sigma> L show ?thesis
    by (cases "conns (srv \<sigma>) 10"; cases "conns (srv \<sigma>) 12") auto
qed

text \<open>
  C19: the session table is consistent. In every reachable state each entry of the table is a live
  session that is registered under the id of its host, and no two entries have the same keyword,
  compared as C strings. So the scan of the whole table finds at most one session.
\<close>

theorem server_keywords_unique:
  assumes "reach k \<sigma>" and "k \<le> 268435456" and "(i, p) \<in> set (m_P2PConnectList (srv \<sigma>))"
  shows "\<exists>c. conns (srv \<sigma>) p = Some c \<and> m_dwMainTCPID c = i
     \<and> (\<forall>(j, q)\<in>set (m_P2PConnectList (srv \<sigma>)). \<forall>d. conns (srv \<sigma>) q = Some d \<longrightarrow>
          cstr (m_szKeyword d) = cstr (m_szKeyword c) \<longrightarrow> (j, q) = (i, p))"
proof -
  note c = reach_core(1)[OF assms(1,2)]
  obtain s where s: "conns (srv \<sigma>) p = Some s" "m_dwMainTCPID s = i"
    using core_entry[OF c assms(3)] by auto
  have "e = (i, p)" if "e \<in> set (m_P2PConnectList (srv \<sigma>))" "conns (srv \<sigma>) (snd e) = Some d"
    "cstr (m_szKeyword d) = cstr (m_szKeyword s)" for e d
  proof -
    have "kw_of (srv \<sigma>) (snd e) = kw_of (srv \<sigma>) (snd (i, p))"
      using that s by (simp add: kw_of_def)
    then show ?thesis using c that(1) assms(3) unfolding core_def kw_unique_def by blast
  qed
  then have "\<forall>(j, q)\<in>set (m_P2PConnectList (srv \<sigma>)). \<forall>d. conns (srv \<sigma>) q = Some d \<longrightarrow>
      cstr (m_szKeyword d) = cstr (m_szKeyword s) \<longrightarrow> (j, q) = (i, p)"
    by (intro ballI) (auto simp only: split_beta prod.collapse)
  then show ?thesis using s by blast
qed

theorem server_keywords_unique_witness:
  "case run demo_run boot of None \<Rightarrow> False
   | Some \<sigma> \<Rightarrow> \<exists>c. conns (srv \<sigma>) 10 = Some c \<and> m_dwMainTCPID c = 1"
proof -
  obtain \<sigma> where \<sigma>: "run demo_run boot = Some \<sigma>" "reach 4 \<sigma>"
    "m_P2PConnectList (srv \<sigma>) = [(1, 10)]" by (rule demo_reach)
  have "(4 :: nat) \<le> 268435456" "(1, 10) \<in> set (m_P2PConnectList (srv \<sigma>))"
    using \<sigma>(3) by simp_all
  from server_keywords_unique[OF \<sigma>(2) this] \<sigma>(1) show ?thesis by auto
qed

text \<open>
  C17: the sessions of the server are well formed in every reachable state. Each is in one of the
  five states of the handshake, its host is a live connection, it has a guest exactly when it is
  past the first state, and then the guest is a live connection too.
\<close>

theorem server_sessions_well_formed:
  assumes "reach k \<sigma>" and "k \<le> 268435456" and "conns (srv \<sigma>) p = Some c"
  shows "m_eStatus c \<in> {P2P_TCP_LISTENING, P2P_TCP_CONNECTED, P2P_UDP_LISTENING, P2P_PUNCHING,
           P2P_CONNECTED}
     \<and> (\<exists>a tcp. m_pMainTCPServer c = Some a \<and> tcps (srv \<sigma>) a = Some tcp)
     \<and> (if m_eStatus c = P2P_TCP_LISTENING then m_pConnTCPServer c = None
        else \<exists>b tcp. m_pConnTCPServer c = Some b \<and> tcps (srv \<sigma>) b = Some tcp)"
proof -
  have wf: "conn_wf c" using reach_core(1)[OF assms(1,2)] assms(3)
    by (simp add: core_def session_ok_def)
  have live: "\<exists>tcp. tcps (srv \<sigma>) a = Some tcp"
    if "m_pMainTCPServer c = Some a \<or> m_pConnTCPServer c = Some a" for a
    using session_pointer_live[OF assms, of a] that by (auto simp: role_refs_def)
  then show ?thesis using wf unfolding conn_wf_def by (metis option.exhaust)
qed

theorem server_sessions_well_formed_witness:
  "case run demo_run boot of None \<Rightarrow> False
   | Some \<sigma> \<Rightarrow> (case conns (srv \<sigma>) 10 of None \<Rightarrow> False | Some c \<Rightarrow>
       \<exists>b tcp. m_pConnTCPServer c = Some b \<and> tcps (srv \<sigma>) b = Some tcp)"
proof -
  obtain \<sigma> where \<sigma>: "run demo_run boot = Some \<sigma>" "reach 4 \<sigma>"
    "map_option m_eStatus (conns (srv \<sigma>) 10) = Some P2P_TCP_CONNECTED" by (rule demo_reach)
  then obtain c where c: "conns (srv \<sigma>) 10 = Some c" "m_eStatus c = P2P_TCP_CONNECTED" by auto
  have "(4 :: nat) \<le> 268435456" by simp
  from server_sessions_well_formed[OF \<sigma>(2) this c(1)] \<sigma>(1) c show ?thesis by auto
qed

end
