(* ===== verification/ServerReplies.thy ===== *)
theory ServerReplies
  imports ServerProperties
begin

text \<open>
  What the server answers: the packets a handler queues, and what it changes in the tables, for a
  server in a reachable state. The packets that wait on the connections are \<open>outbox\<close>.
\<close>

section \<open>The sender of a packet\<close>

lemma GetTCPServer_known:
  assumes s: "core R x y s" and r: "room x s" and t: "tabled x s" and a: "map_find i (m_TCPList s) = Some a"
  obtains h where "GetTCPServer i s = Some (Some a, s\<lparr>tcps := h\<rparr>)"
    and "core R (x(a := x a + 1)) y (s\<lparr>tcps := h\<rparr>)" and "outbox h = outbox (tcps s)" and "0 < x a"
proof -
  have "(i, a) \<in> set (m_TCPList s)" using a unfolding map_find_def by (rule map_of_SomeD)
  then have x: "0 < x a" using t by (auto simp: tabled_def)
  then have "0 < owners s x a" by (simp add: owners_def)
  from tcp_AddRef_core[OF s this roomD(1)[OF r]] obtain h where
    h: "tcp_AddRef a s = Some (s\<lparr>tcps := h\<rparr>)" "core R (x(a := x a + 1)) y (s\<lparr>tcps := h\<rparr>)" .
  have "AddRef a (tcps s) = Some h"
  proof (cases "AddRef a (tcps s)")
    case (Some h')
    then have "s\<lparr>tcps := h'\<rparr> = s\<lparr>tcps := h\<rparr>" using h(1) by (simp add: tcp_AddRef_def)
    from arg_cong[where f = tcps, OF this] show ?thesis using Some by simp
  qed (use h(1) in \<open>simp add: tcp_AddRef_def\<close>)
  from AddRef_outbox[OF this] show thesis
    using that[of h] h a x by (simp add: GetTCPServer_def)
qed

text \<open>The answer of a handler, and the return of its reference.\<close>

lemma reply_outbox:
  assumes s: "core R (x(a := x a + 1)) y s" and x: "0 < x a"
  obtains h where "Option.bind (tcp_Send a pk s) (tcp_Release a) = Some (s\<lparr>tcps := h\<rparr>)"
    and "outbox h = (outbox (tcps s))(a := outbox (tcps s) a @ [pk])"
proof -
  let ?x = "x(a := x a + 1)"
  have h: "heap_ok (tcp_good R) (owners s ?x) (tcps s)" using s by (simp add: core_def)
  have a: "0 < owners s ?x a" by (simp add: owners_def)
  obtain h1 where h1: "SendPacket_to (Some a) pk (tcps s) = Some h1"
    "heap_ok (tcp_good R) (owners s ?x) h1"
    "outbox h1 = (outbox (tcps s))(a := outbox (tcps s) a @ [pk])"
    using SendPacket_to_ok[OF h a] by metis
  obtain h2 where h2: "Release a h1 = Some h2"
    "heap_ok (tcp_good R) ((owners s ?x)(a := owners s ?x a - 1)) h2"
    using tcp_heap.Release_ok[OF h1(2) a] .
  have "outbox h2 b = outbox h1 b" for b
  proof (cases "h2 b")
    case None
    then have "((owners s ?x)(a := owners s ?x a - 1)) b = 0" using heap_ok_dead[OF h2(2)] by blast
    then have "b \<noteq> a" "owners s ?x b = 0" using x by (auto simp: owners_def split: if_splits)
    then have "h1 b = None" using heap_ok_dead[OF h1(2)] by blast
    then show ?thesis using None by (simp add: outbox_def)
  qed (use Release_outbox[OF h2(1)] in simp)
  then have "outbox h2 = outbox h1" by (simp add: fun_eq_iff)
  then show thesis
    using that[of h2] h1 h2(1) by (simp add: tcp_Send_def tcp_Release_def)
qed

text \<open>The state a handler meets.\<close>

lemma reach_ready:
  assumes "reach k \<sigma>" and "k < 268435456"
  obtains R x where "core R x (\<lambda>_. 0) (srv \<sigma>)" and "tabled x (srv \<sigma>)" and "room x (srv \<sigma>)"
proof -
  have "server_inv k \<sigma>" using assms by (simp add: reach_inv)
  then show thesis
    using that[of "recv_thr \<sigma>" "held (recv_thr \<sigma>) (send_thr \<sigma>) (srv \<sigma>)"] assms
      reach_core(1)[of k \<sigma>] server_inv_tabled server_inv_room by simp
qed

text \<open>The handler for each type.\<close>

lemma RecvTCPPacketProcess_type:
  "pkt_type p = Some (tpt_num TPT_WAITING) \<Longrightarrow> RecvTCPPacketProcess mem new p s
     = map_option (\<lambda>s. (True, s)) (recv_WAITING new (pkt_data p) s)"
  "pkt_type p = Some (tpt_num TPT_CONNECT) \<Longrightarrow> RecvTCPPacketProcess mem new p s
     = map_option (\<lambda>s. (True, s)) (recv_CONNECT (pkt_data p) s)"
  "pkt_type p = Some (tpt_num TPT_DATA_PROXY) \<Longrightarrow> RecvTCPPacketProcess mem new p s
     = map_option (\<lambda>s. (True, s)) (Option.bind (pkt_length p)
         (\<lambda>Length. recv_DATA_PROXY mem Length (pkt_data p) s))"
  by (simp_all only: RecvTCPPacketProcess_def Option.bind.simps tpt_of_num option.case
      TCPBASE_PACKET_TYPE.case map_conv_bind_option comp_def)

text \<open>The search for a keyword that no session has, and for one that the session \<open>p\<close> has.\<close>

lemma Find_unknown:
  assumes "core R x y s" and "nul_terminated kw"
    and "\<forall>e\<in>set (m_P2PConnectList s). kw_of s (snd e) \<noteq> Some (cstr kw)"
  shows "FindP2PConnection kw s = Some (None, s)"
proof (rule Find_core[OF assms(1,2)])
  fix j p c
  assume "(j, p) \<in> set (m_P2PConnectList s)" "conns s p = Some c"
    "cstr (m_szKeyword c) = cstr kw"
  then show ?thesis using assms(3) by (force simp: kw_of_def)
qed

lemma Find_known:
  assumes s: "core R x y s" and kw: "nul_terminated kw"
    and e: "(i, p) \<in> set (m_P2PConnectList s)" "kw_of s p = Some (cstr kw)"
  obtains c where "conns s p = Some c" and "FindP2PConnection kw s
      = Some (Some p, s\<lparr>conns := (conns s)(p \<mapsto> c\<lparr>m_lRef := m_lRef c + 1\<rparr>)\<rparr>)"
proof (rule Find_core[OF s kw])
  assume "\<And>e. e \<in> set (m_P2PConnectList s) \<Longrightarrow> \<not> found s kw e"
  from this[OF e(1)] show thesis using e(2) by (simp add: found_def)
next
  fix j q c
  assume q: "(j, q) \<in> set (m_P2PConnectList s)" "conns s q = Some c"
    "cstr (m_szKeyword c) = cstr kw" and find: "FindP2PConnection kw s
      = Some (Some q, s\<lparr>conns := (conns s)(q \<mapsto> c\<lparr>m_lRef := m_lRef c + 1\<rparr>)\<rparr>)"
  have "kw_of s q = Some (cstr kw)" using q(2,3) by (simp add: kw_of_def)
  then have "kw_of s (snd (j, q)) = kw_of s (snd (i, p))" using e(2) by simp
  then have "(j, q) = (i, p)" using s q(1) e(1) unfolding core_def kw_unique_def by blast
  then show thesis using that q(2) find by simp
qed

section \<open>Joining a keyword nobody registered\<close>

text \<open>
  C24: a guest that asks for an unknown keyword is refused. In a reachable state, for a well formed
  \<open>TPT_CONNECT\<close> packet of a registered connection whose keyword no session has, the server queues
  exactly one packet, the result \<open>P2P_KEYWORD_NOT_FOUND\<close> on that connection, and changes no
  session and no table.
\<close>

theorem connect_unknown_keyword:
  assumes "reach k \<sigma>" and "k < 268435456" and "pkt_type Packet = Some (tpt_num TPT_CONNECT)"
    and "wait_ok (pkt_data Packet)" and "rd_dword 0 (pkt_data Packet) = Some i"
    and "map_find i (m_TCPList (srv \<sigma>)) = Some a"
    and "\<forall>e\<in>set (m_P2PConnectList (srv \<sigma>)).
      kw_of (srv \<sigma>) (snd e) \<noteq> Some (cstr (keyword_at (pkt_data Packet)))"
  shows "\<exists>h. RecvTCPPacketProcess mem new Packet (srv \<sigma>) = Some (True, (srv \<sigma>)\<lparr>tcps := h\<rparr>)
     \<and> outbox h = (outbox (tcps (srv \<sigma>)))(a := outbox (tcps (srv \<sigma>)) a
          @ [CreateTCPResultPkt TPT_CONNECT_RESULT i (err_num P2P_KEYWORD_NOT_FOUND)])"
proof -
  let ?d = "pkt_data Packet" and ?s = "srv \<sigma>"
  let ?pk = "CreateTCPResultPkt TPT_CONNECT_RESULT i (err_num P2P_KEYWORD_NOT_FOUND)"
  obtain R x where r: "core R x (\<lambda>_. 0) ?s" "tabled x ?s" "room x ?s"
    using reach_ready[OF assms(1,2)] .
  obtain h where g: "GetTCPServer i ?s = Some (Some a, ?s\<lparr>tcps := h\<rparr>)"
    "core R (x(a := x a + 1)) (\<lambda>_. 0) (?s\<lparr>tcps := h\<rparr>)" "outbox h = outbox (tcps ?s)" "0 < x a"
    using GetTCPServer_known[OF r(1,3,2) assms(6)] .
  have kw: "keyword_ok ?d" "nul_terminated (keyword_at ?d)"
    using assms(4) by (simp_all add: wait_ok_def keyword_ok_def)
  have none: "FindP2PConnection (keyword_at ?d) (?s\<lparr>tcps := h\<rparr>) = Some (None, ?s\<lparr>tcps := h\<rparr>)"
    by (rule Find_unknown[OF g(2) kw(2)]) (use assms(7) in \<open>simp add: kw_of_def\<close>)
  obtain h' where h': "Option.bind (tcp_Send a ?pk (?s\<lparr>tcps := h\<rparr>)) (tcp_Release a)
      = Some (?s\<lparr>tcps := h'\<rparr>)" "outbox h' = (outbox h)(a := outbox h a @ [?pk])"
    using reply_outbox[OF g(2,4)] by (metis (no_types, lifting) p2pserver.select_convs(1)
        p2pserver.surjective p2pserver.update_convs(1))
  have "recv_CONNECT ?d ?s = Some (?s\<lparr>tcps := h'\<rparr>)"
    using assms(5) g(1) none h'(1) print_keyword[OF kw(1)] by (simp add: recv_CONNECT_def)
  then show ?thesis
    using RecvTCPPacketProcess_type(2)[OF assms(3)] h'(2) g(3) by (intro exI[of _ h']) simp
qed

theorem connect_unknown_keyword_witness:
  "case run [demo_accept 1] boot of None \<Rightarrow> False
   | Some \<sigma> \<Rightarrow> \<exists>h. RecvTCPPacketProcess (\<lambda>_. []) 10 (demo_packet TPT_CONNECT 1) (srv \<sigma>)
        = Some (True, (srv \<sigma>)\<lparr>tcps := h\<rparr>)
      \<and> outbox h 1 = outbox (tcps (srv \<sigma>)) 1 @ [CreateTCPResultPkt TPT_CONNECT_RESULT 1 4]"
proof -
  let ?p = "demo_packet TPT_CONNECT 1"
  have ok: "case run [demo_accept 1] boot of None \<Rightarrow> False
    | Some \<sigma> \<Rightarrow> map_find 1 (m_TCPList (srv \<sigma>)) = Some 1 \<and> m_P2PConnectList (srv \<sigma>) = []"
    by code_simp
  then obtain \<sigma> where \<sigma>: "run [demo_accept 1] boot = Some \<sigma>"
    "map_find 1 (m_TCPList (srv \<sigma>)) = Some 1" "m_P2PConnectList (srv \<sigma>) = []"
    by (cases "run [demo_accept 1] boot") simp_all
  have r: "reach (0 + length [demo_accept 1]) \<sigma>" by (rule reach_run[OF reach_boot \<sigma>(1)])
  have p: "pkt_type ?p = Some (tpt_num TPT_CONNECT)" "wait_ok (pkt_data ?p)"
    "rd_dword 0 (pkt_data ?p) = Some 1" by code_simp+
  have "\<forall>e\<in>set (m_P2PConnectList (srv \<sigma>)).
      kw_of (srv \<sigma>) (snd e) \<noteq> Some (cstr (keyword_at (pkt_data ?p)))" using \<sigma>(3) by simp
  from connect_unknown_keyword[OF r _ p \<sigma>(2) this, of "\<lambda>_. []" 10] \<sigma>(1) show ?thesis by auto
qed

section \<open>Registering a keyword\<close>

text \<open>
  C23: a keyword belongs to the first host that registers it. In a reachable state, for a well
  formed \<open>TPT_WAITING\<close> packet of a registered connection whose keyword some session in the table
  already has, the server queues exactly one packet, the result \<open>P2P_KEYWORD_DUPLICATE\<close>, and
  changes no session and no table.
\<close>

theorem waiting_duplicate_keyword:
  assumes "reach k \<sigma>" and "k < 268435456" and "pkt_type Packet = Some (tpt_num TPT_WAITING)"
    and "wait_ok (pkt_data Packet)" and "rd_dword 0 (pkt_data Packet) = Some i"
    and "map_find i (m_TCPList (srv \<sigma>)) = Some a"
    and "e \<in> set (m_P2PConnectList (srv \<sigma>))"
    and "kw_of (srv \<sigma>) (snd e) = Some (cstr (keyword_at (pkt_data Packet)))"
  shows "\<exists>h. RecvTCPPacketProcess mem new Packet (srv \<sigma>) = Some (True, (srv \<sigma>)\<lparr>tcps := h\<rparr>)
     \<and> outbox h = (outbox (tcps (srv \<sigma>)))(a := outbox (tcps (srv \<sigma>)) a
          @ [CreateTCPResultPkt TPT_WAIT_RESULT i (err_num P2P_KEYWORD_DUPLICATE)])"
proof -
  let ?d = "pkt_data Packet" and ?s = "srv \<sigma>"
  let ?pk = "CreateTCPResultPkt TPT_WAIT_RESULT i (err_num P2P_KEYWORD_DUPLICATE)"
  obtain R x where r: "core R x (\<lambda>_. 0) ?s" "tabled x ?s" "room x ?s"
    using reach_ready[OF assms(1,2)] .
  obtain h where g: "GetTCPServer i ?s = Some (Some a, ?s\<lparr>tcps := h\<rparr>)"
    "core R (x(a := x a + 1)) (\<lambda>_. 0) (?s\<lparr>tcps := h\<rparr>)" "outbox h = outbox (tcps ?s)" "0 < x a"
    using GetTCPServer_known[OF r(1,3,2) assms(6)] .
  have kw: "keyword_ok ?d" "nul_terminated (keyword_at ?d)"
    using assms(4) by (simp_all add: wait_ok_def keyword_ok_def)
  let ?p = "snd e"
  have "(fst e, ?p) \<in> set (m_P2PConnectList (?s\<lparr>tcps := h\<rparr>))"
    "kw_of (?s\<lparr>tcps := h\<rparr>) ?p = Some (cstr (keyword_at ?d))"
    using assms(7,8) by (simp_all add: kw_of_def)
  from Find_known[OF g(2) kw(2) this] obtain c where f: "conns ?s ?p = Some c"
    "FindP2PConnection (keyword_at ?d) (?s\<lparr>tcps := h\<rparr>)
       = Some (Some ?p, ?s\<lparr>tcps := h, conns := (conns ?s)(?p \<mapsto> c\<lparr>m_lRef := m_lRef c + 1\<rparr>)\<rparr>)"
    by auto
  have "m_lRef c = 1" using r(1) f(1) by (simp add: core_def session_ok_def)
  then have rel: "conn_Release ?p (?s\<lparr>tcps := h, conns := (conns ?s)(?p \<mapsto> c\<lparr>m_lRef := m_lRef c + 1\<rparr>)\<rparr>)
      = Some (?s\<lparr>tcps := h\<rparr>)"
    using f(1) by (simp add: conn_Release_def CBaseObject_Release_def Let_def fun_upd_idem)
  obtain h' where h': "Option.bind (tcp_Send a ?pk (?s\<lparr>tcps := h\<rparr>)) (tcp_Release a)
      = Some (?s\<lparr>tcps := h'\<rparr>)" "outbox h' = (outbox h)(a := outbox h a @ [?pk])"
    using reply_outbox[OF g(2,4)] by (metis (no_types, lifting) p2pserver.select_convs(1)
        p2pserver.surjective p2pserver.update_convs(1))
  have "recv_WAITING new ?d ?s = Some (?s\<lparr>tcps := h'\<rparr>)"
    using assms(5) g(1) f(2) rel h'(1) print_keyword[OF kw(1)] by (simp add: recv_WAITING_def)
  then show ?thesis
    using RecvTCPPacketProcess_type(1)[OF assms(3)] h'(2) g(3) by (intro exI[of _ h']) simp
qed

theorem waiting_duplicate_keyword_witness:
  "case run demo_run boot of None \<Rightarrow> False
   | Some \<sigma> \<Rightarrow> \<exists>h. RecvTCPPacketProcess (\<lambda>_. []) 12 (demo_packet TPT_WAITING 2) (srv \<sigma>)
        = Some (True, (srv \<sigma>)\<lparr>tcps := h\<rparr>)
      \<and> outbox h 2 = outbox (tcps (srv \<sigma>)) 2 @ [CreateTCPResultPkt TPT_WAIT_RESULT 2 3]"
proof -
  let ?p = "demo_packet TPT_WAITING 2"
  have ok: "case run demo_run boot of None \<Rightarrow> False
    | Some \<sigma> \<Rightarrow> map_find 2 (m_TCPList (srv \<sigma>)) = Some 2 \<and> m_P2PConnectList (srv \<sigma>) = [(1, 10)]
        \<and> kw_of (srv \<sigma>) 10 = Some (cstr (keyword_at (pkt_data ?p)))" by code_simp
  obtain \<sigma> where r: "run demo_run boot = Some \<sigma>" "reach 4 \<sigma>" by (rule demo_reach)
  then have \<sigma>: "map_find 2 (m_TCPList (srv \<sigma>)) = Some 2"
    "(1, 10) \<in> set (m_P2PConnectList (srv \<sigma>))"
    "kw_of (srv \<sigma>) (snd (1 :: DWORD, 10)) = Some (cstr (keyword_at (pkt_data ?p)))"
    using ok by simp_all
  have p: "pkt_type ?p = Some (tpt_num TPT_WAITING)" "wait_ok (pkt_data ?p)"
    "rd_dword 0 (pkt_data ?p) = Some 2" by code_simp+
  from waiting_duplicate_keyword[OF r(2) _ p \<sigma>, of "\<lambda>_. []" 12] r(1) show ?thesis by auto
qed

text \<open>
  C22: a keyword that no session has is registered. In a reachable state, a well formed
  \<open>TPT_WAITING\<close> packet of a registered connection with such a keyword creates one session at the
  new address, entered under the sender's id, with the sender as host and its keyword and waiting
  for a guest; the sender is told success; and in the state the handler leaves, the search for that
  keyword returns this session with a reference.
\<close>

theorem waiting_registers_keyword:
  assumes "reach k \<sigma>" and "k < 268435456" and "pkt_type Packet = Some (tpt_num TPT_WAITING)"
    and "wait_ok (pkt_data Packet)" and "rd_dword 0 (pkt_data Packet) = Some i"
    and "map_find i (m_TCPList (srv \<sigma>)) = Some a" and "conns (srv \<sigma>) new = None"
    and "\<forall>e\<in>set (m_P2PConnectList (srv \<sigma>)).
      kw_of (srv \<sigma>) (snd e) \<noteq> Some (cstr (keyword_at (pkt_data Packet)))"
  shows "\<exists>s' s'' c. RecvTCPPacketProcess mem new Packet (srv \<sigma>) = Some (True, s')
     \<and> m_P2PConnectList s' = map_put i new (m_P2PConnectList (srv \<sigma>))
     \<and> conns s' = (conns (srv \<sigma>))(new \<mapsto> c)
     \<and> m_szKeyword c = keyword_at (pkt_data Packet) \<and> m_pMainTCPServer c = Some a
     \<and> m_eStatus c = P2P_TCP_LISTENING
     \<and> outbox (tcps s') = (outbox (tcps (srv \<sigma>)))(a := outbox (tcps (srv \<sigma>)) a
          @ [CreateTCPResultPkt TPT_WAIT_RESULT i (err_num P2P_ERROR_NONE)])
     \<and> FindP2PConnection (keyword_at (pkt_data Packet)) s' = Some (Some new, s'')"
proof -
  let ?d = "pkt_data Packet" and ?s = "srv \<sigma>"
  let ?kw = "keyword_at ?d"
  let ?pk = "CreateTCPResultPkt TPT_WAIT_RESULT i (err_num P2P_ERROR_NONE)"
  obtain R x where r: "core R x (\<lambda>_. 0) ?s" "tabled x ?s" "room x ?s"
    using reach_ready[OF assms(1,2)] .
  let ?x = "x(a := x a + 1)"
  obtain h where g: "GetTCPServer i ?s = Some (Some a, ?s\<lparr>tcps := h\<rparr>)"
    "core R ?x (\<lambda>_. 0) (?s\<lparr>tcps := h\<rparr>)" "outbox h = outbox (tcps ?s)" "0 < x a"
    using GetTCPServer_known[OF r(1,3,2) assms(6)] .
  let ?s1 = "?s\<lparr>tcps := h\<rparr>"
  have kw: "keyword_ok ?d" "nul_terminated ?kw" and len: "164 \<le> length ?d"
    using assms(4) by (simp_all add: wait_ok_def keyword_ok_def)
  have unknown: "\<forall>e\<in>set (m_P2PConnectList ?s1). kw_of ?s1 (snd e) \<noteq> Some (cstr ?kw)"
    using assms(8) by (simp add: kw_of_def)
  have none: "FindP2PConnection ?kw ?s1 = Some (None, ?s1)" by (rule Find_unknown[OF g(2) kw(2) unknown])
  have own: "0 < owners ?s1 ?x a" "Suc (owners ?s1 ?x a) < 4294967296" and fresh: "conns ?s1 new = None"
    using roomD(2)[OF r(3), of a a] assms(7) by (simp_all add: owners_def)
  obtain c h' where c: "CreateP2PConnection new ?d (Some a) ?s1 = Some (?s1\<lparr>tcps := h',
      conns := (conns ?s1)(new \<mapsto> c), m_P2PConnectList := map_put i new (m_P2PConnectList ?s1)\<rparr>)"
    "core R ?x (\<lambda>_. 0) (?s1\<lparr>tcps := h', conns := (conns ?s1)(new \<mapsto> c),
       m_P2PConnectList := map_put i new (m_P2PConnectList ?s1)\<rparr>)"
    "m_szKeyword c = ?kw" "m_pMainTCPServer c = Some a" "m_eStatus c = P2P_TCP_LISTENING"
    "outbox h' = outbox (tcps ?s1)"
    using CreateP2PConnection_core[OF g(2) own assms(4,5) fresh unknown] .
  let ?s2 = "?s1\<lparr>tcps := h', conns := (conns ?s1)(new \<mapsto> c),
       m_P2PConnectList := map_put i new (m_P2PConnectList ?s1)\<rparr>"
  obtain h3 where h3: "Option.bind (tcp_Send a ?pk ?s2) (tcp_Release a) = Some (?s2\<lparr>tcps := h3\<rparr>)"
    "outbox h3 = (outbox (tcps ?s2))(a := outbox (tcps ?s2) a @ [?pk])"
    using reply_outbox[where x = x, OF c(2) g(4)] .
  let ?s3 = "?s2\<lparr>tcps := h3\<rparr>"
  have w: "recv_WAITING new ?d ?s = Some ?s3"
    using assms(5) g(1) none c(1) h3(1) by (simp add: recv_WAITING_def)
  have "core R x (\<lambda>_. 0) ?s3"
    using recv_WAITING_ok[OF r(1,2,3) assms(4,7)] w by (simp add: handled_def)
  moreover have "(i, new) \<in> set (m_P2PConnectList ?s3)" "kw_of ?s3 new = Some (cstr ?kw)"
    using c(3) map_put_set[of "m_P2PConnectList ?s" i new] r(1) by (simp_all add: kw_of_def core_def)
  ultimately obtain s'' where f: "FindP2PConnection ?kw ?s3 = Some (Some new, s'')"
    using Find_known[OF _ kw(2)] by metis
  have step: "RecvTCPPacketProcess mem new Packet ?s = Some (True, ?s3)"
    using RecvTCPPacketProcess_type(1)[OF assms(3)] w by simp
  have "m_P2PConnectList ?s3 = map_put i new (m_P2PConnectList ?s)"
    "conns ?s3 = (conns ?s)(new \<mapsto> c)"
    "outbox (tcps ?s3) = (outbox (tcps ?s))(a := outbox (tcps ?s) a @ [?pk])"
    using h3(2) c(6) g(3) by simp_all
  with step c(3,4,5) f show ?thesis by blast
qed

theorem waiting_registers_keyword_witness:
  "case run [demo_accept 1] boot of None \<Rightarrow> False
   | Some \<sigma> \<Rightarrow> \<exists>s' s''. RecvTCPPacketProcess (\<lambda>_. []) 10 (demo_packet TPT_WAITING 1) (srv \<sigma>)
        = Some (True, s') \<and> FindP2PConnection demo_keyword s' = Some (Some 10, s'')"
proof -
  let ?p = "demo_packet TPT_WAITING 1"
  have ok: "case run [demo_accept 1] boot of None \<Rightarrow> False
    | Some \<sigma> \<Rightarrow> map_find 1 (m_TCPList (srv \<sigma>)) = Some 1 \<and> conns (srv \<sigma>) 10 = None
        \<and> m_P2PConnectList (srv \<sigma>) = []" by code_simp
  then obtain \<sigma> where \<sigma>: "run [demo_accept 1] boot = Some \<sigma>"
    "map_find 1 (m_TCPList (srv \<sigma>)) = Some 1" "conns (srv \<sigma>) 10 = None"
    "m_P2PConnectList (srv \<sigma>) = []"
    by (cases "run [demo_accept 1] boot") simp_all
  have r: "reach (0 + length [demo_accept 1]) \<sigma>" by (rule reach_run[OF reach_boot \<sigma>(1)])
  have p: "pkt_type ?p = Some (tpt_num TPT_WAITING)" "wait_ok (pkt_data ?p)"
    "rd_dword 0 (pkt_data ?p) = Some 1" "keyword_at (pkt_data ?p) = demo_keyword" by code_simp+
  have "\<forall>e\<in>set (m_P2PConnectList (srv \<sigma>)).
      kw_of (srv \<sigma>) (snd e) \<noteq> Some (cstr (keyword_at (pkt_data ?p)))" using \<sigma>(4) by simp
  from waiting_registers_keyword[OF r _ p(1-3) \<sigma>(2,3) this, of "\<lambda>_. []"] \<sigma>(1) p(4)
  show ?thesis by auto
qed

end
