(* ===== verification/ServerDefects.thy ===== *)
theory ServerDefects
  imports ServerReplies
begin

text \<open>
  Ids of connections, and three ways in which the server goes wrong: the relay packet is looked up
  through a pointer made of the peer id, a second registration under one connection loses the
  first session, and a connection that joins its own session keeps the keyword taken for ever.
\<close>

section \<open>Connection ids\<close>

lemma TCPIDLoop_first:
  "TCPIDLoop fuel m i = Some j \<Longrightarrow>
     \<exists>d. j = i + of_nat d \<and> (\<forall>e<d. map_find (i + of_nat e) m \<noteq> None)"
proof (induction fuel m i rule: TCPIDLoop.induct)
  case (2 fuel m i)
  show ?case
  proof (cases "map_find i m = None")
    case True
    then show ?thesis using "2.prems" by (intro exI[of _ 0]) simp
  next
    case False
    then obtain d where d: "j = i + 1 + of_nat d"
      "\<forall>e<d. map_find (i + 1 + of_nat e) m \<noteq> None" using "2.IH" "2.prems" by auto
    have "map_find (i + of_nat e) m \<noteq> None" if "e < Suc d" for e
      using that d(2) False by (cases e) (auto simp: ac_simps)
    then show ?thesis using d(1) by (intro exI[of _ "Suc d"]) (simp add: ac_simps)
  qed
qed simp

text \<open>
  C25: a new connection gets a fresh id, and the search for it ends. For a table with fewer entries
  than there are 32-bit numbers, \<open>CreateTCPID\<close> returns the first number from the counter on (with
  wrap around) that no connection has, enters the connection under it and nothing else, and
  leaves the counter one behind it.
\<close>

theorem CreateTCPID_fresh:
  assumes "map_ok (m_TCPList s)" and "length (m_TCPList s) < 4294967296" and "tcps s a = Some tcp"
  shows "\<exists>i s'. CreateTCPID a s = Some (i, s') \<and> map_find i (m_TCPList s) = None
     \<and> (\<exists>d. i = m_dwTCPid s + of_nat d \<and>
          (\<forall>e<d. map_find (m_dwTCPid s + of_nat e) (m_TCPList s) \<noteq> None))
     \<and> (\<forall>j. map_find j (m_TCPList s') = (if j = i then Some a else map_find j (m_TCPList s)))
     \<and> m_dwTCPid s' = i + 1"
proof -
  obtain i where i: "TCPIDLoop (Suc (length (m_TCPList s))) (m_TCPList s) (m_dwTCPid s) = Some i"
      "map_find i (m_TCPList s) = None"
    using TCPIDLoop_total[OF assms(1,2)] by blast
  have "CreateTCPID a s = Some (i, s\<lparr>m_TCPList := map_put i a (m_TCPList s),
      tcps := (tcps s)(a \<mapsto> tcp\<lparr>m_lRef := m_lRef tcp + 1\<rparr>), m_dwTCPid := i + 1\<rparr>)"
    using i(1) assms(3) by (simp add: CreateTCPID_def tcp_AddRef_def AddRef_live)
  then show ?thesis using i(2) TCPIDLoop_first[OF i(1)] by (auto simp: map_find_put[OF assms(1)])
qed

theorem CreateTCPID_fresh_witness:
  "let s = (CP2PServer (Some 3) 5000)\<lparr>tcps := (\<lambda>_. None)(4 \<mapsto> CTCPBase (Some 5) [0] 0 [0] 0),
       m_TCPList := [(1, 7), (2, 8)]\<rparr>
   in \<exists>i s'. CreateTCPID 4 s = Some (i, s') \<and> map_find i (m_TCPList s) = None"
proof -
  let ?s = "(CP2PServer (Some 3) 5000)\<lparr>tcps := (\<lambda>_. None)(4 \<mapsto> CTCPBase (Some 5) [0] 0 [0] 0),
       m_TCPList := [(1, 7), (2, 8)]\<rparr>"
  have "map_ok (m_TCPList ?s)" "length (m_TCPList ?s) < 4294967296"
    "tcps ?s 4 = Some (CTCPBase (Some 5) [0] 0 [0] 0)" by (simp_all add: map_ok_def)
  from CreateTCPID_fresh[OF this] show ?thesis unfolding Let_def by blast
qed

section \<open>The relay packet\<close>

text \<open>
  A relay packet makes the server read through a pointer that the client chooses. The cast
  \<open>(CHAR*)Peerid\<close> selects the search by keyword instead of the search by id: in every reachable
  state with at least one session, a \<open>TPT_DATA_PROXY\<close> packet whose first four bytes are not the
  address of mapped memory is undefined behaviour.
\<close>

theorem relay_reads_peer_id_as_pointer:
  assumes "reach k \<sigma>" and "k \<le> 268435456" and "m_P2PConnectList (srv \<sigma>) \<noteq> []"
    and "pkt_type Packet = Some (tpt_num TPT_DATA_PROXY)"
    and "rd_dword 0 (pkt_data Packet) = Some i" and "mem i = []"
  shows "RecvTCPPacketProcess mem new Packet (srv \<sigma>) = None"
proof -
  obtain e m where L: "m_P2PConnectList (srv \<sigma>) = e # m"
    using assms(3) by (cases "m_P2PConnectList (srv \<sigma>)") auto
  then obtain c where c: "conns (srv \<sigma>) (snd e) = Some c"
    using core_entry[OF reach_core(1)[OF assms(1,2)], of e] by auto
  have "strcmp_eq kw [] = None" for kw by (cases kw) simp_all
  then have "FindP2PConnection [] (srv \<sigma>) = None"
    using L c by (cases e) (simp add: FindP2PConnection_def)
  then show ?thesis
    using assms(5,6) RecvTCPPacketProcess_type(3)[OF assms(4)]
    by (simp add: recv_DATA_PROXY_def bind_eq_None_conv)
qed

theorem relay_reads_peer_id_as_pointer_witness:
  "case run demo_run boot of None \<Rightarrow> False
   | Some \<sigma> \<Rightarrow> RecvTCPPacketProcess (\<lambda>_. []) 12 (demo_packet TPT_DATA_PROXY 1) (srv \<sigma>) = None"
proof -
  obtain \<sigma> where \<sigma>: "run demo_run boot = Some \<sigma>" "reach 4 \<sigma>"
    "m_P2PConnectList (srv \<sigma>) = [(1, 10)]" by (rule demo_reach)
  have p: "pkt_type (demo_packet TPT_DATA_PROXY 1) = Some (tpt_num TPT_DATA_PROXY)"
    "rd_dword 0 (pkt_data (demo_packet TPT_DATA_PROXY 1)) = Some 1" by code_simp+
  have "m_P2PConnectList (srv \<sigma>) \<noteq> []" using \<sigma>(3) by simp
  from relay_reads_peer_id_as_pointer[OF \<sigma>(2) _ this p, of "\<lambda>_. []"] \<sigma>(1) show ?thesis by simp
qed

section \<open>A second registration\<close>

text \<open>
  A host that registers a second keyword loses its first session. Creating a session under an
  id that already has one overwrites the entry of the table: the old session object stays alive
  with its references, but no entry of the table leads to it any more.
\<close>

theorem second_registration_leaks_session:
  assumes "reach k \<sigma>" and "k \<le> 268435456" and "(i, p) \<in> set (m_P2PConnectList (srv \<sigma>))"
    and "rd_dword 0 d = Some i" and "conns (srv \<sigma>) new = None"
    and "CreateP2PConnection new d Server (srv \<sigma>) = Some s'"
  shows "conns s' p = conns (srv \<sigma>) p \<and> conns s' p \<noteq> None
     \<and> p \<notin> snd ` set (m_P2PConnectList s')"
proof -
  note c = reach_core(1)[OF assms(1,2)]
  obtain v where v: "conns (srv \<sigma>) p = Some v" "m_dwMainTCPID v = i"
    using core_entry[OF c assms(3)] by auto
  have ne: "p \<noteq> new" using v(1) assms(5) by auto
  obtain u h where s': "s' = (srv \<sigma>)\<lparr>tcps := h, conns := (conns (srv \<sigma>))(new \<mapsto> u),
      m_P2PConnectList := map_put i new (m_P2PConnectList (srv \<sigma>))\<rparr>"
    using assms(4,6) by (auto simp: CreateP2PConnection_def bind_Some_iff)
  have "e = (i, p)" if "e \<in> set (m_P2PConnectList (srv \<sigma>))" "snd e = p" for e
    using core_entry[OF c that(1)] that(2) v by (metis option.inject prod.collapse)
  then have "p \<notin> snd ` {e \<in> set (m_P2PConnectList (srv \<sigma>)). fst e \<noteq> i}" by auto
  moreover have "set (m_P2PConnectList s')
      = insert (i, new) {e \<in> set (m_P2PConnectList (srv \<sigma>)). fst e \<noteq> i}"
    using map_put_set[of "m_P2PConnectList (srv \<sigma>)" i new] c s' by (simp add: core_def)
  ultimately show ?thesis using s' ne v(1) by simp
qed

theorem second_registration_leaks_session_witness:
  "case run demo_run boot of None \<Rightarrow> False
   | Some \<sigma> \<Rightarrow> (case CreateP2PConnection 12 (dword_bytes 1 @ 56 # replicate 159 0) (Some 1) (srv \<sigma>) of
       None \<Rightarrow> False | Some s' \<Rightarrow> conns s' 10 \<noteq> None \<and> 10 \<notin> snd ` set (m_P2PConnectList s'))"
proof -
  let ?d = "dword_bytes 1 @ 56 # replicate 159 0"
  have ok: "case run demo_run boot of None \<Rightarrow> False
    | Some \<sigma> \<Rightarrow> (case CreateP2PConnection 12 ?d (Some 1) (srv \<sigma>) of None \<Rightarrow> False | Some _ \<Rightarrow> True)
        \<and> conns (srv \<sigma>) 12 = None" by code_simp
  obtain \<sigma> where \<sigma>: "run demo_run boot = Some \<sigma>" "reach 4 \<sigma>"
    "m_P2PConnectList (srv \<sigma>) = [(1, 10)]" by (rule demo_reach)
  obtain s' where s': "CreateP2PConnection 12 ?d (Some 1) (srv \<sigma>) = Some s'" and
    "conns (srv \<sigma>) 12 = None"
    using ok \<sigma>(1) by (auto split: option.splits)
  moreover have "rd_dword 0 ?d = Some 1" "(1, 10) \<in> set (m_P2PConnectList (srv \<sigma>))"
    using \<sigma>(3) by (simp_all add: wire_simps)
  moreover have "(4 :: nat) \<le> 268435456" by simp
  ultimately have "conns s' 10 \<noteq> None \<and> 10 \<notin> snd ` set (m_P2PConnectList s')"
    using second_registration_leaks_session[OF \<sigma>(2)] by blast
  then show ?thesis using \<sigma>(1) s' by simp
qed

section \<open>A connection that joins its own session\<close>

lemma EndLoop_guest:
  assumes "(k, p) \<in> set L" and "conns s p = Some c" and "m_pConnTCPServer c = Some a"
    and "\<forall>e\<in>set L. snd e \<noteq> p \<longrightarrow> (\<exists>d. conns s (snd e) = Some d \<and> role_refs d a = 0)"
  shows "EndLoop L a s = conn_void ConnTCPDisconnect p s"
  using assms(1,4)
proof (induction L)
  case (Cons e L)
  obtain j q where e: "e = (j, q)" by fastforce
  show ?case
  proof (cases "q = p")
    case True
    then show ?thesis using assms(2,3) e by (simp add: IsConnTCPServer_def)
  next
    case False
    then obtain d where "conns s q = Some d" "role_refs d a = 0" using Cons.prems(2) e by auto
    then show ?thesis using Cons e False
      by (auto simp: role_refs_def IsConnTCPServer_def IsMainTCPServer_def split: if_splits)
  qed
qed simp

text \<open>
  A connection that joins the session it hosts keeps the keyword taken for ever. The server
  does not refuse such a join; when the connection ends, the scan finds it as the guest first and
  stops: the session stays in the table, still with the ended connection as its host, waiting for
  a guest.
\<close>

theorem self_join_session_survives:
  assumes "(k, p) \<in> set (m_P2PConnectList s)" and "conns s p = Some c"
    and "m_pMainTCPServer c = Some a" and "m_pConnTCPServer c = Some a"
    and "\<forall>e\<in>set (m_P2PConnectList s). snd e \<noteq> p \<longrightarrow>
      (\<exists>d. conns s (snd e) = Some d \<and> role_refs d a = 0)"
    and "TCPEndProcess a s = Some s'"
  shows "(k, p) \<in> set (m_P2PConnectList s')
     \<and> (\<exists>c'. conns s' p = Some c' \<and> m_pMainTCPServer c' = Some a
          \<and> m_szKeyword c' = m_szKeyword c \<and> m_eStatus c' = P2P_TCP_LISTENING)"
proof -
  obtain s1 where s1: "conn_void ConnTCPDisconnect p s = Some s1" "RemoveTCPID a s1 = Some s'"
    using assms(6) EndLoop_guest[OF assms(1,2,4,5)] by (auto simp: TCPEndProcess_def bind_Some_iff)
  obtain c' h' where c': "ConnTCPDisconnect c (tcps s) = Some (c', h')"
    "s1 = s\<lparr>tcps := h', conns := (conns s)(p \<mapsto> c')\<rparr>"
    using s1(1) assms(2) by (auto simp: conn_void_def bind_Some_iff)
  have "m_pMainTCPServer c' = Some a \<and> m_szKeyword c' = m_szKeyword c
      \<and> m_eStatus c' = P2P_TCP_LISTENING"
    using c'(1) assms(3) by (auto simp: ConnTCPDisconnect_def bind_Some_iff Let_def)
  then show ?thesis using RemoveTCPID_sessions[OF s1(2)] c'(2) assms(1) by simp
qed

theorem self_join_session_survives_witness:
  "case run [demo_accept 1, Received 1 10 (demo_packet TPT_WAITING 1),
       Received 1 11 (demo_packet TPT_CONNECT 1)] boot of None \<Rightarrow> False
   | Some \<sigma> \<Rightarrow> (case TCPEndProcess 1 (srv \<sigma>) of None \<Rightarrow> False
       | Some s' \<Rightarrow> (1, 10) \<in> set (m_P2PConnectList s'))"
proof -
  let ?es = "[demo_accept 1, Received 1 10 (demo_packet TPT_WAITING 1),
       Received 1 11 (demo_packet TPT_CONNECT 1)]"
  have ok: "case run ?es boot of None \<Rightarrow> False
   | Some \<sigma> \<Rightarrow> m_P2PConnectList (srv \<sigma>) = [(1, 10)]
      \<and> map_option m_pMainTCPServer (conns (srv \<sigma>) 10) = Some (Some 1)
      \<and> map_option m_pConnTCPServer (conns (srv \<sigma>) 10) = Some (Some 1)
      \<and> (case TCPEndProcess 1 (srv \<sigma>) of None \<Rightarrow> False | Some _ \<Rightarrow> True)" by code_simp
  then obtain \<sigma> where \<sigma>: "run ?es boot = Some \<sigma>" by (cases "run ?es boot") simp_all
  then obtain c s' where c: "m_P2PConnectList (srv \<sigma>) = [(1, 10)]" "conns (srv \<sigma>) 10 = Some c"
    "m_pMainTCPServer c = Some 1" "m_pConnTCPServer c = Some 1" "TCPEndProcess 1 (srv \<sigma>) = Some s'"
    using ok by (auto split: option.splits)
  then have "(1, 10) \<in> set (m_P2PConnectList (srv \<sigma>))" "\<forall>e\<in>set (m_P2PConnectList (srv \<sigma>)). snd e \<noteq> 10
      \<longrightarrow> (\<exists>d. conns (srv \<sigma>) (snd e) = Some d \<and> role_refs d 1 = 0)" by simp_all
  from self_join_session_survives[OF this(1) c(2-4) this(2) c(5)] \<sigma> c(5) show ?thesis by simp
qed

end
