(* ===== verification/Outbox.thy ===== *)
theory Outbox
  imports P2PServer
begin

text \<open>
  The packets that an operation queues. \<open>sent ps h h'\<close>: from the heap \<open>h\<close> to the heap \<open>h'\<close> of
  connections exactly the packets \<open>ps\<close> were queued, in this order, each on the connection at its
  address, and no connection appeared. It holds of whatever an operation does to the references, so
  the lemmas need no invariant; the methods of a session are composed from the calls they make.
\<close>

section \<open>Queued packets\<close>

definition packets_to :: "addr \<Rightarrow> (addr \<times> BYTE list) list \<Rightarrow> BYTE list list" where
  "packets_to b ps = map snd (filter (\<lambda>(a, p). a = b) ps)"

lemma packets_to_simps [simp]:
  "packets_to b [] = []" "packets_to b ((a, p) # ps) = (if a = b then p # packets_to b ps else packets_to b ps)"
  "packets_to b (ps @ qs) = packets_to b ps @ packets_to b qs"
  by (simp_all add: packets_to_def)

definition sent :: "(addr \<times> BYTE list) list \<Rightarrow> tcpheap \<Rightarrow> tcpheap \<Rightarrow> bool" where
  "sent ps h h' \<longleftrightarrow> (\<forall>b. h' b \<noteq> None \<longrightarrow> h b \<noteq> None \<and> outbox h' b = outbox h b @ packets_to b ps)"

lemma sent_trans: "sent ps h h1 \<Longrightarrow> sent qs h1 h2 \<Longrightarrow> sent (ps @ qs) h h2"
  by (simp add: sent_def)

lemma sent_refl [simp]: "sent [] h h"
  by (simp add: sent_def)

text \<open>The rules that follow a sequence of calls: a call that queues nothing, and the next packet.\<close>

lemma sent_quiet: "sent [] h h1 \<Longrightarrow> sent ps h1 h2 \<Longrightarrow> sent ps h h2"
  using sent_trans[of "[]"] by simp

lemma sent_next: "sent [q] h h1 \<Longrightarrow> sent ps h1 h2 \<Longrightarrow> sent (q # ps) h h2"
  using sent_trans[of "[q]"] by simp

lemma sent_write: "h a = Some tcp \<Longrightarrow> m_SendList tcp' = m_SendList tcp \<Longrightarrow> sent [] h (h(a \<mapsto> tcp'))"
  by (simp add: sent_def outbox_def)

lemma sent_AddRef: "AddRef a h = Some h' \<Longrightarrow> sent [] h h'"
  by (auto simp: AddRef_def CBaseObject_AddRef_def intro: sent_write)

lemma sent_Release: "Release a h = Some h' \<Longrightarrow> sent [] h h'"
  by (auto simp: Release_def CBaseObject_Release_def Let_def sent_def outbox_def split: option.splits if_splits)

lemma sent_ptr:
  "AddRef_ptr p h = Some h' \<Longrightarrow> sent [] h h'" "Release_ptr p h = Some h' \<Longrightarrow> sent [] h h'"
  by (auto simp: AddRef_ptr_def Release_ptr_def intro: sent_AddRef sent_Release split: option.splits)

lemma sent_Done: "Done_to p h = Some h' \<Longrightarrow> sent [] h h'"
  by (auto simp: Done_to_def bind_Some_iff CTCPServer_Done_def DoneBase_def Let_def intro!: sent_write)

lemma sent_Send: "SendPacket_to (Some a) q h = Some h' \<Longrightarrow> sent [(a, q)] h h'"
  by (auto simp: SendPacket_to_def bind_Some_iff SendPacket_def sent_def outbox_def)

lemmas sent_call = sent_AddRef sent_Release sent_ptr sent_Done

section \<open>The methods of a session\<close>

text \<open>A packet for the connection that a pointer refers to.\<close>

definition packet_via :: "ptr \<Rightarrow> BYTE list \<Rightarrow> (addr \<times> BYTE list) list" where
  "packet_via p q = (case p of None \<Rightarrow> [] | Some a \<Rightarrow> [(a, q)])"

lemma sent_via: "SendPacket_to p q h = Some h' \<Longrightarrow> sent (packet_via p q) h h'"
  by (cases p) (simp_all add: packet_via_def sent_Send, simp add: SendPacket_to_def)

definition start_udp :: "DWORD \<Rightarrow> BYTE list \<Rightarrow> BYTE list" where
  "start_udp i kw = the (CreateTCPStartUDPPkt i kw)"

definition success :: "DWORD \<Rightarrow> BYTE list \<Rightarrow> BYTE list" where
  "success i kw = the (CreateP2PSuccessPkt i kw)"

lemma TCPConnected_sent:
  assumes "TCPConnected d (Some b) c h = Some (r, c', h')" and "rd_dword 0 d = Some j"
  shows "sent (if m_eStatus c \<noteq> P2P_TCP_LISTENING then []
    else (b, CreateTCPResultPkt TPT_CONNECT_RESULT j 0)
      # packet_via (m_pMainTCPServer c) (start_udp (m_dwMainTCPID c) (m_szKeyword c))) h h'"
proof (cases "m_eStatus c = P2P_TCP_LISTENING")
  case True
  obtain h1 h2 h3 where "Release_ptr (m_pConnTCPServer c) h = Some h1" "AddRef_ptr (Some b) h1 = Some h2"
    "SendPacket_to (Some b) (CreateTCPResultPkt TPT_CONNECT_RESULT j 0) h2 = Some h3"
    "SendPacket_to (m_pMainTCPServer c) (start_udp (m_dwMainTCPID c) (m_szKeyword c)) h3 = Some h'"
    using assms True by (auto simp: TCPConnected_def bind_Some_iff Let_def start_udp_def)
  then show ?thesis
    using True sent_quiet[OF sent_ptr(2) sent_quiet[OF sent_ptr(1) sent_next[OF sent_Send sent_via]]] by simp
next
  case False
  then show ?thesis using assms(1) by (simp add: TCPConnected_def)
qed

lemma UDPListening_sent:
  assumes "UDPListening info c h = Some (r, c', h')"
  shows "sent (if m_eStatus c \<noteq> P2P_TCP_CONNECTED then []
    else packet_via (m_pConnTCPServer c) (start_udp (m_dwConnTCPID c) (m_szKeyword c))) h h'"
  using assms
  by (auto simp: UDPListening_def bind_Some_iff Let_def start_udp_def split: if_splits intro!: sent_via)

lemma UDPConnected_sent:
  assumes "UDPConnected info c h = Some (r, c', h')"
  shows "sent (if m_eStatus c \<noteq> P2P_UDP_LISTENING then []
    else packet_via (m_pMainTCPServer c) (CreateTCPStartPunchingPkt (m_dwMainTCPID c) (m_dwMainTCPID c) info)
      @ packet_via (m_pConnTCPServer c)
          (CreateTCPStartPunchingPkt (m_dwConnTCPID c) (m_dwMainTCPID c) (m_stMainUDPServer c))) h h'"
  using assms
  by (auto simp: UDPConnected_def bind_Some_iff Let_def split: if_splits intro!: sent_trans sent_via)

lemma SetP2POK_sent:
  assumes "SetP2POK p c h = Some (r, c', h')"
  shows "sent (if m_eStatus c = P2P_PUNCHING \<and> m_bMainUDPOK (note_ok p c) \<and> m_bConnUDPOK (note_ok p c)
    then packet_via (m_pMainTCPServer c) (success (m_dwMainTCPID c) (m_szKeyword c))
      @ packet_via (m_pConnTCPServer c) (success (m_dwConnTCPID c) (m_szKeyword c))
    else []) h h'"
  using assms
  by (auto simp: SetP2POK_def SetP2POK_flags bind_Some_iff Let_def success_def split: if_splits
      intro!: sent_trans sent_via)

lemma TCPProxyRequest_sent:
  assumes "TCPProxyRequest c h = Some (r, c', h')"
  shows "sent (if m_pConnTCPServer c = None then []
    else packet_via (m_pMainTCPServer c)
          (CreateTCPProxyResultPkt (m_dwMainTCPID c) (m_dwMainTCPID c) (err_num P2P_ERROR_NONE))
      @ packet_via (m_pConnTCPServer c)
          (CreateTCPProxyResultPkt (m_dwConnTCPID c) (m_dwMainTCPID c) (err_num P2P_ERROR_NONE))) h h'"
  using assms
  by (auto simp: TCPProxyRequest_def bind_Some_iff split: if_splits intro!: sent_trans sent_via)

lemma ConnTCPDisconnect_sent:
  assumes "ConnTCPDisconnect c h = Some (c', h')"
  shows "sent (packet_via (m_pMainTCPServer c) (CreateTCPResultPkt TPT_RESET (m_dwMainTCPID c) 0)) h h'"
  using assms
  by (auto simp: ConnTCPDisconnect_def bind_Some_iff Let_def elim!: sent_quiet[OF sent_ptr(2) sent_via])

lemma MainTCPDisconnect_sent:
  assumes "MainTCPDisconnect c h = Some (c', h')"
  shows "sent [] h h'"
proof -
  obtain h1 where "Release_ptr (m_pMainTCPServer c) h = Some h1"
    "(case m_pConnTCPServer c of None \<Rightarrow> Some h1
      | Some p \<Rightarrow> Option.bind (Done_to (Some p) h1) (Release p)) = Some h'"
    using assms by (auto simp: MainTCPDisconnect_def bind_Some_iff Let_def)
  then have "sent [] h h1" "sent [] h1 h'"
    by (auto simp: bind_Some_iff dest: sent_ptr split: option.splits intro: sent_quiet[OF sent_Done sent_Release])
  then show ?thesis by (rule sent_quiet)
qed

lemma CP2PConnection_sent: "CP2PConnection d p h = Some (c, h') \<Longrightarrow> sent [] h h'"
  by (auto simp: CP2PConnection_def bind_Some_iff Let_def dest: sent_ptr)

section \<open>The operations of the server\<close>

lemma tcp_sent:
  "tcp_AddRef a s = Some s' \<Longrightarrow> sent [] (tcps s) (tcps s')"
  "tcp_Release a s = Some s' \<Longrightarrow> sent [] (tcps s) (tcps s')"
  "tcp_Send a p s = Some s' \<Longrightarrow> sent [(a, p)] (tcps s) (tcps s')"
  by (auto simp: tcp_AddRef_def tcp_Release_def tcp_Send_def intro: sent_AddRef sent_Release sent_Send)

lemma conn_Release_sent:
  assumes "conn_Release p s = Some s'" shows "sent [] (tcps s) (tcps s')"
proof -
  obtain c c' dead where c: "conns s p = Some c" "CBaseObject_Release c = (c', dead)"
    using assms by (cases "conns s p"; cases "CBaseObject_Release (the (conns s p))")
      (auto simp: conn_Release_def)
  then show ?thesis
    using assms by (cases dead)
      (auto simp: conn_Release_def bind_Some_iff CP2PConnection_destroy_def
        elim!: sent_quiet[OF sent_ptr(2) sent_ptr(2)])
qed

end
