(* ===== verification/Directory.thy ===== *)
theory Directory
  imports ServerReplies Outbox
begin

text \<open>
  What the server promises, as a directory of keywords: who is connected under which id, and for
  each id the session it hosts, with the keyword, the two connections, the state of the
  handshake and the two success reports. \<open>dir_step\<close> is what each event does to the directory,
  \<open>dir_packets\<close> are the packets that are queued at it, so that the directory is an automaton with
  output. \<open>ServerRefinement\<close> shows that the server with its two tables, two heaps and reference
  counts refines it.
\<close>

section \<open>The directory\<close>

record dir_session =
  d_keyword :: "BYTE list"
  d_host :: ptr
  d_hostid :: DWORD
  d_guest :: ptr
  d_guestid :: DWORD
  d_hostinfo :: CLIENT_INFO
  d_state :: P2P_STATUS
  d_hostOK :: bool
  d_guestOK :: bool

record directory =
  users :: "addr stdmap"
  next_id :: DWORD
  udp_port :: WORD
  sessions :: "dir_session stdmap"

text \<open>The keyword is the string in its field.\<close>

abbreviation d_kw :: "dir_session \<Rightarrow> BYTE list" where
  "d_kw e \<equiv> cstr (d_keyword e)"

text \<open>What happens to the session of one keyword.\<close>

definition at_kw :: "BYTE list \<Rightarrow> (dir_session \<Rightarrow> dir_session) \<Rightarrow> dir_session stdmap \<Rightarrow>
    dir_session stdmap" where
  "at_kw kw f m = map (\<lambda>(k, e). (k, if d_kw e = kw then f e else e)) m"

definition dir_at :: "BYTE list \<Rightarrow> (dir_session \<Rightarrow> dir_session) \<Rightarrow> directory \<Rightarrow> directory" where
  "dir_at kw f d = d\<lparr>sessions := at_kw kw f (sessions d)\<rparr>"

definition kw_free :: "BYTE list \<Rightarrow> dir_session stdmap \<Rightarrow> bool" where
  "kw_free kw m \<longleftrightarrow> list_all (\<lambda>(k, e). d_kw e \<noteq> kw) m"

definition session_of :: "BYTE list \<Rightarrow> dir_session stdmap \<Rightarrow> dir_session option" where
  "session_of kw m = map_option snd (find (\<lambda>e. d_kw (snd e) = kw) m)"

definition dir_new :: "BYTE list \<Rightarrow> DWORD \<Rightarrow> addr \<Rightarrow> dir_session" where
  "dir_new kw i a = \<lparr>d_keyword = kw, d_host = Some a, d_hostid = i, d_guest = None, d_guestid = 0,
     d_hostinfo = zero_CLIENT_INFO, d_state = P2P_TCP_LISTENING, d_hostOK = False, d_guestOK = False\<rparr>"

definition dir_join :: "addr \<Rightarrow> DWORD \<Rightarrow> dir_session \<Rightarrow> dir_session" where
  "dir_join b j e = (if d_state e = P2P_TCP_LISTENING
     then e\<lparr>d_guest := Some b, d_guestid := j, d_hostinfo := zero_CLIENT_INFO, d_state := P2P_TCP_CONNECTED\<rparr>
     else e)"

definition dir_host_udp :: "CLIENT_INFO \<Rightarrow> dir_session \<Rightarrow> dir_session" where
  "dir_host_udp info e = (if d_state e = P2P_TCP_CONNECTED
     then e\<lparr>d_hostinfo := info, d_state := P2P_UDP_LISTENING\<rparr> else e)"

definition dir_guest_udp :: "dir_session \<Rightarrow> dir_session" where
  "dir_guest_udp e = (if d_state e = P2P_UDP_LISTENING then e\<lparr>d_state := P2P_PUNCHING\<rparr> else e)"

definition dir_report :: "addr \<Rightarrow> dir_session \<Rightarrow> dir_session" where
  "dir_report a e =
     (if d_state e \<noteq> P2P_PUNCHING then e
      else let h = (d_hostOK e \<or> d_host e = Some a); g = (d_guestOK e \<or> d_guest e = Some a)
        in e\<lparr>d_hostOK := h, d_guestOK := g,
             d_state := if h \<and> g then P2P_CONNECTED else P2P_PUNCHING\<rparr>)"

text \<open>The end of a connection concerns the first session in the order of ids that it takes part
  in: as a guest it leaves the session, as a host it takes the session with it.\<close>

definition dir_reset :: "dir_session \<Rightarrow> dir_session" where
  "dir_reset e = e\<lparr>d_guest := None, d_guestid := 0, d_hostinfo := zero_CLIENT_INFO, d_state := P2P_TCP_LISTENING\<rparr>"

fun dir_leave :: "addr \<Rightarrow> dir_session stdmap \<Rightarrow> dir_session stdmap" where
  "dir_leave a [] = []"
| "dir_leave a ((k, e) # m) =
     (if d_guest e = Some a then (k, dir_reset e) # m
      else if d_host e = Some a then m
      else (k, e) # dir_leave a m)"

text \<open>A packet concerns the directory when its sender gives the id of a connection.\<close>

definition sender_of :: "BYTE list \<Rightarrow> directory \<Rightarrow> (DWORD \<times> addr) option" where
  "sender_of Packet d =
     Option.bind (rd_dword 0 (pkt_data Packet)) (\<lambda>i. map_option (Pair i) (map_find i (users d)))"

definition dir_packet :: "BYTE list \<Rightarrow> directory \<Rightarrow> directory" where
  "dir_packet Packet d =
     (case sender_of Packet d of
        None \<Rightarrow> d
      | Some (i, a) \<Rightarrow>
          let memory = keyword_at (pkt_data Packet); kw = cstr memory; m = sessions d in
          (case Option.bind (pkt_type Packet) tpt_of of
             Some TPT_WAITING \<Rightarrow>
               if kw_free kw m then d\<lparr>sessions := map_put i (dir_new memory i a) m\<rparr> else d
           | Some TPT_CONNECT \<Rightarrow> dir_at kw (dir_join a i) d
           | Some TPT_P2P_RESULT \<Rightarrow> dir_at kw (dir_report a) d
           | _ \<Rightarrow> d))"

definition dir_datagram :: "UDP_PACKET \<Rightarrow> directory \<Rightarrow> directory" where
  "dir_datagram p d =
     (let kw = cstr (keyword_at (udp_data (BasePacket p))) in
      case upt_of (udp_type (BasePacket p)) of
        Some UPT_WAITING \<Rightarrow> dir_at kw (dir_host_udp (PacketInfo p)) d
      | Some UPT_CONNECT \<Rightarrow> dir_at kw dir_guest_udp d
      | _ \<Rightarrow> d)"

text \<open>A new connection gets the first free id from \<open>next_id\<close> on.\<close>

definition new_id :: "directory \<Rightarrow> DWORD option" where
  "new_id d = find (\<lambda>i. map_find i (users d) = None)
     (map (\<lambda>n. next_id d + of_nat n) [0..<Suc (length (users d))])"

definition dir_accept :: "addr \<Rightarrow> directory \<Rightarrow> directory" where
  "dir_accept new d = (case new_id d of
      None \<Rightarrow> d
    | Some i \<Rightarrow> d\<lparr>users := map_put i new (users d), next_id := i + 1\<rparr>)"

definition dir_step :: "server_event \<Rightarrow> directory \<Rightarrow> directory" where
  "dir_step e d = (case e of
      Accepted new rawdst rawsrc peer pt sock \<Rightarrow> dir_accept new d
    | Received a new Packet \<Rightarrow> dir_packet Packet d
    | Datagram p \<Rightarrow> dir_datagram p d
    | RecvEnds a \<Rightarrow> d\<lparr>users := filter (\<lambda>(i, b). b \<noteq> a) (users d),
                      sessions := dir_leave a (sessions d)\<rparr>
    | SendEnds a \<Rightarrow> d)"

section \<open>The output\<close>

text \<open>Each method with its result and the packets it sends.\<close>

definition join_sends :: "addr \<Rightarrow> DWORD \<Rightarrow> dir_session \<Rightarrow> P2P_ERROR \<times> (addr \<times> BYTE list) list" where
  "join_sends b j e = (if d_state e \<noteq> P2P_TCP_LISTENING then (P2P_STATE_MISMATCH, [])
     else (P2P_ERROR_NONE, (b, CreateTCPResultPkt TPT_CONNECT_RESULT j 0)
            # packet_via (d_host e) (start_udp (d_hostid e) (d_keyword e))))"

definition host_udp_sends :: "dir_session \<Rightarrow> P2P_ERROR \<times> (addr \<times> BYTE list) list" where
  "host_udp_sends e = (if d_state e \<noteq> P2P_TCP_CONNECTED then (P2P_STATE_MISMATCH, [])
     else (P2P_ERROR_NONE, packet_via (d_guest e) (start_udp (d_guestid e) (d_keyword e))))"

definition guest_udp_sends :: "CLIENT_INFO \<Rightarrow> dir_session \<Rightarrow> P2P_ERROR \<times> (addr \<times> BYTE list) list" where
  "guest_udp_sends info e = (if d_state e \<noteq> P2P_UDP_LISTENING then (P2P_STATE_MISMATCH, [])
     else (P2P_ERROR_NONE, packet_via (d_host e) (CreateTCPStartPunchingPkt (d_hostid e) (d_hostid e) info)
       @ packet_via (d_guest e) (CreateTCPStartPunchingPkt (d_guestid e) (d_hostid e) (d_hostinfo e))))"

definition report_sends :: "addr \<Rightarrow> dir_session \<Rightarrow> P2P_ERROR \<times> (addr \<times> BYTE list) list" where
  "report_sends a e = (if d_state e \<noteq> P2P_PUNCHING then (P2P_STATE_MISMATCH, [])
     else (P2P_ERROR_NONE, if d_state (dir_report a e) = P2P_CONNECTED
       then packet_via (d_host e) (success (d_hostid e) (d_keyword e))
         @ packet_via (d_guest e) (success (d_guestid e) (d_keyword e))
       else []))"

definition proxy_sends :: "dir_session \<Rightarrow> P2P_ERROR \<times> (addr \<times> BYTE list) list" where
  "proxy_sends e = (if d_guest e = None then (P2P_PROXY_FAIL, [])
     else (P2P_ERROR_NONE,
       packet_via (d_host e) (CreateTCPProxyResultPkt (d_hostid e) (d_hostid e) (err_num P2P_ERROR_NONE))
       @ packet_via (d_guest e) (CreateTCPProxyResultPkt (d_guestid e) (d_hostid e) (err_num P2P_ERROR_NONE))))"

text \<open>A request is answered with its error; without an error the method has sent the answer.\<close>

definition answered :: "addr \<Rightarrow> (P2P_ERROR \<Rightarrow> BYTE list) \<Rightarrow> (dir_session \<Rightarrow> P2P_ERROR \<times> (addr \<times> BYTE list) list) \<Rightarrow>
    dir_session option \<Rightarrow> (addr \<times> BYTE list) list" where
  "answered a reply out e =
     (case (case e of None \<Rightarrow> (P2P_KEYWORD_NOT_FOUND, []) | Some e \<Rightarrow> out e) of
        (r, ps) \<Rightarrow> ps @ (if r \<noteq> P2P_ERROR_NONE then [(a, reply r)] else []))"

definition unanswered :: "(dir_session \<Rightarrow> P2P_ERROR \<times> (addr \<times> BYTE list) list) \<Rightarrow> dir_session option \<Rightarrow>
    (addr \<times> BYTE list) list" where
  "unanswered out e = (case e of None \<Rightarrow> [] | Some e \<Rightarrow> snd (out e))"

definition packet_sends :: "BYTE list \<Rightarrow> directory \<Rightarrow> (addr \<times> BYTE list) list" where
  "packet_sends Packet d =
     (case sender_of Packet d of
        None \<Rightarrow> []
      | Some (i, a) \<Rightarrow>
          let kw = cstr (keyword_at (pkt_data Packet)); e = session_of kw (sessions d) in
          (case Option.bind (pkt_type Packet) tpt_of of
             Some TPT_WAITING \<Rightarrow> [(a, CreateTCPResultPkt TPT_WAIT_RESULT i
               (err_num (if kw_free kw (sessions d) then P2P_ERROR_NONE else P2P_KEYWORD_DUPLICATE)))]
           | Some TPT_CONNECT \<Rightarrow>
               answered a (\<lambda>r. CreateTCPResultPkt TPT_CONNECT_RESULT i (err_num r)) (join_sends a i) e
           | Some TPT_P2P_RESULT \<Rightarrow> unanswered (report_sends a) e
           | Some TPT_PROXY_REQUEST \<Rightarrow>
               answered a (\<lambda>r. CreateTCPProxyResultPkt i 0 (err_num r)) proxy_sends e
           | _ \<Rightarrow> []))"

definition datagram_sends :: "UDP_PACKET \<Rightarrow> directory \<Rightarrow> (addr \<times> BYTE list) list" where
  "datagram_sends p d =
     (let e = session_of (cstr (keyword_at (udp_data (BasePacket p)))) (sessions d) in
      case upt_of (udp_type (BasePacket p)) of
        Some UPT_WAITING \<Rightarrow> unanswered host_udp_sends e
      | Some UPT_CONNECT \<Rightarrow> unanswered (guest_udp_sends (PacketInfo p)) e
      | _ \<Rightarrow> [])"

fun leave_sends :: "addr \<Rightarrow> dir_session stdmap \<Rightarrow> (addr \<times> BYTE list) list" where
  "leave_sends a [] = []"
| "leave_sends a ((k, e) # m) =
     (if d_guest e = Some a then packet_via (d_host e) (CreateTCPResultPkt TPT_RESET (d_hostid e) 0)
      else if d_host e = Some a then [] else leave_sends a m)"

definition dir_packets :: "server_event \<Rightarrow> directory \<Rightarrow> (addr \<times> BYTE list) list" where
  "dir_packets e d = (case e of
      Accepted new rawdst rawsrc peer pt sock \<Rightarrow>
        (case new_id d of None \<Rightarrow> [] | Some i \<Rightarrow> [(new, CreateTCPInitPkt i (udp_port d))])
    | Received a new Packet \<Rightarrow> packet_sends Packet d
    | Datagram p \<Rightarrow> datagram_sends p d
    | RecvEnds a \<Rightarrow> leave_sends a (sessions d)
    | SendEnds a \<Rightarrow> [])"

lemma at_kw_simps [simp]:
  "at_kw kw f [] = []" "at_kw kw f ((k, e) # m) = (k, if d_kw e = kw then f e else e) # at_kw kw f m"
  "kw_free kw []" "kw_free kw ((k, e) # m) \<longleftrightarrow> d_kw e \<noteq> kw \<and> kw_free kw m"
  "session_of kw [] = None" "session_of kw ((k, e) # m) = (if d_kw e = kw then Some e else session_of kw m)"
  by (simp_all add: at_kw_def kw_free_def session_of_def)

text \<open>A keyword that no session has, and one that exactly one session has.\<close>

lemma free_simps [simp]:
  assumes "kw_free kw m" shows "at_kw kw f m = m" and "session_of kw m = None"
  using assms by (induction m) (auto simp: at_kw_def kw_free_def session_of_def)

lemma put_simps [simp]:
  assumes "kw_free kw m" and "d_kw e = kw"
  shows "at_kw kw f (map_put i e m) = map_put i (f e) m" and "session_of kw (map_put i e m) = Some e"
  using assms by (induction i e m rule: map_put.induct) auto

lemma dir_at_free: "kw_free kw (sessions d) \<Longrightarrow> dir_at kw f d = d"
  by (simp add: dir_at_def)

end
