(* ===== verification/ServerRefinement.thy ===== *)
theory ServerRefinement
  imports Directory
begin

text \<open>
  The server refines the directory: \<open>exec_refines\<close> shows for every event that the directory of the
  server takes the step \<open>dir_step\<close> and that exactly the packets \<open>dir_packets\<close> are queued. The
  lemmas follow the structure of the server: the methods of a session (\<open>acts\<close>), the search with a call
  (\<open>find_call_dir\<close>), the look-up of the sender (\<open>sender_dir\<close>), and the handlers.
\<close>

section \<open>The abstraction\<close>

definition view :: "p2pconn \<Rightarrow> dir_session" where
  "view c = \<lparr>d_keyword = m_szKeyword c, d_host = m_pMainTCPServer c, d_hostid = m_dwMainTCPID c,
     d_guest = m_pConnTCPServer c, d_guestid = m_dwConnTCPID c, d_hostinfo = m_stMainUDPServer c,
     d_state = m_eStatus c, d_hostOK = m_bMainUDPOK c, d_guestOK = m_bConnUDPOK c\<rparr>"

definition sess_of :: "(addr \<Rightarrow> p2pconn option) \<Rightarrow> addr stdmap \<Rightarrow> dir_session stdmap" where
  "sess_of cs m = map (\<lambda>(k, p). (k, view (the (cs p)))) m"

definition dir_of :: "p2pserver \<Rightarrow> directory" where
  "dir_of s = \<lparr>users = m_TCPList s, next_id = m_dwTCPid s, udp_port = m_dwUDPPort s,
     sessions = sess_of (conns s) (m_P2PConnectList s)\<rparr>"

lemma dir_of_ignores [simp]:
  "dir_of (s\<lparr>tcps := h\<rparr>) = dir_of s" "dir_of (s\<lparr>m_lRef := r\<rparr>) = dir_of s"
  by (simp_all add: dir_of_def)

lemma view_lRef [simp]: "view (c\<lparr>m_lRef := r\<rparr>) = view c"
  by (simp add: view_def)

lemma view_simps [simp]:
  "d_keyword (view c) = m_szKeyword c" "d_host (view c) = m_pMainTCPServer c"
  "d_guest (view c) = m_pConnTCPServer c" "d_hostid (view c) = m_dwMainTCPID c"
  by (simp_all add: view_def)

lemma sess_of_simps [simp]:
  "sess_of cs [] = []" "sess_of cs ((k, p) # m) = (k, view (the (cs p))) # sess_of cs m"
  by (simp_all add: sess_of_def)

lemma sess_of_cong:
  "(\<And>k p. (k, p) \<in> set m \<Longrightarrow> view (the (cs p)) = view (the (cs' p))) \<Longrightarrow> sess_of cs m = sess_of cs' m"
  by (auto simp: sess_of_def)

lemma sess_of_put: "sess_of cs (map_put k p m) = map_put k (view (the (cs p))) (sess_of cs m)"
  by (induction k p m rule: map_put.induct) auto

section \<open>One session changes\<close>

text \<open>Every method of a session changes its view by the corresponding function, keeps the
  count, and returns and sends what the directory says.\<close>

definition acts :: "(p2pconn \<Rightarrow> tcpheap \<Rightarrow> (P2P_ERROR \<times> p2pconn \<times> tcpheap) option) \<Rightarrow>
    (dir_session \<Rightarrow> dir_session) \<Rightarrow> (dir_session \<Rightarrow> P2P_ERROR \<times> (addr \<times> BYTE list) list) \<Rightarrow> bool" where
  "acts m f out \<longleftrightarrow> (\<forall>c h r c' h'. m c h = Some (r, c', h') \<longrightarrow> view c' = f (view c) \<and> m_lRef c' = m_lRef c
     \<and> r = fst (out (view c)) \<and> sent (snd (out (view c))) h h')"

lemma actsI:
  assumes "\<And>c h r c' h'. m c h = Some (r, c', h') \<Longrightarrow> view c' = f (view c) \<and> m_lRef c' = m_lRef c \<and> r = fst (out (view c))"
    and "\<And>c h r c' h'. m c h = Some (r, c', h') \<Longrightarrow> sent (snd (out (view c))) h h'"
  shows "acts m f out"
  using assms by (simp add: acts_def)

lemma TCPConnected_acts: "rd_dword 0 d = Some j \<Longrightarrow> acts (TCPConnected d (Some b)) (dir_join b j) (join_sends b j)"
  by (rule actsI, (auto simp: TCPConnected_def dir_join_def join_sends_def view_def bind_Some_iff Let_def split: if_splits)[1],
      (drule TCPConnected_sent, assumption, auto simp: join_sends_def view_def Let_def split: if_splits)[1])

lemma UDPListening_acts: "acts (UDPListening i) (dir_host_udp i) host_udp_sends"
  by (rule actsI, (auto simp: UDPListening_def dir_host_udp_def host_udp_sends_def view_def bind_Some_iff Let_def split: if_splits)[1],
      (drule UDPListening_sent, auto simp: host_udp_sends_def view_def Let_def split: if_splits)[1])

lemma UDPConnected_acts: "acts (UDPConnected i) dir_guest_udp (guest_udp_sends i)"
  by (rule actsI, (auto simp: UDPConnected_def dir_guest_udp_def guest_udp_sends_def view_def bind_Some_iff Let_def split: if_splits)[1],
      (drule UDPConnected_sent, auto simp: guest_udp_sends_def view_def Let_def split: if_splits)[1])

lemma SetP2POK_acts: "acts (SetP2POK (Some a)) (dir_report a) (report_sends a)"
  by (rule actsI, (auto simp: SetP2POK_def dir_report_def report_sends_def view_def bind_Some_iff Let_def split: if_splits)[1],
      (drule SetP2POK_sent, auto simp: report_sends_def dir_report_def view_def Let_def split: if_splits)[1])

lemma TCPProxyRequest_acts: "acts TCPProxyRequest id proxy_sends"
  by (rule actsI, (auto simp: TCPProxyRequest_def proxy_sends_def view_def bind_Some_iff Let_def split: if_splits)[1],
      (drule TCPProxyRequest_sent, auto simp: proxy_sends_def view_def Let_def split: if_splits)[1])

lemma entry_unique:
  assumes s: "core R x y s" and e: "(k, p) \<in> set (m_P2PConnectList s)"
    and e': "(k', p') \<in> set (m_P2PConnectList s)" and eq: "kw_of s p = kw_of s p'"
  shows "(k, p) = (k', p')"
proof -
  have "kw_of s (snd (k, p)) = kw_of s (snd (k', p'))" using eq by simp
  then show ?thesis using s e e' unfolding core_def kw_unique_def by blast
qed

text \<open>The session of an entry is the one the directory finds for its keyword.\<close>

lemma sess_of_mem:
  assumes s: "core R x y s" and e: "(k, p) \<in> set (m_P2PConnectList s)" and c: "conns s p = Some c"
  shows "session_of (cstr (m_szKeyword c)) (sess_of (conns s) (m_P2PConnectList s)) = Some (view c)"
proof -
  let ?kw = "cstr (m_szKeyword c)" and ?m = "sess_of (conns s) (m_P2PConnectList s)"
  have "(k, view c) \<in> set ?m" using e c by (force simp: sess_of_def)
  then have "find (\<lambda>e. d_kw (snd e) = ?kw) ?m \<noteq> None" unfolding find_None_iff by force
  then obtain f where f: "find (\<lambda>e. d_kw (snd e) = ?kw) ?m = Some f" by blast
  then have mem: "f \<in> set ?m" and eq: "d_kw (snd f) = ?kw" by (auto simp: find_Some_iff)
  then obtain k' q where q: "(k', q) \<in> set (m_P2PConnectList s)" "f = (k', view (the (conns s q)))"
    by (auto simp: sess_of_def)
  obtain cq where cq: "conns s q = Some cq" using core_entry[OF s q(1)] by auto
  then have "kw_of s p = kw_of s q" using eq c q(2) by (simp add: kw_of_def)
  then have "f = (k, view c)" using entry_unique[OF s e q(1)] q(2) c by simp
  then show ?thesis using f by (simp add: session_of_def)
qed

lemma sess_of_at_kw:
  assumes s: "core R x y s" and e: "(k, p) \<in> set (m_P2PConnectList s)"
    and c: "conns s p = Some c" and v: "view c' = f (view c)"
    and other: "\<And>q. q \<noteq> p \<Longrightarrow> cs q = conns s q" and p: "cs p = Some c'"
  shows "sess_of cs (m_P2PConnectList s)
    = at_kw (cstr (m_szKeyword c)) f (sess_of (conns s) (m_P2PConnectList s))"
proof -
  have "(k', view (the (cs q))) = (k', if d_kw (view (the (conns s q))) = cstr (m_szKeyword c)
      then f (view (the (conns s q))) else view (the (conns s q)))"
    if q: "(k', q) \<in> set (m_P2PConnectList s)" for k' q
  proof (cases "q = p")
    case True
    then show ?thesis using c v p by simp
  next
    case False
    obtain cq where cq: "conns s q = Some cq" using core_entry[OF s q] by auto
    then have "cstr (m_szKeyword cq) \<noteq> cstr (m_szKeyword c)"
      using entry_unique[OF s e q] c False by (auto simp: kw_of_def)
    then show ?thesis using other[OF False] cq by simp
  qed
  then show ?thesis by (auto simp: sess_of_def at_kw_def)
qed

lemma kw_free_sess:
  assumes s: "core R x y s"
  shows "kw_free kw (sess_of (conns s) (m_P2PConnectList s))
     \<longleftrightarrow> (\<forall>e\<in>set (m_P2PConnectList s). kw_of s (snd e) \<noteq> Some kw)"
proof -
  have "kw_of s p = Some (d_kw (view (the (conns s p))))" if "(k, p) \<in> set (m_P2PConnectList s)" for k p
    using s that by (fastforce simp: core_def entry_ok_def kw_of_def)
  then show ?thesis by (fastforce simp: kw_free_def sess_of_def list_all_iff)
qed

text \<open>One operation: what becomes of the directory, and which packets are queued.\<close>

definition serves :: "p2pserver \<Rightarrow> p2pserver \<Rightarrow> directory \<Rightarrow> (addr \<times> BYTE list) list \<Rightarrow> bool" where
  "serves s s' d ps \<longleftrightarrow> dir_of s' = d \<and> sent ps (tcps s) (tcps s')"

lemma serves_sent: "serves s s' d ps \<Longrightarrow> sent ps (tcps s) (tcps s')"
  by (simp add: serves_def)

lemma serves_then: "serves s s1 d ps \<Longrightarrow> serves s1 s2 (dir_of s1) qs \<Longrightarrow> serves s s2 d (ps @ qs)"
  by (auto simp: serves_def intro: sent_trans)

lemma serves_end: "serves s s1 d ps \<Longrightarrow> serves s1 s2 (dir_of s1) [] \<Longrightarrow> serves s s2 d ps"
  using serves_then[of s s1 d ps s2 "[]"] by simp

lemma serves_same: "dir_of s' = dir_of s \<Longrightarrow> tcps s' = tcps s \<Longrightarrow> serves s s' (dir_of s) []"
  by (simp add: serves_def)

lemma tcp_serves:
  "tcp_Send a p s = Some s' \<Longrightarrow> serves s s' (dir_of s) [(a, p)]"
  "tcp_AddRef a s = Some s' \<Longrightarrow> serves s s' (dir_of s) []"
  "tcp_Release a s = Some s' \<Longrightarrow> serves s s' (dir_of s) []"
  using tcp_sent[where a = a and s = s and s' = s'] by (auto simp: serves_def tcp_Send_def tcp_AddRef_def tcp_Release_def)

lemma reply_serves:
  "(if b then tcp_Send a p s else Some s) = Some s' \<Longrightarrow> serves s s' (dir_of s) (if b then [(a, p)] else [])"
  using tcp_serves(1)[where a = a and s = s] by (auto simp: serves_same split: if_splits)

text \<open>The search for the session of a keyword, a method, and the return of the reference.\<close>

lemma find_call_dir:
  assumes s: "core R x (\<lambda>_. 0) s" and kw: "nul_terminated kw" and m: "acts m f out"
  obtains
    (none) "FindP2PConnection kw s = Some (None, s)" "kw_free (cstr kw) (sessions (dir_of s))"
  | (one) p s1 e where "FindP2PConnection kw s = Some (Some p, s1)"
      "session_of (cstr kw) (sessions (dir_of s)) = Some e"
      "\<And>r s2 s3. conn_call m p s1 = Some (r, s2) \<Longrightarrow> conn_Release p s2 = Some s3 \<Longrightarrow>
         r = fst (out e) \<and> serves s s3 (dir_at (cstr kw) f (dir_of s)) (snd (out e))"
proof (rule Find_core[OF s kw])
  assume find: "FindP2PConnection kw s = Some (None, s)"
    and no: "\<And>e. e \<in> set (m_P2PConnectList s) \<Longrightarrow> \<not> found s kw e"
  have "kw_free (cstr kw) (sess_of (conns s) (m_P2PConnectList s))"
    using no by (simp add: kw_free_sess[OF s] found_def)
  then show thesis using none[OF find] by (simp add: dir_of_def)
next
  fix k p c
  let ?s1 = "s\<lparr>conns := (conns s)(p \<mapsto> c\<lparr>m_lRef := m_lRef c + 1\<rparr>)\<rparr>"
  assume e: "(k, p) \<in> set (m_P2PConnectList s)" and c: "conns s p = Some c"
    and eq: "cstr (m_szKeyword c) = cstr kw" and find: "FindP2PConnection kw s = Some (Some p, ?s1)"
  have one_ref: "m_lRef c = 1" using s c by (auto simp: core_def session_ok_def)
  have look: "session_of (cstr kw) (sessions (dir_of s)) = Some (view c)"
    using sess_of_mem[OF s e c] eq by (simp add: dir_of_def)
  show thesis
  proof (rule one[OF find look])
    fix r s2 s3
    assume call: "conn_call m p ?s1 = Some (r, s2)" and rel: "conn_Release p s2 = Some s3"
    obtain c' h where c': "m (c\<lparr>m_lRef := m_lRef c + 1\<rparr>) (tcps s) = Some (r, c', h)"
      "s2 = ?s1\<lparr>tcps := h, conns := (conns s)(p \<mapsto> c')\<rparr>"
      using call by (auto simp: conn_call_def bind_Some_iff)
    have v: "view c' = f (view c)" "m_lRef c' = 2" "r = fst (out (view c))" "sent (snd (out (view c))) (tcps s) h"
      using m[unfolded acts_def, rule_format, OF c'(1)] one_ref by simp_all
    have "s3 = s2\<lparr>conns := (conns s)(p \<mapsto> c'\<lparr>m_lRef := 1\<rparr>)\<rparr>"
      using rel v(2) c'(2) by (simp add: conn_Release_def CBaseObject_Release_def Let_def)
    moreover have "sess_of ((conns s)(p \<mapsto> c'\<lparr>m_lRef := 1\<rparr>)) (m_P2PConnectList s)
        = at_kw (cstr (m_szKeyword c)) f (sess_of (conns s) (m_P2PConnectList s))"
      by (rule sess_of_at_kw[OF s e c]) (simp_all add: v(1))
    ultimately show "r = fst (out (view c)) \<and> serves s s3 (dir_at (cstr kw) f (dir_of s)) (snd (out (view c)))"
      using c'(2) eq v(3,4) by (simp add: dir_of_def dir_at_def serves_def)
  qed
qed

section \<open>Packets and datagrams\<close>

text \<open>The sender of a packet is looked up first; \<open>f\<close> and \<open>ps\<close> are what its packet does.\<close>

lemma sender_dir:
  assumes s: "core R x (\<lambda>_. 0) s" and t: "tabled x s" and r: "room x s"
    and h: "Option.bind (GetTCPServer i s)
        (\<lambda>(Server, s). case Server of None \<Rightarrow> Some s | Some a \<Rightarrow> H Server a s) = Some s'"
    and step: "\<And>a h. core R (x(a := x a + 1)) (\<lambda>_. 0) (s\<lparr>tcps := h\<rparr>) \<Longrightarrow>
        H (Some a) a (s\<lparr>tcps := h\<rparr>) = Some s' \<Longrightarrow> serves (s\<lparr>tcps := h\<rparr>) s' (f a (dir_of s)) (ps a (dir_of s))"
  shows "case map_find i (m_TCPList s) of None \<Rightarrow> serves s s' (dir_of s) []
    | Some a \<Rightarrow> serves s s' (f a (dir_of s)) (ps a (dir_of s))"
proof (cases "map_find i (m_TCPList s)")
  case None
  then show ?thesis using h by (simp add: GetTCPServer_def serves_same)
next
  case (Some a)
  from GetTCPServer_known[OF s r t Some] obtain h' where
    g: "GetTCPServer i s = Some (Some a, s\<lparr>tcps := h'\<rparr>)" "core R (x(a := x a + 1)) (\<lambda>_. 0) (s\<lparr>tcps := h'\<rparr>)"
    by blast
  have "tcp_AddRef a s = Some (s\<lparr>tcps := h'\<rparr>)" using g(1) Some by (auto simp: GetTCPServer_def)
  from tcp_serves(2)[OF this] have "serves s (s\<lparr>tcps := h'\<rparr>) (dir_of s) []" .
  then show ?thesis using step[OF g(2)] h Some g(1) by (auto simp: serves_def dest: sent_quiet)
qed

text \<open>A request with its answer, and a call without one.\<close>

lemma answered_dir:
  assumes s: "core R x (\<lambda>_. 0) s" and kw: "nul_terminated kw" and m: "acts m f out"
    and run: "Option.bind (FindP2PConnection kw s) (\<lambda>(p2p, s).
       Option.bind (case p2p of
           None \<Rightarrow> Option.bind (print_str kw) (\<lambda>_. Some (P2P_KEYWORD_NOT_FOUND, s))
         | Some c \<Rightarrow> Option.bind (conn_call m c s) (\<lambda>(Result, s).
             Option.bind (conn_Release c s) (\<lambda>s. Some (Result, s))))
         (\<lambda>(Result, s). Option.bind (if Result \<noteq> P2P_ERROR_NONE then tcp_Send a (reply Result) s else Some s)
           (tcp_Release a))) = Some s'"
  shows "serves s s' (dir_at (cstr kw) f (dir_of s)) (answered a reply out (session_of (cstr kw) (sessions (dir_of s))))"
proof (cases rule: find_call_dir[OF s kw m, case_names none one])
  case none
  with run show ?thesis
    by (auto simp: bind_Some_iff answered_def dir_at_free dest!: tcp_serves intro: serves_end)
next
  case (one p s1 e)
  obtain r s2 s3 s4 where x: "conn_call m p s1 = Some (r, s2)" "conn_Release p s2 = Some s3"
    "(if r \<noteq> P2P_ERROR_NONE then tcp_Send a (reply r) s3 else Some s3) = Some s4" "tcp_Release a s4 = Some s'"
    using run one(1) by (auto simp: bind_Some_iff)
  note e = one(3)[OF x(1,2)]
  from serves_end[OF serves_then[OF conjunct2[OF e] reply_serves[OF x(3)]] tcp_serves(3)[OF x(4)]]
  show ?thesis using one(2) e by (auto simp: answered_def split_def split: if_splits)
qed

lemma unanswered_dir:
  assumes s: "core R x (\<lambda>_. 0) s" and kw: "nul_terminated kw" and m: "acts m f out"
    and run: "Option.bind (FindP2PConnection kw s) (\<lambda>(p2p, s).
       case p2p of None \<Rightarrow> Some s
       | Some c \<Rightarrow> Option.bind (conn_call m c s) (\<lambda>(Result, s). conn_Release c s)) = Some s'"
  shows "serves s s' (dir_at (cstr kw) f (dir_of s)) (unanswered out (session_of (cstr kw) (sessions (dir_of s))))"
proof (cases rule: find_call_dir[OF s kw m, case_names none one])
  case none
  with run show ?thesis by (simp add: unanswered_def dir_at_free serves_same)
next
  case (one p s1 e)
  with run show ?thesis by (auto simp: bind_Some_iff unanswered_def)
qed

lemma recv_CONNECT_dir:
  assumes s: "core R x (\<lambda>_. 0) s" and t: "tabled x s" and r: "room x s"
    and kw: "nul_terminated (keyword_at d)" and i: "rd_dword 0 d = Some i"
    and run: "recv_CONNECT d s = Some s'"
  shows "case map_find i (m_TCPList s) of None \<Rightarrow> serves s s' (dir_of s) []
    | Some a \<Rightarrow> serves s s' (dir_at (cstr (keyword_at d)) (dir_join a i) (dir_of s))
        (answered a (\<lambda>r. CreateTCPResultPkt TPT_CONNECT_RESULT i (err_num r)) (join_sends a i)
          (session_of (cstr (keyword_at d)) (sessions (dir_of s))))"
proof (rule sender_dir[OF s t r run[unfolded recv_CONNECT_def i Option.bind.simps]], goal_cases)
  case (1 a h)
  show ?case using answered_dir[OF 1(1) kw TCPConnected_acts[OF i] 1(2)] by simp
qed

lemma recv_P2P_RESULT_dir:
  assumes s: "core R x (\<lambda>_. 0) s" and t: "tabled x s" and r: "room x s"
    and kw: "nul_terminated (keyword_at d)" and i: "rd_dword 0 d = Some i"
    and run: "recv_P2P_RESULT d s = Some s'"
  shows "case map_find i (m_TCPList s) of None \<Rightarrow> serves s s' (dir_of s) []
    | Some a \<Rightarrow> serves s s' (dir_at (cstr (keyword_at d)) (dir_report a) (dir_of s))
        (unanswered (report_sends a) (session_of (cstr (keyword_at d)) (sessions (dir_of s))))"
proof (rule sender_dir[OF s t r run[unfolded recv_P2P_RESULT_def i Option.bind.simps]], goal_cases)
  case (1 a h)
  then obtain s2 where "Option.bind (FindP2PConnection (keyword_at d) (s\<lparr>tcps := h\<rparr>)) (\<lambda>(p2p, s).
       case p2p of None \<Rightarrow> Some s
       | Some c \<Rightarrow> Option.bind (conn_call (SetP2POK (Some a)) c s) (\<lambda>(Result, s). conn_Release c s)) = Some s2"
    "tcp_Release a s2 = Some s'"
    by (auto simp: bind_Some_iff split_def)
  from unanswered_dir[OF 1(1) kw SetP2POK_acts this(1)] tcp_serves(3)[OF this(2)]
  show ?case by (simp add: serves_end)
qed

lemma at_kw_id: "at_kw kw id m = m"
  by (induction m) (auto simp: at_kw_def)

lemma recv_PROXY_REQUEST_dir:
  assumes s: "core R x (\<lambda>_. 0) s" and t: "tabled x s" and r: "room x s"
    and kw: "nul_terminated (keyword_at d)" and i: "rd_dword 0 d = Some i"
    and run: "recv_PROXY_REQUEST d s = Some s'"
  shows "case map_find i (m_TCPList s) of None \<Rightarrow> serves s s' (dir_of s) []
    | Some a \<Rightarrow> serves s s' (dir_of s) (answered a (\<lambda>r. CreateTCPProxyResultPkt i 0 (err_num r)) proxy_sends
          (session_of (cstr (keyword_at d)) (sessions (dir_of s))))"
proof (rule sender_dir[OF s t r run[unfolded recv_PROXY_REQUEST_def i Option.bind.simps]], goal_cases)
  case (1 a h)
  show ?case using answered_dir[OF 1(1) kw TCPProxyRequest_acts 1(2)] by (simp add: dir_at_def at_kw_id)
qed

lemma RecvUDPPacketProcess_dir:
  assumes s: "core R x (\<lambda>_. 0) s" and kw: "nul_terminated (keyword_at (udp_data (BasePacket p)))"
    and run: "RecvUDPPacketProcess p s = Some (r, s')"
  shows "serves s s' (dir_datagram p (dir_of s)) (datagram_sends p (dir_of s))"
proof -
  let ?t = "upt_of (udp_type (BasePacket p))"
  consider "?t = Some UPT_WAITING" | "?t = Some UPT_CONNECT" | "?t \<notin> {Some UPT_WAITING, Some UPT_CONNECT}" by blast
  then show ?thesis
  proof cases
    case 1
    from run show ?thesis
      unfolding RecvUDPPacketProcess_def dir_datagram_def datagram_sends_def Let_def 1
      by (auto simp: bind_Some_iff intro!: unanswered_dir[OF s kw UDPListening_acts])
  next
    case 2
    from run show ?thesis
      unfolding RecvUDPPacketProcess_def dir_datagram_def datagram_sends_def Let_def 2
      by (auto simp: bind_Some_iff intro!: unanswered_dir[OF s kw UDPConnected_acts])
  next
    case 3
    with run show ?thesis
      by (auto simp: RecvUDPPacketProcess_def dir_datagram_def datagram_sends_def Let_def bind_Some_iff serves_same
          split: option.splits UDPBASE_PACKET_TYPE.splits)
  qed
qed

lemma CP2PConnection_fields:
  "CP2PConnection d Server h = Some (c, h') \<Longrightarrow> rd_bytes 4 KEYWORD_SIZE d = Some (m_szKeyword c)
     \<and> rd_dword 0 d = Some (m_dwMainTCPID c) \<and> m_dwConnTCPID c = 0 \<and> m_stMainUDPServer c = zero_CLIENT_INFO
     \<and> m_pMainTCPServer c = Server \<and> m_pConnTCPServer c = None \<and> m_eStatus c = P2P_TCP_LISTENING
     \<and> \<not> m_bMainUDPOK c \<and> \<not> m_bConnUDPOK c"
  by (auto simp: CP2PConnection_def bind_Some_iff Let_def)

text \<open>A registration: a keyword that is taken changes nothing.\<close>

lemma CreateP2PConnection_dir:
  assumes s: "core R x (\<lambda>_. 0) s" and i: "rd_dword 0 d = Some i" and fresh: "conns s new = None"
    and run: "CreateP2PConnection new d (Some a) s = Some s'" and len: "164 \<le> length d"
  shows "serves s s' (dir_of s\<lparr>sessions := map_put i (dir_new (keyword_at d) i a) (sessions (dir_of s))\<rparr>) []"
proof -
  obtain c h where c: "CP2PConnection d (Some a) (tcps s) = Some (c, h)"
    "s' = s\<lparr>tcps := h, conns := (conns s)(new \<mapsto> c),
       m_P2PConnectList := map_put i new (m_P2PConnectList s)\<rparr>"
    using run i by (cases "CP2PConnection d (Some a) (tcps s)") (auto simp: CreateP2PConnection_def)
  have kw: "rd_bytes 4 KEYWORD_SIZE d = Some (keyword_at d)"
    using len by (simp add: rd_bytes_def keyword_at_def KEYWORD_SIZE_def)
  have v: "view c = dir_new (keyword_at d) i a"
    using CP2PConnection_fields[OF c(1)] kw i by (simp add: view_def dir_new_def)
  have "sess_of ((conns s)(new \<mapsto> c)) (m_P2PConnectList s) = sess_of (conns s) (m_P2PConnectList s)"
  proof (rule sess_of_cong)
    fix k p assume e: "(k, p) \<in> set (m_P2PConnectList s)"
    have "p \<noteq> new" by (rule core_entry[OF s e]) (use fresh in auto)
    then show "view (the (((conns s)(new \<mapsto> c)) p)) = view (the (conns s p))" by simp
  qed
  then show ?thesis using CP2PConnection_sent[OF c(1)] by (simp add: c(2) serves_def dir_of_def sess_of_put v)
qed

lemma recv_WAITING_dir:
  assumes s: "core R x (\<lambda>_. 0) s" and t: "tabled x s" and r: "room x s" and d: "wait_ok d"
    and fresh: "conns s new = None" and i: "rd_dword 0 d = Some i"
    and run: "recv_WAITING new d s = Some s'"
  shows "case map_find i (m_TCPList s) of None \<Rightarrow> serves s s' (dir_of s) []
    | Some a \<Rightarrow> serves s s' (if kw_free (cstr (keyword_at d)) (sessions (dir_of s))
         then dir_of s\<lparr>sessions := map_put i (dir_new (keyword_at d) i a) (sessions (dir_of s))\<rparr> else dir_of s)
       [(a, CreateTCPResultPkt TPT_WAIT_RESULT i (err_num (if kw_free (cstr (keyword_at d)) (sessions (dir_of s))
         then P2P_ERROR_NONE else P2P_KEYWORD_DUPLICATE)))]"
proof (rule sender_dir[OF s t r run[unfolded recv_WAITING_def i Option.bind.simps]], goal_cases)
  case (1 a h)
  let ?s = "s\<lparr>tcps := h\<rparr>" and ?kw = "cstr (keyword_at d)"
  let ?reply = "\<lambda>r. CreateTCPResultPkt TPT_WAIT_RESULT i (err_num r)"
  have kw: "nul_terminated (keyword_at d)" and len: "164 \<le> length d"
    using d by (simp_all add: wait_ok_def keyword_ok_def)
  have fresh': "conns ?s new = None" using fresh by simp
  note free = kw_free_sess[OF 1(1), of ?kw]
  have reply: "serves ?s s' D [(a, q)]"
    if sv: "serves ?s s2 D []" and b: "Option.bind (tcp_Send a q s2) (tcp_Release a) = Some s'" for s2 D q
  proof -
    obtain s3 where "tcp_Send a q s2 = Some s3" "tcp_Release a s3 = Some s'" using b by (auto simp: bind_Some_iff)
    from serves_end[OF serves_then[OF sv tcp_serves(1)[OF this(1)]] tcp_serves(3)[OF this(2)]] show ?thesis by simp
  qed
  show ?case
  proof (cases rule: Find_core[OF 1(1) kw, case_names none one])
    case none
    then have "kw_free ?kw (sessions (dir_of s))" using free by (simp add: dir_of_def found_def)
    moreover obtain s2 where "CreateP2PConnection new d (Some a) ?s = Some s2"
      "Option.bind (tcp_Send a (?reply P2P_ERROR_NONE) s2) (tcp_Release a) = Some s'"
      using 1(2) none(1) by (auto simp: bind_Some_iff)
    ultimately show ?thesis using reply[OF CreateP2PConnection_dir[OF 1(1) i fresh' _ len]] by simp
  next
    case (one k p c)
    let ?s1 = "?s\<lparr>conns := (conns ?s)(p \<mapsto> c\<lparr>m_lRef := m_lRef c + 1\<rparr>)\<rparr>"
    have "kw_of ?s p = Some ?kw" using one by (simp add: kw_of_def)
    then have busy: "\<not> kw_free ?kw (sessions (dir_of s))" using free one(1) by (force simp: dir_of_def)
    have "m_lRef c = 1" using 1(1) one(2) by (auto simp: core_def session_ok_def)
    then have rel: "conn_Release p ?s1 = Some (?s\<lparr>conns := (conns ?s)(p \<mapsto> c\<lparr>m_lRef := 1\<rparr>)\<rparr>)"
      by (simp add: conn_Release_def CBaseObject_Release_def Let_def)
    have "serves ?s (?s\<lparr>conns := (conns ?s)(p \<mapsto> c\<lparr>m_lRef := 1\<rparr>)\<rparr>) (dir_of ?s) []"
      using one(2) by (intro serves_same) (auto simp: dir_of_def intro!: sess_of_cong)
    moreover have "Option.bind (tcp_Send a (?reply P2P_KEYWORD_DUPLICATE)
        (?s\<lparr>conns := (conns ?s)(p \<mapsto> c\<lparr>m_lRef := 1\<rparr>)\<rparr>)) (tcp_Release a) = Some s'"
      using 1(2) one(4) rel by (auto simp: bind_Some_iff)
    ultimately show ?thesis using reply busy by simp
  qed
qed

section \<open>The end of a connection\<close>

lemma ConnTCPDisconnect_view:
  "ConnTCPDisconnect c h = Some (c', h') \<Longrightarrow>
     view c' = dir_reset (view c)"
  by (auto simp: ConnTCPDisconnect_def bind_Some_iff Let_def view_def dir_reset_def)

lemma entry_addr:
  assumes "core R x y s" and "(k, p) \<in> set (m_P2PConnectList s)" and "(k', p) \<in> set (m_P2PConnectList s)"
  shows "k' = k"
  using entry_unique[OF assms] by simp

text \<open>The entries beside \<open>(k, p)\<close>: another key, another session, and the same view while only \<open>p\<close> changes.\<close>

lemma beside_entry:
  assumes s: "core R x (\<lambda>_. 0) s" and l: "m_P2PConnectList s = m0 @ (k, p) # m"
    and q: "(k', q) \<in> set m0 \<union> set m"
  shows "q \<noteq> p" and "k' \<noteq> k"
proof -
  have ok: "distinct (m_P2PConnectList s)" "inj_on fst (set (m_P2PConnectList s))"
    using s map_ok_distinct[of "m_P2PConnectList s"] by (simp_all add: core_def distinct_map)
  have mem: "(k, p) \<in> set (m_P2PConnectList s)" using l by simp
  have q': "(k', q) \<in> set (m_P2PConnectList s)" "(k', q) \<noteq> (k, p)" using q l ok(1) by auto
  show "q \<noteq> p" using entry_addr[OF s mem, of k'] q' by auto
  show "k' \<noteq> k" using inj_onD[OF ok(2), of "(k', q)" "(k, p)"] q' mem by auto
qed

lemma view_beside:
  assumes s: "core R x (\<lambda>_. 0) s" and l: "m_P2PConnectList s = m0 @ (k, p) # m"
    and cs: "\<And>q. q \<noteq> p \<Longrightarrow> cs q = conns s q"
  shows "sess_of cs m0 = sess_of (conns s) m0" and "sess_of cs m = sess_of (conns s) m"
proof -
  have "cs q = conns s q" if "(k', q) \<in> set m0 \<union> set m" for k' q
    using beside_entry(1)[OF s l that] by (rule cs)
  then show "sess_of cs m0 = sess_of (conns s) m0" "sess_of cs m = sess_of (conns s) m"
    by (simp_all cong: sess_of_cong) (metis UnCI sess_of_cong)+
qed

lemma sess_of_append: "sess_of cs (m1 @ m2) = sess_of cs m1 @ sess_of cs m2"
  by (simp add: sess_of_def)

lemma EndLoop_beside_guest:
  assumes s: "core R x (\<lambda>_. 0) s" and l: "m_P2PConnectList s = m0 @ (k, p) # m" and c: "conns s p = Some c"
    and guest: "m_pConnTCPServer c = Some a" and run: "EndLoop ((k, p) # m) a s = Some s'"
  shows "serves s s' (dir_of s\<lparr>sessions := sess_of (conns s) m0 @ dir_leave a (sess_of (conns s) ((k, p) # m))\<rparr>)
    (leave_sends a (sess_of (conns s) ((k, p) # m)))"
proof -
  have "conn_void ConnTCPDisconnect p s = Some s'"
    using run c guest by (simp add: IsConnTCPServer_def)
  then obtain c' h where c': "ConnTCPDisconnect c (tcps s) = Some (c', h)"
    "s' = s\<lparr>tcps := h, conns := (conns s)(p \<mapsto> c')\<rparr>"
    using c by (auto simp: conn_void_def bind_Some_iff)
  have s': "conns s' p = Some c'" "\<And>q. q \<noteq> p \<Longrightarrow> conns s' q = conns s q"
    "m_P2PConnectList s' = m_P2PConnectList s" "m_TCPList s' = m_TCPList s" "m_dwTCPid s' = m_dwTCPid s"
    "m_dwUDPPort s' = m_dwUDPPort s" "tcps s' = h"
    by (simp_all add: c'(2))
  show ?thesis
    using guest c l ConnTCPDisconnect_view[OF c'(1)] ConnTCPDisconnect_sent[OF c'(1)] view_beside[OF s l s'(2)] s'(1,3-)
    by (simp add: sess_of_append serves_def dir_of_def)
qed

lemma EndLoop_beside_host:
  assumes s: "core R x (\<lambda>_. 0) s" and l: "m_P2PConnectList s = m0 @ (k, p) # m" and c: "conns s p = Some c"
    and host: "m_pConnTCPServer c \<noteq> Some a" "m_pMainTCPServer c = Some a" and run: "EndLoop ((k, p) # m) a s = Some s'"
  shows "serves s s' (dir_of s\<lparr>sessions := sess_of (conns s) m0 @ dir_leave a (sess_of (conns s) ((k, p) # m))\<rparr>)
    (leave_sends a (sess_of (conns s) ((k, p) # m)))"
proof -
  obtain s1 where s1: "conn_void MainTCPDisconnect p s = Some s1"
    "conn_Release p (s1\<lparr>m_P2PConnectList := map_erase k (m_P2PConnectList s1)\<rparr>) = Some s'"
    using run c host by (auto simp: IsConnTCPServer_def IsMainTCPServer_def split: option.splits)
  obtain c' h where c': "MainTCPDisconnect c (tcps s) = Some (c', h)" "s1 = s\<lparr>tcps := h, conns := (conns s)(p \<mapsto> c')\<rparr>"
    using s1(1) c by (auto simp: conn_void_def bind_Some_iff)
  have q: "sent [] (tcps s) (tcps s')"
    using sent_quiet[OF MainTCPDisconnect_sent[OF c'(1)]] conn_Release_sent[OF s1(2)] by (simp add: c'(2))
  have s': "m_P2PConnectList s' = map_erase k (m_P2PConnectList s)" "m_TCPList s' = m_TCPList s"
    "m_dwTCPid s' = m_dwTCPid s" "m_dwUDPPort s' = m_dwUDPPort s" "\<And>q. q \<noteq> p \<Longrightarrow> conns s' q = conns s q"
    using s1(2) by (auto simp: c'(2) conn_Release_def bind_Some_iff split: prod.splits if_splits)
  have "filter (\<lambda>e. fst e \<noteq> k) m0 = m0" "filter (\<lambda>e. fst e \<noteq> k) m = m"
    using beside_entry(2)[OF s l UnI1] beside_entry(2)[OF s l UnI2] by (fastforce simp: filter_id_conv)+
  then have "map_erase k (m_P2PConnectList s) = m0 @ m" using l by (simp add: map_erase_def)
  then show ?thesis
    using s' q view_beside[OF s l, of "conns s'"] host c by (simp add: sess_of_append serves_def dir_of_def)
qed

lemma EndLoop_dir:
  assumes s: "core R x (\<lambda>_. 0) s" and "m_P2PConnectList s = m0 @ m" and "EndLoop m a s = Some s'"
  shows "serves s s' (dir_of s\<lparr>sessions := sess_of (conns s) m0 @ dir_leave a (sess_of (conns s) m)\<rparr>)
    (leave_sends a (sess_of (conns s) m))"
  using assms(2,3)
proof (induction m arbitrary: m0)
  case Nil
  then show ?case by (simp add: sess_of_def serves_def dir_of_def)
next
  case (Cons e m)
  obtain k p where e: "e = (k, p)" by fastforce
  note l = Cons.prems(1)[unfolded e] and run = Cons.prems(2)[unfolded e]
  have "(k, p) \<in> set (m_P2PConnectList s)" using l by simp
  from core_entry[OF s this] obtain c where c: "conns s p = Some c" by auto
  consider "m_pConnTCPServer c = Some a" | "m_pConnTCPServer c \<noteq> Some a" "m_pMainTCPServer c = Some a"
    | "m_pConnTCPServer c \<noteq> Some a" "m_pMainTCPServer c \<noteq> Some a" by blast
  then show ?case
  proof cases
    case 1
    then show ?thesis unfolding e by (rule EndLoop_beside_guest[OF s l c _ run])
  next
    case 2
    then show ?thesis unfolding e by (rule EndLoop_beside_host[OF s l c _ _ run])
  next
    case 3
    then have "EndLoop m a s = Some s'"
      using run c by (simp add: IsConnTCPServer_def IsMainTCPServer_def)
    then show ?thesis
      using Cons.IH[of "m0 @ [(k, p)]"] l 3 c by (simp add: sess_of_append e)
  qed
qed

text \<open>The table of connections.\<close>

lemma server_ref_dir:
  "server_AddRef p s = Some s' \<Longrightarrow> serves s s' (dir_of s) []"
  "server_Release p s = Some s' \<Longrightarrow> serves s s' (dir_of s) []"
  by (auto simp: server_AddRef_def server_Release_def CBaseObject_AddRef_def CBaseObject_Release_def
      CP2PServer_destroy_def Let_def serves_def dir_of_def split: if_splits)

lemma register_dir:
  "RegisterRecvProcess server_AddRef server_Release f q tcp s = Some (tcp', s') \<Longrightarrow>
     serves s s' (dir_of s) [] \<and> tcps s' = tcps s \<and> m_SendList tcp' = m_SendList tcp"
  "RegisterEndProcess server_AddRef server_Release f q tcp s = Some (tcp', s') \<Longrightarrow>
     serves s s' (dir_of s) [] \<and> tcps s' = tcps s \<and> m_SendList tcp' = m_SendList tcp"
  by (auto simp: RegisterRecvProcess_def RegisterEndProcess_def register_param_def bind_Some_iff serves_def
      server_AddRef_def server_Release_def CBaseObject_AddRef_def CBaseObject_Release_def
      CP2PServer_destroy_def Let_def dir_of_def split: option.splits if_splits)

lemma tcp_unregister_dir:
  assumes "tcp_unregister a s = Some s'" shows "serves s s' (dir_of s) []"
proof -
  obtain tcp tcp1 s1 tcp2 s2 where t: "tcps s a = Some tcp"
    "RegisterRecvProcess server_AddRef server_Release None None tcp s = Some (tcp1, s1)"
    "RegisterEndProcess server_AddRef server_Release None None tcp1 s1 = Some (tcp2, s2)"
    "s' = s2\<lparr>tcps := (tcps s2)(a \<mapsto> tcp2)\<rparr>"
    using assms by (auto simp: tcp_unregister_def bind_Some_iff)
  show ?thesis using register_dir(1)[OF t(2)] register_dir(2)[OF t(3)] t(1)
    by (simp add: t(4) serves_def sent_write)
qed

lemma erase_snd:
  assumes "map_ok m" and "inj_on snd (set m)" and "(i, a) \<in> set m"
  shows "map_erase i m = filter (\<lambda>(j, b). b \<noteq> a) m"
proof -
  have "inj_on fst (set m)" using map_ok_distinct[OF assms(1)] by (simp add: distinct_map)
  then have "fst e \<noteq> i \<longleftrightarrow> snd e \<noteq> a" if "e \<in> set m" for e
    using inj_onD[of fst "set m" e "(i, a)"] inj_onD[OF assms(2), of e "(i, a)"] that assms(3) by (cases e) auto
  then show ?thesis unfolding map_erase_def by (intro filter_cong) auto
qed

lemma RemoveTCPID_dir:
  assumes t: "table_ok R s" and a: "a \<in> R" and run: "RemoveTCPID a s = Some s'"
  shows "serves s s' (dir_of s\<lparr>users := filter (\<lambda>(i, b). b \<noteq> a) (users (dir_of s))\<rparr>) []"
proof -
  obtain i where i: "(i, a) \<in> set (m_TCPList s)" using t a by (auto simp: table_ok_def)
  have find: "find (\<lambda>e. snd e = a) (m_TCPList s) = Some (i, a)"
    using t i by (intro find_snd) (simp_all add: table_ok_def)
  obtain s1 where s1: "tcp_unregister a (s\<lparr>m_TCPList := map_erase i (m_TCPList s)\<rparr>) = Some s1"
    "tcp_Release a s1 = Some s'"
    using run find by (auto simp: RemoveTCPID_def bind_Some_iff)
  have "serves (s\<lparr>m_TCPList := map_erase i (m_TCPList s)\<rparr>) s' (dir_of (s\<lparr>m_TCPList := map_erase i (m_TCPList s)\<rparr>)) []"
    by (rule serves_end[OF tcp_unregister_dir[OF s1(1)] tcp_serves(3)[OF s1(2)]])
  then show ?thesis using erase_snd[OF _ _ i] t by (simp add: serves_def dir_of_def table_ok_def)
qed

lemma TCPIDLoop_find:
  "TCPIDLoop fuel m i = find (\<lambda>j. map_find j m = None) (map (\<lambda>n. i + of_nat n) [0..<fuel])"
proof (induction fuel arbitrary: i)
  case (Suc fuel)
  have "[0..<Suc fuel] = 0 # map Suc [0..<fuel]" by (simp add: map_Suc_upt upt_conv_Cons)
  then show ?case using Suc.IH[of "i + 1"] by (simp add: comp_def ac_simps)
qed simp

lemma CreateTCPID_dir:
  "CreateTCPID a s = Some (i, s') \<Longrightarrow> new_id (dir_of s) = Some i \<and> serves s s' (dir_accept a (dir_of s)) []"
  by (auto simp: CreateTCPID_def bind_Some_iff TCPIDLoop_find new_id_def dir_accept_def dir_of_def tcp_AddRef_def
      serves_def simp del: upt_Suc split: option.splits intro: sent_AddRef)

text \<open>An event may also bring a new connection: it starts without packets and is sent one.\<close>

definition queued :: "(addr \<times> BYTE list) list \<Rightarrow> tcpheap \<Rightarrow> tcpheap \<Rightarrow> bool" where
  "queued ps h h' \<longleftrightarrow> (\<forall>b. h' b \<noteq> None \<longrightarrow> (h b \<noteq> None \<or> packets_to b ps \<noteq> [])
     \<and> outbox h' b = outbox h b @ packets_to b ps)"

lemma queued_sent: "sent ps h h' \<Longrightarrow> queued ps h h'"
  by (simp add: sent_def queued_def)

lemma queued_new: "h new = None \<Longrightarrow> m_SendList tcp = [] \<Longrightarrow> packets_to new ps \<noteq> [] \<Longrightarrow> sent ps (h(new \<mapsto> tcp)) h' \<Longrightarrow> queued ps h h'"
  by (fastforce simp: sent_def queued_def outbox_def split: if_splits)

lemma AcceptTCPSocketProcess_dir:
  assumes run: "AcceptTCPSocketProcess new rawdst rawsrc (Some pr) sock s = Some (r, s')" and new: "tcps s new = None"
  shows "dir_of s' = dir_accept new (dir_of s) \<and> queued (case new_id (dir_of s) of None \<Rightarrow> []
    | Some i \<Rightarrow> [(new, CreateTCPInitPkt i (udp_port (dir_of s)))]) (tcps s) (tcps s')"
proof -
  obtain tcp0 tcp1 s1 tcp2 s2 tcp3 i s3 s4 where t: "CTCPServer rawdst rawsrc sock (m_dwTCPPort s) = Some tcp0"
    "RegisterRecvProcess server_AddRef server_Release (Some ServerDelegate) (Some self) tcp0 s = Some (tcp1, s1)"
    "RegisterEndProcess server_AddRef server_Release (Some ServerDelegate) (Some self) tcp1 s1 = Some (tcp2, s2)"
    "CTCPServer_Init (Some pr) tcp2 = Some (True, tcp3)"
    "CreateTCPID new (s2\<lparr>tcps := (tcps s2)(new \<mapsto> tcp3)\<rparr>) = Some (i, s3)"
    "tcp_Send new (CreateTCPInitPkt i (m_dwUDPPort s3)) s3 = Some s4" "tcp_Release new s4 = Some s'"
    using run by (cases pr) (auto simp: AcceptTCPSocketProcess_def CTCPServer_Init_def bind_Some_iff Let_def)
  let ?s = "s2\<lparr>tcps := (tcps s2)(new \<mapsto> tcp3)\<rparr>"
  have r: "dir_of ?s = dir_of s" "tcps s2 = tcps s" "m_SendList tcp2 = m_SendList tcp0"
    using register_dir(1)[OF t(2)] register_dir(2)[OF t(3)] by (simp_all add: serves_def)
  have "m_SendList tcp3 = []"
    using t(1,4) r(3) by (cases pr) (auto simp: CTCPServer_def CTCPBase_def CTCPServer_Init_def InitBase_def CBaseObject_AddRef_def
        bind_Some_iff)
  moreover have c: "new_id (dir_of s) = Some i" "serves ?s s3 (dir_accept new (dir_of s)) []"
    using CreateTCPID_dir[OF t(5)] r(1) by simp_all
  moreover have "m_dwUDPPort s3 = udp_port (dir_of s)"
    using c by (auto simp: serves_def dir_of_def dir_accept_def)
  moreover have "serves ?s s' (dir_accept new (dir_of s)) [(new, CreateTCPInitPkt i (m_dwUDPPort s3))]"
    using serves_end[OF serves_then[OF c(2) tcp_serves(1)[OF t(6)]] tcp_serves(3)[OF t(7)]] by simp
  ultimately show ?thesis using queued_new[where h = "tcps s" and new = new and tcp = tcp3, OF new] r(2) by (simp add: serves_def)
qed

section \<open>The refinement\<close>

lemma RecvProc_exit_dir:
  assumes inv: "server_inv k \<sigma>" and a: "a \<in> recv_thr \<sigma>" and run: "RecvProc_exit a (srv \<sigma>) = Some s'"
  shows "serves (srv \<sigma>) s' (dir_of (srv \<sigma>)\<lparr>users := filter (\<lambda>(i, b). b \<noteq> a) (users (dir_of (srv \<sigma>))),
    sessions := dir_leave a (sessions (dir_of (srv \<sigma>)))\<rparr>) (leave_sends a (sessions (dir_of (srv \<sigma>))))"
proof -
  define s where "s = srv \<sigma>"
  let ?x = "held (recv_thr \<sigma>) (send_thr \<sigma>) s"
  have c: "core (recv_thr \<sigma>) ?x (\<lambda>_. 0) s" and t: "table_ok (recv_thr \<sigma>) s"
    using inv by (simp_all add: server_inv_def s_def)
  have hp: "heap_ok (tcp_good (recv_thr \<sigma>)) (owners s ?x) (tcps s)" using c by (simp add: core_def)
  have "0 < owners s ?x a" using a by (simp add: owners_def held_def thr_refs_def)
  then obtain tcp where tcp: "tcps s a = Some tcp" "tcp_good (recv_thr \<sigma>) a tcp"
    using heap_okD[OF hp] by metis
  then have fn: "m_pfnEndFunc tcp \<noteq> None" using a by (simp add: registered_def tcp_good_def)
  let ?s1 = "CBaseObject_AddRef s"
  obtain s2 s3 s4 tcp' where s2: "EndLoop (m_P2PConnectList ?s1) a ?s1 = Some s2"
    "RemoveTCPID a s2 = Some s3" "server_Release self s3 = Some s4"
    "tcp_Release a (s4\<lparr>tcps := (tcps s4)(a \<mapsto> tcp'\<lparr>m_hStopEvent := True\<rparr>)\<rparr>) = Some s'" "tcps s4 a = Some tcp'"
    using run tcp(1) fn
    by (auto simp: RecvProc_exit_def TCPEndProcessDelegate_def TCPEndProcess_def bind_Some_iff
        server_AddRef_def s_def)
  have s1: "?s1 = s\<lparr>m_lRef := m_lRef s + 1\<rparr>" by (simp add: CBaseObject_AddRef_def)
  then have c1: "core (recv_thr \<sigma>) ?x (\<lambda>_. 0) ?s1" using c by (simp only: core_lRef)
  have d1: "dir_of ?s1 = dir_of s" "tcps ?s1 = tcps s" by (simp_all add: s1)
  have e: "serves s s2 (dir_of s\<lparr>sessions := dir_leave a (sessions (dir_of s))\<rparr>) (leave_sends a (sessions (dir_of s)))"
    using EndLoop_dir[OF c1 _ s2(1), of "[]"] d1 by (simp add: serves_def) (simp add: s1 dir_of_def)
  then have "m_TCPList s2 = m_TCPList s" by (simp add: serves_def dir_of_def)
  then have "table_ok (recv_thr \<sigma>) s2" using t by (simp add: table_ok_def)
  note rm = RemoveTCPID_dir[OF this a s2(2)]
  have w: "serves s4 (s4\<lparr>tcps := (tcps s4)(a \<mapsto> tcp'\<lparr>m_hStopEvent := True\<rparr>)\<rparr>) (dir_of s4) []"
    using s2(5) by (simp add: serves_def sent_write)
  have "serves s2 s' (dir_of s2\<lparr>users := filter (\<lambda>(i, b). b \<noteq> a) (users (dir_of s2))\<rparr>) []"
    by (rule serves_end[OF serves_end[OF serves_end[OF rm server_ref_dir(2)[OF s2(3)]] w] tcp_serves(3)[OF s2(4)]])
  then show ?thesis using e unfolding s_def by (auto simp: serves_def dest: sent_trans)
qed

lemma Received_dir:
  assumes inv: "server_inv k \<sigma>" and k: "k < 268435456" and fresh: "conns (srv \<sigma>) new = None"
    and ok: "packet_ok P" and run: "RecvTCPPacketProcess mem new P (srv \<sigma>) = Some (r, s')"
  shows "serves (srv \<sigma>) s' (dir_packet P (dir_of (srv \<sigma>))) (packet_sends P (dir_of (srv \<sigma>)))"
proof -
  let ?s = "srv \<sigma>" and ?d = "pkt_data P"
  have c: "core (recv_thr \<sigma>) (held (recv_thr \<sigma>) (send_thr \<sigma>) ?s) (\<lambda>_. 0) ?s"
    using inv by (simp add: server_inv_def)
  note pre = c server_inv_tabled[OF inv] server_inv_room[OF inv k]
  obtain t where t: "pkt_type P = Some t" using ok by (auto simp: packet_ok_def)
  have users: "users (dir_of ?s) = m_TCPList ?s" by (simp add: dir_of_def)
  consider "tpt_of t = Some TPT_WAITING" "wait_ok ?d" | "tpt_of t = Some TPT_CONNECT" "keyword_ok ?d"
    | "tpt_of t = Some TPT_P2P_RESULT" "keyword_ok ?d"
    | "tpt_of t = Some TPT_PROXY_REQUEST" "keyword_ok ?d"
    | "tpt_of t \<notin> {Some TPT_WAITING, Some TPT_CONNECT, Some TPT_P2P_RESULT,
         Some TPT_PROXY_REQUEST, Some TPT_DATA_PROXY}"
    using ok t by (cases "tpt_of t"; cases "the (tpt_of t)") (auto simp: packet_ok_def wait_ok_def)
  then show ?thesis
  proof cases
    case 1
    have kw: "keyword_ok ?d" using 1(2) by (simp add: wait_ok_def)
    obtain i where i: "rd_dword 0 ?d = Some i" using rd_keyword[OF kw] by blast
    have "recv_WAITING new ?d ?s = Some s'" using run t 1(1) by (auto simp: RecvTCPPacketProcess_def bind_Some_iff)
    from recv_WAITING_dir[OF pre 1(2) fresh i this] show ?thesis
      by (auto simp: sender_of_def dir_packet_def packet_sends_def t 1(1) i users Let_def split: option.splits if_splits)
  next
    case 2
    obtain i where i: "rd_dword 0 ?d = Some i" using rd_keyword[OF 2(2)] by blast
    have "recv_CONNECT ?d ?s = Some s'" using run t 2(1) by (auto simp: RecvTCPPacketProcess_def bind_Some_iff)
    from recv_CONNECT_dir[OF pre _ i this] 2(2) show ?thesis
      by (simp add: sender_of_def dir_packet_def packet_sends_def keyword_ok_def t 2(1) i users Let_def split: option.splits)
  next
    case 3
    obtain i where i: "rd_dword 0 ?d = Some i" using rd_keyword[OF 3(2)] by blast
    have "recv_P2P_RESULT ?d ?s = Some s'" using run t 3(1) by (auto simp: RecvTCPPacketProcess_def bind_Some_iff)
    from recv_P2P_RESULT_dir[OF pre _ i this] 3(2) show ?thesis
      by (simp add: sender_of_def dir_packet_def packet_sends_def keyword_ok_def t 3(1) i users Let_def split: option.splits)
  next
    case 4
    obtain i where i: "rd_dword 0 ?d = Some i" using rd_keyword[OF 4(2)] by blast
    have "recv_PROXY_REQUEST ?d ?s = Some s'" using run t 4(1) by (auto simp: RecvTCPPacketProcess_def bind_Some_iff)
    from recv_PROXY_REQUEST_dir[OF pre _ i this] 4(2) show ?thesis
      by (simp add: sender_of_def dir_packet_def packet_sends_def keyword_ok_def t 4(1) i users Let_def split: option.splits)
  next
    case 5
    then have "s' = ?s" using run t
      by (cases "tpt_of t"; cases "the (tpt_of t)") (auto simp: RecvTCPPacketProcess_def)
    then show ?thesis using 5 t
      by (cases "tpt_of t"; cases "the (tpt_of t)")
        (auto simp: dir_packet_def packet_sends_def Let_def serves_same split: option.split)
  qed
qed

text \<open>Every step of the server is the step of the directory, with its packets.\<close>

lemma exec_serves:
  assumes inv: "server_inv k \<sigma>" and k: "k < 268435456" and en: "enabled e \<sigma>" and run: "exec e \<sigma> = Some \<sigma>'"
    and old: "\<And>new rawdst rawsrc peer pt sock. e \<noteq> Accepted new rawdst rawsrc peer pt sock"
  shows "serves (srv \<sigma>) (srv \<sigma>') (dir_step e (dir_of (srv \<sigma>))) (dir_packets e (dir_of (srv \<sigma>)))"
proof (cases e)
  case (Received a new P)
  then obtain r s' where s': "RecvTCPPacketProcess (\<lambda>_. []) new P (srv \<sigma>) = Some (r, s')" "srv \<sigma>' = s'"
    using run by (auto simp: exec_def)
  have "conns (srv \<sigma>) new = None" "packet_ok P" using en Received by (simp_all add: enabled_def)
  from Received_dir[OF inv k this s'(1)] show ?thesis
    by (simp add: s'(2) Received dir_step_def dir_packets_def)
next
  case (Datagram p)
  then obtain r s' where s': "RecvUDPPacketProcess p (srv \<sigma>) = Some (r, s')" "srv \<sigma>' = s'"
    using run by (auto simp: exec_def)
  have "core (recv_thr \<sigma>) (held (recv_thr \<sigma>) (send_thr \<sigma>) (srv \<sigma>)) (\<lambda>_. 0) (srv \<sigma>)"
    using inv by (simp add: server_inv_def)
  from RecvUDPPacketProcess_dir[OF this _ s'(1)] en Datagram show ?thesis
    by (simp add: s'(2) enabled_def dir_step_def dir_packets_def)
next
  case (RecvEnds a)
  then obtain s' where s': "RecvProc_exit a (srv \<sigma>) = Some s'" "srv \<sigma>' = s'"
    using run by (auto simp: exec_def)
  have "a \<in> recv_thr \<sigma>" using en RecvEnds by (simp add: enabled_def)
  from RecvProc_exit_dir[OF inv this s'(1)] show ?thesis
    by (simp add: s'(2) RecvEnds dir_step_def dir_packets_def)
next
  case (SendEnds a)
  then obtain s' where s': "tcp_Release a (srv \<sigma>) = Some s'" "srv \<sigma>' = s'"
    using run by (auto simp: exec_def SendProc_exit_def)
  from tcp_serves(3)[OF s'(1)] show ?thesis
    by (simp add: s'(2) SendEnds dir_step_def dir_packets_def)
qed (use old in blast)

lemma exec_refines:
  assumes inv: "server_inv k \<sigma>" and k: "k < 268435456" and en: "enabled e \<sigma>" and run: "exec e \<sigma> = Some \<sigma>'"
  shows "dir_of (srv \<sigma>') = dir_step e (dir_of (srv \<sigma>))
    \<and> queued (dir_packets e (dir_of (srv \<sigma>))) (tcps (srv \<sigma>)) (tcps (srv \<sigma>'))"
proof (cases "\<exists>new rawdst rawsrc peer pt sock. e = Accepted new rawdst rawsrc peer pt sock")
  case True
  then show ?thesis using run en AcceptTCPSocketProcess_dir
    by (fastforce simp: exec_def enabled_def dir_step_def dir_packets_def)
next
  case False
  then show ?thesis using exec_serves[OF assms] by (simp add: serves_def queued_sent)
qed

end
