(* ===== verification/ServerContract.thy ===== *)
theory ServerContract
  imports ServerRefinement
begin

text \<open>
  The contract of the server: in every reachable state each event does to the server what
  \<open>dir_step\<close> does to the directory, and the packets \<open>dir_packets\<close> are queued. As a consequence the
  handshake of a host and a guest runs to its end on the whole server, whatever other sessions and
  connections there are, and each of the two is sent the packets of a handshake and no others; and
  a registered keyword is found until its host leaves or registers again.
\<close>

section \<open>The refinement\<close>

text \<open>
  C2: the server implements the directory of keywords. In every reachable state, every event
  that can happen is processed, and the directory that the tables and objects of the server
  represent afterwards is the one that the specification \<open>dir_step\<close> gives for the event: a new
  keyword is entered for its host and a taken one changes nothing, a guest joins a session that
  waits for one, datagrams and reports drive the state of the one session with their keyword, the
  end of a connection takes its id and its session away, and everything else stays as it was.
  On each connection that is alive afterwards exactly the packets that \<open>dir_packets\<close> gives for the
  event have been queued, in this order: the answers to the sender, errors included, and what
  the members of the session are told.
\<close>

theorem server_refines_directory:
  assumes "reach k \<sigma>" and "k < 268435456" and "enabled e \<sigma>"
  shows "\<exists>\<sigma>'. exec e \<sigma> = Some \<sigma>' \<and> reach (Suc k) \<sigma>' \<and> dir_of (srv \<sigma>') = dir_step e (dir_of (srv \<sigma>))
    \<and> (\<forall>a. tcps (srv \<sigma>') a \<noteq> None \<longrightarrow>
         outbox (tcps (srv \<sigma>')) a = outbox (tcps (srv \<sigma>)) a @ packets_to a (dir_packets e (dir_of (srv \<sigma>))))"
proof -
  have inv: "server_inv k \<sigma>" using assms(1,2) by (simp add: reach_inv)
  from exec_inv[OF this assms(2,3)] obtain \<sigma>' where "exec e \<sigma> = Some \<sigma>'" by blast
  then show ?thesis
    using reach_event[OF assms(1,3)] exec_refines[OF inv assms(2,3)] unfolding queued_def by blast
qed

theorem server_refines_directory_witness:
  "case run demo_run boot of None \<Rightarrow> False | Some \<sigma> \<Rightarrow>
     (case exec (RecvEnds 1) \<sigma> of None \<Rightarrow> False | Some \<sigma>' \<Rightarrow>
        dir_of (srv \<sigma>') = dir_step (RecvEnds 1) (dir_of (srv \<sigma>))
        \<and> (tcps (srv \<sigma>') 2 \<noteq> None \<longrightarrow> outbox (tcps (srv \<sigma>')) 2 = outbox (tcps (srv \<sigma>)) 2
             @ packets_to 2 (dir_packets (RecvEnds 1) (dir_of (srv \<sigma>)))))"
proof -
  obtain \<sigma> where \<sigma>: "run demo_run boot = Some \<sigma>" "reach 4 \<sigma>" "enabled (RecvEnds 1) \<sigma>"
    by (rule demo_reach)
  have "(4 :: nat) < 268435456" by simp
  from server_refines_directory[OF \<sigma>(2) this \<sigma>(3)] \<sigma>(1) show ?thesis by auto
qed

section \<open>A whole handshake\<close>

text \<open>A packet and a datagram with a keyword.\<close>

definition packet_for :: "TCPBASE_PACKET_TYPE \<Rightarrow> DWORD \<Rightarrow> BYTE list \<Rightarrow> BYTE list \<Rightarrow> bool" where
  "packet_for t i kw P \<longleftrightarrow> pkt_type P = Some (tpt_num t) \<and> wait_ok (pkt_data P)
     \<and> rd_dword 0 (pkt_data P) = Some i \<and> cstr (keyword_at (pkt_data P)) = kw"

definition datagram_for :: "UDPBASE_PACKET_TYPE \<Rightarrow> BYTE list \<Rightarrow> UDP_PACKET \<Rightarrow> bool" where
  "datagram_for t kw p \<longleftrightarrow> udp_type (BasePacket p) = upt_num t
     \<and> nul_terminated (keyword_at (udp_data (BasePacket p)))
     \<and> cstr (keyword_at (udp_data (BasePacket p))) = kw"

lemma packet_forD:
  "packet_for t i kw P \<Longrightarrow> Option.bind (pkt_type P) tpt_of = Some t \<and> wait_ok (pkt_data P)
     \<and> rd_dword 0 (pkt_data P) = Some i \<and> cstr (keyword_at (pkt_data P)) = kw"
  by (simp only: packet_for_def Option.bind.simps tpt_of_num)

lemma datagram_forD:
  "datagram_for t kw p \<Longrightarrow> upt_of (udp_type (BasePacket p)) = Some t
     \<and> cstr (keyword_at (udp_data (BasePacket p))) = kw"
  by (simp only: datagram_for_def upt_of_num)

text \<open>A step of a connection in the table: an address for \<open>new\<close> is always free.\<close>

lemma packet_step:
  assumes r: "reach k \<sigma>" and k: "k < 268435456" and i: "map_find i (users (dir_of (srv \<sigma>))) = Some a"
    and p: "packet_for t i kw P" and t: "t \<in> {TPT_WAITING, TPT_CONNECT, TPT_P2P_RESULT}"
  obtains new \<sigma>' where "enabled (Received a new P) \<sigma>" and "exec (Received a new P) \<sigma> = Some \<sigma>'"
    and "reach (Suc k) \<sigma>'" and "serves (srv \<sigma>) (srv \<sigma>') (dir_packet P (dir_of (srv \<sigma>))) (packet_sends P (dir_of (srv \<sigma>)))"
proof -
  have inv: "server_inv k \<sigma>" using r k by (simp add: reach_inv)
  then have "finite (dom (conns (srv \<sigma>)))" by (simp add: server_inv_def core_def)
  then obtain new where "new \<notin> dom (conns (srv \<sigma>))"
    using ex_new_if_finite[OF infinite_UNIV_nat] by blast
  moreover have "a \<in> recv_thr \<sigma>"
    using inv i map_find_in[of "m_TCPList (srv \<sigma>)" i a] by (force simp: server_inv_def table_ok_def dir_of_def)
  moreover have "packet_ok P"
    using packet_forD[OF p] p t by (auto simp: packet_for_def packet_ok_def wait_ok_def)
  ultimately have en: "enabled (Received a new P) \<sigma>" by (auto simp: enabled_def)
  from exec_inv[OF inv k this] obtain \<sigma>' where x: "exec (Received a new P) \<sigma> = Some \<sigma>'" by blast
  show thesis
    using that[OF en x reach_event[OF r en x]] exec_serves[OF inv k en x] by (simp add: dir_step_def dir_packets_def)
qed

lemma datagram_step:
  assumes r: "reach k \<sigma>" and k: "k < 268435456" and p: "datagram_for t kw p"
  obtains \<sigma>' where "enabled (Datagram p) \<sigma>" and "exec (Datagram p) \<sigma> = Some \<sigma>'"
    and "reach (Suc k) \<sigma>'" and "serves (srv \<sigma>) (srv \<sigma>') (dir_datagram p (dir_of (srv \<sigma>))) (datagram_sends p (dir_of (srv \<sigma>)))"
proof -
  have inv: "server_inv k \<sigma>" using r k by (simp add: reach_inv)
  have en: "enabled (Datagram p) \<sigma>" using p by (simp add: enabled_def datagram_for_def)
  from exec_inv[OF inv k this] obtain \<sigma>' where x: "exec (Datagram p) \<sigma> = Some \<sigma>'" by blast
  show thesis
    using that[OF en x reach_event[OF r en x]] exec_serves[OF inv k en x] by (simp add: dir_step_def dir_packets_def)
qed

text \<open>What the packets and datagrams do to the one session with the keyword, and what is sent.\<close>

lemma dir_packet_for:
  assumes p: "packet_for t i kw P" and u: "map_find i (users d) = Some a"
    and s: "sessions d = map_put k e m" "kw_free kw m" "d_kw e = kw"
  shows "t = TPT_CONNECT \<Longrightarrow> dir_packet P d = d\<lparr>sessions := map_put k (dir_join a i e) m\<rparr>
      \<and> packet_sends P d = answered a (\<lambda>r. CreateTCPResultPkt TPT_CONNECT_RESULT i (err_num r)) (join_sends a i) (Some e)"
    and "t = TPT_P2P_RESULT \<Longrightarrow> dir_packet P d = d\<lparr>sessions := map_put k (dir_report a e) m\<rparr>
      \<and> packet_sends P d = snd (report_sends a e)"
  using packet_forD[OF p] u s
  by (simp_all add: sender_of_def dir_packet_def packet_sends_def dir_at_def unanswered_def Let_def)

lemma dir_packet_new:
  assumes "packet_for TPT_WAITING i kw P" and "map_find i (users d) = Some a" and "kw_free kw (sessions d)"
  shows "dir_packet P d = d\<lparr>sessions := map_put i (dir_new (keyword_at (pkt_data P)) i a) (sessions d)\<rparr>
    \<and> packet_sends P d = [(a, CreateTCPResultPkt TPT_WAIT_RESULT i (err_num P2P_ERROR_NONE))]"
  using packet_forD[OF assms(1)] assms(2,3) by (simp add: sender_of_def dir_packet_def packet_sends_def Let_def)

lemma dir_datagram_for:
  assumes p: "datagram_for t kw p" and s: "sessions d = map_put k e m" "kw_free kw m" "d_kw e = kw"
  shows "t = UPT_WAITING \<Longrightarrow> dir_datagram p d = d\<lparr>sessions := map_put k (dir_host_udp (PacketInfo p) e) m\<rparr>
      \<and> datagram_sends p d = snd (host_udp_sends e)"
    and "t = UPT_CONNECT \<Longrightarrow> dir_datagram p d = d\<lparr>sessions := map_put k (dir_guest_udp e) m\<rparr>
      \<and> datagram_sends p d = snd (guest_udp_sends (PacketInfo p) e)"
  using datagram_forD[OF p] s
  by (simp_all add: dir_datagram_def datagram_sends_def dir_at_def unanswered_def Let_def)

text \<open>A connection in the table is alive.\<close>

lemma user_alive:
  assumes "reach k \<sigma>" and "k \<le> 268435456" and "map_find i (users (dir_of (srv \<sigma>))) = Some a"
  shows "tcps (srv \<sigma>) a \<noteq> None"
proof -
  let ?x = "held (recv_thr \<sigma>) (send_thr \<sigma>) (srv \<sigma>)"
  have c: "core (recv_thr \<sigma>) ?x (\<lambda>_. 0) (srv \<sigma>)"
    and t: "map_ok (m_TCPList (srv \<sigma>))"
    using reach_inv[OF assms(1,2)] by (simp_all add: server_inv_def table_ok_def)
  then have h: "heap_ok (tcp_good (recv_thr \<sigma>)) (owners (srv \<sigma>) ?x) (tcps (srv \<sigma>))" by (simp add: core_def)
  have "(i, a) \<in> set (m_TCPList (srv \<sigma>))" using map_find_in[OF t] assms(3) by (simp add: dir_of_def)
  then have "0 < owners (srv \<sigma>) ?x a" by (force simp: owners_def held_def tab_refs_def)
  from heap_okD[OF h this] show ?thesis by auto
qed

text \<open>The packets of a handshake, with the connection that each is queued on.\<close>

definition handshake_sends :: "addr \<Rightarrow> addr \<Rightarrow> DWORD \<Rightarrow> DWORD \<Rightarrow> BYTE list \<Rightarrow> CLIENT_INFO \<Rightarrow> CLIENT_INFO \<Rightarrow>
    (addr \<times> BYTE list) list" where
  "handshake_sends a b i j kw hi gi =
     [(a, CreateTCPResultPkt TPT_WAIT_RESULT i (err_num P2P_ERROR_NONE)),
      (b, CreateTCPResultPkt TPT_CONNECT_RESULT j 0), (a, start_udp i kw), (b, start_udp j kw),
      (a, CreateTCPStartPunchingPkt i i gi), (b, CreateTCPStartPunchingPkt j i hi),
      (a, success i kw), (b, success j kw)]"

lemma handshake_run:
  assumes "reach k \<sigma>" and "k + 6 \<le> 268435456" and "dir_of (srv \<sigma>) = d" and "kw_free kw (sessions d)"
    and "map_find i (users d) = Some a" and "map_find j (users d) = Some b" and "a \<noteq> b"
    and "packet_for TPT_WAITING i kw W" and "packet_for TPT_CONNECT j kw C"
    and "datagram_for UPT_WAITING kw hu" and "datagram_for UPT_CONNECT kw gu"
    and "packet_for TPT_P2P_RESULT i kw R" and "packet_for TPT_P2P_RESULT j kw Q"
  shows "\<exists>n1 n2 n3 n4 \<sigma>'. run [Received a n1 W, Received b n2 C, Datagram hu, Datagram gu,
       Received a n3 R, Received b n4 Q] \<sigma> = Some \<sigma>' \<and> reach (k + 6) \<sigma>'
     \<and> dir_of (srv \<sigma>') = d\<lparr>sessions := map_put i \<lparr>d_keyword = keyword_at (pkt_data W),
           d_host = Some a, d_hostid = i, d_guest = Some b, d_guestid = j, d_hostinfo = PacketInfo hu,
           d_state = P2P_CONNECTED, d_hostOK = True, d_guestOK = True\<rparr> (sessions d)\<rparr>
     \<and> tcps (srv \<sigma>') a \<noteq> None \<and> tcps (srv \<sigma>') b \<noteq> None
     \<and> sent (handshake_sends a b i j (keyword_at (pkt_data W)) (PacketInfo hu) (PacketInfo gu)) (tcps (srv \<sigma>)) (tcps (srv \<sigma>'))"
proof -
  let ?m = "sessions d" and ?set = "\<lambda>e. d\<lparr>sessions := map_put i e (sessions d)\<rparr>"
  let ?kw = "keyword_at (pkt_data W)"
  let ?e1 = "dir_new ?kw i a" let ?e2 = "dir_join b j ?e1" let ?e3 = "dir_host_udp (PacketInfo hu) ?e2"
  let ?e4 = "dir_guest_udp ?e3" let ?e5 = "dir_report a ?e4" let ?e6 = "dir_report b ?e5"
  have w: "cstr ?kw = kw" using assms(8) by (simp add: packet_for_def)
  note e_defs = dir_new_def dir_join_def dir_host_udp_def dir_guest_udp_def dir_report_def
  have kw: "d_kw ?e1 = kw" "d_kw ?e2 = kw" "d_kw ?e3 = kw" "d_kw ?e4 = kw" "d_kw ?e5 = kw"
    and e6: "?e6 = \<lparr>d_keyword = ?kw, d_host = Some a, d_hostid = i, d_guest = Some b, d_guestid = j,
       d_hostinfo = PacketInfo hu, d_state = P2P_CONNECTED, d_hostOK = True, d_guestOK = True\<rparr>"
    using assms(7) w by (simp_all add: e_defs)
  note outs = answered_def join_sends_def host_udp_sends_def guest_udp_sends_def report_sends_def
    packet_via_def e_defs
  obtain n1 s1 where 1: "enabled (Received a n1 W) \<sigma>" "exec (Received a n1 W) \<sigma> = Some s1"
    "reach (Suc k) s1" "serves (srv \<sigma>) (srv s1) (?set ?e1) [(a, CreateTCPResultPkt TPT_WAIT_RESULT i (err_num P2P_ERROR_NONE))]"
    by (rule packet_step[OF assms(1) _ _ assms(8)])
      (use assms dir_packet_new[OF assms(8), of d a] in simp_all)
  have d1: "dir_of (srv s1) = ?set ?e1" using 1(4) by (simp add: serves_def)
  obtain n2 s2 where 2: "enabled (Received b n2 C) s1" "exec (Received b n2 C) s1 = Some s2"
    "reach (Suc (Suc k)) s2" "serves (srv s1) (srv s2) (?set ?e2) [(b, CreateTCPResultPkt TPT_CONNECT_RESULT j 0), (a, start_udp i ?kw)]"
    by (rule packet_step[OF 1(3) _ _ assms(9)])
      (use assms d1 kw dir_packet_for(1)[OF assms(9), of "?set ?e1" b i ?e1 ?m] in \<open>simp_all add: outs\<close>)
  have d2: "dir_of (srv s2) = ?set ?e2" using 2(4) by (simp add: serves_def)
  obtain s3 where 3: "enabled (Datagram hu) s2" "exec (Datagram hu) s2 = Some s3"
    "reach (Suc (Suc (Suc k))) s3" "serves (srv s2) (srv s3) (?set ?e3) [(b, start_udp j ?kw)]"
    by (rule datagram_step[OF 2(3) _ assms(10)])
      (use assms d2 kw dir_datagram_for(1)[OF assms(10), of "?set ?e2" i ?e2 ?m] in \<open>simp_all add: outs\<close>)
  have d3: "dir_of (srv s3) = ?set ?e3" using 3(4) by (simp add: serves_def)
  obtain s4 where 4: "enabled (Datagram gu) s3" "exec (Datagram gu) s3 = Some s4"
    "reach (Suc (Suc (Suc (Suc k)))) s4" "serves (srv s3) (srv s4) (?set ?e4)
      [(a, CreateTCPStartPunchingPkt i i (PacketInfo gu)), (b, CreateTCPStartPunchingPkt j i (PacketInfo hu))]"
    by (rule datagram_step[OF 3(3) _ assms(11)])
      (use assms d3 kw dir_datagram_for(2)[OF assms(11), of "?set ?e3" i ?e3 ?m] in \<open>simp_all add: outs\<close>)
  have d4: "dir_of (srv s4) = ?set ?e4" using 4(4) by (simp add: serves_def)
  obtain n5 s5 where 5: "enabled (Received a n5 R) s4" "exec (Received a n5 R) s4 = Some s5"
    "reach (Suc (Suc (Suc (Suc (Suc k))))) s5" "serves (srv s4) (srv s5) (?set ?e5) []"
    by (rule packet_step[OF 4(3) _ _ assms(12)])
      (use assms d4 kw dir_packet_for(2)[OF assms(12), of "?set ?e4" a i ?e4 ?m] in \<open>simp_all add: outs\<close>)
  have d5: "dir_of (srv s5) = ?set ?e5" using 5(4) by (simp add: serves_def)
  obtain n6 s6 where 6: "enabled (Received b n6 Q) s5" "exec (Received b n6 Q) s5 = Some s6"
    "reach (Suc (Suc (Suc (Suc (Suc (Suc k)))))) s6" "serves (srv s5) (srv s6) (?set ?e6) [(a, success i ?kw), (b, success j ?kw)]"
    by (rule packet_step[OF 5(3) _ _ assms(13)])
      (use assms d5 kw dir_packet_for(2)[OF assms(13), of "?set ?e5" b i ?e5 ?m] in \<open>simp_all add: outs\<close>)
  note chain = sent_trans[OF 1(4)[THEN serves_sent] sent_trans[OF 2(4)[THEN serves_sent]
    sent_trans[OF 3(4)[THEN serves_sent] sent_trans[OF 4(4)[THEN serves_sent]
    sent_trans[OF 5(4)[THEN serves_sent] 6(4)[THEN serves_sent]]]]]]
  have "sent (handshake_sends a b i j ?kw (PacketInfo hu) (PacketInfo gu)) (tcps (srv \<sigma>)) (tcps (srv s6))"
    using chain by (simp add: handshake_sends_def)
  moreover have "run [Received a n1 W, Received b n2 C, Datagram hu, Datagram gu, Received a n5 R,
      Received b n6 Q] \<sigma> = Some s6"
    using 1 2 3 4 5 6 by simp
  moreover have r: "reach (k + 6) s6" using 6(3) by (simp add: eval_nat_numeral)
  moreover have "tcps (srv s6) a \<noteq> None" "tcps (srv s6) b \<noteq> None"
    using user_alive[OF r assms(2)] 6(4) assms(5,6) unfolding serves_def by simp_all
  ultimately show ?thesis using 6(4) unfolding serves_def e6 by blast
qed

lemma sess_of_ok: "map_ok (sess_of cs m) = map_ok m"
  by (simp add: map_ok_def sess_of_def case_prod_unfold comp_def)

lemma reach_sessions_ok: "reach k \<sigma> \<Longrightarrow> k \<le> 268435456 \<Longrightarrow> map_ok (sessions (dir_of (srv \<sigma>)))"
  using reach_inv[of k \<sigma>] by (simp add: dir_of_def sess_of_ok server_inv_def core_def)

text \<open>
  C9: a handshake runs to its end on the whole server. From every reachable state, for two
  connections in the table and a keyword that no session has, the six events of a handshake (the
  registration, the request of the guest, the two datagrams, the two reports) can be processed
  one after the other. Afterwards the session table has under the id of the host the session with
  both connections, both reports and the state \<open>P2P_CONNECTED\<close>, and under every other id what it
  had: one session more if the host had none, and the same number if it had one under another
  keyword, which is then replaced. Both connections are alive, and on them exactly the packets of a
  handshake have been queued: for the host the answer to its registration, the start of the
  datagrams, the address the guest's datagram came from, and success; for the guest the answer to
  its request, the start, the host's address, and success. No other connection has been sent
  anything.
\<close>

theorem server_completes_handshake:
  assumes "reach k \<sigma>" and "k + 6 \<le> 268435456" and "dir_of (srv \<sigma>) = d" and "kw_free kw (sessions d)"
    and "map_find i (users d) = Some a" and "map_find j (users d) = Some b" and "a \<noteq> b"
    and "packet_for TPT_WAITING i kw W" and "packet_for TPT_CONNECT j kw C"
    and "datagram_for UPT_WAITING kw hu" and "datagram_for UPT_CONNECT kw gu"
    and "packet_for TPT_P2P_RESULT i kw R" and "packet_for TPT_P2P_RESULT j kw Q"
  shows "\<exists>n1 n2 n3 n4 \<sigma>'. run [Received a n1 W, Received b n2 C, Datagram hu, Datagram gu,
       Received a n3 R, Received b n4 Q] \<sigma> = Some \<sigma>'
     \<and> dir_of (srv \<sigma>') = d\<lparr>sessions := map_put i \<lparr>d_keyword = keyword_at (pkt_data W),
           d_host = Some a, d_hostid = i, d_guest = Some b, d_guestid = j, d_hostinfo = PacketInfo hu,
           d_state = P2P_CONNECTED, d_hostOK = True, d_guestOK = True\<rparr> (sessions d)\<rparr>
     \<and> length (sessions (dir_of (srv \<sigma>')))
         = (if map_find i (sessions d) = None then Suc (length (sessions d)) else length (sessions d))
     \<and> (\<forall>l. l \<noteq> i \<longrightarrow> map_find l (sessions (dir_of (srv \<sigma>'))) = map_find l (sessions d))
     \<and> tcps (srv \<sigma>') a \<noteq> None \<and> tcps (srv \<sigma>') b \<noteq> None
     \<and> (\<forall>c. tcps (srv \<sigma>') c \<noteq> None \<longrightarrow> outbox (tcps (srv \<sigma>')) c = outbox (tcps (srv \<sigma>)) c
          @ packets_to c (handshake_sends a b i j (keyword_at (pkt_data W)) (PacketInfo hu) (PacketInfo gu)))"
proof -
  have m: "map_ok (sessions d)" using reach_sessions_ok[OF assms(1)] assms(2,3) by auto
  have "length (map_put i e (sessions d)) = (if map_find i (sessions d) = None
      then Suc (length (sessions d)) else length (sessions d))" for e
    using smap.size_put_free[OF m, of i e] smap.size_put_known[OF m, of i e] by simp
  moreover have "map_find l (map_put i e (sessions d)) = map_find l (sessions d)" if "l \<noteq> i" for e l
    using that by (simp add: map_find_put[OF m])
  moreover note handshake_run[OF assms]
  ultimately show ?thesis unfolding sent_def by (elim exE conjE) (intro exI conjI, assumption+, simp_all)
qed

definition demo_datagram :: "UDPBASE_PACKET_TYPE \<Rightarrow> UDP_PACKET" where
  "demo_datagram t = \<lparr>BasePacket = \<lparr>udp_type = upt_num t, udp_length = 68,
     udp_data = dword_bytes 0 @ demo_keyword @ replicate 211 0, checksum = 0\<rparr>,
     PacketInfo = zero_CLIENT_INFO\<rparr>"

definition demo_entry :: dir_session where
  "demo_entry = \<lparr>d_keyword = demo_keyword, d_host = Some 1, d_hostid = 1, d_guest = Some 2, d_guestid = 2,
     d_hostinfo = zero_CLIENT_INFO, d_state = P2P_CONNECTED, d_hostOK = True, d_guestOK = True\<rparr>"

lemma demo_two:
  obtains \<sigma> where "run [demo_accept 1, demo_accept 2] boot = Some \<sigma>" and "reach 2 \<sigma>"
    and "sessions (dir_of (srv \<sigma>)) = []" and "map_find 1 (users (dir_of (srv \<sigma>))) = Some 1"
    and "map_find 2 (users (dir_of (srv \<sigma>))) = Some 2"
proof -
  let ?r = "run [demo_accept 1, demo_accept 2] boot"
  have "case ?r of None \<Rightarrow> False | Some \<sigma> \<Rightarrow> sessions (dir_of (srv \<sigma>)) = []
      \<and> map_find 1 (users (dir_of (srv \<sigma>))) = Some 1 \<and> map_find 2 (users (dir_of (srv \<sigma>))) = Some 2"
    by code_simp
  then obtain \<sigma> where \<sigma>: "?r = Some \<sigma>" "sessions (dir_of (srv \<sigma>)) = []"
    "map_find 1 (users (dir_of (srv \<sigma>))) = Some 1" "map_find 2 (users (dir_of (srv \<sigma>))) = Some 2"
    by (cases ?r) simp_all
  have "reach (0 + length [demo_accept 1, demo_accept 2]) \<sigma>" by (rule reach_run[OF reach_boot \<sigma>(1)])
  then have r: "reach 2 \<sigma>" by (simp add: numeral_2_eq_2)
  with \<sigma> show thesis using that by simp
qed

theorem server_completes_handshake_witness:
  "case run [demo_accept 1, demo_accept 2] boot of None \<Rightarrow> False | Some \<sigma> \<Rightarrow>
     \<exists>n1 n2 n3 n4 \<sigma>'. run [Received 1 n1 (demo_packet TPT_WAITING 1),
        Received 2 n2 (demo_packet TPT_CONNECT 2), Datagram (demo_datagram UPT_WAITING),
        Datagram (demo_datagram UPT_CONNECT), Received 1 n3 (demo_packet TPT_P2P_RESULT 1),
        Received 2 n4 (demo_packet TPT_P2P_RESULT 2)] \<sigma> = Some \<sigma>'
      \<and> sessions (dir_of (srv \<sigma>')) = [(1, demo_entry)]
      \<and> outbox (tcps (srv \<sigma>')) 2 = outbox (tcps (srv \<sigma>)) 2 @ [CreateTCPResultPkt TPT_CONNECT_RESULT 2 0,
           start_udp 2 demo_keyword, CreateTCPStartPunchingPkt 2 1 zero_CLIENT_INFO, success 2 demo_keyword]"
proof -
  obtain \<sigma> where \<sigma>: "run [demo_accept 1, demo_accept 2] boot = Some \<sigma>" and r: "reach 2 \<sigma>"
    and d: "sessions (dir_of (srv \<sigma>)) = []" "map_find 1 (users (dir_of (srv \<sigma>))) = Some 1"
      "map_find 2 (users (dir_of (srv \<sigma>))) = Some 2" by (rule demo_two)
  have p: "packet_for TPT_WAITING 1 [55] (demo_packet TPT_WAITING 1)"
    "packet_for TPT_CONNECT 2 [55] (demo_packet TPT_CONNECT 2)"
    "packet_for TPT_P2P_RESULT 1 [55] (demo_packet TPT_P2P_RESULT 1)"
    "packet_for TPT_P2P_RESULT 2 [55] (demo_packet TPT_P2P_RESULT 2)"
    "datagram_for UPT_WAITING [55] (demo_datagram UPT_WAITING)"
    "datagram_for UPT_CONNECT [55] (demo_datagram UPT_CONNECT)"
    by code_simp+
  have k: "2 + 6 \<le> (268435456 :: nat)" "kw_free [55] (sessions (dir_of (srv \<sigma>)))" "(1 :: addr) \<noteq> 2"
    using d(1) by simp_all
  have kw: "keyword_at (pkt_data (demo_packet TPT_WAITING 1)) = demo_keyword" by code_simp
  have info: "PacketInfo (demo_datagram t) = zero_CLIENT_INFO" for t by (simp add: demo_datagram_def)
  obtain n1 n2 n3 n4 \<sigma>' where e: "run [Received 1 n1 (demo_packet TPT_WAITING 1),
        Received 2 n2 (demo_packet TPT_CONNECT 2), Datagram (demo_datagram UPT_WAITING),
        Datagram (demo_datagram UPT_CONNECT), Received 1 n3 (demo_packet TPT_P2P_RESULT 1),
        Received 2 n4 (demo_packet TPT_P2P_RESULT 2)] \<sigma> = Some \<sigma>'"
    "dir_of (srv \<sigma>') = dir_of (srv \<sigma>)\<lparr>sessions := map_put 1 demo_entry (sessions (dir_of (srv \<sigma>)))\<rparr>"
    "tcps (srv \<sigma>') 2 \<noteq> None" "\<forall>c. tcps (srv \<sigma>') c \<noteq> None \<longrightarrow> outbox (tcps (srv \<sigma>')) c = outbox (tcps (srv \<sigma>)) c
          @ packets_to c (handshake_sends 1 2 1 2 demo_keyword zero_CLIENT_INFO zero_CLIENT_INFO)"
    using server_completes_handshake[OF r k(1) refl k(2) d(2,3) k(3) p(1,2,5,6,3,4)]
    unfolding kw info demo_entry_def by blast
  have "sessions (dir_of (srv \<sigma>')) = [(1, demo_entry)]" using e(2) d(1) by simp
  moreover have "outbox (tcps (srv \<sigma>')) 2 = outbox (tcps (srv \<sigma>)) 2 @ [CreateTCPResultPkt TPT_CONNECT_RESULT 2 0,
      start_udp 2 demo_keyword, CreateTCPStartPunchingPkt 2 1 zero_CLIENT_INFO, success 2 demo_keyword]"
    using e(4)[rule_format, OF e(3)] by (simp add: handshake_sends_def)
  ultimately show ?thesis unfolding \<sigma> option.case using e(1) by blast
qed

section \<open>A registered keyword stays\<close>

text \<open>The events that can take the session of host \<open>a\<close> with id \<open>i\<close> out of the table: the end of the
  host's connection and a registration under its id. All others spare it.\<close>

fun spares :: "addr \<Rightarrow> DWORD \<Rightarrow> server_event \<Rightarrow> bool" where
  "spares a i (RecvEnds b) \<longleftrightarrow> b \<noteq> a"
| "spares a i (Received b new P) \<longleftrightarrow>
     Option.bind (pkt_type P) tpt_of \<noteq> Some TPT_WAITING \<or> rd_dword 0 (pkt_data P) \<noteq> Some i"
| "spares a i e \<longleftrightarrow> True"

definition hosts :: "addr \<Rightarrow> DWORD \<Rightarrow> BYTE list \<Rightarrow> directory \<Rightarrow> bool" where
  "hosts a i kw d \<longleftrightarrow> (\<exists>e. map_find i (sessions d) = Some e \<and> d_keyword e = kw \<and> d_host e = Some a)"

lemma map_find_at_kw:
  "map_find i (at_kw kw f m) = map_option (\<lambda>e. if d_kw e = kw then f e else e) (map_find i m)"
  by (induction m) auto

lemma hosts_at_kw:
  assumes "\<And>e. d_keyword (f e) = d_keyword e \<and> d_host (f e) = d_host e"
  shows "hosts a i kw (dir_at kw' f d) = hosts a i kw d"
  using assms by (cases "map_find i (sessions d)") (simp_all add: hosts_def dir_at_def map_find_at_kw)

lemma hosts_leave:
  "map_find i m = Some e \<Longrightarrow> d_host e = Some a \<Longrightarrow> b \<noteq> a \<Longrightarrow>
     \<exists>e'. map_find i (dir_leave b m) = Some e' \<and> d_keyword e' = d_keyword e \<and> d_host e' = Some a"
  by (induction b m rule: dir_leave.induct) (auto simp: dir_reset_def split: if_splits)

lemma hosts_packet:
  assumes ok: "map_ok (sessions d)" and s: "spares a i (Received b new P)" and h: "hosts a i kw d"
  shows "hosts a i kw (dir_packet P d)"
proof (cases "sender_of P d")
  case None
  then show ?thesis using h by (simp add: dir_packet_def)
next
  case (Some jb)
  then obtain j b where j: "sender_of P d = Some (j, b)" "rd_dword 0 (pkt_data P) = Some j"
    by (auto simp: sender_of_def bind_Some_iff)
  show ?thesis
  proof (cases "Option.bind (pkt_type P) tpt_of = Some TPT_WAITING")
    case True
    then have "j \<noteq> i" using s j(2) by simp
    then show ?thesis using True h j(1) by (simp add: dir_packet_def hosts_def map_find_put[OF ok] Let_def)
  next
    case False
    then show ?thesis using h j(1)
      by (auto simp: dir_packet_def Let_def hosts_at_kw dir_join_def dir_report_def
          split: option.split TCPBASE_PACKET_TYPE.split)
  qed
qed

lemma hosts_step:
  assumes "map_ok (sessions d)" and "spares a i e" and "hosts a i kw d"
  shows "hosts a i kw (dir_step e d)"
proof (cases e)
  case (Accepted new rawdst rawsrc peer pt sock)
  then show ?thesis using assms(3) by (simp add: dir_step_def dir_accept_def hosts_def split: option.split)
next
  case (Received b new P)
  then show ?thesis using hosts_packet[OF assms(1) _ assms(3)] assms(2) by (simp add: dir_step_def)
next
  case (Datagram p)
  then show ?thesis using assms(3)
    by (simp add: dir_step_def dir_datagram_def Let_def hosts_at_kw dir_host_udp_def dir_guest_udp_def
        split: option.split UDPBASE_PACKET_TYPE.split)
next
  case (RecvEnds b)
  then show ?thesis using assms(2,3) hosts_leave[of i "sessions d" _ a b]
    by (fastforce simp: dir_step_def hosts_def)
qed (use assms(3) in \<open>simp add: dir_step_def\<close>)

lemma hosts_run:
  assumes "reach k \<sigma>" and "k + length es \<le> 268435456" and "\<forall>e\<in>set es. spares a i e"
    and "hosts a i kw (dir_of (srv \<sigma>))" and "run es \<sigma> = Some \<sigma>'"
  shows "hosts a i kw (dir_of (srv \<sigma>'))"
  using assms
proof (induction es arbitrary: k \<sigma>)
  case (Cons e es)
  then obtain \<sigma>1 where e: "enabled e \<sigma>" "exec e \<sigma> = Some \<sigma>1" "run es \<sigma>1 = Some \<sigma>'"
    by (auto simp: bind_Some_iff split: if_splits)
  have k: "k \<le> 268435456" "k < 268435456" using Cons.prems(2) by simp_all
  have "dir_of (srv \<sigma>1) = dir_step e (dir_of (srv \<sigma>))"
    using exec_refines[OF reach_inv[OF Cons.prems(1) k(1)] k(2) e(1,2)] by blast
  moreover have "hosts a i kw (dir_step e (dir_of (srv \<sigma>)))"
    using Cons.prems(3,4) by (intro hosts_step[OF reach_sessions_ok[OF Cons.prems(1) k(1)]]) simp_all
  ultimately have "hosts a i kw (dir_of (srv \<sigma>1))" by simp
  then show ?case using Cons.IH[OF reach_event[OF Cons.prems(1) e(1,2)]] Cons.prems(2,3) e(3) by simp
qed simp

lemma hosts_entry:
  assumes c: "core R x y s"
  shows "hosts a i kw (dir_of s) \<longleftrightarrow> (\<exists>p c. (i, p) \<in> set (m_P2PConnectList s) \<and> conns s p = Some c
     \<and> m_szKeyword c = kw \<and> m_pMainTCPServer c = Some a)"
proof -
  have ok: "map_ok (m_P2PConnectList s)" using c by (simp add: core_def)
  have "map_find i (sessions (dir_of s)) = map_option (\<lambda>p. view (the (conns s p))) (map_find i (m_P2PConnectList s))"
    by (simp add: dir_of_def sess_of_def map_find_def map_of_map)
  then have "hosts a i kw (dir_of s) \<longleftrightarrow> (\<exists>p. (i, p) \<in> set (m_P2PConnectList s)
      \<and> m_szKeyword (the (conns s p)) = kw \<and> m_pMainTCPServer (the (conns s p)) = Some a)"
    by (auto simp: hosts_def map_find_in[OF ok])
  moreover have "\<exists>c. conns s p = Some c" if "(i, p) \<in> set (m_P2PConnectList s)" for p
    using core_entry[OF c that] by auto
  ultimately show ?thesis by fastforce
qed

text \<open>
  C6: a registered keyword stays registered until its host leaves or registers again. From a
  reachable state with a session in the table, run any sequence of events in which the connection
  of its host does not end and no registration arrives under the host's id: connections come and
  go, guests join and leave, other hosts register and leave, datagrams and reports arrive. Then the
  table still has a session under that id, with the same keyword and the same host, and the search
  for the keyword finds it and takes a reference.
\<close>

theorem registered_keyword_stays:
  assumes "reach k \<sigma>" and "k + length es \<le> 268435456"
    and "(i, p) \<in> set (m_P2PConnectList (srv \<sigma>))" and "conns (srv \<sigma>) p = Some c"
    and "m_pMainTCPServer c = Some a" and "\<forall>e\<in>set es. spares a i e" and "run es \<sigma> = Some \<sigma>'"
  shows "\<exists>q d. (i, q) \<in> set (m_P2PConnectList (srv \<sigma>')) \<and> conns (srv \<sigma>') q = Some d
     \<and> m_szKeyword d = m_szKeyword c \<and> m_pMainTCPServer d = Some a
     \<and> FindP2PConnection (m_szKeyword c) (srv \<sigma>')
       = Some (Some q, (srv \<sigma>')\<lparr>conns := (conns (srv \<sigma>'))(q \<mapsto> d\<lparr>m_lRef := m_lRef d + 1\<rparr>)\<rparr>)"
proof -
  have k: "k \<le> 268435456" using assms(2) by simp
  note c = reach_core(1)[OF assms(1) k] and c' = reach_core(1)[OF reach_run[OF assms(1,7)] assms(2)]
  have kw: "nul_terminated (m_szKeyword c)" using c assms(4) by (auto simp: core_def session_ok_def conn_wf_def)
  have "hosts a i (m_szKeyword c) (dir_of (srv \<sigma>))" using hosts_entry[OF c] assms(3-5) by blast
  then have "hosts a i (m_szKeyword c) (dir_of (srv \<sigma>'))" by (rule hosts_run[OF assms(1,2,6) _ assms(7)])
  then obtain q d where d: "(i, q) \<in> set (m_P2PConnectList (srv \<sigma>'))" "conns (srv \<sigma>') q = Some d"
    "m_szKeyword d = m_szKeyword c" "m_pMainTCPServer d = Some a" using hosts_entry[OF c'] by blast
  have "kw_of (srv \<sigma>') q = Some (cstr (m_szKeyword c))" using d(2,3) by (simp add: kw_of_def)
  from Find_known[OF c' kw d(1) this] d show ?thesis by auto
qed

text \<open>The guest joins and leaves again; the keyword of the host at address 1 stays.\<close>

theorem registered_keyword_stays_witness:
  "\<exists>\<sigma> \<sigma>' q d. run [demo_accept 1, demo_accept 2, Received 1 10 (demo_packet TPT_WAITING 1)] boot = Some \<sigma>
     \<and> run [Received 2 11 (demo_packet TPT_CONNECT 2), RecvEnds 2] \<sigma> = Some \<sigma>'
     \<and> conns (srv \<sigma>') q = Some d \<and> m_pMainTCPServer d = Some 1
     \<and> FindP2PConnection demo_keyword (srv \<sigma>')
       = Some (Some q, (srv \<sigma>')\<lparr>conns := (conns (srv \<sigma>'))(q \<mapsto> d\<lparr>m_lRef := m_lRef d + 1\<rparr>)\<rparr>)"
proof -
  let ?es = "[demo_accept 1, demo_accept 2, Received 1 10 (demo_packet TPT_WAITING 1)]"
  let ?fs = "[Received 2 11 (demo_packet TPT_CONNECT 2), RecvEnds 2]"
  have ok: "case run ?es boot of None \<Rightarrow> False
    | Some \<sigma> \<Rightarrow> m_P2PConnectList (srv \<sigma>) = [(1, 10)]
        \<and> map_option m_pMainTCPServer (conns (srv \<sigma>) 10) = Some (Some 1)
        \<and> map_option m_szKeyword (conns (srv \<sigma>) 10) = Some demo_keyword
        \<and> (case run ?fs \<sigma> of None \<Rightarrow> False | Some \<sigma>' \<Rightarrow> True)" by code_simp
  then obtain \<sigma> where \<sigma>: "run ?es boot = Some \<sigma>" by (cases "run ?es boot") simp_all
  then obtain c \<sigma>' where c: "m_P2PConnectList (srv \<sigma>) = [(1, 10)]" "conns (srv \<sigma>) 10 = Some c"
    "m_pMainTCPServer c = Some 1" "m_szKeyword c = demo_keyword" "run ?fs \<sigma> = Some \<sigma>'"
    using ok by (auto split: option.splits)
  have "reach (0 + length ?es) \<sigma>" by (rule reach_run[OF reach_boot \<sigma>])
  then have r: "reach 3 \<sigma>" by (simp add: numeral_3_eq_3)
  have "Option.bind (pkt_type (demo_packet TPT_CONNECT 2)) tpt_of = Some TPT_CONNECT" by code_simp
  then have "\<forall>e\<in>set ?fs. spares 1 1 e" by simp
  moreover have "(1, 10) \<in> set (m_P2PConnectList (srv \<sigma>))" "3 + length ?fs \<le> 268435456" using c(1) by simp_all
  ultimately obtain q d where "conns (srv \<sigma>') q = Some d" "m_pMainTCPServer d = Some 1"
    "FindP2PConnection (m_szKeyword c) (srv \<sigma>')
       = Some (Some q, (srv \<sigma>')\<lparr>conns := (conns (srv \<sigma>'))(q \<mapsto> d\<lparr>m_lRef := m_lRef d + 1\<rparr>)\<rparr>)"
    using registered_keyword_stays[OF r _ _ c(2,3) _ c(5)] by blast
  then show ?thesis using \<sigma> c(4,5) by (intro exI[of _ \<sigma>] exI[of _ \<sigma>'] exI[of _ q] exI[of _ d] conjI) simp_all
qed

end
