(* ===== verification/SessionProperties.thy ===== *)
theory SessionProperties
  imports P2PServer
begin

text \<open>
  Properties of one session of the rendezvous server: the two success reports, what survives the
  departure of a guest, the use of a session after its host left, and the relay method's
  reference count. \<open>demo_heap\<close> is a concrete heap with two connections.
\<close>

section \<open>A concrete heap\<close>

definition demo_tcp :: "LONG \<Rightarrow> tcpbase" where
  "demo_tcp r = (CTCPBase (Some 5) (replicate 128 0) 0 (replicate 128 0) 5000)\<lparr>m_lRef := r\<rparr>"

definition demo_heap :: tcpheap where
  "demo_heap = (\<lambda>_. None)(1 \<mapsto> demo_tcp 3, 2 \<mapsto> demo_tcp 3)"

definition demo_owners :: "addr \<Rightarrow> nat" where
  "demo_owners = (\<lambda>_. 0)(1 := 3, 2 := 3)"

lemma demo_heap_ok: "heap_ok (tcp_good {}) demo_owners demo_heap"
  by (auto simp: heap_ok_def demo_heap_def demo_owners_def demo_tcp_def tcp_good_def CTCPBase_def)

text \<open>A session of these two in a given state.\<close>

definition demo_session :: "P2P_STATUS \<Rightarrow> bool \<Rightarrow> bool \<Rightarrow> p2pconn" where
  "demo_session st m g = \<lparr>m_lRef = 1, m_szKeyword = 55 # replicate 31 0, m_pMainTCPServer = Some 1,
     m_dwMainTCPID = 1, m_szMainTCPName = replicate 128 0, m_bMainUDPOK = m,
     m_pConnTCPServer = Some 2, m_dwConnTCPID = 2, m_szConnTCPName = replicate 128 0,
     m_bConnUDPOK = g, m_stMainUDPServer = zero_CLIENT_INFO, m_stConnUDPServer = zero_CLIENT_INFO,
     m_eStatus = st\<rparr>"

lemma demo_session_wf:
  "st \<in> {P2P_TCP_CONNECTED, P2P_UDP_LISTENING, P2P_PUNCHING, P2P_CONNECTED} \<Longrightarrow>
     conn_wf (demo_session st m g)"
  by (auto simp: conn_wf_def demo_session_def)

section \<open>The reports of success\<close>

text \<open>A sequence of reports, each by a connection.\<close>

fun report_all :: "addr list \<Rightarrow> p2pconn \<Rightarrow> tcpheap \<Rightarrow> (p2pconn \<times> tcpheap) option" where
  "report_all [] c h = Some (c, h)"
| "report_all (x # xs) c h = do { (r, c, h) \<leftarrow> SetP2POK (Some x) c h; report_all xs c h }"

lemma report_all_connected: "m_eStatus c = P2P_CONNECTED \<Longrightarrow> report_all xs c h = Some (c, h)"
  by (induction xs) (simp_all add: SetP2POK_def)

text \<open>
  C18: a session becomes connected once the reports of both sides are in, and not before. Take a
  well formed session that is punching, with any reports already noted in its two flags, and any
  sequence of further reports by any connections. All of them are processed. If there is at least
  one, and the host is noted or reports and the guest is noted or reports, the session is connected
  and each side has been sent exactly one success packet, however many reports there were.
  Otherwise it still is punching and nothing has been sent. A guest that leaves does not clear the
  flags; the report of anybody then completes the session of its successor, which the case
  of two noted flags covers.
\<close>

theorem SetP2POK_needs_both:
  assumes h: "heap_ok (tcp_good R) n h" and wf: "conn_wf c" and st: "m_eStatus c = P2P_PUNCHING"
    and p: "m_pMainTCPServer c = Some a" "m_pConnTCPServer c = Some b" and n: "0 < n a" "0 < n b"
  shows "\<exists>c' h'. report_all xs c h = Some (c', h') \<and>
    (if xs \<noteq> [] \<and> (m_bMainUDPOK c \<or> a \<in> set xs) \<and> (m_bConnUDPOK c \<or> b \<in> set xs)
     then m_eStatus c' = P2P_CONNECTED \<and>
       (\<exists>pk qk. CreateP2PSuccessPkt (m_dwMainTCPID c) (m_szKeyword c) = Some pk
          \<and> CreateP2PSuccessPkt (m_dwConnTCPID c) (m_szKeyword c) = Some qk
          \<and> outbox h' = (let o1 = (outbox h)(a := outbox h a @ [pk]) in o1(b := o1 b @ [qk])))
     else m_eStatus c' = P2P_PUNCHING \<and> h' = h)"
  using wf st p
proof (induction xs arbitrary: c)
  case (Cons x xs)
  let ?c = "note_ok (Some x) c"
  show ?case
  proof (cases "m_bMainUDPOK ?c \<and> m_bConnUDPOK ?c")
    case True
    then obtain c' h' pk qk where 1: "SetP2POK (Some x) c h = Some (P2P_ERROR_NONE, c', h')"
      "c' = ?c\<lparr>m_eStatus := P2P_CONNECTED\<rparr>"
      "CreateP2PSuccessPkt (m_dwMainTCPID c) (m_szKeyword c) = Some pk"
      "CreateP2PSuccessPkt (m_dwConnTCPID c) (m_szKeyword c) = Some qk"
      "outbox h' = (let o1 = (outbox h)(a := outbox h a @ [pk]) in o1(b := o1 b @ [qk]))"
      using SetP2POK_completes[OF h Cons.prems(1,3) n(1) Cons.prems(4) n(2) Cons.prems(2)] by metis
    then have "report_all (x # xs) c h = Some (c', h')" "m_eStatus c' = P2P_CONNECTED"
      by (simp_all add: report_all_connected)
    moreover have "(m_bMainUDPOK c \<or> a \<in> set (x # xs)) \<and> (m_bConnUDPOK c \<or> b \<in> set (x # xs))"
      using True Cons.prems(3,4) by auto
    ultimately show ?thesis using 1(3-5) by simp
  next
    case False
    have 1: "SetP2POK (Some x) c h = Some (P2P_ERROR_NONE, ?c, h)"
      by (rule SetP2POK_waits[OF h Cons.prems(1,3) n(1) Cons.prems(4) n(2) Cons.prems(2) False])
    have d: "conn_wf ?c" "m_eStatus ?c = P2P_PUNCHING" "m_pMainTCPServer ?c = Some a" "m_pConnTCPServer ?c = Some b"
      using Cons.prems by (simp_all add: conn_wf_def)
    have ids: "m_dwMainTCPID ?c = m_dwMainTCPID c" "m_dwConnTCPID ?c = m_dwConnTCPID c"
      "m_szKeyword ?c = m_szKeyword c" by simp_all
    obtain c' h' where 2: "report_all xs ?c h = Some (c', h')"
      "if xs \<noteq> [] \<and> (m_bMainUDPOK ?c \<or> a \<in> set xs) \<and> (m_bConnUDPOK ?c \<or> b \<in> set xs)
       then m_eStatus c' = P2P_CONNECTED \<and>
         (\<exists>pk qk. CreateP2PSuccessPkt (m_dwMainTCPID c) (m_szKeyword c) = Some pk
            \<and> CreateP2PSuccessPkt (m_dwConnTCPID c) (m_szKeyword c) = Some qk
            \<and> outbox h' = (let o1 = (outbox h)(a := outbox h a @ [pk]) in o1(b := o1 b @ [qk])))
       else m_eStatus c' = P2P_PUNCHING \<and> h' = h" using Cons.IH[OF d, unfolded ids] by blast
    have "xs \<noteq> [] \<and> (m_bMainUDPOK ?c \<or> a \<in> set xs) \<and> (m_bConnUDPOK ?c \<or> b \<in> set xs)
      \<longleftrightarrow> x # xs \<noteq> [] \<and> (m_bMainUDPOK c \<or> a \<in> set (x # xs)) \<and> (m_bConnUDPOK c \<or> b \<in> set (x # xs))"
      using False Cons.prems(3,4) by auto
    with 2(2) have "if x # xs \<noteq> [] \<and> (m_bMainUDPOK c \<or> a \<in> set (x # xs)) \<and> (m_bConnUDPOK c \<or> b \<in> set (x # xs))
       then m_eStatus c' = P2P_CONNECTED \<and>
         (\<exists>pk qk. CreateP2PSuccessPkt (m_dwMainTCPID c) (m_szKeyword c) = Some pk
            \<and> CreateP2PSuccessPkt (m_dwConnTCPID c) (m_szKeyword c) = Some qk
            \<and> outbox h' = (let o1 = (outbox h)(a := outbox h a @ [pk]) in o1(b := o1 b @ [qk])))
       else m_eStatus c' = P2P_PUNCHING \<and> h' = h" by (simp only:)
    moreover have "report_all (x # xs) c h = Some (c', h')" using 1 2(1) by simp
    ultimately show ?thesis by blast
  qed
qed simp

text \<open>The guest reports twice, a stranger once, then the host.\<close>

theorem SetP2POK_needs_both_witness:
  "(\<exists>c'. report_all [2, 2, 7] (demo_session P2P_PUNCHING False False) demo_heap = Some (c', demo_heap)
      \<and> m_eStatus c' = P2P_PUNCHING)
   \<and> (\<exists>c' h'. report_all [2, 2, 7, 1] (demo_session P2P_PUNCHING False False) demo_heap = Some (c', h')
      \<and> m_eStatus c' = P2P_CONNECTED)"
proof -
  let ?c = "demo_session P2P_PUNCHING False False"
  have wf: "conn_wf ?c" by (rule demo_session_wf) simp
  have c: "m_eStatus ?c = P2P_PUNCHING" "m_pMainTCPServer ?c = Some 1" "m_pConnTCPServer ?c = Some 2"
    "\<not> m_bMainUDPOK ?c" "\<not> m_bConnUDPOK ?c" "0 < demo_owners 1" "0 < demo_owners 2"
    by (simp_all add: demo_session_def demo_owners_def)
  note both = SetP2POK_needs_both[OF demo_heap_ok wf c(1-3) c(6,7)]
  from both[of "[2, 2, 7]"] both[of "[2, 2, 7, 1]"] c(4,5) show ?thesis by auto
qed

section \<open>A guest leaves and another one joins\<close>

text \<open>The server's calls when a guest leaves and another connection takes its place, up to a first
  report of success by \<open>X\<close>.\<close>

definition rejoin :: "BYTE list \<Rightarrow> ptr \<Rightarrow> CLIENT_INFO \<Rightarrow> CLIENT_INFO \<Rightarrow> ptr \<Rightarrow> p2pconn \<Rightarrow> tcpheap \<Rightarrow>
    (P2P_ERROR \<times> p2pconn \<times> tcpheap) option" where
  "rejoin d Server hostinfo guestinfo X c h = do {
     (c, h) \<leftarrow> ConnTCPDisconnect c h;
     (r, c, h) \<leftarrow> TCPConnected d Server c h;
     (r, c, h) \<leftarrow> UDPListening hostinfo c h;
     (r, c, h) \<leftarrow> UDPConnected guestinfo c h;
     SetP2POK X c h
   }"

abbreviation ok_flags :: "p2pconn \<Rightarrow> bool \<times> bool" where
  "ok_flags c \<equiv> (m_bMainUDPOK c, m_bConnUDPOK c)"

lemma flags_kept:
  "ConnTCPDisconnect c h = Some (c1, h1) \<Longrightarrow>
     ok_flags c1 = ok_flags c \<and> m_eStatus c1 = P2P_TCP_LISTENING"
  "TCPConnected d p c h = Some (r, c1, h1) \<Longrightarrow> m_eStatus c = P2P_TCP_LISTENING \<Longrightarrow>
     ok_flags c1 = ok_flags c \<and> m_eStatus c1 = P2P_TCP_CONNECTED"
  "UDPListening i c h = Some (r, c1, h1) \<Longrightarrow> m_eStatus c = P2P_TCP_CONNECTED \<Longrightarrow>
     ok_flags c1 = ok_flags c \<and> m_eStatus c1 = P2P_UDP_LISTENING"
  "UDPConnected i c h = Some (r, c1, h1) \<Longrightarrow> m_eStatus c = P2P_UDP_LISTENING \<Longrightarrow>
     ok_flags c1 = ok_flags c \<and> m_eStatus c1 = P2P_PUNCHING"
  by (auto simp: ConnTCPDisconnect_def TCPConnected_def UDPListening_def UDPConnected_def
      bind_Some_iff Let_def)

text \<open>
  The reports of success outlive the guest they were about. When the guest of a connected
  session leaves and another one joins, the flags of the first handshake are still set: the first
  report that arrives, no matter from which connection \<open>X\<close>, makes the session connected, although
  at most one side of the new pair has reported.
\<close>

theorem stale_reports_complete_session:
  assumes "m_bMainUDPOK c" and "m_bConnUDPOK c"
    and "rejoin d Server hostinfo guestinfo X c h = Some (r, c', h')"
  shows "r = P2P_ERROR_NONE \<and> m_eStatus c' = P2P_CONNECTED"
proof -
  obtain c1 h1 c2 h2 c3 h3 c4 h4 r2 r3 r4 where s: "ConnTCPDisconnect c h = Some (c1, h1)"
    "TCPConnected d Server c1 h1 = Some (r2, c2, h2)"
    "UDPListening hostinfo c2 h2 = Some (r3, c3, h3)"
    "UDPConnected guestinfo c3 h3 = Some (r4, c4, h4)" "SetP2POK X c4 h4 = Some (r, c', h')"
    using assms(3) by (auto simp: rejoin_def bind_Some_iff)
  have 1: "ok_flags c1 = ok_flags c \<and> m_eStatus c1 = P2P_TCP_LISTENING" by (rule flags_kept(1)[OF s(1)])
  then have 2: "ok_flags c2 = ok_flags c1 \<and> m_eStatus c2 = P2P_TCP_CONNECTED"
    by (intro flags_kept(2)[OF s(2)]) simp
  then have 3: "ok_flags c3 = ok_flags c2 \<and> m_eStatus c3 = P2P_UDP_LISTENING"
    by (intro flags_kept(3)[OF s(3)]) simp
  then have 4: "ok_flags c4 = ok_flags c3 \<and> m_eStatus c4 = P2P_PUNCHING"
    by (intro flags_kept(4)[OF s(4)]) simp
  have "m_bMainUDPOK c4" "m_bConnUDPOK c4" "m_eStatus c4 = P2P_PUNCHING"
    using assms(1,2) 1 2 3 4 by simp_all
  then show ?thesis
    using s(5) by (auto simp: SetP2POK_def bind_Some_iff Let_def split: if_splits)
qed

theorem stale_reports_complete_session_witness:
  "case rejoin (dword_bytes 3 @ replicate 160 0) (Some 2) zero_CLIENT_INFO zero_CLIENT_INFO None
          (demo_session P2P_CONNECTED True True) demo_heap of
     None \<Rightarrow> False | Some (r, c', h') \<Rightarrow> m_eStatus c' = P2P_CONNECTED"
proof -
  let ?r = "rejoin (dword_bytes 3 @ replicate 160 0) (Some 2) zero_CLIENT_INFO zero_CLIENT_INFO
     None (demo_session P2P_CONNECTED True True) demo_heap"
  have "case ?r of None \<Rightarrow> False | Some _ \<Rightarrow> True" by code_simp
  then obtain r c' h' where r: "?r = Some (r, c', h')" by (cases ?r) auto
  have "m_bMainUDPOK (demo_session P2P_CONNECTED True True)"
    "m_bConnUDPOK (demo_session P2P_CONNECTED True True)" by (simp_all add: demo_session_def)
  from stale_reports_complete_session[OF this r] r show ?thesis by simp
qed

section \<open>The host leaves while its session is in use\<close>

text \<open>
  A session cannot be used after its host left. \<open>MainTCPDisconnect\<close> clears both pointers but
  leaves the state as it was; a thread that looked the session up before it was taken out of the
  table then follows a null pointer in \<open>UDPListening\<close>, \<open>UDPConnected\<close> or \<open>SetP2POK\<close>, in the
  state in which the call is accepted.
\<close>

theorem session_unusable_after_host_left:
  assumes "MainTCPDisconnect c h = Some (c', h')"
  shows "m_eStatus c' = m_eStatus c \<and> m_pMainTCPServer c' = None
     \<and> (m_eStatus c = P2P_TCP_CONNECTED \<longrightarrow> UDPListening info c' h'' = None)
     \<and> (m_eStatus c = P2P_UDP_LISTENING \<longrightarrow> UDPConnected info c' h'' = None)
     \<and> (m_eStatus c = P2P_PUNCHING \<longrightarrow> SetP2POK X c' h'' = None)"
proof -
  have c': "m_eStatus c' = m_eStatus c \<and> m_pMainTCPServer c' = None"
    using assms by (auto simp: MainTCPDisconnect_def bind_Some_iff Let_def)
  have dump: "DumpP2PConnection d h'' = None" if "m_pMainTCPServer d = None" for d
    using that by (simp add: DumpP2PConnection_def deref_def print_str_def bind_eq_None_conv)
  have "m_eStatus c = P2P_TCP_CONNECTED \<Longrightarrow> UDPListening info c' h'' = None"
    using c' dump by (simp add: UDPListening_def)
  moreover have "m_eStatus c = P2P_UDP_LISTENING \<Longrightarrow> UDPConnected info c' h'' = None"
    using c' dump by (simp add: UDPConnected_def)
  moreover have "m_eStatus c = P2P_PUNCHING \<Longrightarrow> SetP2POK X c' h'' = None"
    using c' dump by (simp add: SetP2POK_def Let_def)
  ultimately show ?thesis using c' by blast
qed

theorem session_unusable_after_host_left_witness:
  "case MainTCPDisconnect (demo_session P2P_TCP_CONNECTED False False) demo_heap of
     None \<Rightarrow> False | Some (c', h') \<Rightarrow> UDPListening zero_CLIENT_INFO c' h' = None"
proof -
  let ?r = "MainTCPDisconnect (demo_session P2P_TCP_CONNECTED False False) demo_heap"
  have "case ?r of None \<Rightarrow> False | Some _ \<Rightarrow> True" by code_simp
  then obtain c' h' where r: "?r = Some (c', h')" by (cases ?r) auto
  have "UDPListening zero_CLIENT_INFO c' h' = None"
    using session_unusable_after_host_left[OF r] by (simp add: demo_session_def)
  then show ?thesis using r by simp
qed

section \<open>Relaying gives away a reference\<close>

text \<open>
  Relaying a packet releases a reference that was never taken. On a well formed session with
  the counts right, \<open>TCPDataProxy\<close> queues the packet on the other side's connection and then
  lowers its count by one, while the session and every other owner keep referring to it. When the
  session is the last owner, the object is deleted and the session is left with a dangling
  pointer.
\<close>

theorem TCPDataProxy_overreleases:
  assumes h: "heap_ok (tcp_good R) n h" and d: "unat Length \<le> length d" "unat Length < 4294967288"
    and hg: "rd_dword 4 d = Some hg"
    and target: "(if hg \<noteq> 0 then m_pConnTCPServer c else m_pMainTCPServer c) = Some p" "0 < n p"
  shows "\<exists>h'. TCPDataProxy d Length c h = Some (P2P_ERROR_NONE, c, h')
     \<and> heap_ok (tcp_good R) (n(p := n p - 1)) h'
     \<and> (n p = 1 \<longrightarrow> h' p = None)"
proof -
  obtain pk where pk: "CreateTCPProxyData_relay d Length = Some pk"
    using CreateTCPProxyData_relay_props[OF d] by metis
  obtain h1 where h1: "SendPacket_to (Some p) pk h = Some h1" "heap_ok (tcp_good R) n h1"
    using SendPacket_to_ok[OF h target(2)] by metis
  obtain h2 where h2: "Release p h1 = Some h2" "heap_ok (tcp_good R) (n(p := n p - 1)) h2"
    using tcp_heap.Release_ok[OF h1(2) target(2)] .
  have "TCPDataProxy d Length c h = Some (P2P_ERROR_NONE, c, h2)"
    using pk hg target(1) h1(1) h2(1) by (simp add: TCPDataProxy_def)
  moreover have "n p = 1 \<longrightarrow> h2 p = None" using heap_ok_dead[OF h2(2), of p] by simp
  ultimately show ?thesis using h2(2) by blast
qed

theorem TCPDataProxy_overreleases_witness:
  "\<exists>h'. TCPDataProxy (replicate 12 1) 12 (demo_session P2P_CONNECTED True True) demo_heap
          = Some (P2P_ERROR_NONE, demo_session P2P_CONNECTED True True, h')
     \<and> heap_ok (tcp_good {}) (demo_owners(2 := 2)) h'"
proof -
  have hg: "rd_dword 4 (replicate 12 1) = Some 0x01010101" by code_simp
  have t: "(if (0x01010101 :: DWORD) \<noteq> 0 then m_pConnTCPServer (demo_session P2P_CONNECTED True True)
      else m_pMainTCPServer (demo_session P2P_CONNECTED True True)) = Some 2"
    "0 < demo_owners 2" by (simp_all add: demo_session_def demo_owners_def)
  have "unat (12 :: DWORD) \<le> length (replicate 12 (1 :: BYTE))" "unat (12 :: DWORD) < 4294967288"
    by simp_all
  from TCPDataProxy_overreleases[OF demo_heap_ok this hg t]
  obtain h' where "TCPDataProxy (replicate 12 1) 12 (demo_session P2P_CONNECTED True True) demo_heap
      = Some (P2P_ERROR_NONE, demo_session P2P_CONNECTED True True, h')"
    "heap_ok (tcp_good {}) (demo_owners(2 := demo_owners 2 - 1)) h'" by blast
  moreover have "demo_owners 2 - 1 = 2" by (simp add: demo_owners_def)
  ultimately show ?thesis by metis
qed

end
