(* ===== verification/ENetClient.thy ===== *)
theory ENetClient
  imports Protocol BaseObject TCPCommon
begin

text \<open>
  \<^verbatim>\<open>src/clovertun/ENetClient.cpp\<close>: the reliable channel over the punched UDP socket. The
  ENet library is not part of the model: what \<open>enet_host_create_by_socket\<close>,
  \<open>enet_host_connect\<close> and \<open>enet_host_service\<close> answer is an argument, a peer is its address, and
  the \<open>data\<close> field of a peer, which belongs to the application and is NULL in a new peer, is part
  of the state.
\<close>

section \<open>State\<close>

text \<open>The event of \<open>enet_host_service\<close>: its peer, that peer's address, and the packet.\<close>

datatype enet_event =
    ENET_EVENT_TYPE_CONNECT addr DWORD WORD
  | ENET_EVENT_TYPE_RECEIVE addr "BYTE list"
  | ENET_EVENT_TYPE_DISCONNECT addr
  | ENET_EVENT_TYPE_NONE

record enetclient = CBaseObject +
  en_bIsHost :: bool
  en_hStopEvent :: bool
  en_hMainThread :: bool
  en_pfnRecvFunc :: bool
  en_pRecvParam :: ptr
  m_pENetHost :: ptr
  m_pENetPeer :: ptr
  en_hSock :: "nat option"
  en_dwPeerId :: DWORD
  m_stPeerInfo :: CLIENT_INFO
  en_SendList :: "BYTE list list"
  peer_data :: "addr \<Rightarrow> DWORD"

definition CENetClient :: "nat option \<Rightarrow> DWORD \<Rightarrow> CLIENT_INFO \<Rightarrow> bool \<Rightarrow> enetclient" where
  "CENetClient sock PeerId info IsHost =
     \<lparr>m_lRef = 1, en_bIsHost = IsHost, en_hStopEvent = False, en_hMainThread = False,
      en_pfnRecvFunc = False, en_pRecvParam = None, m_pENetHost = None, m_pENetPeer = None,
      en_hSock = sock, en_dwPeerId = PeerId, m_stPeerInfo = info, en_SendList = [],
      peer_data = (\<lambda>_. 0)\<rparr>"

definition CENetClient_destroy :: "enetclient \<Rightarrow> enetclient" where
  "CENetClient_destroy en =
     (let en = en\<lparr>en_hMainThread := False, en_SendList := []\<rparr> in
      if m_pENetHost en \<noteq> None then en\<lparr>m_pENetHost := None\<rparr> else en)"

section \<open>Operations\<close>

text \<open>
  The connection attempts of a guest. Each attempt has the answers of \<open>enet_host_connect\<close> and of
  \<open>enet_host_service\<close>; the result is false where \<open>Init\<close> returns early.
\<close>

fun ENetConnectLoop :: "(addr option \<times> int \<times> enet_event) list \<Rightarrow> enetclient \<Rightarrow> bool \<times> enetclient"
  where
  "ENetConnectLoop [] en = (True, en)"
| "ENetConnectLoop ((peer, ret, event) # answers) en =
     (let en = en\<lparr>m_pENetPeer := peer\<rparr> in
      if peer = None then (False, en)
      else if ret > 0 \<and> (case event of ENET_EVENT_TYPE_CONNECT _ _ _ \<Rightarrow> True | _ \<Rightarrow> False)
      then (True, en)
      else ENetConnectLoop answers (en\<lparr>m_pENetPeer := None\<rparr>))"

text \<open>The swap of the two bytes of a \<open>WORD\<close>: \<open>htons\<close> and \<open>ntohs\<close> are the same function.\<close>

definition htons :: "WORD \<Rightarrow> WORD" where
  "htons w = or (push_bit 8 w) (drop_bit 8 w)"

text \<open>
  \<open>Init\<close>: \<open>host\<close> is the answer of \<open>enet_host_create_by_socket\<close>. A guest builds the address of its
  peer, host and port, and connects to it; \<open>answers address\<close> are the answers of ENet to the (at most
  ten) attempts to connect to \<open>address\<close>.
\<close>

type_synonym ENetAddress = "DWORD \<times> WORD"

type_synonym enet_answers = "ENetAddress \<Rightarrow> nat \<Rightarrow> addr option \<times> int \<times> enet_event"

definition ENet_Init :: "ptr \<Rightarrow> enet_answers \<Rightarrow> enetclient \<Rightarrow> bool \<times> enetclient" where
  "ENet_Init host answers en =
     (let en = en\<lparr>m_pENetHost := host\<rparr> in
      if host = None then (False, en)
      else case (if \<not> en_bIsHost en then
                   (let address = (ipaddr (m_stPeerInfo en), htons (port (m_stPeerInfo en)))
                    in ENetConnectLoop (map (answers address) [0..<10]) en)
                 else (True, en)) of
        (False, en) \<Rightarrow> (False, en)
      | (True, en) \<Rightarrow> (True, (CBaseObject_AddRef en)\<lparr>en_hMainThread := True\<rparr>))"

definition ENet_RegisterRecvProcess ::
    "(addr \<Rightarrow> 's \<Rightarrow> 's option) \<Rightarrow> (addr \<Rightarrow> 's \<Rightarrow> 's option) \<Rightarrow> bool \<Rightarrow> ptr \<Rightarrow> enetclient \<Rightarrow> 's \<Rightarrow>
     (enetclient \<times> 's) option" where
  "ENet_RegisterRecvProcess addref release Process Param en s =
     map_option (\<lambda>s. (en\<lparr>en_pfnRecvFunc := Process, en_pRecvParam := Param\<rparr>, s))
       (register_param addref release Param (en_pRecvParam en) s)"

definition ENet_Done :: "(addr \<Rightarrow> 's \<Rightarrow> 's option) \<Rightarrow> (addr \<Rightarrow> 's \<Rightarrow> 's option) \<Rightarrow> enetclient \<Rightarrow> 's \<Rightarrow>
    (enetclient \<times> 's) option" where
  "ENet_Done addref release en s =
     map_option (\<lambda>(en, s). (en\<lparr>en_hStopEvent := True\<rparr>, s))
       (ENet_RegisterRecvProcess addref release False None en s)"

definition ENet_SendPacket :: "BYTE list \<Rightarrow> DWORD \<Rightarrow> enetclient \<Rightarrow> enetclient option" where
  "ENet_SendPacket Data Length en =
     (if wait_any_timeout [en_hStopEvent en] = WAIT_TIMEOUT then do {
        packet \<leftarrow> rd_bytes 0 (unat Length) Data;
        Some (en\<lparr>en_SendList := en_SendList en @ [packet]\<rparr>)
      } else Some en)"

text \<open>
  The flush at the end of a pass: while the queue is not empty, its first packet is taken off and
  given to \<open>enet_peer_send\<close>, whose result the code ignores. The second component are the packets
  given to it, in this order.
\<close>

function ENetFlushLoop :: "enetclient \<Rightarrow> enetclient \<times> BYTE list list" where
  "ENetFlushLoop en =
     (case en_SendList en of
        [] \<Rightarrow> (en, [])
      | packet # rest \<Rightarrow>
          let (en, given) = ENetFlushLoop (en\<lparr>en_SendList := rest\<rparr>) in (en, packet # given))"
  by pat_completeness auto

termination
  by (relation "measure (length \<circ> en_SendList)") simp_all

declare ENetFlushLoop.simps [simp del]

definition ENetFlush :: "enetclient \<Rightarrow> enetclient \<times> BYTE list list" where
  "ENetFlush en = (if m_pENetPeer en \<noteq> None then ENetFlushLoop en else (en, []))"

text \<open>
  One pass of the main thread: the returned \<open>BOOL\<close>, the object, the packets given to
  \<open>enet_peer_send\<close>, and the state of the callback \<open>f\<close>, which gets the object and may queue packets.
\<close>

definition ENetProcess :: "(BYTE list \<Rightarrow> enetclient \<Rightarrow> 'w \<Rightarrow> (enetclient \<times> 'w) option) \<Rightarrow> int \<Rightarrow> enet_event \<Rightarrow> enetclient \<Rightarrow> 'w \<Rightarrow>
    (bool \<times> enetclient \<times> BYTE list list \<times> 'w) option" where
  "ENetProcess f ret event en w =
     (if wait_any_timeout [en_hStopEvent en] \<noteq> WAIT_TIMEOUT then Some (False, en, [], w)
      else if ret > 0 then
        (case event of
           ENET_EVENT_TYPE_CONNECT peer host prt \<Rightarrow>
             let en = (if ipaddr (m_stPeerInfo en) = host \<and> htons (port (m_stPeerInfo en)) = prt
                       then en\<lparr>peer_data := (peer_data en)(peer := en_dwPeerId en),
                               m_pENetPeer := Some peer\<rparr>
                       else en\<lparr>peer_data := (peer_data en)(peer := 0)\<rparr>);
                 (en, sent) = ENetFlush en
             in Some (True, en, sent, w)
         | ENET_EVENT_TYPE_RECEIVE peer Data \<Rightarrow>
             (case (if peer_data en peer = en_dwPeerId en \<and> en_pfnRecvFunc en then f Data en w
                    else Some (en, w)) of
                None \<Rightarrow> None
              | Some (en, w) \<Rightarrow> let (en, sent) = ENetFlush en in Some (True, en, sent, w))
         | ENET_EVENT_TYPE_DISCONNECT peer \<Rightarrow>
             if peer_data en peer \<noteq> 0 then Some (False, en\<lparr>m_pENetPeer := None\<rparr>, [], w)
             else let (en, sent) = ENetFlush en in Some (True, en, sent, w)
         | ENET_EVENT_TYPE_NONE \<Rightarrow> let (en, sent) = ENetFlush en in Some (True, en, sent, w))
      else if ret < 0 then Some (False, en, [], w)
      else let (en, sent) = ENetFlush en in Some (True, en, sent, w))"

text \<open>The passes of \<open>MainProc\<close> over a list of answers; the packets sent, in order.\<close>

fun ENetRun :: "(BYTE list \<Rightarrow> enetclient \<Rightarrow> 'w \<Rightarrow> (enetclient \<times> 'w) option) \<Rightarrow> (int \<times> enet_event) list \<Rightarrow> enetclient \<Rightarrow> 'w \<Rightarrow>
    (bool \<times> enetclient \<times> BYTE list list \<times> 'w) option" where
  "ENetRun f [] en w = Some (True, en, [], w)"
| "ENetRun f ((ret, event) # es) en w =
     (case ENetProcess f ret event en w of
        None \<Rightarrow> None
      | Some (False, en, sent, w) \<Rightarrow> Some (False, en, sent, w)
      | Some (True, en, sent, w) \<Rightarrow>
          map_option (\<lambda>(b, en, sent', w). (b, en, sent @ sent', w)) (ENetRun f es en w))"

text \<open>
  What the main thread of the program and the ENet thread do with the object in turn: \<open>Queue\<close> is a
  call of \<open>SendPacket\<close>, \<open>Pass\<close> a pass of \<open>MainProc\<close>. The run ends with the ENet thread.
\<close>

datatype enet_op = Queue "BYTE list" DWORD | Pass int enet_event

fun ENetOps :: "(BYTE list \<Rightarrow> enetclient \<Rightarrow> 'w \<Rightarrow> (enetclient \<times> 'w) option) \<Rightarrow> enet_op list \<Rightarrow> enetclient \<Rightarrow> 'w \<Rightarrow>
    (bool \<times> enetclient \<times> BYTE list list \<times> 'w) option" where
  "ENetOps f [] en w = Some (True, en, [], w)"
| "ENetOps f (Queue Data Length # ops) en w =
     (case ENet_SendPacket Data Length en of None \<Rightarrow> None | Some en \<Rightarrow> ENetOps f ops en w)"
| "ENetOps f (Pass ret event # ops) en w =
     (case ENetProcess f ret event en w of
        None \<Rightarrow> None
      | Some (False, en, sent, w) \<Rightarrow> Some (False, en, sent, w)
      | Some (True, en, sent, w) \<Rightarrow>
          map_option (\<lambda>(b, en, sent', w). (b, en, sent @ sent', w)) (ENetOps f ops en w))"

section \<open>Lemmas\<close>

lemma ENetFlushLoop_all: "ENetFlushLoop en = (en\<lparr>en_SendList := []\<rparr>, en_SendList en)"
proof (induction en rule: ENetFlushLoop.induct)
  case (1 en)
  show ?case
  proof (cases "en_SendList en")
    case Nil
    then show ?thesis by (simp add: ENetFlushLoop.simps[of en])
  next
    case (Cons p ps)
    then show ?thesis using "1"[OF Cons] by (simp add: ENetFlushLoop.simps[of en])
  qed
qed

lemma ENetFlush_all:
  "ENetFlush en = (if m_pENetPeer en \<noteq> None then (en\<lparr>en_SendList := []\<rparr>, en_SendList en) else (en, []))"
  by (simp add: ENetFlush_def ENetFlushLoop_all)

lemma ENetOps_passes: "ENetOps f (map (\<lambda>(ret, event). Pass ret event) es) en w = ENetRun f es en w"
  by (induction es arbitrary: en w) (auto split: option.split bool.split)

lemma ENetFlush_fields [simp]:
  "peer_data (fst (ENetFlush en)) = peer_data en" "m_pENetPeer (fst (ENetFlush en)) = m_pENetPeer en"
  by (simp_all add: ENetFlush_all)

end
