(* ===== verification/P2PClient.thy ===== *)
theory P2PClient
  imports P2PPacket TCPServer UDPBase ENetClient
begin

text \<open>
  \<^verbatim>\<open>src/clovertun/P2PClient.cpp\<close>: what the two kinds of clients share. The client object
  owns its TCP connection to the server, its UDP endpoint and, once punched, its ENet channel;
  they are fields of its state. Two threads work on it, the one that runs the state machine and
  the one that receives packets: a wait of the first takes as an argument what the others do to
  the object meanwhile. \<open>None\<close> is undefined behaviour.
\<close>

section \<open>State\<close>

datatype P2P_COMM_TYPE = PCT_NONE | PCT_ENET | PCT_TCP_RELAY

datatype P2P_CLIENT_TYPE = P2P_CLIENT_HOST | P2P_CLIENT_GUEST

record p2pclient = CBaseObject +
  m_szName :: "BYTE list"
  cli_szKeyword :: "BYTE list"
  m_szServerIP :: "BYTE list"
  m_dwServerTCPPort :: WORD
  m_dwServerUDPPort :: WORD
  cli_dwUDPPort :: WORD
  m_eClientType :: P2P_CLIENT_TYPE
  cli_dwTCPid :: DWORD
  m_dwPeerid :: DWORD
  m_stRemoteClientInfo :: CLIENT_INFO
  cli_pUDP :: "udpbase option"
  m_pTCP :: "tcpbase option"
  m_pENet :: "enetclient option"
  m_dwErrorCode :: DWORD
  cli_hStopEvent :: bool
  m_hStatusChange :: bool
  m_hConnectedEvent :: bool
  m_eType :: P2P_COMM_TYPE
  cli_eStatus :: P2P_STATUS
  cli_pfnRecvFunc :: bool
  m_pParam :: ptr

text \<open>\<open>raw1\<close>, \<open>raw2\<close>, \<open>raw3\<close>: the uninitialised contents of the three arrays of 32 characters.\<close>

definition CP2PClient :: "BYTE list \<Rightarrow> BYTE list \<Rightarrow> BYTE list \<Rightarrow> BYTE list \<Rightarrow> BYTE list \<Rightarrow>
    BYTE list \<Rightarrow> WORD \<Rightarrow> P2P_CLIENT_TYPE \<Rightarrow> p2pclient option" where
  "CP2PClient raw1 raw2 raw3 ClientName Keyword ServerIP ServerTCPPort type = do {
     name \<leftarrow> strcpy raw1 ClientName;
     kw \<leftarrow> strcpy raw2 Keyword;
     ip \<leftarrow> strcpy raw3 ServerIP;
     Some \<lparr>m_lRef = 1, m_szName = name, cli_szKeyword = kw, m_szServerIP = ip,
       m_dwServerTCPPort = ServerTCPPort, m_dwServerUDPPort = 0, cli_dwUDPPort = 0,
       m_eClientType = type, cli_dwTCPid = 0, m_dwPeerid = 0,
       m_stRemoteClientInfo = zero_CLIENT_INFO, cli_pUDP = None, m_pTCP = None, m_pENet = None,
       m_dwErrorCode = err_num P2P_ERROR_NONE, cli_hStopEvent = False, m_hStatusChange = False,
       m_hConnectedEvent = False, m_eType = PCT_NONE, cli_eStatus = P2P_STATUS_NONE,
       cli_pfnRecvFunc = False, m_pParam = None\<rparr>
   }"

definition GetClientType :: "p2pclient \<Rightarrow> P2P_CLIENT_TYPE" where
  "GetClientType c = m_eClientType c"

text \<open>
  The client object is the parameter of its own callbacks. A release that would delete the object
  while one of its methods runs is undefined.
\<close>

definition client_AddRef :: "addr \<Rightarrow> p2pclient \<Rightarrow> p2pclient option" where
  "client_AddRef p c = Some (CBaseObject_AddRef c)"

definition client_Release :: "addr \<Rightarrow> p2pclient \<Rightarrow> p2pclient option" where
  "client_Release p c =
     (case CBaseObject_Release c of (c', dead) \<Rightarrow> if dead then None else Some c')"

definition client_self :: addr where "client_self = 0"

section \<open>Sending\<close>

text \<open>\<open>m_pTCP->SendPacket (Packet)\<close> where the pointer was tested, else \<open>free (Packet)\<close>.\<close>

definition tcp_send_or_free :: "BYTE list \<Rightarrow> p2pclient \<Rightarrow> p2pclient" where
  "tcp_send_or_free Packet c =
     (case m_pTCP c of None \<Rightarrow> c | Some tcp \<Rightarrow> c\<lparr>m_pTCP := Some (SendPacket Packet tcp)\<rparr>)"

definition udp_send :: "UDP_PACKET \<Rightarrow> p2pclient \<Rightarrow> p2pclient" where
  "udp_send Packet c =
     (case cli_pUDP c of None \<Rightarrow> c | Some udp \<Rightarrow> c\<lparr>cli_pUDP := Some (UDP_SendPacket Packet udp)\<rparr>)"

text \<open>\<open>inet_addr\<close> is the library's. The payload is cleared first: \<open>tcpid\<close> stays 0.\<close>

definition SendUDPToServer :: "(BYTE list \<Rightarrow> DWORD) \<Rightarrow> p2pclient \<Rightarrow> p2pclient option" where
  "SendUDPToServer inet_addr c = do {
     let t = (if m_eClientType c = P2P_CLIENT_HOST then UPT_WAITING else UPT_CONNECT);
     kw \<leftarrow> strncpy 32 (cli_szKeyword c);
     nm \<leftarrow> strncpy 32 (m_szName c);
     Some (udp_send
       \<lparr>BasePacket = \<lparr>udp_type = upt_num t, udp_length = of_nat sizeof_TCP_WAIT_PACKET,
          udp_data = dword_bytes 0 @ kw @ nm @ replicate (UDP_DATA_MAX - 68) 0, checksum = 0\<rparr>,
        PacketInfo = \<lparr>ipaddr = inet_addr (m_szServerIP c), port = htons (m_dwServerUDPPort c)\<rparr>\<rparr> c)
   }"

definition SendUDPToPeer :: "UDPBASE_PACKET_TYPE \<Rightarrow> p2pclient \<Rightarrow> p2pclient" where
  "SendUDPToPeer Type c = udp_send
     \<lparr>BasePacket = \<lparr>udp_type = upt_num Type, udp_length = 4,
        udp_data = dword_bytes (m_dwPeerid c) @ replicate (UDP_DATA_MAX - 4) 0, checksum = 0\<rparr>,
      PacketInfo = m_stRemoteClientInfo c\<rparr> c"

definition Client_SendPacket :: "BYTE list \<Rightarrow> DWORD \<Rightarrow> p2pclient \<Rightarrow> p2pclient option" where
  "Client_SendPacket Data Len c =
     (case m_eType c of
        PCT_NONE \<Rightarrow> Some c
      | PCT_ENET \<Rightarrow>
          (case m_pENet c of
             None \<Rightarrow> Some c
           | Some en \<Rightarrow> map_option (\<lambda>en. c\<lparr>m_pENet := Some en\<rparr>) (ENet_SendPacket Data Len en))
      | PCT_TCP_RELAY \<Rightarrow>
          map_option (\<lambda>Packet. tcp_send_or_free Packet c)
            (CreateTCPProxyData (m_dwPeerid c)
               (if m_eClientType c = P2P_CLIENT_HOST then 1 else 0) Data Len))"

definition RegisterRecvPacketProcess :: "bool \<Rightarrow> ptr \<Rightarrow> p2pclient \<Rightarrow> p2pclient option" where
  "RegisterRecvPacketProcess Process Param c =
     register_param client_AddRef client_Release Param (m_pParam c)
       (c\<lparr>cli_pfnRecvFunc := Process, m_pParam := Param\<rparr>)"

section \<open>Start and end\<close>

fun ClientPortLoop :: "nat \<Rightarrow> (WORD \<Rightarrow> bool) \<Rightarrow> WORD \<Rightarrow> udpbase \<Rightarrow> (WORD \<times> udpbase) loop" where
  "ClientPortLoop 0 bound p udp = NoFuel"
| "ClientPortLoop (Suc fuel) bound p udp =
     (case UDP_Init bound p udp of
        (False, udp) \<Rightarrow> ClientPortLoop fuel bound (p + 1) udp
      | (True, udp) \<Rightarrow> Stop (p, UDP_Start udp))"

text \<open>
  \<open>Init\<close>: \<open>rawdst\<close>, \<open>rawsrc\<close> the arrays of the new connection object; \<open>sock\<close>, \<open>connected\<close> and
  \<open>local\<close> the answers for the TCP socket; \<open>bound\<close> and \<open>udpsock\<close> those for the UDP socket.
\<close>

definition Client_Init :: "nat \<Rightarrow> BYTE list \<Rightarrow> BYTE list \<Rightarrow> nat \<Rightarrow> bool \<Rightarrow> (BYTE list \<times> WORD) option \<Rightarrow>
    (WORD \<Rightarrow> bool) \<Rightarrow> nat option \<Rightarrow> p2pclient \<Rightarrow> (bool \<times> p2pclient) option loop" where
  "Client_Init fuel rawdst rawsrc sock connected local bound udpsock c =
     (case do {
        tcp \<leftarrow> CTCPClient rawdst rawsrc (m_szServerIP c) (m_dwServerTCPPort c);
        (tcp, c) \<leftarrow> RegisterRecvProcess client_AddRef client_Release (Some ClientDelegate)
           (Some client_self) tcp c;
        (tcp, c) \<leftarrow> RegisterEndProcess client_AddRef client_Release (Some ClientDelegate)
           (Some client_self) tcp c;
        (ok, tcp) \<leftarrow> CTCPClient_Init sock connected local tcp;
        let c = c\<lparr>m_pTCP := Some tcp\<rparr>;
        if \<not> ok then Some (False, CUDPBase udpsock, c) else do {
          let c = c\<lparr>cli_dwUDPPort := UDP_PORT_SERVER_BASE\<rparr>;
          (udp, c) \<leftarrow> UDP_RegisterRecvProcess client_AddRef client_Release (Some UdpClientDelegate)
             (Some client_self) (CUDPBase udpsock) c;
          Some (True, udp, c)
        }
      } of
        None \<Rightarrow> Stop None
      | Some (False, udp, c) \<Rightarrow> Stop (Some (False, c))
      | Some (True, udp, c) \<Rightarrow>
          map_loop (\<lambda>(p, udp). Some (True, c\<lparr>cli_dwUDPPort := p, cli_pUDP := Some udp\<rparr>))
            (ClientPortLoop fuel bound (cli_dwUDPPort c) udp))"

text \<open>\<open>Done\<close>: the three members are shut down and given up; the ENet client is not released.\<close>

definition Client_Done :: "p2pclient \<Rightarrow> p2pclient option" where
  "Client_Done c = do {
     c \<leftarrow> (case m_pTCP c of
         None \<Rightarrow> Some c
       | Some tcp \<Rightarrow> do {
           (tcp, c) \<leftarrow> CTCPClient_Done client_AddRef client_Release tcp c;
           Some (c\<lparr>m_pTCP := None\<rparr>)
         });
     c \<leftarrow> (case cli_pUDP c of
         None \<Rightarrow> Some c
       | Some udp \<Rightarrow> do {
           (udp, c) \<leftarrow> UDP_Stop client_AddRef client_Release udp c;
           Some (c\<lparr>cli_pUDP := None\<rparr>)
         });
     case m_pENet c of
       None \<Rightarrow> Some c
     | Some en \<Rightarrow> do {
         (en, c) \<leftarrow> ENet_RegisterRecvProcess client_AddRef client_Release False None en c;
         (en, c) \<leftarrow> ENet_Done client_AddRef client_Release en c;
         Some (c\<lparr>m_pENet := None\<rparr>)
       }
   }"

section \<open>The state machine's events\<close>

text \<open>The macro \<open>SetState\<close>, and \<open>SetEvent (m_hStatusChange)\<close>.\<close>

definition SetState :: "P2P_STATUS \<Rightarrow> p2pclient \<Rightarrow> p2pclient" where
  "SetState Status c = c\<lparr>cli_eStatus := Status\<rparr>"

definition SetStateEvent :: "P2P_STATUS \<Rightarrow> p2pclient \<Rightarrow> p2pclient" where
  "SetStateEvent Status c = (SetState Status c)\<lparr>m_hStatusChange := True\<rparr>"

text \<open>
  The wait of the two retry loops, on status change and stop, for at most 200 ms: the other
  threads run (\<open>others\<close>), and the wait reports the first signalled event or the timeout.
\<close>

definition retry_wait :: "(p2pclient \<Rightarrow> p2pclient) \<Rightarrow> p2pclient \<Rightarrow> DWORD \<times> p2pclient" where
  "retry_wait others c =
     (let c = others c in (wait_any_timeout [m_hStatusChange c, cli_hStopEvent c], c))"

text \<open>The loop of both events: send, wait, and give up after ten timeouts. The result is the last
  wait, the flag \<open>timeout\<close>, and the object.\<close>

function RetryLoop :: "(p2pclient \<Rightarrow> p2pclient option) \<Rightarrow> (nat \<Rightarrow> p2pclient \<Rightarrow> p2pclient) \<Rightarrow> nat \<Rightarrow>
    p2pclient \<Rightarrow> (DWORD \<times> bool \<times> p2pclient) option" where
  "RetryLoop send others Retry c =
     (case send c of
        None \<Rightarrow> None
      | Some c \<Rightarrow>
          (case retry_wait (others Retry) c of
             (Ret, c) \<Rightarrow>
               if Ret \<noteq> WAIT_TIMEOUT then Some (Ret, False, c)
               else if Retry + 1 \<ge> 10 then Some (Ret, True, c)
               else RetryLoop send others (Retry + 1) c))"
  by pat_completeness auto
termination
  by (relation "measure (\<lambda>(_, _, r, _). 10 - r)") auto

declare RetryLoop.simps [simp del]

text \<open>The change to relaying over TCP.\<close>

definition proxy_request :: "p2pclient \<Rightarrow> p2pclient option" where
  "proxy_request c = do {
     let c = SetState P2P_TCP_PROXY_REQUEST c;
     Packet \<leftarrow> CreateTCPProxyRequest (cli_dwTCPid c) (cli_szKeyword c) (m_szName c);
     Some (tcp_send_or_free Packet c)
   }"

definition UDPPunchEventProcess :: "(nat \<Rightarrow> p2pclient \<Rightarrow> p2pclient) \<Rightarrow> p2pclient \<Rightarrow> p2pclient option"
  where
  "UDPPunchEventProcess others c = do {
     (Ret, timeout, c) \<leftarrow> RetryLoop (\<lambda>c. Some (SendUDPToPeer UPT_HANDSHAKE c)) others 0 c;
     if Ret \<noteq> WAIT_OBJECT_0 \<or> Ret \<noteq> WAIT_TIMEOUT then Some c
     else if timeout then proxy_request c else Some c
   }"

definition UDPInfoExchangeEventProccess :: "(BYTE list \<Rightarrow> DWORD) \<Rightarrow>
    (nat \<Rightarrow> p2pclient \<Rightarrow> p2pclient) \<Rightarrow> p2pclient \<Rightarrow> p2pclient option" where
  "UDPInfoExchangeEventProccess inet_addr others c = do {
     (Ret, timeout, c) \<leftarrow> RetryLoop (SendUDPToServer inet_addr) others 0 c;
     if Ret \<noteq> WAIT_OBJECT_0 \<and> Ret \<noteq> WAIT_TIMEOUT then Some c
     else if timeout then proxy_request c else Some c
   }"

text \<open>The punched socket goes over to ENet. The endpoint pointer is followed without a test.\<close>

definition P2PConnectEventProcess :: "ptr \<Rightarrow> enet_answers \<Rightarrow> p2pclient \<Rightarrow>
    p2pclient option" where
  "P2PConnectEventProcess enethost answers c = do {
     c \<leftarrow> (case cli_pUDP c of
         None \<Rightarrow> Some c
       | Some udp \<Rightarrow> do {
           (udp, c) \<leftarrow> UDP_Stop client_AddRef client_Release udp c;
           Some (c\<lparr>cli_pUDP := Some udp\<rparr>)
         });
     udp \<leftarrow> cli_pUDP c;
     let en = CENetClient (GetSocket udp) (m_dwPeerid c) (m_stRemoteClientInfo c)
                (m_eClientType c = P2P_CLIENT_HOST);
     (en, c) \<leftarrow> ENet_RegisterRecvProcess client_AddRef client_Release True (Some client_self) en c;
     let en = snd (ENet_Init enethost answers en);
     Some (c\<lparr>m_pENet := Some en, m_eType := PCT_ENET, m_hConnectedEvent := True\<rparr>)
   }"

definition TCPProxyEventProcess :: "p2pclient \<Rightarrow> p2pclient option" where
  "TCPProxyEventProcess c = do {
     c \<leftarrow> (case cli_pUDP c of
         None \<Rightarrow> Some c
       | Some udp \<Rightarrow> do {
           (udp, c) \<leftarrow> UDP_Stop client_AddRef client_Release udp c;
           Some (c\<lparr>cli_pUDP := Some udp\<rparr>)
         });
     Some (c\<lparr>m_eType := PCT_TCP_RELAY, m_hConnectedEvent := True\<rparr>)
   }"

section \<open>Received packets\<close>

text \<open>
  The application's callback \<open>app\<close> gets the data and the client. The relayed packet is overlaid
  with \<open>TCP_PROXY_DATA\<close> at its first byte, not at \<open>Packet->Data\<close>.
\<close>

definition TCPProxyPacketProcess :: "(BYTE list \<Rightarrow> DWORD \<Rightarrow> p2pclient \<Rightarrow> (bool \<times> p2pclient) option) \<Rightarrow>
    BYTE list \<Rightarrow> p2pclient \<Rightarrow> (bool \<times> p2pclient) option" where
  "TCPProxyPacketProcess app Packet c = do {
     (Peerid, Host2Guest, Length, Data) \<leftarrow> rd_TCP_PROXY_DATA Packet;
     if cli_pfnRecvFunc c then app Data Length c else Some (True, c)
   }"

definition ENetRecvPacketProcess :: "(BYTE list \<Rightarrow> DWORD \<Rightarrow> p2pclient \<Rightarrow> (bool \<times> p2pclient) option) \<Rightarrow>
    BYTE list \<Rightarrow> DWORD \<Rightarrow> p2pclient \<Rightarrow> (bool \<times> p2pclient) option" where
  "ENetRecvPacketProcess app Data Length c =
     (if cli_pfnRecvFunc c then app Data Length c else Some (True, c))"

definition Client_RecvUDPPacketProcess :: "UDP_PACKET \<Rightarrow> p2pclient \<Rightarrow> (bool \<times> p2pclient) option"
  where
  "Client_RecvUDPPacketProcess Packet c =
     (case upt_of (udp_type (BasePacket Packet)) of
        Some UPT_HANDSHAKE \<Rightarrow> do {
          Peerid \<leftarrow> rd_dword 0 (udp_data (BasePacket Packet));
          Some (True, if Peerid = m_dwPeerid c then SendUDPToPeer UPT_KEEPALIVE c else c)
        }
      | Some UPT_KEEPALIVE \<Rightarrow> do {
          Peerid \<leftarrow> rd_dword 0 (udp_data (BasePacket Packet));
          if Peerid = m_dwPeerid c \<and> cli_eStatus c = P2P_PUNCHING then do {
            Packet \<leftarrow> CreateP2PSuccessPkt (cli_dwTCPid c) (cli_szKeyword c);
            Some (True, tcp_send_or_free Packet c)
          } else Some (True, c)
        }
      | _ \<Rightarrow> Some (True, c))"

definition Client_TCPEndProcess :: "p2pclient \<Rightarrow> p2pclient" where
  "Client_TCPEndProcess c =
     c\<lparr>m_dwErrorCode := err_num P2P_TCP_CONNECT_ERROR, cli_hStopEvent := True\<rparr>"

text \<open>
  The functions that are registered as callbacks; \<open>recv\<close> is the virtual method
  \<open>RecvTCPPacketProcess\<close>.
\<close>

definition Client_RecvTCPPacketProcessDelegate :: "(BYTE list \<Rightarrow> p2pclient \<Rightarrow> (bool \<times> p2pclient) option) \<Rightarrow>
    BYTE list \<Rightarrow> ptr \<Rightarrow> p2pclient \<Rightarrow> (bool \<times> p2pclient) option" where
  "Client_RecvTCPPacketProcessDelegate recv Packet Param c =
     (if Param \<noteq> None then recv Packet c else Some (False, c))"

definition Client_RecvUDPPacketProcessDelegate :: "UDP_PACKET \<Rightarrow> ptr \<Rightarrow> p2pclient \<Rightarrow>
    (bool \<times> p2pclient) option" where
  "Client_RecvUDPPacketProcessDelegate Packet Param c =
     (if Param \<noteq> None then Client_RecvUDPPacketProcess Packet c else Some (False, c))"

definition Client_TCPEndProcessDelegate :: "ptr \<Rightarrow> p2pclient \<Rightarrow> p2pclient" where
  "Client_TCPEndProcessDelegate Param c = (if Param \<noteq> None then Client_TCPEndProcess c else c)"

definition ENetRecvPacketProcessDelegate :: "(BYTE list \<Rightarrow> DWORD \<Rightarrow> p2pclient \<Rightarrow> (bool \<times> p2pclient) option) \<Rightarrow>
    BYTE list \<Rightarrow> DWORD \<Rightarrow> ptr \<Rightarrow> p2pclient \<Rightarrow> (bool \<times> p2pclient) option" where
  "ENetRecvPacketProcessDelegate app Data Length Param c =
     (if Param \<noteq> None then ENetRecvPacketProcess app Data Length c else Some (True, c))"

section \<open>The loop of the main thread\<close>

text \<open>
  What one round of \<open>Accept\<close> or \<open>Connect\<close> meets: what the other threads do while it waits for an
  event and while it waits in a retry loop, and the answers of ENet.
\<close>

record round_env =
  env_others :: "p2pclient \<Rightarrow> p2pclient"
  env_retry :: "nat \<Rightarrow> p2pclient \<Rightarrow> p2pclient"
  env_enethost :: ptr
  env_answers :: enet_answers

text \<open>
  The wait for status change, stop or connection, without limit: \<open>None\<close> while the thread sleeps.
  A round in which it goes on sleeping is followed by the next one. \<open>dispatch\<close> is the \<open>switch\<close>
  on the state. \<open>NoFuel\<close>: the loop is not over after these rounds.
\<close>

fun EventLoop :: "(round_env \<Rightarrow> p2pclient \<Rightarrow> p2pclient option) \<Rightarrow> round_env list \<Rightarrow> p2pclient \<Rightarrow>
    p2pclient option loop" where
  "EventLoop dispatch [] c = NoFuel"
| "EventLoop dispatch (e # es) c =
     (let c = env_others e c in
      case wait_any [m_hStatusChange c, cli_hStopEvent c, m_hConnectedEvent c] of
        None \<Rightarrow> EventLoop dispatch es c
      | Some Ret \<Rightarrow>
          if Ret \<noteq> WAIT_OBJECT_0 then Stop (Some c)
          else case dispatch e c of
            None \<Rightarrow> Stop None
          | Some c \<Rightarrow> EventLoop dispatch es c)"

abbreviation reset_status :: "p2pclient \<Rightarrow> p2pclient" where
  "reset_status c \<equiv> c\<lparr>m_hStatusChange := False\<rparr>"

section \<open>The retry loops\<close>

text \<open>The other threads leave the events alone: then the loop sends ten times and times out.\<close>

definition quiet :: "p2pclient \<Rightarrow> bool" where
  "quiet c \<longleftrightarrow> \<not> m_hStatusChange c \<and> \<not> cli_hStopEvent c"

lemma retry_wait_quiet:
  "quiet (others c) \<Longrightarrow> retry_wait others c = (WAIT_TIMEOUT, others c)"
  by (simp add: retry_wait_def quiet_def wait_any_timeout_def wait_any_def Let_def)

lemma retry_wait_event:
  "\<not> quiet (others c) \<Longrightarrow> retry_wait others c =
     (if m_hStatusChange (others c) then WAIT_OBJECT_0 else WAIT_OBJECT_0 + 1, others c)"
  by (auto simp: retry_wait_def quiet_def wait_any_timeout_def wait_any_def Let_def)

text \<open>The object after \<open>n\<close> sends, each followed by a wait.\<close>

fun sends :: "(p2pclient \<Rightarrow> p2pclient option) \<Rightarrow> (nat \<Rightarrow> p2pclient \<Rightarrow> p2pclient) \<Rightarrow> nat \<Rightarrow>
    p2pclient \<Rightarrow> p2pclient option" where
  "sends send others 0 c = Some c"
| "sends send others (Suc n) c =
     Option.bind (sends send others n c) (\<lambda>c. map_option (others n) (send c))"

lemma sends_prefix:
  assumes "sends send others n c = Some d" and "k \<le> n" shows "sends send others k c \<noteq> None"
proof
  assume none: "sends send others k c = None"
  from assms(2) have "sends send others n c = None" by (induction n rule: dec_induct) (use none in simp_all)
  then show False using assms(1) by simp
qed

lemma RetryLoop_from:
  assumes "sends send others k c = Some ck" and "k < 10"
    and "\<And>n d. k < n \<Longrightarrow> n \<le> 10 \<Longrightarrow> sends send others n c = Some d \<Longrightarrow> quiet d"
    and "sends send others 10 c = Some c'"
  shows "RetryLoop send others k ck = Some (WAIT_TIMEOUT, True, c')"
  using assms(1,2,3)
proof (induction "10 - k" arbitrary: k ck)
  case (Suc m)
  have "Suc k \<le> 10" using Suc.prems(2) by simp
  note sends_prefix[OF assms(4) this]
  then obtain c1 where c1: "send ck = Some c1"
    using Suc.prems(1) by (cases "send ck") simp_all
  then have s1: "sends send others (Suc k) c = Some (others k c1)" using Suc.prems(1) by simp
  then have q: "quiet (others k c1)" using Suc.prems(3)[of "Suc k" "others k c1"] Suc.prems(2) by simp
  show ?case
  proof (cases "k + 1 \<ge> 10")
    case True
    then have "k = 9" using Suc.prems(2) by simp
    then have "c' = others k c1" using s1 assms(4) by (simp add: eval_nat_numeral)
    then show ?thesis using c1 q True
      by (subst RetryLoop.simps) (simp add: retry_wait_quiet)
  next
    case False
    have "RetryLoop send others (Suc k) (others k c1) = Some (WAIT_TIMEOUT, True, c')"
    proof (rule Suc.hyps(1)[OF _ s1])
      show "quiet d" if "Suc k < n" "n \<le> 10" "sends send others n c = Some d" for n d
        using that by (intro Suc.prems(3)[of n d]) simp_all
    qed (use Suc.hyps(2) False in simp_all)
    then show ?thesis using c1 q False
      by (subst RetryLoop.simps) (simp add: retry_wait_quiet)
  qed
qed simp

text \<open>The result of the loop: the last wait was a timeout exactly when the flag is set.\<close>

lemma RetryLoop_result:
  "RetryLoop send others k c = Some (Ret, timeout, c') \<Longrightarrow> timeout \<longleftrightarrow> Ret = WAIT_TIMEOUT"
proof (induction send others k c rule: RetryLoop.induct)
  case (1 send others k c)
  show ?case
    using "1.prems" "1.IH" unfolding RetryLoop.simps[of send others k c]
    by (auto split: option.splits prod.splits if_splits)
qed

section \<open>What host and guest have in common\<close>

text \<open>
  The receive handlers of the two clients treat the packets after the registration alike; they
  differ in the state that \<open>TPT_START_UDP\<close> sets. \<open>app\<close> is the application's callback.
\<close>

locale client_fsm =
  fixes recv :: "BYTE list \<Rightarrow> p2pclient \<Rightarrow> (bool \<times> p2pclient) option"
    and app :: "BYTE list \<Rightarrow> DWORD \<Rightarrow> p2pclient \<Rightarrow> (bool \<times> p2pclient) option"
    and udp_state :: P2P_STATUS
  assumes udp_state: "udp_state \<in> {P2P_UDP_LISTENING, P2P_UDP_CONNECTED}"
    and app_status: "app Data n c = Some (r, c') \<Longrightarrow> cli_eStatus c' = cli_eStatus c"
    and start_udp: "pkt_type p = Some (tpt_num TPT_START_UDP) \<Longrightarrow>
      recv p c = Some (True, SetStateEvent udp_state c)"
    and client_info: "pkt_type p = Some (tpt_num TPT_CLIENT_INFO) \<Longrightarrow>
      recv p c = (if cli_eStatus c = udp_state
        then map_option (\<lambda>(t, i, info). (True, SetStateEvent P2P_PUNCHING
               (c\<lparr>m_dwPeerid := i, m_stRemoteClientInfo := info\<rparr>)))
             (rd_TCP_START_PUNCHING_PACKET (pkt_data p))
        else Some (True, c))"
    and p2p_result: "pkt_type p = Some (tpt_num TPT_P2P_RESULT) \<Longrightarrow>
      recv p c = Some (True, if cli_eStatus c = P2P_PUNCHING then SetStateEvent P2P_CONNECTED c
                             else c)"
    and proxy_result: "pkt_type p = Some (tpt_num TPT_PROXY_RESULT) \<Longrightarrow>
      recv p c = map_option (\<lambda>(r, t, i). (True,
          if r \<noteq> err_num P2P_ERROR_NONE
          then c\<lparr>m_dwErrorCode := err_num P2P_PEER_RESET, cli_hStopEvent := True\<rparr>
          else SetStateEvent P2P_TCP_PROXY c))
        (rd_TCP_PROXY_RESULT_PACKET (pkt_data p))"
    and data_proxy: "pkt_type p = Some (tpt_num TPT_DATA_PROXY) \<Longrightarrow>
      recv p c = (if cli_eStatus c = P2P_TCP_PROXY then TCPProxyPacketProcess app p c
                  else Some (True, c))"
    and others: "recv p c = Some (r, c') \<Longrightarrow> \<forall>t\<in>{TPT_START_UDP,
        TPT_CLIENT_INFO, TPT_P2P_RESULT, TPT_PROXY_RESULT, TPT_DATA_PROXY}.
          pkt_type p \<noteq> Some (tpt_num t) \<Longrightarrow>
      cli_eStatus c' = cli_eStatus c \<or> cli_eStatus c' \<in> {P2P_TCP_LISTENING, P2P_TCP_CONNECTED}"
begin

text \<open>The receive thread works through a sequence of packets.\<close>

fun recv_all :: "BYTE list list \<Rightarrow> p2pclient \<Rightarrow> p2pclient option" where
  "recv_all [] c = Some c"
| "recv_all (p # ps) c = Option.bind (recv p c) (\<lambda>(r, c). recv_all ps c)"

lemma TCPProxyPacketProcess_status:
  "TCPProxyPacketProcess app p c = Some (r, c') \<Longrightarrow> cli_eStatus c' = cli_eStatus c"
  by (auto simp: TCPProxyPacketProcess_def bind_Some_iff app_status split: if_splits)

text \<open>A session is connected only by the server's success packet, and only while punching.\<close>

lemma connected_only_from_punching:
  assumes r: "recv p c = Some (r, c')" and c': "cli_eStatus c' = P2P_CONNECTED"
    and c: "cli_eStatus c \<noteq> P2P_CONNECTED"
  shows "cli_eStatus c = P2P_PUNCHING \<and> pkt_type p = Some (tpt_num TPT_P2P_RESULT)"
proof (rule ccontr)
  assume not: "\<not> ?thesis"
  let ?is = "\<lambda>t. pkt_type p = Some (tpt_num t)"
  have "\<not> ?is TPT_START_UDP"
  proof
    assume "?is TPT_START_UDP"
    from r start_udp[OF this] have "c' = SetStateEvent udp_state c" by simp
    with c' udp_state show False by (auto simp: SetStateEvent_def SetState_def)
  qed
  moreover have "\<not> ?is TPT_CLIENT_INFO"
  proof
    assume "?is TPT_CLIENT_INFO"
    from r client_info[OF this] have "c' = c \<or> cli_eStatus c' = P2P_PUNCHING"
      by (auto simp: SetStateEvent_def SetState_def split: if_splits)
    with c' c show False by auto
  qed
  moreover have "\<not> ?is TPT_P2P_RESULT"
  proof
    assume t: "?is TPT_P2P_RESULT"
    then have "cli_eStatus c \<noteq> P2P_PUNCHING" using not by blast
    with r p2p_result[OF t] have "c' = c" by simp
    with c' c show False by simp
  qed
  moreover have "\<not> ?is TPT_PROXY_RESULT"
  proof
    assume "?is TPT_PROXY_RESULT"
    note eq = proxy_result[OF this, of c]
    obtain res t i where "rd_TCP_PROXY_RESULT_PACKET (pkt_data p) = Some (res, t, i)"
      using r eq by (cases "rd_TCP_PROXY_RESULT_PACKET (pkt_data p)") auto
    with r eq have "c' = (if res \<noteq> err_num P2P_ERROR_NONE
        then c\<lparr>m_dwErrorCode := err_num P2P_PEER_RESET, cli_hStopEvent := True\<rparr>
        else SetStateEvent P2P_TCP_PROXY c)" by (simp only: option.map prod.case option.inject prod.inject)
    then have "cli_eStatus c' = cli_eStatus c \<or> cli_eStatus c' = P2P_TCP_PROXY"
      by (cases "res = err_num P2P_ERROR_NONE") (simp_all add: SetStateEvent_def SetState_def)
    with c' c show False by auto
  qed
  moreover have "\<not> ?is TPT_DATA_PROXY"
  proof
    assume "?is TPT_DATA_PROXY"
    from r data_proxy[OF this] have "cli_eStatus c' = cli_eStatus c"
      by (auto dest: TCPProxyPacketProcess_status split: if_splits)
    with c' c show False by simp
  qed
  ultimately have "\<forall>t\<in>{TPT_START_UDP, TPT_CLIENT_INFO, TPT_P2P_RESULT, TPT_PROXY_RESULT,
      TPT_DATA_PROXY}. \<not> ?is t"
    by (intro ballI) (elim insertE emptyE, simp_all only: not_False_eq_True)
  from others[OF r this] c' c show False by auto
qed

text \<open>The three packets of the server take a client from any state to the punched connection.\<close>

lemma handshake:
  assumes "pkt_type p = Some (tpt_num TPT_START_UDP)"
    and "pkt_type q = Some (tpt_num TPT_CLIENT_INFO)"
    and "rd_TCP_START_PUNCHING_PACKET (pkt_data q) = Some (t, i, info)"
    and "pkt_type r = Some (tpt_num TPT_P2P_RESULT)"
  shows "recv_all [p, q, r] c = Some (c\<lparr>m_dwPeerid := i, m_stRemoteClientInfo := info,
           cli_eStatus := P2P_CONNECTED, m_hStatusChange := True\<rparr>)"
  using assms by (simp add: start_udp client_info p2p_result SetStateEvent_def SetState_def)

end

end
