(* ===== verification/P2PHost.thy ===== *)
theory P2PHost
  imports P2PClient
begin

text \<open>
  \<^verbatim>\<open>src/clovertun/P2PHost.cpp\<close>: the client that registers a keyword and waits for a guest.
  \<open>Host_RecvTCPPacketProcess\<close> is its receive handler, \<open>Accept\<close> its main loop.
\<close>

section \<open>Operations\<close>

definition CP2PHost :: "BYTE list \<Rightarrow> BYTE list \<Rightarrow> BYTE list \<Rightarrow> BYTE list \<Rightarrow> BYTE list \<Rightarrow> BYTE list \<Rightarrow>
    WORD \<Rightarrow> p2pclient option" where
  "CP2PHost raw1 raw2 raw3 ClientName Keyword ServerIP ServerTCPPort =
     CP2PClient raw1 raw2 raw3 ClientName Keyword ServerIP ServerTCPPort P2P_CLIENT_HOST"

definition Host_Close :: "p2pclient \<Rightarrow> p2pclient option" where
  "Host_Close c = Client_Done (c\<lparr>cli_hStopEvent := True\<rparr>)"

definition Host_Listen :: "(bool \<times> p2pclient) option loop \<Rightarrow> (DWORD \<times> p2pclient) option loop" where
  "Host_Listen init = map_loop (map_option (\<lambda>(ok, c).
     if \<not> ok then (err_num P2P_TCP_CONNECT_ERROR,
                    c\<lparr>m_dwErrorCode := err_num P2P_TCP_CONNECT_ERROR\<rparr>)
     else (err_num P2P_ERROR_NONE, c))) init"

text \<open>\<open>WaitForStop\<close>: \<open>None\<close> while it sleeps.\<close>

definition WaitForStop :: "p2pclient \<Rightarrow> unit option" where
  "WaitForStop c = map_option (\<lambda>_. ()) (wait_any [cli_hStopEvent c])"

definition TCPListeningEventProcess :: "p2pclient \<Rightarrow> p2pclient option" where
  "TCPListeningEventProcess c = do {
     Packet \<leftarrow> CreateTCPWaitPkt (cli_dwTCPid c) (cli_szKeyword c) (m_szName c);
     Some (tcp_send_or_free Packet c)
   }"

text \<open>The \<open>switch\<close> of the loop in \<open>Accept\<close>: the event is reset in every case that is handled.\<close>

definition host_dispatch :: "(BYTE list \<Rightarrow> DWORD) \<Rightarrow> round_env \<Rightarrow> p2pclient \<Rightarrow> p2pclient option" where
  "host_dispatch inet_addr e c =
     (case cli_eStatus c of
        P2P_TCP_LISTENING \<Rightarrow> TCPListeningEventProcess (reset_status c)
      | P2P_TCP_CONNECTED \<Rightarrow> Some (reset_status c)
      | P2P_UDP_LISTENING \<Rightarrow> UDPInfoExchangeEventProccess inet_addr (env_retry e) (reset_status c)
      | P2P_PUNCHING \<Rightarrow> UDPPunchEventProcess (env_retry e) (reset_status c)
      | P2P_CONNECTED \<Rightarrow> P2PConnectEventProcess (env_enethost e) (env_answers e) (reset_status c)
      | P2P_TCP_PROXY \<Rightarrow> TCPProxyEventProcess (reset_status c)
      | _ \<Rightarrow> Some c)"

definition Accept :: "(BYTE list \<Rightarrow> DWORD) \<Rightarrow> round_env list \<Rightarrow> p2pclient \<Rightarrow>
    (DWORD \<times> p2pclient) option loop" where
  "Accept inet_addr es c =
     map_loop (map_option (\<lambda>c. (m_dwErrorCode c, c\<lparr>m_hConnectedEvent := False\<rparr>)))
       (EventLoop (host_dispatch inet_addr) es
          (c\<lparr>cli_hStopEvent := False, m_dwErrorCode := err_num P2P_ERROR_NONE\<rparr>))"

section \<open>The receive handler\<close>

definition Host_RecvTCPPacketProcess ::
    "(BYTE list \<Rightarrow> DWORD \<Rightarrow> p2pclient \<Rightarrow> (bool \<times> p2pclient) option) \<Rightarrow> BYTE list \<Rightarrow> p2pclient \<Rightarrow>
     (bool \<times> p2pclient) option" where
  "Host_RecvTCPPacketProcess app Packet c = do {
     Type \<leftarrow> pkt_type Packet;
     case tpt_of Type of
       Some TPT_INIT \<Rightarrow> do {
         (tcpid, UDPPort) \<leftarrow> rd_TCP_INIT_PACKET (pkt_data Packet);
         Some (True, SetStateEvent P2P_TCP_LISTENING
           (c\<lparr>cli_dwTCPid := tcpid, m_dwServerUDPPort := UDPPort, m_dwPeerid := 0,
              m_eType := PCT_NONE\<rparr>))
       }
     | Some TPT_WAIT_RESULT \<Rightarrow> do {
         (tcpid, result) \<leftarrow> rd_TCP_RESULT_PACKET (pkt_data Packet);
         Some (True,
           if result \<noteq> 0 then c\<lparr>m_dwErrorCode := result, cli_hStopEvent := True\<rparr>
           else if cli_eStatus c = P2P_TCP_LISTENING then SetStateEvent P2P_TCP_CONNECTED c
           else c)
       }
     | Some TPT_START_UDP \<Rightarrow> Some (True, SetStateEvent P2P_UDP_LISTENING c)
     | Some TPT_CLIENT_INFO \<Rightarrow>
         if cli_eStatus c = P2P_UDP_LISTENING then do {
           (tcpid, Peerid, info) \<leftarrow> rd_TCP_START_PUNCHING_PACKET (pkt_data Packet);
           Some (True, SetStateEvent P2P_PUNCHING
             (c\<lparr>m_dwPeerid := Peerid, m_stRemoteClientInfo := info\<rparr>))
         } else Some (True, c)
     | Some TPT_P2P_RESULT \<Rightarrow>
         Some (True, if cli_eStatus c = P2P_PUNCHING then SetStateEvent P2P_CONNECTED c else c)
     | Some TPT_PROXY_RESULT \<Rightarrow> do {
         (Result, tcpid, Peerid) \<leftarrow> rd_TCP_PROXY_RESULT_PACKET (pkt_data Packet);
         Some (True,
           if Result \<noteq> err_num P2P_ERROR_NONE
           then c\<lparr>m_dwErrorCode := err_num P2P_PEER_RESET, cli_hStopEvent := True\<rparr>
           else SetStateEvent P2P_TCP_PROXY c)
       }
     | Some TPT_DATA_PROXY \<Rightarrow>
         if cli_eStatus c = P2P_TCP_PROXY then TCPProxyPacketProcess app Packet c
         else Some (True, c)
     | Some TPT_RESET \<Rightarrow> Some (True, c\<lparr>cli_hStopEvent := True\<rparr>)
     | _ \<Rightarrow> Some (True, c)
   }"

section \<open>Lemmas\<close>

lemma Host_other_status:
  assumes r: "Host_RecvTCPPacketProcess app p c = Some (r, c')"
    and other: "\<forall>t\<in>{TPT_START_UDP, TPT_CLIENT_INFO, TPT_P2P_RESULT, TPT_PROXY_RESULT,
      TPT_DATA_PROXY}. pkt_type p \<noteq> Some (tpt_num t)"
  shows "cli_eStatus c' = cli_eStatus c \<or> cli_eStatus c' \<in> {P2P_TCP_LISTENING, P2P_TCP_CONNECTED}"
proof -
  obtain n where n: "pkt_type p = Some n"
    using r by (cases "pkt_type p") (simp_all add: Host_RecvTCPPacketProcess_def)
  show ?thesis
  proof (cases "tpt_of n")
    case None
    then show ?thesis using r n by (simp add: Host_RecvTCPPacketProcess_def)
  next
    case (Some t)
    then have "t \<notin> {TPT_START_UDP, TPT_CLIENT_INFO, TPT_P2P_RESULT, TPT_PROXY_RESULT,
        TPT_DATA_PROXY}" using other n tpt_of_Some[OF Some] by blast
    moreover have ?thesis if t: "t = TPT_INIT"
    proof (cases "rd_TCP_INIT_PACKET (pkt_data p)")
      case None
      then show ?thesis using r n Some t by (simp add: Host_RecvTCPPacketProcess_def)
    next
      case (Some x)
      then show ?thesis using r n \<open>tpt_of n = Some t\<close> t
        by (cases x) (auto simp: Host_RecvTCPPacketProcess_def SetStateEvent_def SetState_def)
    qed
    moreover have ?thesis if t: "t = TPT_WAIT_RESULT"
    proof (cases "rd_TCP_RESULT_PACKET (pkt_data p)")
      case None
      then show ?thesis using r n Some t by (simp add: Host_RecvTCPPacketProcess_def)
    next
      case (Some x)
      then show ?thesis using r n \<open>tpt_of n = Some t\<close> t
        by (cases x; cases "snd x = 0")
          (auto simp: Host_RecvTCPPacketProcess_def SetStateEvent_def SetState_def split: if_splits)
    qed
    moreover have ?thesis if "t \<notin> {TPT_INIT, TPT_WAIT_RESULT, TPT_START_UDP, TPT_CLIENT_INFO,
        TPT_P2P_RESULT, TPT_PROXY_RESULT, TPT_DATA_PROXY}"
      using r n Some that by (cases t) (auto simp: Host_RecvTCPPacketProcess_def)
    ultimately show ?thesis by blast
  qed
qed

end
