(* ===== verification/Application.thy ===== *)
theory Application
  imports P2PHost P2PGuest
begin

text \<open>
  \<^verbatim>\<open>src/clovertun/main.cpp\<close> and \<^verbatim>\<open>src/clovertun/XGetOpt.h\<close>: the command line, the
  application's receive callback and the life of a client object. With the callback the shared
  state machine of the clients (\<open>client_fsm\<close>) is instantiated for host and guest.
\<close>

section \<open>The callback\<close>

text \<open>\<open>Data\<close> is overlaid with \<open>transfer_data\<close>: \<open>id\<close> at 0, \<open>datalen\<close> at 4. A host echoes the
  header.\<close>

definition sizeof_transfer_data :: DWORD where "sizeof_transfer_data = 8"

definition P2PRecvPacketProcess :: "BYTE list \<Rightarrow> DWORD \<Rightarrow> p2pclient \<Rightarrow> (bool \<times> p2pclient) option"
  where
  "P2PRecvPacketProcess Data Len c =
     (if GetClientType c = P2P_CLIENT_HOST then do {
        id \<leftarrow> rd_dword 0 Data;
        (if id mod 100 = 0 then map_option (\<lambda>_. ()) (rd_dword 4 Data) else Some ());
        c \<leftarrow> Client_SendPacket Data sizeof_transfer_data c;
        Some (True, c)
      } else Some (True, c))"

lemma tcp_send_or_free_status [simp]: "cli_eStatus (tcp_send_or_free p c) = cli_eStatus c"
  by (simp add: tcp_send_or_free_def split: option.split)

lemma Client_SendPacket_status:
  "Client_SendPacket d n c = Some c' \<Longrightarrow> cli_eStatus c' = cli_eStatus c"
  by (auto simp: Client_SendPacket_def split: P2P_COMM_TYPE.splits option.splits)

lemma P2PRecvPacketProcess_status:
  "P2PRecvPacketProcess d n c = Some (r, c') \<Longrightarrow> cli_eStatus c' = cli_eStatus c"
  by (auto simp: P2PRecvPacketProcess_def bind_Some_iff Client_SendPacket_status split: if_splits)

abbreviation host_recv :: "BYTE list \<Rightarrow> p2pclient \<Rightarrow> (bool \<times> p2pclient) option" where
  "host_recv \<equiv> Host_RecvTCPPacketProcess P2PRecvPacketProcess"

abbreviation guest_recv :: "BYTE list \<Rightarrow> p2pclient \<Rightarrow> (bool \<times> p2pclient) option" where
  "guest_recv \<equiv> Guest_RecvTCPPacketProcess P2PRecvPacketProcess"

lemma map_option_bind_Some: "Option.bind m (\<lambda>x. Some (f x)) = map_option f m"
  by (cases m) simp_all

interpretation host: client_fsm host_recv P2PRecvPacketProcess P2P_UDP_LISTENING
proof
  fix p c r c'
  show "\<forall>t\<in>{TPT_START_UDP, TPT_CLIENT_INFO, TPT_P2P_RESULT, TPT_PROXY_RESULT, TPT_DATA_PROXY}.
      pkt_type p \<noteq> Some (tpt_num t) \<Longrightarrow> host_recv p c = Some (r, c') \<Longrightarrow>
      cli_eStatus c' = cli_eStatus c \<or> cli_eStatus c' \<in> {P2P_TCP_LISTENING, P2P_TCP_CONNECTED}"
    using Host_other_status by blast
qed (simp_all only: Host_RecvTCPPacketProcess_def Option.bind.simps tpt_of_num option.case
    TCPBASE_PACKET_TYPE.case map_option_bind_Some case_prod_unfold P2PRecvPacketProcess_status
    insert_iff simp_thms)

interpretation guest: client_fsm guest_recv P2PRecvPacketProcess P2P_UDP_CONNECTED
proof
  fix p c r c'
  show "\<forall>t\<in>{TPT_START_UDP, TPT_CLIENT_INFO, TPT_P2P_RESULT, TPT_PROXY_RESULT, TPT_DATA_PROXY}.
      pkt_type p \<noteq> Some (tpt_num t) \<Longrightarrow> guest_recv p c = Some (r, c') \<Longrightarrow>
      cli_eStatus c' = cli_eStatus c \<or> cli_eStatus c' \<in> {P2P_TCP_LISTENING, P2P_TCP_CONNECTED}"
    using Guest_other_status by blast
qed (simp_all only: Guest_RecvTCPPacketProcess_def Option.bind.simps tpt_of_num option.case
    TCPBASE_PACKET_TYPE.case map_option_bind_Some case_prod_unfold P2PRecvPacketProcess_status
    insert_iff simp_thms)

section \<open>The command line\<close>

text \<open>
  \<open>getopt\<close>: strings are lists of characters without their NUL; \<open>nxt\<close> is the static pointer into
  the current argument. The result \<open>None\<close> is \<open>-1\<close>.
\<close>

record getopt_state =
  optind :: nat
  optarg :: "string option"
  nxt :: "string option"

definition arg_at :: "string list \<Rightarrow> nat \<Rightarrow> string option" where
  "arg_at argv i = (if i < length argv then Some (argv ! i) else None)"

text \<open>The part after the choice of the argument: \<open>next\<close> points to the letter \<open>c\<close>.\<close>

definition getopt_letter :: "string list \<Rightarrow> string \<Rightarrow> char \<Rightarrow> string \<Rightarrow> getopt_state \<Rightarrow>
    char option \<times> getopt_state" where
  "getopt_letter argv optstring c rest st =
     (let st = st\<lparr>nxt := Some rest\<rparr>; cp = dropWhile (\<lambda>x. x \<noteq> c) optstring in
      if cp = [] \<or> c = CHR '':'' then (Some (CHR ''?''), st)
      else if take 1 (tl cp) = '':'' then
        (if rest \<noteq> [] then (Some c, st\<lparr>optarg := Some rest, nxt := None\<rparr>)
         else case arg_at argv (optind st) of
           Some a \<Rightarrow> (Some c, st\<lparr>optarg := Some a, optind := optind st + 1\<rparr>)
         | None \<Rightarrow> (Some (CHR ''?''), st))
      else (Some c, st))"

definition getopt :: "string list \<Rightarrow> string \<Rightarrow> getopt_state \<Rightarrow> char option \<times> getopt_state" where
  "getopt argv optstring st =
     (let st = (if optind st = 0 then st\<lparr>nxt := None\<rparr> else st);
          st = st\<lparr>optarg := None\<rparr> in
      case nxt st of
        Some (c # rest) \<Rightarrow> getopt_letter argv optstring c rest st
      | _ \<Rightarrow>
          let st = (if optind st = 0 then st\<lparr>optind := 1\<rparr> else st) in
          case arg_at argv (optind st) of
            None \<Rightarrow> (None, st\<lparr>optarg := None\<rparr>)
          | Some a \<Rightarrow>
              (case a of
                 d # c # rest \<Rightarrow>
                   if d \<noteq> CHR ''-'' then (None, st\<lparr>optarg := Some a\<rparr>)
                   else if a = ''--'' then
                     (let st = st\<lparr>optind := optind st + 1\<rparr>
                      in (None, st\<lparr>optarg := arg_at argv (optind st)\<rparr>))
                   else getopt_letter argv optstring c rest (st\<lparr>optind := optind st + 1\<rparr>)
               | _ \<Rightarrow> (None, st\<lparr>optarg := Some a\<rparr>)))"

text \<open>The variables of \<open>main\<close> that the options set.\<close>

record main_opts =
  mo_name :: "BYTE list"
  mo_addr :: "BYTE list"
  mo_port :: int
  mo_keyword :: "BYTE list"
  mo_isServer :: bool
  mo_isHost :: bool
  mo_isGuest :: bool

definition initial_opts :: main_opts where
  "initial_opts = \<lparr>mo_name = replicate 64 0, mo_addr = replicate 64 0, mo_port = 0,
     mo_keyword = replicate 32 0, mo_isServer = False, mo_isHost = False, mo_isGuest = False\<rparr>"

definition c_string :: "string \<Rightarrow> BYTE list" where
  "c_string s = map of_char s @ [0]"

text \<open>One pass of the \<open>switch\<close>: the inner \<open>None\<close> is \<open>return -1\<close>. \<open>atoi\<close> is the library's.\<close>

definition apply_option :: "(string \<Rightarrow> int) \<Rightarrow> char \<Rightarrow> string \<Rightarrow> main_opts \<Rightarrow> main_opts option option"
  where
  "apply_option atoi c arg m =
     (if c = CHR ''h'' then
        Some (Some (m\<lparr>mo_isHost := True, mo_isGuest := False, mo_isServer := False\<rparr>))
      else if c = CHR ''g'' then
        Some (Some (m\<lparr>mo_isHost := False, mo_isGuest := True, mo_isServer := False\<rparr>))
      else if c = CHR ''s'' then
        Some (Some (m\<lparr>mo_isHost := False, mo_isGuest := False, mo_isServer := True\<rparr>))
      else if c = CHR ''n'' then
        (if \<not> mo_isServer m
         then map_option (\<lambda>x. Some (m\<lparr>mo_name := x\<rparr>)) (strcpy (mo_name m) (c_string arg))
         else Some (Some m))
      else if c = CHR ''p'' then Some (Some (m\<lparr>mo_port := atoi arg\<rparr>))
      else if c = CHR ''a'' then
        (if \<not> mo_isServer m
         then map_option (\<lambda>x. Some (m\<lparr>mo_addr := x\<rparr>)) (strcpy (mo_addr m) (c_string arg))
         else Some (Some m))
      else if c = CHR ''k'' then
        (if \<not> mo_isServer m
         then map_option (\<lambda>x. Some (m\<lparr>mo_keyword := x\<rparr>)) (strcpy (mo_keyword m) (c_string arg))
         else Some (Some m))
      else Some None)"

fun OptLoop :: "nat \<Rightarrow> (string \<Rightarrow> int) \<Rightarrow> string list \<Rightarrow> getopt_state \<Rightarrow> main_opts \<Rightarrow>
    main_opts option option loop" where
  "OptLoop 0 atoi argv st m = NoFuel"
| "OptLoop (Suc fuel) atoi argv st m =
     (case getopt argv ''hgsn:k:a:p:'' st of
        (None, st) \<Rightarrow> Stop (Some (Some m))
      | (Some c, st) \<Rightarrow>
          (case apply_option atoi c (case optarg st of None \<Rightarrow> [] | Some a \<Rightarrow> a) m of
             None \<Rightarrow> Stop None
           | Some None \<Rightarrow> Stop (Some None)
           | Some (Some m) \<Rightarrow> OptLoop fuel atoi argv st m))"

definition getopt_start :: getopt_state where
  "getopt_start = \<lparr>optind = 0, optarg = None, nxt = None\<rparr>"

text \<open>
  The guest's loop in \<open>main\<close>: the file is sent in blocks of \<open>DATA_SIZE\<close> bytes, each after its number
  and its length. \<open>raw n\<close> is the uninitialised block that the \<open>n\<close>-th \<open>malloc\<close> returns, \<open>file\<close> what is
  left to read.
\<close>

definition DATA_SIZE :: nat where "DATA_SIZE = 4096"

function SendFile :: "(DWORD \<Rightarrow> BYTE list) \<Rightarrow> DWORD \<Rightarrow> BYTE list \<Rightarrow> p2pclient \<Rightarrow> p2pclient option" where
  "SendFile raw n file c =
     (let data = take DATA_SIZE file; datalen = (of_nat (length data) :: DWORD) in
      if datalen = 0 then Some c
      else let DataBuffer = dword_bytes n @ dword_bytes datalen @ data
             @ drop (unat sizeof_transfer_data + length data) (raw n) in
        case Client_SendPacket DataBuffer (sizeof_transfer_data + of_nat DATA_SIZE) c of
          None \<Rightarrow> None
        | Some c \<Rightarrow> SendFile raw (n + 1) (drop DATA_SIZE file) c)"
  by pat_completeness auto

termination
  by (relation "measure (\<lambda>(raw, n, file, c). length file)")
    (auto simp: DATA_SIZE_def intro!: diff_less)

declare SendFile.simps [simp del]

text \<open>
  The callback of the ENet thread of the client \<open>c\<close> whose channel is \<open>en\<close>: the packet goes to the
  application's callback, which may send over the same channel.
\<close>

definition client_enet_recv :: "(BYTE list \<Rightarrow> DWORD \<Rightarrow> p2pclient \<Rightarrow> (bool \<times> p2pclient) option) \<Rightarrow> BYTE list \<Rightarrow>
    enetclient \<Rightarrow> p2pclient \<Rightarrow> (enetclient \<times> p2pclient) option" where
  "client_enet_recv app Data en c = do {
     (r, c) \<leftarrow> ENetRecvPacketProcessDelegate app Data (of_nat (length Data)) (en_pRecvParam en)
        (c\<lparr>m_pENet := Some en\<rparr>);
     en \<leftarrow> m_pENet c;
     Some (en, c)
   }"

end
