(* ===== verification/Handshake.thy ===== *)
theory Handshake
  imports ServerProperties SessionProperties Application
begin

text \<open>
  Server and clients together: the calls of the server on one session, in the order in which the
  packets of an undisturbed connection arrive, and what the packets they queue do to the two
  clients that receive them. At the end, what a header that is too short does to each receiver.
\<close>

section \<open>The calls of the server\<close>

text \<open>
  \<open>d\<close> and \<open>e\<close> are the data of the host's and the guest's packet, \<open>a\<close> and \<open>b\<close> their connections,
  \<open>hi\<close> and \<open>gi\<close> the addresses their datagrams come from.
\<close>

definition session_run :: "BYTE list \<Rightarrow> BYTE list \<Rightarrow> addr \<Rightarrow> addr \<Rightarrow> CLIENT_INFO \<Rightarrow> CLIENT_INFO \<Rightarrow> tcpheap \<Rightarrow>
    (P2P_ERROR \<times> p2pconn \<times> tcpheap) option" where
  "session_run d e a b hi gi h = do {
     (c, h) \<leftarrow> CP2PConnection d (Some a) h;
     (r, c, h) \<leftarrow> TCPConnected e (Some b) c h;
     (r, c, h) \<leftarrow> UDPListening hi c h;
     (r, c, h) \<leftarrow> UDPConnected gi c h;
     (r, c, h) \<leftarrow> SetP2POK (Some a) c h;
     SetP2POK (Some b) c h
   }"

text \<open>The packets for the host and for the guest.\<close>

definition host_packets :: "DWORD \<Rightarrow> BYTE list \<Rightarrow> CLIENT_INFO \<Rightarrow> BYTE list list option" where
  "host_packets i kw gi = do {
     p \<leftarrow> CreateTCPStartUDPPkt i kw;
     s \<leftarrow> CreateP2PSuccessPkt i kw;
     Some [p, CreateTCPStartPunchingPkt i i gi, s]
   }"

definition guest_packets :: "DWORD \<Rightarrow> DWORD \<Rightarrow> BYTE list \<Rightarrow> CLIENT_INFO \<Rightarrow> BYTE list list option" where
  "guest_packets i j kw hi = do {
     p \<leftarrow> CreateTCPStartUDPPkt j kw;
     s \<leftarrow> CreateP2PSuccessPkt j kw;
     Some [CreateTCPResultPkt TPT_CONNECT_RESULT j 0, p, CreateTCPStartPunchingPkt j i hi, s]
   }"

text \<open>The data of a registration: long enough, and its two strings end inside their fields.\<close>

definition wait_packet_ok :: "BYTE list \<Rightarrow> BYTE list \<Rightarrow> BYTE list \<Rightarrow> DWORD \<Rightarrow> bool" where
  "wait_packet_ok d kw nm i \<longleftrightarrow> 164 \<le> length d \<and> rd_bytes 4 32 d = Some kw \<and> nul_terminated kw
     \<and> rd_bytes 36 128 d = Some nm \<and> nul_terminated nm \<and> rd_dword 0 d = Some i"

text \<open>A session between the connections \<open>a\<close> and \<open>b\<close> with the ids \<open>i\<close> and \<open>j\<close>, without reports.\<close>

definition session_at :: "P2P_STATUS \<Rightarrow> DWORD \<Rightarrow> DWORD \<Rightarrow> BYTE list \<Rightarrow> addr \<Rightarrow> addr \<Rightarrow> p2pconn \<Rightarrow> bool" where
  "session_at st i j kw a b c \<longleftrightarrow> conn_wf c \<and> m_pMainTCPServer c = Some a \<and> m_pConnTCPServer c = Some b
     \<and> m_eStatus c = st \<and> m_dwMainTCPID c = i \<and> m_dwConnTCPID c = j \<and> m_szKeyword c = kw
     \<and> \<not> m_bMainUDPOK c \<and> \<not> m_bConnUDPOK c"

lemma session_joins:
  assumes h: "heap_ok (tcp_good R) n h" and ab: "a \<noteq> b"
    and n: "0 < n a" "Suc (n a) < 4294967296" "0 < n b" "Suc (n b) < 4294967296"
    and d: "wait_packet_ok d kw nm i" and e: "164 \<le> length e" "rd_dword 0 e = Some j"
  obtains c1 h1 c h' p where "CP2PConnection d (Some a) h = Some (c1, h1)"
    and "TCPConnected e (Some b) c1 h1 = Some (P2P_ERROR_NONE, c, h')"
    and "session_at P2P_TCP_CONNECTED i j kw a b c" and "CreateTCPStartUDPPkt i kw = Some p"
    and "heap_ok (tcp_good R) (n(a := Suc (n a), b := Suc (n b))) h'"
    and "outbox h' = (outbox h)(a := outbox h a @ [p], b := outbox h b @ [CreateTCPResultPkt TPT_CONNECT_RESULT j 0])"
proof -
  let ?n1 = "n(a := Suc (n a))" and ?n2 = "n(a := Suc (n a), b := Suc (n b))"
  have d: "164 \<le> length d" "rd_bytes 4 32 d = Some kw" "nul_terminated kw"
    "rd_bytes 36 128 d = Some nm" "nul_terminated nm" "rd_dword 0 d = Some i"
    using d by (simp_all add: wait_packet_ok_def)
  obtain c1 h1 where c1: "CP2PConnection d (Some a) h = Some (c1, h1)" "conn_wf c1"
    "m_szKeyword c1 = kw" "m_pMainTCPServer c1 = Some a" "m_dwMainTCPID c1 = i"
    "m_bMainUDPOK c1 = False" "m_bConnUDPOK c1 = False"
    "m_eStatus c1 = P2P_TCP_LISTENING" "heap_ok (tcp_good R) ?n1 h1" "outbox h1 = outbox h"
  proof (rule CP2PConnection_spec[OF h n(1,2) d(1-5)])
    fix c h' i'
    assume x: "CP2PConnection d (Some a) h = Some (c, h')" "rd_dword 0 d = Some i'" "conn_wf c"
      "m_szKeyword c = kw" "m_pMainTCPServer c = Some a" "m_dwMainTCPID c = i'"
      "m_eStatus c = P2P_TCP_LISTENING" "heap_ok (tcp_good R) ?n1 h'" "outbox h' = outbox h"
    have "m_bMainUDPOK c = False \<and> m_bConnUDPOK c = False"
      using x(1) by (auto simp: CP2PConnection_def bind_Some_iff Let_def)
    then show thesis using x d(6) by (intro that[of c h']) simp_all
  qed
  have n1: "0 < ?n1 a" "0 < ?n1 b" "Suc (?n1 b) < 4294967296" and eq: "?n1(b := Suc (?n1 b)) = ?n2"
    using n ab by simp_all
  obtain c2 h2 nm2 j' p where t2: "TCPConnected e (Some b) c1 h1 = Some (P2P_ERROR_NONE, c2, h2)"
    "rd_bytes 36 128 e = Some nm2" "rd_dword 0 e = Some j'"
    "c2 = c1\<lparr>m_pConnTCPServer := Some b, m_szConnTCPName := nm2, m_dwConnTCPID := j',
             m_stMainUDPServer := zero_CLIENT_INFO, m_stConnUDPServer := zero_CLIENT_INFO,
             m_eStatus := P2P_TCP_CONNECTED\<rparr>"
    "conn_wf c2" "heap_ok (tcp_good R) (?n1(b := Suc (?n1 b))) h2"
    "CreateTCPStartUDPPkt (m_dwMainTCPID c1) (m_szKeyword c1) = Some p"
    "outbox h2 = (let o1 = (outbox h1)(b := outbox h1 b @ [CreateTCPResultPkt TPT_CONNECT_RESULT j' 0])
                  in o1(a := o1 a @ [p]))"
    using TCPConnected_spec[OF c1(9,2,4) n1 e(1) c1(8)] .
  have j: "j' = j" using t2(3) e(2) by simp
  have "session_at P2P_TCP_CONNECTED i j kw a b c2"
    using t2(5) by (simp add: session_at_def t2(4) j c1)
  moreover have "outbox h2 = (outbox h)(a := outbox h a @ [p], b := outbox h b @ [CreateTCPResultPkt TPT_CONNECT_RESULT j 0])"
    using ab by (simp add: t2(8) j c1(10) Let_def fun_eq_iff)
  ultimately show thesis using that[OF c1(1) t2(1)] t2(6)[unfolded eq] t2(7)[unfolded c1(3,5)] by blast
qed

lemma session_addresses:
  assumes c: "session_at P2P_TCP_CONNECTED i j kw a b c" and h: "heap_ok (tcp_good R) n h" and ab: "a \<noteq> b"
    and n: "0 < n a" "0 < n b"
  obtains c1 h1 c' h' q where "UDPListening hi c h = Some (P2P_ERROR_NONE, c1, h1)"
    and "UDPConnected gi c1 h1 = Some (P2P_ERROR_NONE, c', h')"
    and "session_at P2P_PUNCHING i j kw a b c'" and "CreateTCPStartUDPPkt j kw = Some q"
    and "heap_ok (tcp_good R) n h'"
    and "outbox h' = (outbox h)(a := outbox h a @ [CreateTCPStartPunchingPkt i i gi],
      b := outbox h b @ [q, CreateTCPStartPunchingPkt j i hi])"
proof -
  note f = c[unfolded session_at_def]
  have p2: "m_pMainTCPServer c = Some a" "0 < n a" "m_pConnTCPServer c = Some b" "0 < n b"
    "m_eStatus c = P2P_TCP_CONNECTED" "conn_wf c" using f n by simp_all
  obtain c3 h3 q where t3: "UDPListening hi c h = Some (P2P_ERROR_NONE, c3, h3)"
    "c3 = c\<lparr>m_stMainUDPServer := hi, m_eStatus := P2P_UDP_LISTENING\<rparr>" "conn_wf c3"
    "heap_ok (tcp_good R) n h3" "CreateTCPStartUDPPkt (m_dwConnTCPID c) (m_szKeyword c) = Some q"
    "outbox h3 = (outbox h)(b := outbox h b @ [q])"
    using UDPListening_spec[OF h p2(6,1-5), of hi] .
  have p3: "m_pMainTCPServer c3 = Some a" "0 < n a" "m_pConnTCPServer c3 = Some b" "0 < n b"
    "m_eStatus c3 = P2P_UDP_LISTENING" using p2 t3(2) by simp_all
  have f3: "m_dwConnTCPID c3 = j" "m_szKeyword c3 = kw" "m_dwMainTCPID c3 = i" "m_stMainUDPServer c3 = hi"
    using f t3(2) by simp_all
  obtain c4 h4 where t4: "UDPConnected gi c3 h3 = Some (P2P_ERROR_NONE, c4, h4)"
    "c4 = c3\<lparr>m_stConnUDPServer := gi, m_eStatus := P2P_PUNCHING\<rparr>" "conn_wf c4"
    "heap_ok (tcp_good R) n h4"
    "outbox h4 = (let o1 = (outbox h3)(a := outbox h3 a @
             [CreateTCPStartPunchingPkt (m_dwMainTCPID c3) (m_dwMainTCPID c3) gi]) in
           o1(b := o1 b @ [CreateTCPStartPunchingPkt (m_dwConnTCPID c3) (m_dwMainTCPID c3)
                             (m_stMainUDPServer c3)]))"
    using UDPConnected_spec[OF t3(4,3) p3, of gi] .
  have "session_at P2P_PUNCHING i j kw a b c4" using f t4(3) by (simp add: session_at_def t4(2) t3(2))
  moreover have "outbox h4 = (outbox h)(a := outbox h a @ [CreateTCPStartPunchingPkt i i gi],
      b := outbox h b @ [q, CreateTCPStartPunchingPkt j i hi])"
    using ab by (simp add: t4(5) f3 t3(6) Let_def fun_eq_iff)
  moreover have "CreateTCPStartUDPPkt j kw = Some q" using t3(5) f by simp
  ultimately show thesis using that[OF t3(1) t4(1)] t4(4) by blast
qed

lemma session_reports:
  assumes c: "session_at P2P_PUNCHING i j kw a b c" and h: "heap_ok (tcp_good R) n h" and ab: "a \<noteq> b"
    and n: "0 < n a" "0 < n b"
  obtains c1 h1 c' h' s t where "SetP2POK (Some a) c h = Some (P2P_ERROR_NONE, c1, h1)"
    and "SetP2POK (Some b) c1 h1 = Some (P2P_ERROR_NONE, c', h')"
    and "m_eStatus c' = P2P_CONNECTED" and "CreateP2PSuccessPkt i kw = Some s" and "CreateP2PSuccessPkt j kw = Some t"
    and "heap_ok (tcp_good R) n h'" and "outbox h' = (outbox h)(a := outbox h a @ [s], b := outbox h b @ [t])"
proof -
  note f = c[unfolded session_at_def]
  have p4: "m_pMainTCPServer c = Some a" "0 < n a" "m_pConnTCPServer c = Some b" "0 < n b"
    "m_eStatus c = P2P_PUNCHING" "conn_wf c" using f n by simp_all
  let ?c5 = "note_ok (Some a) c"
  have c5: "SetP2POK (Some a) c h = Some (P2P_ERROR_NONE, ?c5, h)"
    using f ab by (intro SetP2POK_waits[OF h p4(6,1-5)]) simp
  have wf5: "conn_wf ?c5" using p4(6) by (simp add: conn_wf_def)
  have p5: "m_pMainTCPServer ?c5 = Some a" "0 < n a" "m_pConnTCPServer ?c5 = Some b" "0 < n b"
    "m_eStatus ?c5 = P2P_PUNCHING" "m_bMainUDPOK (note_ok (Some b) ?c5)" "m_bConnUDPOK (note_ok (Some b) ?c5)"
    using p4 by simp_all
  obtain c6 h6 s t where t6: "SetP2POK (Some b) ?c5 h = Some (P2P_ERROR_NONE, c6, h6)"
    "c6 = (note_ok (Some b) ?c5)\<lparr>m_eStatus := P2P_CONNECTED\<rparr>" "conn_wf c6"
    "heap_ok (tcp_good R) n h6"
    "CreateP2PSuccessPkt (m_dwMainTCPID ?c5) (m_szKeyword ?c5) = Some s"
    "CreateP2PSuccessPkt (m_dwConnTCPID ?c5) (m_szKeyword ?c5) = Some t"
    "outbox h6 = (let o1 = (outbox h)(a := outbox h a @ [s]) in o1(b := o1 b @ [t]))"
    using SetP2POK_completes[OF h wf5 p5] .
  have f5: "m_dwMainTCPID ?c5 = i" "m_dwConnTCPID ?c5 = j" "m_szKeyword ?c5 = kw"
    using f by simp_all
  have "m_eStatus c6 = P2P_CONNECTED" unfolding t6(2) by simp
  then show thesis using that[OF c5 t6(1)] t6(4) t6(5,6)[unfolded f5] t6(7) ab by (simp add: Let_def)
qed

lemma session_run_spec:
  assumes h: "heap_ok (tcp_good R) n h" and ab: "a \<noteq> b"
    and n: "0 < n a" "Suc (n a) < 4294967296" "0 < n b" "Suc (n b) < 4294967296"
    and d: "164 \<le> length d" "rd_bytes 4 32 d = Some kw" "nul_terminated kw"
      "rd_bytes 36 128 d = Some nm" "nul_terminated nm" "rd_dword 0 d = Some i"
    and e: "164 \<le> length e" "rd_dword 0 e = Some j"
  obtains c h' ps qs where "session_run d e a b hi gi h = Some (P2P_ERROR_NONE, c, h')"
    and "m_eStatus c = P2P_CONNECTED" and "host_packets i kw gi = Some ps"
    and "guest_packets i j kw hi = Some qs"
    and "heap_ok (tcp_good R) (n(a := Suc (n a), b := Suc (n b))) h'"
    and "outbox h' = (outbox h)(a := outbox h a @ ps, b := outbox h b @ qs)"
proof -
  let ?n = "n(a := Suc (n a), b := Suc (n b))"
  have n': "0 < ?n a" "0 < ?n b" by simp_all
  have "wait_packet_ok d kw nm i" using d by (simp add: wait_packet_ok_def)
  then obtain c1 h1 c2 h2 p where c2: "CP2PConnection d (Some a) h = Some (c1, h1)"
    "TCPConnected e (Some b) c1 h1 = Some (P2P_ERROR_NONE, c2, h2)"
    "session_at P2P_TCP_CONNECTED i j kw a b c2" "CreateTCPStartUDPPkt i kw = Some p" "heap_ok (tcp_good R) ?n h2"
    "outbox h2 = (outbox h)(a := outbox h a @ [p], b := outbox h b @ [CreateTCPResultPkt TPT_CONNECT_RESULT j 0])"
    by (rule session_joins[OF h ab n _ e])
  obtain c3 h3 c4 h4 q where c4: "UDPListening hi c2 h2 = Some (P2P_ERROR_NONE, c3, h3)"
    "UDPConnected gi c3 h3 = Some (P2P_ERROR_NONE, c4, h4)" "session_at P2P_PUNCHING i j kw a b c4"
    "CreateTCPStartUDPPkt j kw = Some q" "heap_ok (tcp_good R) ?n h4"
    "outbox h4 = (outbox h2)(a := outbox h2 a @ [CreateTCPStartPunchingPkt i i gi],
      b := outbox h2 b @ [q, CreateTCPStartPunchingPkt j i hi])"
    by (rule session_addresses[OF c2(3,5) ab n'])
  obtain c5 h5 c6 h6 s t where c6: "SetP2POK (Some a) c4 h4 = Some (P2P_ERROR_NONE, c5, h5)"
    "SetP2POK (Some b) c5 h5 = Some (P2P_ERROR_NONE, c6, h6)" "m_eStatus c6 = P2P_CONNECTED"
    "CreateP2PSuccessPkt i kw = Some s" "CreateP2PSuccessPkt j kw = Some t" "heap_ok (tcp_good R) ?n h6"
    "outbox h6 = (outbox h4)(a := outbox h4 a @ [s], b := outbox h4 b @ [t])"
    by (rule session_reports[OF c4(3,5) ab n'])
  have "session_run d e a b hi gi h = Some (P2P_ERROR_NONE, c6, h6)"
    unfolding session_run_def by (simp only: c2(1,2) c4(1,2) c6(1,2) Option.bind.simps prod.case)
  moreover have "host_packets i kw gi = Some [p, CreateTCPStartPunchingPkt i i gi, s]"
    by (simp add: host_packets_def c2(4) c6(4))
  moreover have "guest_packets i j kw hi = Some [CreateTCPResultPkt TPT_CONNECT_RESULT j 0, q,
      CreateTCPStartPunchingPkt j i hi, t]"
    by (simp add: guest_packets_def c4(4) c6(5))
  moreover have "outbox h6 = (outbox h)(a := outbox h a @ [p, CreateTCPStartPunchingPkt i i gi, s],
      b := outbox h b @ [CreateTCPResultPkt TPT_CONNECT_RESULT j 0, q, CreateTCPStartPunchingPkt j i hi, t])"
    using ab by (simp add: c6(7) c4(6) c2(6) fun_eq_iff)
  ultimately show thesis using that c6(3,6) by blast
qed

section \<open>The clients\<close>

text \<open>The client after a completed handshake.\<close>

definition punched :: "DWORD \<Rightarrow> CLIENT_INFO \<Rightarrow> p2pclient \<Rightarrow> p2pclient" where
  "punched i info x = x\<lparr>m_dwPeerid := i, m_stRemoteClientInfo := info,
     cli_eStatus := P2P_CONNECTED, m_hStatusChange := True\<rparr>"

lemma success_type: "CreateP2PSuccessPkt i kw = Some p \<Longrightarrow> pkt_type p = Some (tpt_num TPT_P2P_RESULT)"
  unfolding CreateP2PSuccessPkt_def by (erule CreateTCPWaitAndConnPkt_props)

lemma host_connects: "host_packets i kw gi = Some ps \<Longrightarrow> host.recv_all ps x = Some (punched i gi x)"
proof -
  assume "host_packets i kw gi = Some ps"
  then obtain p s where p: "CreateTCPStartUDPPkt i kw = Some p" "CreateP2PSuccessPkt i kw = Some s"
    "ps = [p, CreateTCPStartPunchingPkt i i gi, s]" by (auto simp: host_packets_def bind_Some_iff)
  show ?thesis unfolding punched_def p(3)
    by (rule host.handshake[OF CreateTCPStartUDPPkt_props(2)[OF p(1)]
          CreateTCPStartPunchingPkt_props(2,3) success_type[OF p(2)]])
qed

lemma guest_ignores_connect_result:
  "pkt_type p = Some (tpt_num TPT_CONNECT_RESULT) \<Longrightarrow> guest_recv p x = Some (True, x)"
  by (simp only: Guest_RecvTCPPacketProcess_def Option.bind.simps tpt_of_num option.case
      TCPBASE_PACKET_TYPE.case)

lemma guest_connects: "guest_packets i j kw hi = Some qs \<Longrightarrow> guest.recv_all qs x = Some (punched i hi x)"
proof -
  assume "guest_packets i j kw hi = Some qs"
  then obtain p s where p: "CreateTCPStartUDPPkt j kw = Some p" "CreateP2PSuccessPkt j kw = Some s"
    "qs = [CreateTCPResultPkt TPT_CONNECT_RESULT j 0, p, CreateTCPStartPunchingPkt j i hi, s]"
    by (auto simp: guest_packets_def bind_Some_iff)
  have "guest.recv_all [p, CreateTCPStartPunchingPkt j i hi, s] x = Some (punched i hi x)"
    unfolding punched_def
    by (rule guest.handshake[OF CreateTCPStartUDPPkt_props(2)[OF p(1)]
          CreateTCPStartPunchingPkt_props(2,3) success_type[OF p(2)]])
  moreover have "guest_recv (CreateTCPResultPkt TPT_CONNECT_RESULT j 0) x = Some (True, x)"
    by (rule guest_ignores_connect_result) (rule CreateTCPResultPkt_props(2))
  ultimately show ?thesis unfolding p(3) by (simp only: guest.recv_all.simps Option.bind.simps prod.case)
qed

text \<open>
  C8: the handshake connects both clients with each other. For two live connections and well formed
  packets of a host and a guest: the server's calls in the order of an undisturbed handshake all
  succeed, the session ends connected and holds one reference on each connection, and the
  packets that were queued for them, received in order, take the host's and the guest's client
  from any state to \<open>P2P_CONNECTED\<close>, with the host's connection id as the common peer id and the
  other side's UDP address as the remote address.
\<close>

theorem handshake_connects_both:
  assumes "heap_ok (tcp_good R) n h" and "a \<noteq> b"
    and "0 < n a" and "Suc (n a) < 4294967296" and "0 < n b" and "Suc (n b) < 4294967296"
    and "wait_packet_ok d kw nm i" and "164 \<le> length e" and "rd_dword 0 e = Some j"
  shows "\<exists>c h' ps qs. session_run d e a b hi gi h = Some (P2P_ERROR_NONE, c, h')
     \<and> m_eStatus c = P2P_CONNECTED
     \<and> heap_ok (tcp_good R) (n(a := Suc (n a), b := Suc (n b))) h'
     \<and> outbox h' a = outbox h a @ ps \<and> outbox h' b = outbox h b @ qs
     \<and> (\<forall>x. host.recv_all ps x = Some (punched i gi x))
     \<and> (\<forall>x. guest.recv_all qs x = Some (punched i hi x))"
proof -
  obtain c h' ps qs where s: "session_run d e a b hi gi h = Some (P2P_ERROR_NONE, c, h')"
    "m_eStatus c = P2P_CONNECTED" "host_packets i kw gi = Some ps" "guest_packets i j kw hi = Some qs"
    "heap_ok (tcp_good R) (n(a := Suc (n a), b := Suc (n b))) h'"
    "outbox h' = (outbox h)(a := outbox h a @ ps, b := outbox h b @ qs)"
    using assms(7) unfolding wait_packet_ok_def
    by (auto elim: session_run_spec[OF assms(1-6) _ _ _ _ _ _ assms(8,9), where kw = kw and nm = nm
          and i = i and hi = hi and gi = gi])
  then show ?thesis using assms(2) host_connects[OF s(3)] guest_connects[OF s(4)] by auto
qed

theorem handshake_connects_both_witness:
  "\<exists>c h' ps qs. session_run (dword_bytes 1 @ 55 # replicate 159 0) (dword_bytes 2 @ 55 # replicate 159 0)
        1 2 \<lparr>ipaddr = 1, port = 2\<rparr> \<lparr>ipaddr = 3, port = 4\<rparr> demo_heap = Some (P2P_ERROR_NONE, c, h')
     \<and> outbox h' 1 = ps \<and> outbox h' 2 = qs
     \<and> (\<forall>x. host.recv_all ps x = Some (punched 1 \<lparr>ipaddr = 3, port = 4\<rparr> x))
     \<and> (\<forall>x. guest.recv_all qs x = Some (punched 1 \<lparr>ipaddr = 1, port = 2\<rparr> x))"
proof -
  let ?d = "dword_bytes 1 @ 55 # replicate 159 0" and ?e = "dword_bytes 2 @ 55 # replicate 159 0"
  have d: "wait_packet_ok ?d (55 # replicate 31 0) (replicate 128 0) 1" by code_simp
  have e: "164 \<le> length ?e" "rd_dword 0 ?e = Some 2" by (simp_all add: wire_simps)
  have n: "(1 :: addr) \<noteq> 2" "0 < demo_owners 1" "Suc (demo_owners 1) < 4294967296"
    "0 < demo_owners 2" "Suc (demo_owners 2) < 4294967296" by (simp_all add: demo_owners_def)
  have "outbox demo_heap 1 = []" "outbox demo_heap 2 = []"
    by (simp_all add: outbox_def demo_heap_def demo_tcp_def CTCPBase_def)
  then show ?thesis
    using handshake_connects_both[OF demo_heap_ok n d e, of "\<lparr>ipaddr = 1, port = 2\<rparr>"
        "\<lparr>ipaddr = 3, port = 4\<rparr>"] by auto
qed

section \<open>A refused guest is not told\<close>

text \<open>
  A guest that the server refuses does not notice. The server answers a refused
  \<open>TPT_CONNECT\<close> with \<open>TPT_CONNECT_RESULT\<close>, but the guest handles \<open>TPT_WAIT_RESULT\<close> instead: whatever
  error code the answer carries, the guest's state, its error code and its events stay as they
  are, so that \<open>Connect\<close> waits for ever.
\<close>

theorem guest_ignores_refusal:
  "guest_recv (CreateTCPResultPkt TPT_CONNECT_RESULT i result) x = Some (True, x)"
  by (rule guest_ignores_connect_result) (rule CreateTCPResultPkt_props(2))

section \<open>A header that is too short\<close>

lemma short_no_type: "length p < 8 \<Longrightarrow> pkt_type p = None"
  by (simp add: pkt_type_def rd_dword_def rd_bytes_def)

text \<open>
  C27: a header that announces less than eight bytes makes every receiver of the program read
  outside its memory. Let the peer send any complete packets, which the callback processes, and then a
  header with a length below that of a header, zero included. The receiving loop passes the packets
  on and cuts a packet of the announced length, and the callback, of the host, of the guest and of
  the server alike, reads the type at offset 4 to 8 of it: undefined behaviour in the thread that
  received it.
\<close>

theorem short_header_faults_receiver:
  assumes "list_all wf_packet ps" and "8 \<le> length bs" and "frame_len bs < 8"
    and "length (concat ps @ bs) < 4294967296" and "length ps < fuel"
  shows "(\<forall>recv c c'. recv \<in> {host_recv, guest_recv} \<longrightarrow> deliver r recv ps c = Some c' \<longrightarrow> r c' \<longrightarrow>
       RecvProcess fuel r recv (True, concat ps @ bs, of_nat (length (concat ps @ bs)))
         CreateDataStreamBuffer c = Stop None)
   \<and> (\<forall>s s'. deliver q (RecvTCPPacketProcess mem new) ps s = Some s' \<longrightarrow> q s' \<longrightarrow>
       RecvProcess fuel q (RecvTCPPacketProcess mem new)
         (True, concat ps @ bs, of_nat (length (concat ps @ bs))) CreateDataStreamBuffer s = Stop None)"
proof (intro conjI allI impI)
  fix recv c c'
  assume "recv \<in> {host_recv, guest_recv}" "deliver r recv ps c = Some c'" "r c'"
  moreover have "host_recv p v = None" "guest_recv p v = None" if "length p < 8" for p v
    using short_no_type[OF that] by (simp_all add: Host_RecvTCPPacketProcess_def Guest_RecvTCPPacketProcess_def)
  ultimately show "RecvProcess fuel r recv (True, concat ps @ bs, of_nat (length (concat ps @ bs)))
      CreateDataStreamBuffer c = Stop None"
    by (intro RecvProcess_short[OF assms]) auto
next
  fix s s'
  assume "deliver q (RecvTCPPacketProcess mem new) ps s = Some s'" "q s'"
  moreover have "RecvTCPPacketProcess mem new p v = None" if "length p < 8" for p v
    using short_no_type[OF that] by (simp add: RecvTCPPacketProcess_def)
  ultimately show "RecvProcess fuel q (RecvTCPPacketProcess mem new)
      (True, concat ps @ bs, of_nat (length (concat ps @ bs))) CreateDataStreamBuffer s = Stop None"
    by (intro RecvProcess_short[OF assms]) auto
qed

text \<open>A reset packet of eight bytes and a header of zeros, to a host and to a server.\<close>

theorem short_header_faults_receiver_witness:
  "(\<forall>c. RecvProcess 5 (\<lambda>_. True) host_recv (True, [8, 0, 0, 0, 77, 0, 0, 0] @ [0, 0, 0, 0, 0, 0, 0, 0], 16)
     CreateDataStreamBuffer c = Stop None)
   \<and> RecvProcess 5 (\<lambda>_. True) (RecvTCPPacketProcess (\<lambda>_. []) 7)
     (True, [8, 0, 0, 0, 77, 0, 0, 0] @ [0, 0, 0, 0, 0, 0, 0, 0], 16) CreateDataStreamBuffer (CP2PServer (Some 3) 5000)
     = Stop None"
proof -
  let ?p = "[8, 0, 0, 0, 77, 0, 0, 0] :: BYTE list" and ?z = "[0, 0, 0, 0, 0, 0, 0, 0] :: BYTE list"
  let ?s = "CP2PServer (Some 3) 5000"
  have "frame_len ?p = 8" "frame_len ?z = 0" by code_simp+
  then have h: "list_all wf_packet [?p]" "8 \<le> length ?z" "frame_len ?z < 8"
    "length (concat [?p] @ ?z) < 4294967296" "length [?p] < 5"
    by (simp_all add: wf_packet_def)
  have t: "pkt_type ?p = Some 77" "tpt_of 77 = None" by code_simp+
  have "deliver (\<lambda>_. True) host_recv [?p] c = Some c" for c
    using t by (simp add: Host_RecvTCPPacketProcess_def)
  moreover have
    "deliver (\<lambda>_. True) (RecvTCPPacketProcess (\<lambda>_. []) 7) [?p] ?s = Some ?s"
    using t by (simp add: RecvTCPPacketProcess_def)
  moreover note short_header_faults_receiver[OF h, of "\<lambda>_. True" "\<lambda>_. True" "\<lambda>_. []" 7]
  ultimately show ?thesis by simp
qed

end
