(* ===== verification/ClientProperties.thy ===== *)
theory ClientProperties
  imports Handshake
begin

text \<open>
  Properties of the clients: how they come to be connected, and what their retry loops do when
  nobody answers.
\<close>

section \<open>A concrete client\<close>

definition demo_client :: "P2P_CLIENT_TYPE \<Rightarrow> P2P_STATUS \<Rightarrow> p2pclient" where
  "demo_client t st =
     (case CP2PClient (replicate 32 0) (replicate 32 0) (replicate 32 0) [65, 0] [55, 0] [49, 0] 5000 t of
        None \<Rightarrow> undefined
      | Some c \<Rightarrow> c\<lparr>cli_eStatus := st, cli_dwTCPid := 4,
           m_pTCP := Some (CTCPBase (Some 5) (replicate 128 0) 0 (replicate 128 0) 5000),
           cli_pUDP := Some (CUDPBase (Some 6))\<rparr>)"

text \<open>
  C28: a client is connected only by the server's success packet, and only while it is punching.
  For host and guest alike, if handling a packet takes the client into \<open>P2P_CONNECTED\<close>, it was in
  \<open>P2P_PUNCHING\<close> and the packet is \<open>TPT_P2P_RESULT\<close>.
\<close>

theorem client_connected_only_from_punching:
  assumes "recv = host_recv \<or> recv = guest_recv" and "recv p c = Some (r, c')"
    and "cli_eStatus c' = P2P_CONNECTED" and "cli_eStatus c \<noteq> P2P_CONNECTED"
  shows "cli_eStatus c = P2P_PUNCHING \<and> pkt_type p = Some (tpt_num TPT_P2P_RESULT)"
  using assms host.connected_only_from_punching guest.connected_only_from_punching by blast

theorem client_connected_only_from_punching_witness:
  "host_recv (demo_packet TPT_P2P_RESULT 1) (demo_client P2P_CLIENT_HOST P2P_PUNCHING) \<noteq> None
   \<and> cli_eStatus (demo_client P2P_CLIENT_HOST P2P_PUNCHING) = P2P_PUNCHING
   \<and> pkt_type (demo_packet TPT_P2P_RESULT 1) = Some (tpt_num TPT_P2P_RESULT)"
proof -
  let ?c = "demo_client P2P_CLIENT_HOST P2P_PUNCHING"
  have "case host_recv (demo_packet TPT_P2P_RESULT 1) ?c of None \<Rightarrow> False
    | Some (r, c') \<Rightarrow> cli_eStatus c' = P2P_CONNECTED \<and> cli_eStatus ?c \<noteq> P2P_CONNECTED" by code_simp
  then obtain r c' where r: "host_recv (demo_packet TPT_P2P_RESULT 1) ?c = Some (r, c')"
    "cli_eStatus c' = P2P_CONNECTED" "cli_eStatus ?c \<noteq> P2P_CONNECTED"
    by (auto split: option.splits)
  have "host_recv = host_recv \<or> host_recv = guest_recv" by blast
  from client_connected_only_from_punching[OF this r] r(1) show ?thesis by simp
qed

section \<open>The retry loops\<close>

text \<open>
  C29: the exchange of addresses falls back to the relay after ten unanswered datagrams. If no
  status change and no stop is signalled while the client has sent its datagram ten times, each
  followed by a wait that times out, it enters \<open>P2P_TCP_PROXY_REQUEST\<close> and queues one proxy
  request for the server; \<open>others\<close> is what the other threads do meanwhile.
\<close>

theorem info_exchange_falls_back:
  assumes "sends (SendUDPToServer inet_addr) others 10 c = Some c'"
    and "\<forall>n d. 0 < n \<and> n \<le> 10 \<and> sends (SendUDPToServer inet_addr) others n c = Some d \<longrightarrow> quiet d"
    and "CreateTCPProxyRequest (cli_dwTCPid c') (cli_szKeyword c') (m_szName c') = Some pk"
  shows "UDPInfoExchangeEventProccess inet_addr others c
    = Some (tcp_send_or_free pk (c'\<lparr>cli_eStatus := P2P_TCP_PROXY_REQUEST\<rparr>))"
proof -
  have "RetryLoop (SendUDPToServer inet_addr) others 0 c = Some (WAIT_TIMEOUT, True, c')"
    by (rule RetryLoop_from[OF _ _ _ assms(1)]) (use assms(2) in auto)
  then show ?thesis
    using assms(3) by (simp add: UDPInfoExchangeEventProccess_def proxy_request_def SetState_def)
qed

text \<open>
  Hole punching never falls back to the relay. The test after the loop joins two inequalities
  by \<open>||\<close> and is always true: with other threads that leave the client's state and connection
  alone, \<open>UDPPunchEventProcess\<close> ends after at most ten datagrams with the state unchanged and
  without any packet for the server, also when every wait timed out.
\<close>

theorem punching_never_falls_back:
  assumes "\<forall>n d. cli_eStatus (others n d) = cli_eStatus d \<and> m_pTCP (others n d) = m_pTCP d"
  shows "\<exists>c'. UDPPunchEventProcess others c = Some c'
     \<and> cli_eStatus c' = cli_eStatus c \<and> m_pTCP c' = m_pTCP c"
proof -
  let ?send = "\<lambda>c. Some (SendUDPToPeer UPT_HANDSHAKE c)"
  have send: "cli_eStatus (SendUDPToPeer t d) = cli_eStatus d" "m_pTCP (SendUDPToPeer t d) = m_pTCP d"
    for t d by (simp_all add: SendUDPToPeer_def udp_send_def split: option.split)
  have "\<exists>Ret t c'. RetryLoop ?send others k c = Some (Ret, t, c')
      \<and> cli_eStatus c' = cli_eStatus c \<and> m_pTCP c' = m_pTCP c" for k
  proof (induction "10 - k" arbitrary: k c rule: less_induct)
    case less
    let ?c = "others k (SendUDPToPeer UPT_HANDSHAKE c)"
    have c: "cli_eStatus ?c = cli_eStatus c" "m_pTCP ?c = m_pTCP c" using assms send by simp_all
    obtain Ret where r: "retry_wait (others k) (SendUDPToPeer UPT_HANDSHAKE c) = (Ret, ?c)"
      by (simp add: retry_wait_def Let_def)
    show ?case
    proof (cases "Ret \<noteq> WAIT_TIMEOUT \<or> k + 1 \<ge> 10")
      case True
      then show ?thesis using r c by (subst RetryLoop.simps) auto
    next
      case False
      then have "k < 9" by simp
      then have "10 - Suc k < 10 - k" by arith
      from less.hyps[OF this, of ?c] show ?thesis
        using r c False by (subst RetryLoop.simps) simp
    qed
  qed
  then obtain Ret t c' where "RetryLoop ?send others 0 c = Some (Ret, t, c')"
    "cli_eStatus c' = cli_eStatus c" "m_pTCP c' = m_pTCP c" by blast
  moreover have "Ret \<noteq> WAIT_OBJECT_0 \<or> Ret \<noteq> WAIT_TIMEOUT" for Ret
    by (auto simp: WAIT_OBJECT_0_def WAIT_TIMEOUT_def)
  ultimately show ?thesis by (simp add: UDPPunchEventProcess_def)
qed

theorem punching_never_falls_back_witness:
  "\<exists>c'. UDPPunchEventProcess (\<lambda>_ c. c) (demo_client P2P_CLIENT_GUEST P2P_PUNCHING) = Some c'
     \<and> cli_eStatus c' = P2P_PUNCHING"
proof -
  have "cli_eStatus (demo_client P2P_CLIENT_GUEST P2P_PUNCHING) = P2P_PUNCHING" by code_simp
  then show ?thesis
    using punching_never_falls_back[of "\<lambda>_ c. c" "demo_client P2P_CLIENT_GUEST P2P_PUNCHING"] by auto
qed

theorem info_exchange_falls_back_witness:
  "case UDPInfoExchangeEventProccess (\<lambda>_. 0) (\<lambda>_ c. c) (demo_client P2P_CLIENT_HOST P2P_UDP_LISTENING) of
     None \<Rightarrow> False | Some c' \<Rightarrow> cli_eStatus c' = P2P_TCP_PROXY_REQUEST"
proof -
  let ?c = "demo_client P2P_CLIENT_HOST P2P_UDP_LISTENING"
  let ?send = "SendUDPToServer (\<lambda>_. 0)" and ?o = "\<lambda>(_ :: nat) (c :: p2pclient). c"
  have ok: "case sends ?send ?o 10 ?c of None \<Rightarrow> False | Some c' \<Rightarrow>
      (case CreateTCPProxyRequest (cli_dwTCPid c') (cli_szKeyword c') (m_szName c') of
         None \<Rightarrow> False | Some _ \<Rightarrow> True)" by code_simp
  then obtain c' pk where c': "sends ?send ?o 10 ?c = Some c'"
    "CreateTCPProxyRequest (cli_dwTCPid c') (cli_szKeyword c') (m_szName c') = Some pk"
    by (auto split: option.splits)
  have q: "quiet ?c" by code_simp
  have keep: "quiet d'" if "quiet d" "?send d = Some d'" for d d'
    using that by (auto simp: SendUDPToServer_def udp_send_def quiet_def bind_Some_iff split: option.splits)
  have "quiet d" if "sends ?send ?o n ?c = Some d" for n d
    using that by (induction n arbitrary: d) (auto simp: q bind_Some_iff intro: keep)
  then have "\<forall>n d. 0 < n \<and> n \<le> 10 \<and> sends ?send ?o n ?c = Some d \<longrightarrow> quiet d" by blast
  from info_exchange_falls_back[OF c'(1) this c'(2)]
  show ?thesis by (simp add: tcp_send_or_free_def split: option.split)
qed

end
