(* ===== verification/ClientMessages.thy ===== *)
theory ClientMessages
  imports ServerContract ClientProperties
begin

text \<open>
  What a client sends in the course of a connection: the code of host and guest builds the
  registration, the request, the datagram that shows an address and the report in the form in which
  the server takes them for the keyword and the id of the client.
\<close>

section \<open>What a client sends\<close>

text \<open>A client of type \<open>t\<close> that has been given the id \<open>i\<close> and was started with the keyword \<open>kw\<close>.\<close>

definition client_is :: "P2P_CLIENT_TYPE \<Rightarrow> DWORD \<Rightarrow> BYTE list \<Rightarrow> p2pclient \<Rightarrow> bool" where
  "client_is t i kw c \<longleftrightarrow> m_eClientType c = t \<and> cli_dwTCPid c = i \<and> cstr (cli_szKeyword c) = kw
     \<and> nul_terminated (cli_szKeyword c) \<and> length (cli_szKeyword c) = 32
     \<and> nul_terminated (m_szName c) \<and> length (m_szName c) = 32
     \<and> m_pTCP c \<noteq> None \<and> cli_pUDP c \<noteq> None"

text \<open>The result \<open>r\<close> of an operation on \<open>c\<close> is \<open>c\<close> with one packet more in a send queue.\<close>

definition sends_tcp :: "p2pclient option \<Rightarrow> p2pclient \<Rightarrow> BYTE list \<Rightarrow> bool" where
  "sends_tcp r c P \<longleftrightarrow> (case m_pTCP c of None \<Rightarrow> False
     | Some tcp \<Rightarrow> r = Some (c\<lparr>m_pTCP := Some (SendPacket P tcp)\<rparr>))"

lemma CP2PClient_is:
  assumes "CP2PClient raw1 raw2 raw3 name kw ip pt t = Some c" and "length raw1 = 32" and "length raw2 = 32"
    and "m_pTCP c' \<noteq> None" and "cli_pUDP c' \<noteq> None" and "m_szName c' = m_szName c"
    and "cli_szKeyword c' = cli_szKeyword c" and "m_eClientType c' = t" and "cli_dwTCPid c' = i"
  shows "client_is t i (cstr kw) c'"
  using assms by (auto simp: CP2PClient_def bind_Some_iff client_is_def dest!: strcpy_Some)

lemma rd_TCP_WAIT_PACKET_ok:
  assumes "rd_TCP_WAIT_PACKET d = Some \<lparr>wp_tcpid = i, wp_keyword = k, wp_clientName = n\<rparr>"
    and "nul_terminated k" and "nul_terminated n"
  shows "wait_ok d" and "rd_dword 0 d = Some i" and "keyword_at d = k"
  using assms by (auto simp: rd_TCP_WAIT_PACKET_def bind_Some_iff wait_ok_def keyword_ok_def keyword_at_def
      rd_bytes_def KEYWORD_SIZE_def NAME_SIZE_def split: if_splits)

text \<open>The keyword \<open>kw\<close> in its field of a packet: \<open>strncpy\<close> fills the rest with zeros.\<close>

definition keyword_field :: "BYTE list \<Rightarrow> BYTE list" where
  "keyword_field kw = kw @ replicate (KEYWORD_SIZE - length kw) 0"

lemma strncpy_pads: "strncpy n s = Some t \<Longrightarrow> length (cstr s) < n \<Longrightarrow> t = cstr s @ replicate (n - length (cstr s)) 0"
  by (induction n s arbitrary: t rule: strncpy.induct) (auto simp: cstr_def split: if_splits)

lemma WaitAndConn_packet_for:
  assumes "nul_terminated kw" and "length (cstr kw) < 32" and "nul_terminated nm" and "length (cstr nm) < 128"
  obtains P where "CreateTCPWaitAndConnPkt i kw nm t = Some P" and "packet_for t i (cstr kw) P"
    and "keyword_at (pkt_data P) = keyword_field (cstr kw)"
proof -
  obtain P where P: "CreateTCPWaitAndConnPkt i kw nm t = Some P"
    using CreateTCPWaitAndConnPkt_defined assms(1,3) by blast
  obtain k n where kn: "strncpy 32 kw = Some k" "strncpy 128 nm = Some n" "wf_packet P"
    "pkt_type P = Some (tpt_num t)"
    "rd_TCP_WAIT_PACKET (pkt_data P) = Some \<lparr>wp_tcpid = i, wp_keyword = k, wp_clientName = n\<rparr>"
    using CreateTCPWaitAndConnPkt_props[OF P] .
  note s = strncpy_cstr[OF kn(1) assms(2)] strncpy_cstr[OF kn(2) assms(4)]
  note d = rd_TCP_WAIT_PACKET_ok[OF kn(5)]
  have "packet_for t i (cstr kw) P"
    using s d kn(4) by (simp only: packet_for_def simp_thms)
  moreover have "keyword_at (pkt_data P) = keyword_field (cstr kw)"
    using s d strncpy_pads[OF kn(1) assms(2)] by (simp add: keyword_field_def KEYWORD_SIZE_def)
  ultimately show thesis using that P by blast
qed

lemma client_packet:
  assumes c: "client_is t i kw c" and nm: "nm = m_szName c \<or> nm = replicate NAME_SIZE 0"
  obtains P where "CreateTCPWaitAndConnPkt (cli_dwTCPid c) (cli_szKeyword c) nm ty = Some P"
    and "packet_for ty i kw P" and "keyword_at (pkt_data P) = keyword_field kw"
proof -
  have "nul_terminated (cli_szKeyword c)" "length (cstr (cli_szKeyword c)) < 32"
    using c cstr_length_less[of "cli_szKeyword c"] by (auto simp: client_is_def)
  moreover have "nul_terminated nm" "length (cstr nm) < 128"
    using c nm cstr_length_less[of nm] by (auto simp: client_is_def NAME_SIZE_def)
  ultimately show thesis
    using that c WaitAndConn_packet_for[of "cli_szKeyword c" nm i ty] by (auto simp: client_is_def)
qed

text \<open>The registration of a host, the request of a guest, and the report of either.\<close>

definition registration :: "DWORD \<Rightarrow> BYTE list \<Rightarrow> BYTE list \<Rightarrow> bool" where
  "registration i kw P \<longleftrightarrow> packet_for TPT_WAITING i kw P \<and> keyword_at (pkt_data P) = keyword_field kw"

lemma host_registers:
  assumes c: "client_is t i kw c"
  shows "\<exists>P. sends_tcp (TCPListeningEventProcess c) c P \<and> registration i kw P"
proof -
  obtain P where P: "CreateTCPWaitAndConnPkt (cli_dwTCPid c) (cli_szKeyword c) (m_szName c) TPT_WAITING
      = Some P" "packet_for TPT_WAITING i kw P" "keyword_at (pkt_data P) = keyword_field kw"
    by (rule client_packet[OF c disjI1[OF refl]])
  have "sends_tcp (TCPListeningEventProcess c) c P"
    using c P(1) by (auto simp: client_is_def TCPListeningEventProcess_def CreateTCPWaitPkt_def
        sends_tcp_def tcp_send_or_free_def)
  then show ?thesis using P(2,3) unfolding registration_def by blast
qed

lemma guest_asks:
  assumes c: "client_is t i kw c"
  shows "\<exists>P. sends_tcp (TCPConnectEventProcess c) c P \<and> packet_for TPT_CONNECT i kw P"
proof -
  obtain P where P: "CreateTCPWaitAndConnPkt (cli_dwTCPid c) (cli_szKeyword c) (m_szName c) TPT_CONNECT
      = Some P" "packet_for TPT_CONNECT i kw P"
    by (rule client_packet[OF c disjI1[OF refl]]) blast
  have "sends_tcp (TCPConnectEventProcess c) c P"
    using c P(1) by (auto simp: client_is_def TCPConnectEventProcess_def CreateTCPConnPkt_def sends_tcp_def)
  then show ?thesis using P(2) by blast
qed

text \<open>A client that is punching and hears from its peer.\<close>

definition keepalive_for :: "p2pclient \<Rightarrow> UDP_PACKET \<Rightarrow> bool" where
  "keepalive_for c p \<longleftrightarrow> upt_of (udp_type (BasePacket p)) = Some UPT_KEEPALIVE
     \<and> rd_dword 0 (udp_data (BasePacket p)) = Some (m_dwPeerid c) \<and> cli_eStatus c = P2P_PUNCHING"

lemma client_report:
  assumes c: "client_is t i kw c"
  obtains P where "packet_for TPT_P2P_RESULT i kw P" and
    "\<And>d p. cli_dwTCPid d = cli_dwTCPid c \<Longrightarrow> cli_szKeyword d = cli_szKeyword c \<Longrightarrow> keepalive_for d p \<Longrightarrow>
       Client_RecvUDPPacketProcess p d = Some (True, tcp_send_or_free P d)"
proof -
  obtain P where P: "CreateTCPWaitAndConnPkt (cli_dwTCPid c) (cli_szKeyword c) (replicate NAME_SIZE 0)
      TPT_P2P_RESULT = Some P" "packet_for TPT_P2P_RESULT i kw P"
    by (rule client_packet[OF c disjI2[OF refl]]) blast
  then show thesis
    by (intro that[of P]) (simp_all add: keepalive_for_def Client_RecvUDPPacketProcess_def CreateP2PSuccessPkt_def)
qed

text \<open>The datagram with which a client shows the server its address, and the packet that the
  receiving endpoint of the server makes of it.\<close>

definition delivered :: "UDP_PACKET \<Rightarrow> CLIENT_INFO \<Rightarrow> UDP_PACKET" where
  "delivered p sender = \<lparr>BasePacket = CalcCheckSum (BasePacket p), PacketInfo = sender\<rparr>"

lemma delivered_by_endpoint:
  assumes "length (udp_data (BasePacket p)) = 247" and "registered w"
  shows "UDP_RecvProcess registered f True 256 (snd (datagram_of p)) sender w = f (delivered p sender) w"
  using assms udpbase_roundtrip[of "CalcCheckSum (BasePacket p)"]
  by (simp add: UDP_RecvProcess_def sizeof_UDPBASE_PACKET_def delivered_def prepare_packet_def)

definition same_sender :: "p2pclient \<Rightarrow> p2pclient \<Rightarrow> bool" where
  "same_sender c d \<longleftrightarrow> m_eClientType d = m_eClientType c \<and> cli_szKeyword d = cli_szKeyword c
     \<and> m_szName d = m_szName c \<and> m_szServerIP d = m_szServerIP c \<and> m_dwServerUDPPort d = m_dwServerUDPPort c"

lemma client_datagram:
  assumes c: "client_is t i kw c"
  obtains p where "\<And>d. same_sender c d \<Longrightarrow> SendUDPToServer inet_addr d = Some (udp_send p d)"
    and "length (udp_data (BasePacket p)) = 247"
    and "\<And>sender. datagram_for (if t = P2P_CLIENT_HOST then UPT_WAITING else UPT_CONNECT) kw (delivered p sender)"
proof -
  have kw: "nul_terminated (cli_szKeyword c)" "length (cli_szKeyword c) \<le> 32"
    and nm: "nul_terminated (m_szName c)" "length (m_szName c) \<le> 32"
    using c by (simp_all add: client_is_def)
  obtain k where k: "strncpy 32 (cli_szKeyword c) = Some k" "cstr k = cstr (cli_szKeyword c)"
    "nul_terminated k" "length k = 32" by (rule strncpy_terminated[OF kw])
  obtain n where n: "strncpy 32 (m_szName c) = Some n" "length n = 32"
    by (rule strncpy_terminated[OF nm])
  let ?t = "if t = P2P_CLIENT_HOST then UPT_WAITING else UPT_CONNECT"
  let ?p = "\<lparr>BasePacket = \<lparr>udp_type = upt_num ?t, udp_length = of_nat sizeof_TCP_WAIT_PACKET,
      udp_data = dword_bytes 0 @ k @ n @ replicate (UDP_DATA_MAX - 68) 0, checksum = 0\<rparr>,
    PacketInfo = \<lparr>ipaddr = inet_addr (m_szServerIP c), port = htons (m_dwServerUDPPort c)\<rparr>\<rparr>"
  show thesis
  proof (rule that)
    show "SendUDPToServer inet_addr d = Some (udp_send ?p d)" if "same_sender c d" for d
      using that c k(1) n(1) by (auto simp: same_sender_def client_is_def SendUDPToServer_def Let_def)
    show "length (udp_data (BasePacket ?p)) = 247" using k(4) n(2) by (simp add: UDP_DATA_MAX_def)
    have "keyword_at (udp_data (BasePacket ?p)) = k" using k(4) by (simp add: keyword_at_def KEYWORD_SIZE_def)
    then show "datagram_for ?t kw (delivered ?p sender)" for sender
      using c k(2,3) by (simp add: datagram_for_def delivered_def client_is_def)
  qed
qed

end
