(* ===== verification/RelayProperties.thy ===== *)
theory RelayProperties
  imports ClientProperties
begin

text \<open>
  The relayed channel and the ENet channel of the clients, and the reference that a host object
  holds on itself.
\<close>

section \<open>Relayed data\<close>

text \<open>
  Relayed data reaches the application eight bytes off. A client that relays wraps its data
  with \<open>CreateTCPProxyData\<close>; the receiving client lays \<open>TCP_PROXY_DATA\<close> over the start of the
  packet instead of over its data. So its callback gets the sender's peer id \<open>i\<close> as the length,
  and as data the direction and the length fields followed by the data that was sent.
\<close>

theorem relayed_data_misread:
  assumes "unat n \<le> length d" and "unat n < 4294967276" and "cli_pfnRecvFunc c"
  shows "\<exists>p. CreateTCPProxyData i h d n = Some p
     \<and> TCPProxyPacketProcess app p c
         = app (dword_bytes h @ dword_bytes n @ take (unat n) d) i c"
proof -
  let ?sz = "BASE_PACKET_HEADER_LEN + of_nat TCP_PROXY_DATA_HEADER_LEN + n"
  let ?p = "dword_bytes ?sz @ dword_bytes (tpt_num TPT_DATA_PROXY) @ dword_bytes i @ dword_bytes h @
      dword_bytes n @ take (unat n) d"
  have "unat ?sz = 20 + unat n"
    using assms(2)
    by (simp add: BASE_PACKET_HEADER_LEN_def TCP_PROXY_DATA_HEADER_LEN_def unat_word_ariths)
  then have "CreateTCPProxyData i h d n = Some ?p"
    using assms(1) by (simp add: CreateTCPProxyData_def alloc_and_copy_def Let_def rd_bytes_0)
  moreover have "rd_TCP_PROXY_DATA ?p
      = Some (?sz, tpt_num TPT_DATA_PROXY, i, dword_bytes h @ dword_bytes n @ take (unat n) d)"
    by (simp add: rd_TCP_PROXY_DATA_def wire_simps TCP_PROXY_DATA_HEADER_LEN_def)
  ultimately show ?thesis
    using assms(3) by (intro exI[of _ ?p]) (simp add: TCPProxyPacketProcess_def)
qed

theorem relayed_data_misread_witness:
  "\<exists>p. CreateTCPProxyData 6 1 [7, 8] 2 = Some p
     \<and> TCPProxyPacketProcess (\<lambda>d n c. Some (n = 6 \<and> d = [1, 0, 0, 0, 2, 0, 0, 0, 7, 8], c)) p
         ((demo_client P2P_CLIENT_HOST P2P_TCP_PROXY)\<lparr>cli_pfnRecvFunc := True\<rparr>)
       = Some (True, (demo_client P2P_CLIENT_HOST P2P_TCP_PROXY)\<lparr>cli_pfnRecvFunc := True\<rparr>)"
proof -
  have "dword_bytes 1 @ dword_bytes 2 @ take (unat (2 :: DWORD)) [7, 8] = [1, 0, 0, 0, 2, 0, 0, 0, 7, 8]"
    by code_simp
  then show ?thesis
    using relayed_data_misread[of 2 "[7, 8]" "(demo_client P2P_CLIENT_HOST P2P_TCP_PROXY)\<lparr>cli_pfnRecvFunc := True\<rparr>"
        6 1 "\<lambda>d n c. Some (n = 6 \<and> d = [1, 0, 0, 0, 2, 0, 0, 0, 7, 8], c)"]
    by simp
qed

text \<open>
  The peer id that the server assigns for relaying is thrown away. The server's
  \<open>TPT_PROXY_RESULT\<close> carries the peer id, but host and guest only change their state; the data
  they relay afterwards carries the peer id they had before, which is 0 when they fell back
  before the hole punching began.
\<close>

theorem relay_keeps_old_peer_id:
  assumes "recv = host_recv \<or> recv = guest_recv" and "cli_pUDP c = None"
    and "m_pTCP c = Some tcp" and "unat n \<le> length d" and "unat n < 4294967276"
  shows "\<exists>c' p h tcp'. Option.bind (recv (CreateTCPProxyResultPkt j peer 0) c) (\<lambda>(r, c).
          Option.bind (TCPProxyEventProcess c) (Client_SendPacket d n)) = Some c'
     \<and> m_pTCP c' = Some tcp' \<and> m_SendList tcp' = m_SendList tcp @ [p]
     \<and> rd_TCP_PROXY_DATA (pkt_data p) = Some (m_dwPeerid c, h, n, take (unat n) d)"
proof -
  let ?r = "CreateTCPProxyResultPkt j peer 0"
  let ?h = "if m_eClientType c = P2P_CLIENT_HOST then 1 else 0 :: DWORD"
  note p = CreateTCPProxyResultPkt_props(2,3)[of j peer 0]
  have r: "recv ?r c = Some (True, SetStateEvent P2P_TCP_PROXY c)"
    using assms(1) host.proxy_result[OF p(1), of c] guest.proxy_result[OF p(1), of c] p(2) by auto
  obtain q where q: "CreateTCPProxyData (m_dwPeerid c) ?h d n = Some q"
    "rd_TCP_PROXY_DATA (pkt_data q) = Some (m_dwPeerid c, ?h, n, take (unat n) d)"
    using CreateTCPProxyData_props[OF assms(4,5)] by metis
  have "Option.bind (TCPProxyEventProcess (SetStateEvent P2P_TCP_PROXY c)) (Client_SendPacket d n)
      = Some (tcp_send_or_free q ((SetStateEvent P2P_TCP_PROXY c)\<lparr>m_eType := PCT_TCP_RELAY,
          m_hConnectedEvent := True\<rparr>))"
    using assms(2) q(1)
    by (simp add: TCPProxyEventProcess_def SetStateEvent_def SetState_def Client_SendPacket_def)
  then show ?thesis using r q(2) assms(3)
    by (simp add: tcp_send_or_free_def SetStateEvent_def SetState_def SendPacket_def)
qed

theorem relay_keeps_old_peer_id_witness:
  "\<exists>c' p h tcp'. Option.bind (host_recv (CreateTCPProxyResultPkt 4 4 0)
        ((demo_client P2P_CLIENT_HOST P2P_TCP_PROXY_REQUEST)\<lparr>cli_pUDP := None\<rparr>)) (\<lambda>(r, c).
          Option.bind (TCPProxyEventProcess c) (Client_SendPacket [7, 8] 2)) = Some c'
     \<and> m_pTCP c' = Some tcp' \<and> m_SendList tcp' = [p]
     \<and> rd_TCP_PROXY_DATA (pkt_data p) = Some (0, h, 2, [7, 8])"
proof -
  let ?c = "(demo_client P2P_CLIENT_HOST P2P_TCP_PROXY_REQUEST)\<lparr>cli_pUDP := None\<rparr>"
  let ?tcp = "CTCPBase (Some 5) (replicate 128 0) 0 (replicate 128 0) 5000"
  have eq: "demo_client P2P_CLIENT_HOST P2P_TCP_PROXY_REQUEST
      = (case CP2PClient (replicate 32 0) (replicate 32 0) (replicate 32 0) [65, 0] [55, 0] [49, 0] 5000
           P2P_CLIENT_HOST of None \<Rightarrow> undefined | Some c \<Rightarrow> c\<lparr>cli_eStatus := P2P_TCP_PROXY_REQUEST,
           cli_dwTCPid := 4, m_pTCP := Some ?tcp, cli_pUDP := Some (CUDPBase (Some 6))\<rparr>)"
    by (simp only: demo_client_def)
  have c: "m_pTCP ?c = Some ?tcp" "m_dwPeerid ?c = 0" "cli_pUDP ?c = None"
    unfolding eq by (simp_all add: CP2PClient_def strcpy_def cstr_def)
  have "m_SendList ?tcp = []" by (simp add: CTCPBase_def)
  moreover have "host_recv = host_recv \<or> host_recv = guest_recv" by blast
  moreover have "unat (2 :: DWORD) \<le> length [7, 8 :: BYTE]" "unat (2 :: DWORD) < 4294967276" by simp_all
  moreover have "take (unat (2 :: DWORD)) [7, 8 :: BYTE] = [7, 8]" by simp
  ultimately show ?thesis
    using relay_keeps_old_peer_id[OF _ c(3,1), of host_recv 2 "[7, 8]" 4 4] c(2)
    by (simp only: append_Nil)
qed

section \<open>The host object\<close>

lemma ClientPortLoop_fields:
  "ClientPortLoop fuel bound p udp = Stop (q, udp') \<Longrightarrow> udp_pRecvParam udp' = udp_pRecvParam udp
     \<and> udp_SendList udp' = udp_SendList udp \<and> GetSocket udp' = GetSocket udp"
  by (induction fuel bound p udp rule: ClientPortLoop.induct)
    (auto simp: GetSocket_def UDP_Init_def UDP_Start_def CBaseObject_AddRef_def Let_def split: if_splits)

text \<open>What a successful \<open>Init\<close> leaves: three references more, for the three registered callbacks.\<close>

lemma Client_Init_ready:
  assumes "Client_Init fuel rawdst rawsrc sock connected local bound udpsock c1 = Stop (Some (True, c2))"
  obtains tcp udp q where "m_pRecvParam tcp = Some client_self" and "m_pEndParam tcp = Some client_self"
    and "udp_pRecvParam udp = Some client_self"
    and "m_SendList tcp = []" and "udp_SendList udp = []" and "GetSocket udp = udpsock"
    and "c2 = c1\<lparr>m_lRef := m_lRef c1 + 3, m_pTCP := Some tcp, cli_dwUDPPort := q, cli_pUDP := Some udp\<rparr>"
proof -
  obtain tcp0 tcp1 s1 tcp2 s2 tcp3 u s3 where i: "CTCPClient rawdst rawsrc (m_szServerIP c1)
      (m_dwServerTCPPort c1) = Some tcp0"
    "RegisterRecvProcess client_AddRef client_Release (Some ClientDelegate) (Some client_self) tcp0 c1
      = Some (tcp1, s1)"
    "RegisterEndProcess client_AddRef client_Release (Some ClientDelegate) (Some client_self) tcp1 s1
      = Some (tcp2, s2)"
    "CTCPClient_Init sock connected local tcp2 = Some (True, tcp3)"
    "UDP_RegisterRecvProcess client_AddRef client_Release (Some UdpClientDelegate) (Some client_self)
      (CUDPBase udpsock) (s2\<lparr>m_pTCP := Some tcp3, cli_dwUDPPort := UDP_PORT_SERVER_BASE\<rparr>) = Some (u, s3)"
    "map_loop (\<lambda>(p, udp). Some (True, s3\<lparr>cli_dwUDPPort := p, cli_pUDP := Some udp\<rparr>))
       (ClientPortLoop fuel bound (cli_dwUDPPort s3) u) = Stop (Some (True, c2))"
    using assms by (auto simp: Client_Init_def bind_Some_iff Let_def split: option.splits bool.splits if_splits)
  have s3: "s3 = c1\<lparr>m_lRef := m_lRef c1 + 3, m_pTCP := Some tcp3, cli_dwUDPPort := UDP_PORT_SERVER_BASE\<rparr>
      \<and> udp_pRecvParam u = Some client_self \<and> udp_SendList u = [] \<and> GetSocket u = udpsock
      \<and> m_SendList tcp2 = [] \<and> m_pRecvParam tcp2 = Some client_self \<and> m_pEndParam tcp2 = Some client_self"
    using i(1,2,3,5)
    by (auto simp: GetSocket_def CTCPClient_def CTCPBase_def CUDPBase_def RegisterRecvProcess_def
        RegisterEndProcess_def UDP_RegisterRecvProcess_def register_param_def client_AddRef_def
        CBaseObject_AddRef_def bind_Some_iff)
  have tcp3: "m_pRecvParam tcp3 = m_pRecvParam tcp2 \<and> m_pEndParam tcp3 = m_pEndParam tcp2 \<and> m_SendList tcp3 = m_SendList tcp2"
    using i(4) by (auto simp: CTCPClient_Init_def bind_Some_iff Let_def split: option.splits if_splits)
  obtain q udp where l: "ClientPortLoop fuel bound (cli_dwUDPPort s3) u = Stop (q, udp)"
    "c2 = s3\<lparr>cli_dwUDPPort := q, cli_pUDP := Some udp\<rparr>"
    using i(6) by (cases "ClientPortLoop fuel bound (cli_dwUDPPort s3) u") auto
  show thesis using that[of tcp3 udp q] s3 tcp3 l ClientPortLoop_fields[OF l(1)] by simp
qed

lemma client_registered:
  assumes "CP2PClient raw1 raw2 raw3 name kw ip pt ty = Some c0"
    and "RegisterRecvPacketProcess True (Some client_self) c0 = Some c1"
  shows "c1 = c0\<lparr>m_lRef := 2, cli_pfnRecvFunc := True, m_pParam := Some client_self\<rparr>"
  using assms
  by (auto simp: CP2PClient_def RegisterRecvPacketProcess_def register_param_def
      client_AddRef_def CBaseObject_AddRef_def bind_Some_iff)

text \<open>
  A host object is never deleted. \<open>main\<close> registers the host as the parameter of its own
  callback, and nothing ends that registration: \<open>Close\<close> gives back the references of the
  connection, the UDP endpoint and the ENet channel, but after \<open>main\<close>'s own release one reference
  is left, so each round of its loop leaks the object.
\<close>

theorem host_object_leaks:
  assumes "CP2PHost raw1 raw2 raw3 name kw ip pt = Some c0"
    and "RegisterRecvPacketProcess True (Some client_self) c0 = Some c1"
    and "Client_Init fuel rawdst rawsrc sock connected local bound udpsock c1 = Stop (Some (True, c2))"
    and "Host_Close c2 = Some c3"
  shows "\<exists>c4. client_Release client_self c3 = Some c4 \<and> m_lRef c4 = 1
     \<and> m_pParam c4 = Some client_self"
proof -
  have c1: "m_lRef c1 = 2" "m_pParam c1 = Some client_self" "m_pENet c1 = None"
    using assms(1) client_registered[OF assms(1)[unfolded CP2PHost_def] assms(2)]
    by (auto simp: CP2PHost_def CP2PClient_def bind_Some_iff)
  obtain tcp udp where c2: "m_lRef c2 = 5" "m_pParam c2 = Some client_self" "m_pENet c2 = None"
    "m_pTCP c2 = Some tcp" "m_pRecvParam tcp = Some client_self" "m_pEndParam tcp = Some client_self"
    "cli_pUDP c2 = Some udp" "udp_pRecvParam udp = Some client_self"
    by (rule Client_Init_ready[OF assms(3)]) (simp add: c1)
  have "m_lRef c3 = 2" "m_pParam c3 = Some client_self"
    using assms(4) c2
    by (auto simp: Host_Close_def Client_Done_def CTCPClient_Done_def RegisterRecvProcess_def
        RegisterEndProcess_def UDP_Stop_def UDP_RegisterRecvProcess_def register_param_def
        client_Release_def CBaseObject_Release_def Let_def bind_Some_iff split: if_splits)
  then show ?thesis
    by (simp add: client_Release_def CBaseObject_Release_def Let_def)
qed

theorem host_object_leaks_witness:
  "\<exists>c0 c1 c2 c3 c4. CP2PHost (replicate 32 0) (replicate 32 0) (replicate 32 0) [65, 0] [55, 0] [49, 0] 5000
       = Some c0
     \<and> RegisterRecvPacketProcess True (Some client_self) c0 = Some c1
     \<and> Client_Init 1 (replicate 128 0) (replicate 128 0) 5 True None (\<lambda>_. True) (Some 6) c1
         = Stop (Some (True, c2))
     \<and> Host_Close c2 = Some c3 \<and> client_Release client_self c3 = Some c4 \<and> m_lRef c4 = 1"
proof -
  let ?r = "replicate 32 0" and ?b = "replicate 128 0"
  have ok: "case CP2PHost ?r ?r ?r [65, 0] [55, 0] [49, 0] 5000 of None \<Rightarrow> False | Some c0 \<Rightarrow>
      (case RegisterRecvPacketProcess True (Some client_self) c0 of None \<Rightarrow> False | Some c1 \<Rightarrow>
      (case Client_Init 1 ?b ?b 5 True None (\<lambda>_. True) (Some 6) c1 of
         Stop (Some (True, c2)) \<Rightarrow> (case Host_Close c2 of None \<Rightarrow> False | Some _ \<Rightarrow> True) | _ \<Rightarrow> False))"
    by code_simp
  then obtain c0 c1 c2 c3 where c: "CP2PHost ?r ?r ?r [65, 0] [55, 0] [49, 0] 5000 = Some c0"
    "RegisterRecvPacketProcess True (Some client_self) c0 = Some c1"
    "Client_Init 1 ?b ?b 5 True None (\<lambda>_. True) (Some 6) c1 = Stop (Some (True, c2))"
    "Host_Close c2 = Some c3"
    by (auto split: option.splits loop.splits bool.splits)
  from host_object_leaks[OF c] c show ?thesis by blast
qed

section \<open>The ENet channel\<close>

text \<open>
  What a run queues, computed from the operations alone. A peer is accepted from its connect event
  on if it connects from the address \<open>ad\<close> of the other side: its data field \<open>pd\<close> is then the peer id
  \<open>i\<close>, and 0 otherwise. The host's callback answers each packet of an accepted peer with its first
  eight bytes; a guest's answers none. The thread ends at an error and when an accepted peer leaves.
\<close>

fun answers_pass :: "bool \<Rightarrow> DWORD \<Rightarrow> (addr \<Rightarrow> DWORD) \<Rightarrow> enet_event \<Rightarrow> BYTE list list" where
  "answers_pass host i pd (ENET_EVENT_TYPE_RECEIVE p d) = (if host \<and> pd p = i then [take 8 d] else [])"
| "answers_pass host i pd e = []"

fun peers_pass :: "DWORD \<Rightarrow> ENetAddress \<Rightarrow> (addr \<Rightarrow> DWORD) \<Rightarrow> enet_event \<Rightarrow> addr \<Rightarrow> DWORD" where
  "peers_pass i ad pd (ENET_EVENT_TYPE_CONNECT p h q) = pd(p := if (h, q) = ad then i else 0)"
| "peers_pass i ad pd e = pd"

fun ends_pass :: "(addr \<Rightarrow> DWORD) \<Rightarrow> enet_event \<Rightarrow> bool" where
  "ends_pass pd (ENET_EVENT_TYPE_DISCONNECT p) = (pd p \<noteq> 0)"
| "ends_pass pd e = False"

fun queued_by :: "bool \<Rightarrow> DWORD \<Rightarrow> ENetAddress \<Rightarrow> (addr \<Rightarrow> DWORD) \<Rightarrow> enet_op list \<Rightarrow> BYTE list list" where
  "queued_by host i ad pd [] = []"
| "queued_by host i ad pd (Queue d n # ops) = take (unat n) d # queued_by host i ad pd ops"
| "queued_by host i ad pd (Pass ret e # ops) =
     (if ret < 0 \<or> (ret > 0 \<and> ends_pass pd e) then []
      else if ret = 0 then queued_by host i ad pd ops
      else answers_pass host i pd e @ queued_by host i ad (peers_pass i ad pd e) ops)"

text \<open>The channel and the client, and operations that stay inside the memory they name.\<close>

definition channel_open :: "DWORD \<Rightarrow> ENetAddress \<Rightarrow> enetclient \<Rightarrow> bool" where
  "channel_open i ad en \<longleftrightarrow> \<not> en_hStopEvent en \<and> en_pRecvParam en \<noteq> None \<and> en_pfnRecvFunc en
     \<and> en_dwPeerId en = i \<and> (ipaddr (m_stPeerInfo en), htons (port (m_stPeerInfo en))) = ad"

definition enet_mode :: "bool \<Rightarrow> p2pclient \<Rightarrow> bool" where
  "enet_mode host c \<longleftrightarrow> m_eType c = PCT_ENET \<and> cli_pfnRecvFunc c \<and> (m_eClientType c = P2P_CLIENT_HOST) = host"

fun enet_op_ok :: "bool \<Rightarrow> enet_op \<Rightarrow> bool" where
  "enet_op_ok host (Queue d n) \<longleftrightarrow> unat n \<le> length d"
| "enet_op_ok host (Pass ret (ENET_EVENT_TYPE_RECEIVE p d)) \<longleftrightarrow> (host \<longrightarrow> 8 \<le> length d)"
| "enet_op_ok host (Pass ret e) \<longleftrightarrow> True"

lemma callback_answers:
  assumes "channel_open i ad en" and "enet_mode host c" and "host \<longrightarrow> 8 \<le> length d"
  defines "en' \<equiv> en\<lparr>en_SendList := en_SendList en @ (if host then [take 8 d] else [])\<rparr>"
  shows "client_enet_recv P2PRecvPacketProcess d en c = Some (en', c\<lparr>m_pENet := Some en'\<rparr>)"
proof (cases host)
  case True
  then have d: "8 \<le> length d" using assms(3) by simp
  then obtain d0 d4 where "rd_dword 0 d = Some d0" "rd_dword 4 d = Some d4"
    by (auto simp: rd_dword_def rd_bytes_def)
  moreover have "rd_bytes 0 (unat sizeof_transfer_data) d = Some (take 8 d)"
    using d by (simp add: rd_bytes_def sizeof_transfer_data_def)
  ultimately show ?thesis using assms(1,2) True
    by (simp add: en'_def client_enet_recv_def ENetRecvPacketProcessDelegate_def ENetRecvPacketProcess_def
        P2PRecvPacketProcess_def GetClientType_def Client_SendPacket_def ENet_SendPacket_def enet_mode_def
        channel_open_def wait_any_timeout_def wait_any_def)
next
  case False
  then show ?thesis using assms(1,2)
    by (simp add: en'_def client_enet_recv_def ENetRecvPacketProcessDelegate_def ENetRecvPacketProcess_def
        P2PRecvPacketProcess_def GetClientType_def enet_mode_def channel_open_def)
qed

lemma channel_open_upd [simp]:
  "channel_open i ad (en\<lparr>en_SendList := q\<rparr>) = channel_open i ad en"
  "channel_open i ad (en\<lparr>m_pENetPeer := p\<rparr>) = channel_open i ad en"
  "channel_open i ad (en\<lparr>peer_data := pd\<rparr>) = channel_open i ad en"
  by (simp_all add: channel_open_def)

lemma flush_pass:
  "\<exists>en' sent. ENetFlush en = (en', sent) \<and> sent @ en_SendList en' = en_SendList en
     \<and> channel_open i ad en' = channel_open i ad en \<and> peer_data en' = peer_data en
     \<and> (m_pENetPeer en' \<noteq> None \<longrightarrow> en_SendList en' = [])"
  by (auto simp: ENetFlush_all)

text \<open>One pass of the thread with the program's callback.\<close>

lemma pass_in_order:
  assumes en: "channel_open i ad en" and c: "enet_mode host c" and ok: "enet_op_ok host (Pass ret e)"
  defines "pd \<equiv> peer_data en"
  shows "\<exists>b en' sent c'. ENetProcess (client_enet_recv P2PRecvPacketProcess) ret e en c = Some (b, en', sent, c')
     \<and> b = (\<not> (ret < 0 \<or> (ret > 0 \<and> ends_pass pd e))) \<and> channel_open i ad en' \<and> enet_mode host c'
     \<and> sent @ en_SendList en' = en_SendList en @ (if ret > 0 then answers_pass host i pd e else [])
     \<and> (b \<longrightarrow> peer_data en' = (if ret > 0 then peers_pass i ad pd e else pd)
          \<and> (m_pENetPeer en' \<noteq> None \<longrightarrow> en_SendList en' = []))"
proof -
  have go: "wait_any_timeout [en_hStopEvent en] = WAIT_TIMEOUT"
    using en by (simp add: channel_open_def wait_any_timeout_def wait_any_def)
  have i: "en_dwPeerId en = i" "en_pfnRecvFunc en"
    "ipaddr (m_stPeerInfo en) = h \<and> htons (port (m_stPeerInfo en)) = q \<longleftrightarrow> (h, q) = ad" for h q
    using en by (auto simp: channel_open_def)
  consider (neg) "ret < 0" | (zero) "ret = 0" | (pos) "0 < ret" by linarith
  then show ?thesis
  proof cases
    case neg
    then have "ENetProcess (client_enet_recv P2PRecvPacketProcess) ret e en c = Some (False, en, [], c)"
      using go by (simp add: ENetProcess_def)
    then show ?thesis using neg en c by auto
  next
    case zero
    obtain en' sent where "ENetFlush en = (en', sent)" "sent @ en_SendList en' = en_SendList en"
      "channel_open i ad en' = channel_open i ad en" "peer_data en' = peer_data en"
      "m_pENetPeer en' \<noteq> None \<longrightarrow> en_SendList en' = []" using flush_pass[of en i ad] by blast
    then show ?thesis using go en c zero by (auto simp: ENetProcess_def pd_def)
  next
    case pos
    show ?thesis
    proof (cases e)
      case (ENET_EVENT_TYPE_CONNECT p h q)
      let ?en = "if (h, q) = ad then en\<lparr>peer_data := (peer_data en)(p := i), m_pENetPeer := Some p\<rparr>
        else en\<lparr>peer_data := (peer_data en)(p := 0)\<rparr>"
      obtain en' sent where "ENetFlush ?en = (en', sent)" "sent @ en_SendList en' = en_SendList ?en"
        "channel_open i ad en' = channel_open i ad ?en" "peer_data en' = peer_data ?en"
        "m_pENetPeer en' \<noteq> None \<longrightarrow> en_SendList en' = []" using flush_pass[of ?en i ad] by blast
      then show ?thesis using go en c pos ENET_EVENT_TYPE_CONNECT i by (auto simp: ENetProcess_def pd_def)
    next
      case (ENET_EVENT_TYPE_RECEIVE p d)
      define q where "q = (if pd p = i then en\<lparr>en_SendList := en_SendList en @ (if host then [take 8 d] else [])\<rparr> else en)"
      define c1 where "c1 = (if pd p = i then c\<lparr>m_pENet := Some q\<rparr> else c)"
      have "client_enet_recv P2PRecvPacketProcess d en c = Some (q, c1)" if "pd p = i"
        using callback_answers[OF en c, of d] ok that ENET_EVENT_TYPE_RECEIVE by (simp add: q_def c1_def)
      then have cb: "(if peer_data en p = en_dwPeerId en \<and> en_pfnRecvFunc en
          then client_enet_recv P2PRecvPacketProcess d en c else Some (en, c)) = Some (q, c1)"
        by (simp add: i pd_def q_def c1_def)
      obtain en' sent where f: "ENetFlush q = (en', sent)" "sent @ en_SendList en' = en_SendList q"
        "channel_open i ad en' = channel_open i ad q" "peer_data en' = peer_data q"
        "m_pENetPeer en' \<noteq> None \<longrightarrow> en_SendList en' = []" using flush_pass[of q i ad] by blast
      have "ENetProcess (client_enet_recv P2PRecvPacketProcess) ret e en c = Some (True, en', sent, c1)"
        using go pos cb f(1) unfolding ENET_EVENT_TYPE_RECEIVE by (simp add: ENetProcess_def)
      moreover have "enet_mode host c1" using c by (simp add: c1_def enet_mode_def)
      ultimately show ?thesis using f en pos ENET_EVENT_TYPE_RECEIVE by (auto simp: q_def pd_def)
    next
      case (ENET_EVENT_TYPE_DISCONNECT p)
      obtain en' sent where "ENetFlush en = (en', sent)" "sent @ en_SendList en' = en_SendList en"
        "channel_open i ad en' = channel_open i ad en" "peer_data en' = peer_data en"
        "m_pENetPeer en' \<noteq> None \<longrightarrow> en_SendList en' = []" using flush_pass[of en i ad] by blast
      then show ?thesis using go en c pos ENET_EVENT_TYPE_DISCONNECT by (auto simp: ENetProcess_def pd_def)
    next
      case ENET_EVENT_TYPE_NONE
      obtain en' sent where "ENetFlush en = (en', sent)" "sent @ en_SendList en' = en_SendList en"
        "channel_open i ad en' = channel_open i ad en" "peer_data en' = peer_data en"
        "m_pENetPeer en' \<noteq> None \<longrightarrow> en_SendList en' = []" using flush_pass[of en i ad] by blast
      then show ?thesis using go en c pos ENET_EVENT_TYPE_NONE by (auto simp: ENetProcess_def pd_def)
    qed
  qed
qed

text \<open>
  C39: the ENet channel of the program neither loses nor reorders a packet. Take a host or a guest whose
  client is in ENet mode and whose channel is open, and any interleaving of calls of
  \<open>SendPacket\<close> by the main thread and passes of the ENet thread with any answers of ENet, in which
  the calls name memory they own and, at a host, packets have the eight bytes of a block header, up
  to the end of the thread. No step faults, and the packets given to ENet followed by those still queued are the queue at the
  start followed by exactly what the operations queue: what the main thread sends, and the host's
  answer to each packet of an accepted peer, each at its place. After a pass that leaves a peer
  connected, nothing is left in the queue.
\<close>

theorem enet_sends_in_order:
  assumes "channel_open i ad en" and "enet_mode host c" and "\<forall>x\<in>set ops. enet_op_ok host x"
  shows "\<exists>b en' sent c'. ENetOps (client_enet_recv P2PRecvPacketProcess) ops en c = Some (b, en', sent, c')
     \<and> sent @ en_SendList en' = en_SendList en @ queued_by host i ad (peer_data en) ops
     \<and> (ops \<noteq> [] \<longrightarrow> (\<exists>ret e. last ops = Pass ret e) \<longrightarrow> b \<longrightarrow> m_pENetPeer en' \<noteq> None \<longrightarrow> en_SendList en' = [])"
  using assms
proof (induction ops arbitrary: en c)
  case (Cons x ops)
  show ?case
  proof (cases x)
    case (Queue d n)
    let ?en = "en\<lparr>en_SendList := en_SendList en @ [take (unat n) d]\<rparr>"
    have "wait_any_timeout [en_hStopEvent en] = WAIT_TIMEOUT"
      using Cons.prems(1) by (simp add: channel_open_def wait_any_timeout_def wait_any_def)
    then have q: "ENet_SendPacket d n en = Some ?en"
      using Cons.prems(3) Queue by (simp add: ENet_SendPacket_def rd_bytes_def)
    have "channel_open i ad ?en" "\<forall>x\<in>set ops. enet_op_ok host x" using Cons.prems(1,3) by simp_all
    from Cons.IH[OF this(1) Cons.prems(2) this(2)] obtain b en' sent c' where
      "ENetOps (client_enet_recv P2PRecvPacketProcess) ops ?en c = Some (b, en', sent, c')"
      "sent @ en_SendList en' = en_SendList ?en @ queued_by host i ad (peer_data ?en) ops"
      "ops \<noteq> [] \<longrightarrow> (\<exists>ret e. last ops = Pass ret e) \<longrightarrow> b \<longrightarrow> m_pENetPeer en' \<noteq> None \<longrightarrow> en_SendList en' = []"
      by blast
    then show ?thesis using Queue q by (intro exI[of _ b] exI[of _ en'] exI[of _ sent] exI[of _ c']) auto
  next
    case (Pass ret e)
    have ok: "enet_op_ok host (Pass ret e)" "\<forall>x\<in>set ops. enet_op_ok host x" using Cons.prems(3) Pass by simp_all
    obtain b1 en1 sent1 c1 where p: "ENetProcess (client_enet_recv P2PRecvPacketProcess) ret e en c = Some (b1, en1, sent1, c1)"
      "b1 = (\<not> (ret < 0 \<or> (ret > 0 \<and> ends_pass (peer_data en) e)))" "channel_open i ad en1" "enet_mode host c1"
      "sent1 @ en_SendList en1 = en_SendList en @ (if ret > 0 then answers_pass host i (peer_data en) e else [])"
      "b1 \<longrightarrow> peer_data en1 = (if ret > 0 then peers_pass i ad (peer_data en) e else peer_data en)
         \<and> (m_pENetPeer en1 \<noteq> None \<longrightarrow> en_SendList en1 = [])"
      using pass_in_order[OF Cons.prems(1,2) ok(1)] by blast
    show ?thesis
    proof (cases b1)
      case False
      then have "(if ret > 0 then answers_pass host i (peer_data en) e else []) = []"
        using p(2) by (cases e) auto
      moreover have "ENetOps (client_enet_recv P2PRecvPacketProcess) (x # ops) en c = Some (False, en1, sent1, c1)"
        using False p(1) Pass by simp
      ultimately show ?thesis using False p(2,5) Pass by auto
    next
      case True
      from Cons.IH[OF p(3,4) ok(2)] obtain b en' sent c' where
        r: "ENetOps (client_enet_recv P2PRecvPacketProcess) ops en1 c1 = Some (b, en', sent, c')"
        "sent @ en_SendList en' = en_SendList en1 @ queued_by host i ad (peer_data en1) ops"
        "ops \<noteq> [] \<longrightarrow> (\<exists>ret e. last ops = Pass ret e) \<longrightarrow> b \<longrightarrow> m_pENetPeer en' \<noteq> None \<longrightarrow> en_SendList en' = []"
        by blast
      have q: "queued_by host i ad (peer_data en) (x # ops)
          = (if ret > 0 then answers_pass host i (peer_data en) e else []) @ queued_by host i ad (peer_data en1) ops"
        using p(2,6) True Pass by auto
      have "(sent1 @ sent) @ en_SendList en' = (sent1 @ en_SendList en1) @ queued_by host i ad (peer_data en1) ops"
        using r(2) by simp
      also have "\<dots> = en_SendList en @ queued_by host i ad (peer_data en) (x # ops)" using p(5) q by simp
      finally have "(sent1 @ sent) @ en_SendList en' = en_SendList en @ queued_by host i ad (peer_data en) (x # ops)" .
      moreover have "ENetOps (client_enet_recv P2PRecvPacketProcess) (x # ops) en c = Some (b, en', sent1 @ sent, c')"
        using p(1) True r(1) Pass by simp
      moreover have "ops = [] \<Longrightarrow> en' = en1" using r(1) by simp
      ultimately show ?thesis using r(3) p(6) True
        by (intro exI[of _ b] exI[of _ en'] exI[of _ "sent1 @ sent"] exI[of _ c']) auto
    qed
  qed
qed auto

text \<open>A host queues a packet, its guest connects and sends a block, a stranger connects and sends one.\<close>

theorem enet_sends_in_order_witness:
  "let en = (CENetClient None 7 zero_CLIENT_INFO True)\<lparr>en_pfnRecvFunc := True, en_pRecvParam := Some client_self\<rparr>;
       c = (demo_client P2P_CLIENT_HOST P2P_CONNECTED)\<lparr>m_eType := PCT_ENET, cli_pfnRecvFunc := True\<rparr>;
       ops = [Queue [1, 2] 2, Pass 1 (ENET_EVENT_TYPE_CONNECT 9 0 (htons 0)),
         Pass 1 (ENET_EVENT_TYPE_RECEIVE 9 [3, 0, 0, 0, 4, 0, 0, 0, 5]), Queue [6] 1,
         Pass 1 (ENET_EVENT_TYPE_CONNECT 8 1 1), Pass 1 (ENET_EVENT_TYPE_RECEIVE 8 (replicate 9 0))]
   in \<exists>b en' sent c'. ENetOps (client_enet_recv P2PRecvPacketProcess) ops en c = Some (b, en', sent, c')
     \<and> sent @ en_SendList en' = [[1, 2], [3, 0, 0, 0, 4, 0, 0, 0], [6]]"
proof -
  let ?en = "(CENetClient None 7 zero_CLIENT_INFO True)\<lparr>en_pfnRecvFunc := True, en_pRecvParam := Some client_self\<rparr>"
  let ?c = "(demo_client P2P_CLIENT_HOST P2P_CONNECTED)\<lparr>m_eType := PCT_ENET, cli_pfnRecvFunc := True\<rparr>"
  let ?ops = "[Queue [1, 2] 2, Pass 1 (ENET_EVENT_TYPE_CONNECT 9 0 (htons 0)),
     Pass 1 (ENET_EVENT_TYPE_RECEIVE 9 [3, 0, 0, 0, 4, 0, 0, 0, 5]), Queue [6] 1,
     Pass 1 (ENET_EVENT_TYPE_CONNECT 8 1 1), Pass 1 (ENET_EVENT_TYPE_RECEIVE 8 (replicate 9 0))]"
  have "m_eClientType (demo_client P2P_CLIENT_HOST P2P_CONNECTED) = P2P_CLIENT_HOST" by code_simp
  then have c: "enet_mode True ?c" by (simp add: enet_mode_def)
  have en: "channel_open 7 (0, htons 0) ?en" by (simp add: channel_open_def CENetClient_def zero_CLIENT_INFO_def)
  have ops: "\<forall>x\<in>set ?ops. enet_op_ok True x" by simp
  have "peer_data ?en = (\<lambda>_. 0)" "en_SendList ?en = []" by (simp_all add: CENetClient_def)
  moreover have "queued_by True 7 (0, htons 0) (\<lambda>_. 0) ?ops = [[1, 2], [3, 0, 0, 0, 4, 0, 0, 0], [6]]" by simp
  moreover note enet_sends_in_order[OF en c ops]
  ultimately show ?thesis unfolding Let_def by auto
qed

text \<open>A guest that is \<open>deaf\<close>: no peer carries the peer id of the object.\<close>

definition deaf :: "enetclient \<Rightarrow> bool" where
  "deaf en = ((\<forall>p. peer_data en p = 0) \<and> en_dwPeerId en \<noteq> 0)"

lemma deaf_ENetFlush: "deaf (fst (ENetFlush en)) = deaf en"
  by (simp add: ENetFlush_all deaf_def)

lemma deaf_no_peer: "deaf en \<Longrightarrow> peer_data en p \<noteq> en_dwPeerId en" "deaf en \<Longrightarrow> peer_data en p = 0"
  by (simp_all add: deaf_def)

lemma deaf_update [simp]: "deaf (en\<lparr>m_pENetPeer := x\<rparr>) = deaf en"
  by (simp add: deaf_def)

lemma ENetProcess_deaf:
  assumes "ENetProcess f ret e en w = Some (b, en', sent, w')" and "deaf en"
    and nc: "\<forall>p h q. e \<noteq> ENET_EVENT_TYPE_CONNECT p h q"
  shows "w' = w" and "deaf en'"
proof -
  obtain ef sent1 where fl: "ENetFlush en = (ef, sent1)" by (cases "ENetFlush en")
  have ef: "deaf ef" using deaf_ENetFlush[of en] assms(2) by (simp add: fl)
  have np: "\<And>p. (peer_data en p = en_dwPeerId en) = False" "\<And>p. (peer_data en p \<noteq> 0) = False"
    using deaf_no_peer[OF assms(2)] by auto
  have "w' = w \<and> deaf en'"
    using assms(1) nc np ef assms(2) unfolding ENetProcess_def fl
    by (cases e) (auto simp: Let_def fl split: if_split_asm)
  then show "w' = w" and "deaf en'" by simp_all
qed

lemma ENetConnectLoop_fields:
  "peer_data (snd (ENetConnectLoop as e)) = peer_data e
     \<and> en_dwPeerId (snd (ENetConnectLoop as e)) = en_dwPeerId e"
  by (induction as e rule: ENetConnectLoop.induct) (auto simp: Let_def)

lemma ENet_Init_guest:
  assumes "ENet_Init host answers (CENetClient s PeerId info False) = (True, en)"
  shows "peer_data en = (\<lambda>_. 0) \<and> en_dwPeerId en = PeerId"
proof -
  let ?en = "(CENetClient s PeerId info False)\<lparr>m_pENetHost := host\<rparr>"
  obtain b e where l: "ENetConnectLoop (map (answers (ipaddr info, htons (port info))) [0..<10]) ?en = (b, e)" by fastforce
  have e: "peer_data e = (\<lambda>_. 0) \<and> en_dwPeerId e = PeerId"
    using ENetConnectLoop_fields[of "map (answers (ipaddr info, htons (port info))) [0..<10]" ?en] l by (simp add: CENetClient_def)
  have "\<not> en_bIsHost ?en" "m_stPeerInfo ?en = info" by (simp_all add: CENetClient_def)
  then have "en = (CBaseObject_AddRef e)\<lparr>en_hMainThread := True\<rparr>"
    using assms l unfolding ENet_Init_def Let_def by (cases b) (simp_all split: if_split_asm)
  then show ?thesis using e by (simp add: CBaseObject_AddRef_def)
qed

text \<open>
  A guest never receives anything over ENet. \<open>Init\<close> consumes the connect event of a guest
  without storing the peer id in the peer, and received packets are accepted only from a peer
  that has it: as long as no further connect event arrives, no received packet reaches the
  callback \<open>f\<close>, whatever arrives.
\<close>

theorem guest_enet_deaf:
  assumes "ENet_Init host answers (CENetClient s PeerId info False) = (True, en)" and "PeerId \<noteq> 0"
    and "\<forall>(ret, e)\<in>set es. \<forall>p h q. e \<noteq> ENET_EVENT_TYPE_CONNECT p h q"
    and "ENetRun f es en w = Some (b, en', sent, w')"
  shows "w' = w"
proof -
  have "peer_data en = (\<lambda>_. 0) \<and> en_dwPeerId en = PeerId" by (rule ENet_Init_guest[OF assms(1)])
  then have "deaf en" using assms(2) by (simp add: deaf_def)
  with assms(3,4) show ?thesis
  proof (induction f es en w arbitrary: b en' sent w' rule: ENetRun.induct)
    case (2 f ret e es en w)
    then obtain b1 en1 sent1 w1 where p: "ENetProcess f ret e en w = Some (b1, en1, sent1, w1)"
      by (auto split: option.splits)
    have e: "\<forall>p h q. e \<noteq> ENET_EVENT_TYPE_CONNECT p h q" using "2.prems"(1) by simp
    have w1: "w1 = w" "deaf en1"
      using ENetProcess_deaf[OF p "2.prems"(3) e] by (simp_all only:)
    have rest: "\<forall>(ret, e)\<in>set es. \<forall>p h q. e \<noteq> ENET_EVENT_TYPE_CONNECT p h q" using "2.prems"(1) by simp
    show ?case
    proof (cases b1)
      case False
      then show ?thesis using "2.prems"(2) w1(1) by (simp add: p)
    next
      case True
      then obtain b2 en2 sent2 where run: "ENetRun f es en1 w1 = Some (b2, en2, sent2, w')"
        using "2.prems"(2) by (simp add: p) (elim exE conjE, blast)
      show ?thesis using "2.IH"[OF p refl _ refl refl rest run w1(2)] True w1(1) by simp
    qed
  qed simp
qed

theorem guest_enet_deaf_witness:
  "let r = ENet_Init (Some 1) (\<lambda>_ _. (Some 9, 1, ENET_EVENT_TYPE_CONNECT 9 0 0)) (CENetClient None 7 zero_CLIENT_INFO False)
   in fst r \<and> (case ENetRun (\<lambda>d en w. Some (en, w @ [d])) [(1, ENET_EVENT_TYPE_RECEIVE 9 [1, 2])] (snd r) [] of
       None \<Rightarrow> False | Some (b, en', sent, w') \<Rightarrow> w' = [])"
proof -
  let ?r = "ENet_Init (Some 1) (\<lambda>_ _. (Some 9, 1, ENET_EVENT_TYPE_CONNECT 9 0 0)) (CENetClient None 7 zero_CLIENT_INFO False)"
  let ?es = "[(1 :: int, ENET_EVENT_TYPE_RECEIVE 9 [1, 2])]"
  let ?run = "ENetRun (\<lambda>d en w. Some (en, w @ [d])) ?es (snd ?r) []"
  have "fst ?r \<and> (case ?run of None \<Rightarrow> False | Some _ \<Rightarrow> True)" by code_simp
  then obtain en b en' sent w' where r: "?r = (True, en)" "?run = Some (b, en', sent, w')"
    by (cases ?r; cases ?run) auto
  have "\<forall>(ret, e)\<in>set ?es. \<forall>p h q. e \<noteq> ENET_EVENT_TYPE_CONNECT p h q" by simp
  from guest_enet_deaf[OF r(1) _ this] r show ?thesis by (simp add: Let_def)
qed

end
