(* ===== verification/ClientLoops.thy ===== *)
theory ClientLoops
  imports ClientMessages RelayProperties
begin

text \<open>
  The main loops of host and guest. The server's packets arrive while the loop waits, each
  datagram may have to be repeated; the loop goes through the states of the client and ends with an
  ENet channel to the peer. The locale \<open>client_loop\<close> states what the loops of the two clients have
  in common and is interpreted for \<open>host_dispatch\<close> and \<open>guest_dispatch\<close>.
\<close>

section \<open>Repeated datagrams\<close>

text \<open>What the receiving thread does to the client when the packet \<open>P\<close> arrives.\<close>

definition receives :: "(BYTE list \<Rightarrow> p2pclient \<Rightarrow> (bool \<times> p2pclient) option) \<Rightarrow> BYTE list \<Rightarrow>
    p2pclient \<Rightarrow> p2pclient" where
  "receives recv P c = (case recv P c of Some (True, c') \<Rightarrow> c' | _ \<Rightarrow> c)"

text \<open>Nothing arrives in the first \<open>m\<close> waits of a retry loop, then \<open>P\<close>.\<close>

definition after_waits :: "nat \<Rightarrow> (p2pclient \<Rightarrow> p2pclient) \<Rightarrow> nat \<Rightarrow> p2pclient \<Rightarrow> p2pclient" where
  "after_waits m f n c = (if n < m then c else f c)"

text \<open>The endpoint after \<open>n\<close> more datagrams.\<close>

definition udp_sent :: "UDP_PACKET \<Rightarrow> nat \<Rightarrow> udpbase \<Rightarrow> udpbase" where
  "udp_sent p n = UDP_SendPacket p ^^ n"

lemma udp_sent_Suc: "udp_sent p (Suc n) u = UDP_SendPacket p (udp_sent p n u)"
  by (simp add: udp_sent_def)

lemma udp_sent_fields:
  "udp_SendList (udp_sent p n u) = udp_SendList u @ replicate n (prepare_packet p)"
  "udp_pRecvParam (udp_sent p n u) = udp_pRecvParam u" "GetSocket (udp_sent p n u) = GetSocket u"
  by (induction n) (simp_all add: udp_sent_def UDP_SendPacket_def GetSocket_def replicate_append_same)

lemma RetryLoop_event:
  assumes "sends send others k c = Some ck" and "k \<le> m" and "m < 10"
    and "\<And>n d. k < n \<Longrightarrow> n \<le> m \<Longrightarrow> sends send others n c = Some d \<Longrightarrow> quiet d"
    and "sends send others (Suc m) c = Some c'" and "m_hStatusChange c'"
  shows "RetryLoop send others k ck = Some (WAIT_OBJECT_0, False, c')"
  using assms(1,2,4)
proof (induction "m - k" arbitrary: k ck)
  case 0
  then have "k = m" by simp
  then obtain c1 where "send ck = Some c1" "others m c1 = c'"
    using 0(2) assms(5) by auto
  then show ?case using \<open>k = m\<close> assms(6)
    by (subst RetryLoop.simps) (simp add: retry_wait_event quiet_def wait_defs)
next
  case (Suc d)
  have "Suc k \<le> Suc m" using Suc.prems(2) by simp
  note sends_prefix[OF assms(5) this]
  then obtain c1 where c1: "send ck = Some c1" using Suc.prems(1) by (cases "send ck") simp_all
  then have s1: "sends send others (Suc k) c = Some (others k c1)" using Suc.prems(1) by simp
  have le: "Suc k \<le> m" using Suc.hyps(2) by simp
  then have q: "quiet (others k c1)" using Suc.prems(3)[of "Suc k"] s1 by simp
  have "RetryLoop send others (Suc k) (others k c1) = Some (WAIT_OBJECT_0, False, c')"
  proof (rule Suc.hyps(1)[OF _ s1 le])
    show "quiet d" if "Suc k < n" "n \<le> m" "sends send others n c = Some d" for n d
      using that by (intro Suc.prems(3)[of n d]) simp_all
  qed (use Suc.hyps(2) in simp)
  then show ?case using c1 q le assms(3)
    by (subst RetryLoop.simps) (simp add: retry_wait_quiet)
qed

text \<open>The loop that sends \<open>p\<close> until the answer arrives in the wait after the send \<open>m + 1\<close>.\<close>

lemma RetryLoop_answered:
  assumes send: "\<And>u. send (c\<lparr>cli_pUDP := Some u\<rparr>) = Some (udp_send p (c\<lparr>cli_pUDP := Some u\<rparr>))"
    and udp: "cli_pUDP c = Some udp" and q: "quiet c" and m: "m < 10"
    and f: "m_hStatusChange (f (c\<lparr>cli_pUDP := Some (udp_sent p (Suc m) udp)\<rparr>))"
  shows "RetryLoop send (after_waits m f) 0 c
     = Some (WAIT_OBJECT_0, False, f (c\<lparr>cli_pUDP := Some (udp_sent p (Suc m) udp)\<rparr>))"
proof -
  have c: "c\<lparr>cli_pUDP := Some udp\<rparr> = c" using udp by simp
  have n: "sends send (after_waits m f) n c = Some (c\<lparr>cli_pUDP := Some (udp_sent p n udp)\<rparr>)" if "n \<le> m" for n
    using that
  proof (induction n)
    case 0
    then show ?case using c by (simp add: udp_sent_def)
  next
    case (Suc n)
    then show ?case using send by (simp add: udp_send_def after_waits_def udp_sent_Suc)
  qed
  then have "sends send (after_waits m f) (Suc m) c
      = Some (f (c\<lparr>cli_pUDP := Some (udp_sent p (Suc m) udp)\<rparr>))"
    using send by (simp add: udp_send_def after_waits_def udp_sent_Suc)
  then show ?thesis
    using q n m f by (intro RetryLoop_event[where m = m and c = c]) (auto simp: quiet_def)
qed

text \<open>
  The datagrams \<open>ks n\<close> arrive in the wait \<open>n\<close> of the loop that punches, and the packet that ends it in the
  wait \<open>m\<close>. A datagram must be long enough to hold a peer id, as every received one is.
\<close>

definition hears :: "UDP_PACKET \<Rightarrow> p2pclient \<Rightarrow> p2pclient" where
  "hears d c = (case Client_RecvUDPPacketProcess d c of None \<Rightarrow> c | Some (r, c') \<Rightarrow> c')"

definition readable :: "UDP_PACKET \<Rightarrow> bool" where
  "readable d \<longleftrightarrow> rd_dword 0 (udp_data (BasePacket d)) \<noteq> None"

definition punch_waits :: "nat \<Rightarrow> (nat \<Rightarrow> UDP_PACKET list) \<Rightarrow> (p2pclient \<Rightarrow> p2pclient) \<Rightarrow> nat \<Rightarrow> p2pclient \<Rightarrow> p2pclient" where
  "punch_waits m ks f n c = after_waits m f n (fold hears (ks n) c)"

text \<open>How many datagrams of the type \<open>t\<close> for the peer id \<open>i\<close> there are.\<close>

definition heard :: "UDPBASE_PACKET_TYPE \<Rightarrow> DWORD \<Rightarrow> UDP_PACKET list \<Rightarrow> nat" where
  "heard t i ds = length (filter (\<lambda>d. upt_of (udp_type (BasePacket d)) = Some t
     \<and> rd_dword 0 (udp_data (BasePacket d)) = Some i) ds)"

text \<open>The datagram to the peer.\<close>

definition peer_datagram :: "UDPBASE_PACKET_TYPE \<Rightarrow> p2pclient \<Rightarrow> UDP_PACKET" where
  "peer_datagram Type c = \<lparr>BasePacket = \<lparr>udp_type = upt_num Type, udp_length = 4,
     udp_data = dword_bytes (m_dwPeerid c) @ replicate (UDP_DATA_MAX - 4) 0, checksum = 0\<rparr>,
     PacketInfo = m_stRemoteClientInfo c\<rparr>"

lemma SendUDPToPeer_datagram: "SendUDPToPeer Type c = udp_send (peer_datagram Type c) c"
  by (simp add: SendUDPToPeer_def peer_datagram_def)

definition tcp_sent :: "BYTE list \<Rightarrow> nat \<Rightarrow> tcpbase \<Rightarrow> tcpbase" where
  "tcp_sent P n = SendPacket P ^^ n"

lemma tcp_sent_fields:
  "m_SendList (tcp_sent P n t) = m_SendList t @ replicate n P"
  "m_pRecvParam (tcp_sent P n t) = m_pRecvParam t" "m_pEndParam (tcp_sent P n t) = m_pEndParam t"
  by (induction n) (simp_all add: tcp_sent_def SendPacket_def replicate_append_same)

lemma sent_step:
  "udp_sent p 0 u = u" "udp_sent p n (UDP_SendPacket p u) = udp_sent p (Suc n) u"
  "tcp_sent P 0 t = t" "tcp_sent P n (SendPacket P t) = tcp_sent P (Suc n) t"
  "tcp_sent P n (tcp_sent P k t) = tcp_sent P (k + n) t"
  by (simp_all add: udp_sent_def tcp_sent_def funpow_swap1 funpow_add add.commute[of k])

text \<open>A punching client answers each handshake and reports each answer.\<close>

lemma hears_one:
  assumes "rd_dword 0 (udp_data (BasePacket d)) = Some j"
  shows "upt_of (udp_type (BasePacket d)) = Some UPT_HANDSHAKE \<Longrightarrow>
      hears d c = (if j = m_dwPeerid c then udp_send (peer_datagram UPT_KEEPALIVE c) c else c)"
    and "upt_of (udp_type (BasePacket d)) \<notin> {Some UPT_HANDSHAKE, Some UPT_KEEPALIVE} \<Longrightarrow> hears d c = c"
    and "upt_of (udp_type (BasePacket d)) = Some UPT_KEEPALIVE \<Longrightarrow> j \<noteq> m_dwPeerid c \<Longrightarrow> hears d c = c"
proof -
  let ?t = "upt_of (udp_type (BasePacket d))"
  show "?t = Some UPT_HANDSHAKE \<Longrightarrow>
      hears d c = (if j = m_dwPeerid c then udp_send (peer_datagram UPT_KEEPALIVE c) c else c)"
    by (simp only: hears_def Client_RecvUDPPacketProcess_def assms option.case UDPBASE_PACKET_TYPE.case
        Option.bind.simps prod.case SendUDPToPeer_datagram)
  show "hears d c = c" if t: "?t \<notin> {Some UPT_HANDSHAKE, Some UPT_KEEPALIVE}"
  proof (cases ?t)
    case (Some u)
    then show ?thesis using t by (cases u) (simp_all add: hears_def Client_RecvUDPPacketProcess_def)
  qed (simp add: hears_def Client_RecvUDPPacketProcess_def)
  show "?t = Some UPT_KEEPALIVE \<Longrightarrow> j \<noteq> m_dwPeerid c \<Longrightarrow> hears d c = c"
    by (simp only: hears_def Client_RecvUDPPacketProcess_def assms option.case UDPBASE_PACKET_TYPE.case
        Option.bind.simps prod.case if_False simp_thms)
qed

lemma heard_Cons:
  assumes "rd_dword 0 (udp_data (BasePacket d)) = Some j"
  shows "heard t i (d # ds) = (if upt_of (udp_type (BasePacket d)) = Some t \<and> j = i then Suc (heard t i ds) else heard t i ds)"
  using assms by (simp only: heard_def filter.simps option.inject) simp

lemma hears_all:
  assumes "cli_eStatus c = P2P_PUNCHING" and "m_dwPeerid c = i" and "cli_pUDP c = Some u" and "m_pTCP c = Some t"
    and "\<forall>d\<in>set ds. readable d"
    and "\<And>d p. cli_dwTCPid d = cli_dwTCPid c \<Longrightarrow> cli_szKeyword d = cli_szKeyword c \<Longrightarrow> keepalive_for d p \<Longrightarrow>
       Client_RecvUDPPacketProcess p d = Some (True, tcp_send_or_free R d)"
  shows "fold hears ds c = c\<lparr>cli_pUDP := Some (udp_sent (peer_datagram UPT_KEEPALIVE c) (heard UPT_HANDSHAKE i ds) u),
     m_pTCP := Some (tcp_sent R (heard UPT_KEEPALIVE i ds) t)\<rparr>"
  using assms
proof (induction ds arbitrary: c u t)
  case Nil
  then show ?case by (simp add: heard_def sent_step)
next
  case (Cons d ds)
  obtain j where j: "rd_dword 0 (udp_data (BasePacket d)) = Some j"
    using Cons.prems(5) unfolding readable_def by (meson list.set_intros(1) not_None_eq)
  let ?t = "upt_of (udp_type (BasePacket d))" and ?ka = "peer_datagram UPT_KEEPALIVE c"
  have rest: "fold hears ds (c\<lparr>cli_pUDP := Some v, m_pTCP := Some w\<rparr>)
      = c\<lparr>cli_pUDP := Some (udp_sent ?ka (heard UPT_HANDSHAKE i ds) v),
          m_pTCP := Some (tcp_sent R (heard UPT_KEEPALIVE i ds) w)\<rparr>" for v w
    using Cons.IH[where c = "c\<lparr>cli_pUDP := Some v, m_pTCP := Some w\<rparr>" and u = v and t = w] Cons.prems(1,2,5,6)
    by (simp add: peer_datagram_def)
  have same: "c\<lparr>cli_pUDP := Some u, m_pTCP := Some t\<rparr> = c" using Cons.prems(3,4) by simp
  consider (hs) "?t = Some UPT_HANDSHAKE" "j = i" | (ka) "?t = Some UPT_KEEPALIVE" "j = i"
    | (no) "j \<noteq> i \<or> ?t \<notin> {Some UPT_HANDSHAKE, Some UPT_KEEPALIVE}" by blast
  then show ?case
  proof cases
    case hs
    then have "hears d c = c\<lparr>cli_pUDP := Some (UDP_SendPacket ?ka u), m_pTCP := Some t\<rparr>"
      using hears_one(1)[OF j, of c] Cons.prems(2-4) by (simp add: udp_send_def)
    then show ?thesis using hs by (simp add: rest heard_Cons[OF j] sent_step)
  next
    case ka
    then have "keepalive_for c d" using j Cons.prems(1,2) by (simp add: keepalive_for_def)
    then have "hears d c = c\<lparr>cli_pUDP := Some u, m_pTCP := Some (SendPacket R t)\<rparr>"
      using Cons.prems(3,4) Cons.prems(6)[of c d] by (simp add: hears_def tcp_send_or_free_def)
    then show ?thesis using ka by (simp add: rest heard_Cons[OF j] sent_step)
  next
    case no
    then have "hears d c = c" using hears_one[OF j, of c] Cons.prems(2)
      by (cases "?t = Some UPT_HANDSHAKE"; cases "?t = Some UPT_KEEPALIVE") auto
    then have "fold hears (d # ds) c = c\<lparr>cli_pUDP := Some (udp_sent ?ka (heard UPT_HANDSHAKE i ds) u),
        m_pTCP := Some (tcp_sent R (heard UPT_KEEPALIVE i ds) t)\<rparr>"
      using rest[where v = u and w = t] by (simp only: same fold_simps)
    moreover have "heard UPT_HANDSHAKE i (d # ds) = heard UPT_HANDSHAKE i ds"
      "heard UPT_KEEPALIVE i (d # ds) = heard UPT_KEEPALIVE i ds"
      using no unfolding heard_Cons[OF j] by auto
    ultimately show ?thesis by simp
  qed
qed

text \<open>The endpoint after \<open>n\<close> waits, with \<open>x k\<close> answers in the wait \<open>k\<close>.\<close>

primrec udp_talk :: "UDP_PACKET \<Rightarrow> UDP_PACKET \<Rightarrow> (nat \<Rightarrow> nat) \<Rightarrow> nat \<Rightarrow> udpbase \<Rightarrow> udpbase" where
  "udp_talk hs ka x 0 u = u"
| "udp_talk hs ka x (Suc n) u = udp_sent ka (x n) (UDP_SendPacket hs (udp_talk hs ka x n u))"

lemma udp_talk_fields:
  "udp_SendList (udp_talk hs ka x n u) = udp_SendList u
     @ concat (map (\<lambda>k. prepare_packet hs # replicate (x k) (prepare_packet ka)) [0..<n])"
  "udp_pRecvParam (udp_talk hs ka x n u) = udp_pRecvParam u" "GetSocket (udp_talk hs ka x n u) = GetSocket u"
  by (induction n) (simp_all add: udp_sent_fields, simp_all add: UDP_SendPacket_def GetSocket_def)

lemma RetryLoop_reported:
  assumes send: "\<And>u t. send (c\<lparr>cli_pUDP := Some u, m_pTCP := Some t\<rparr>)
      = Some (udp_send hs (c\<lparr>cli_pUDP := Some u, m_pTCP := Some t\<rparr>))"
    and c: "cli_pUDP c = Some udp" "m_pTCP c = Some tcp" "quiet c" and m: "m < 10"
    and hear: "\<And>n u t. fold hears (ks n) (c\<lparr>cli_pUDP := Some u, m_pTCP := Some t\<rparr>)
      = c\<lparr>cli_pUDP := Some (udp_sent ka (x n) u), m_pTCP := Some (tcp_sent R (y n) t)\<rparr>"
  defines "d \<equiv> c\<lparr>cli_pUDP := Some (udp_talk hs ka x (Suc m) udp), m_pTCP := Some (tcp_sent R (sum y {..m}) tcp)\<rparr>"
  assumes f: "m_hStatusChange (f d)"
  shows "RetryLoop send (punch_waits m ks f) 0 c = Some (WAIT_OBJECT_0, False, f d)"
proof -
  let ?c = "\<lambda>n. c\<lparr>cli_pUDP := Some (udp_talk hs ka x n udp), m_pTCP := Some (tcp_sent R (sum y {..<n}) tcp)\<rparr>"
  have swap: "c\<lparr>m_pTCP := v, cli_pUDP := w\<rparr> = c\<lparr>cli_pUDP := w, m_pTCP := v\<rparr>" for v w by simp
  have step: "map_option (fold hears (ks n)) (send (?c n)) = Some (?c (Suc n))" for n
    using send[where u = "udp_talk hs ka x n udp" and t = "tcp_sent R (sum y {..<n}) tcp"]
    by (simp add: udp_send_def swap hear sent_step add.commute)
  have n: "sends send (punch_waits m ks f) n c = Some (?c n)" if "n \<le> m" for n
    using that
  proof (induction n)
    case 0
    then show ?case using c(1,2) by (simp add: sent_step)
  next
    case (Suc n)
    then show ?case using step[of n]
      by (auto simp: punch_waits_def after_waits_def map_option_case split: option.splits)
  qed
  obtain e where e: "send (?c m) = Some e" "fold hears (ks m) e = ?c (Suc m)"
    using step[of m] unfolding map_option_eq_Some by blast
  have d: "?c (Suc m) = d" by (simp add: d_def lessThan_Suc_atMost)
  have "sends send (punch_waits m ks f) (Suc m) c = Some (f d)"
    by (simp only: sends.simps n[OF le_refl] Option.bind.simps e d option.map punch_waits_def after_waits_def
        less_irrefl if_False)
  then show ?thesis
    using c(3) n m f by (intro RetryLoop_event[where m = m and c = c]) (auto simp: quiet_def)
qed

section \<open>From the start of the exchange to the channel\<close>

text \<open>The state of the endpoint when its socket goes over to ENet.\<close>

definition udp_given_up :: "udpbase \<Rightarrow> udpbase" where
  "udp_given_up u = u\<lparr>udp_pfnRecvFunc := None, udp_pRecvParam := None, udp_hStopEvent := True\<rparr>"

definition channel :: "ptr \<Rightarrow> enet_answers \<Rightarrow> nat option \<Rightarrow> DWORD \<Rightarrow>
    CLIENT_INFO \<Rightarrow> bool \<Rightarrow> enetclient" where
  "channel enethost answers sock i info ishost = snd (ENet_Init enethost answers
     ((CENetClient sock i info ishost)\<lparr>en_pfnRecvFunc := True, en_pRecvParam := Some client_self\<rparr>))"

lemma connect_event:
  assumes "cli_pUDP c = Some udp" and "udp_pRecvParam udp = Some client_self" and "m_lRef c \<noteq> 1"
  shows "P2PConnectEventProcess eh answers c = Some (c\<lparr>cli_pUDP := Some (udp_given_up udp),
     m_pENet := Some (channel eh answers (GetSocket udp) (m_dwPeerid c) (m_stRemoteClientInfo c)
        (m_eClientType c = P2P_CLIENT_HOST)),
     m_eType := PCT_ENET, m_hConnectedEvent := True\<rparr>)"
  using assms
  by (simp add: P2PConnectEventProcess_def UDP_Stop_def UDP_RegisterRecvProcess_def register_param_def
      client_Release_def client_AddRef_def CBaseObject_Release_def CBaseObject_AddRef_def Let_def
      ENet_RegisterRecvProcess_def channel_def udp_given_up_def GetSocket_def CENetClient_def)

text \<open>
  The rounds of the loop after \<open>TPT_START_UDP\<close> (\<open>p\<close>): the address of the peer (\<open>q\<close>) arrives after
  \<open>m1\<close> unanswered datagrams to the server; while the client sends to the peer, the datagrams \<open>ks n\<close> arrive in
  the wait \<open>n\<close>, and the success packet (\<open>s\<close>) in the wait \<open>m2\<close>. In the last two rounds nothing arrives.
\<close>

definition punch_rounds :: "(BYTE list \<Rightarrow> p2pclient \<Rightarrow> (bool \<times> p2pclient) option) \<Rightarrow> BYTE list \<Rightarrow> BYTE list \<Rightarrow>
    BYTE list \<Rightarrow> (nat \<Rightarrow> UDP_PACKET list) \<Rightarrow> nat \<Rightarrow> nat \<Rightarrow> ptr \<Rightarrow> enet_answers \<Rightarrow>
    round_env list" where
  "punch_rounds recv p q s ks m1 m2 eh answers =
    [\<lparr>env_others = receives recv p, env_retry = after_waits m1 (receives recv q), env_enethost = eh,
        env_answers = answers\<rparr>,
     \<lparr>env_others = \<lambda>c. c, env_retry = punch_waits m2 ks (receives recv s), env_enethost = eh,
        env_answers = answers\<rparr>,
     \<lparr>env_others = \<lambda>c. c, env_retry = \<lambda>_ c. c, env_enethost = eh, env_answers = answers\<rparr>,
     \<lparr>env_others = \<lambda>c. c, env_retry = \<lambda>_ c. c, env_enethost = eh, env_answers = answers\<rparr>]"

text \<open>
  The rounds in which a client receives the packets \<open>Ps\<close> of the server: the last three are those of the
  exchange, each of the others arrives in a wait of its own.
\<close>

definition client_rounds :: "(BYTE list \<Rightarrow> p2pclient \<Rightarrow> (bool \<times> p2pclient) option) \<Rightarrow> BYTE list list \<Rightarrow>
    (nat \<Rightarrow> UDP_PACKET list) \<Rightarrow> nat \<Rightarrow> nat \<Rightarrow> ptr \<Rightarrow> enet_answers \<Rightarrow> round_env list" where
  "client_rounds recv Ps ks m1 m2 eh answers =
     (let n = length Ps - 3 in
      map (\<lambda>P. \<lparr>env_others = receives recv P, env_retry = \<lambda>_ c. c, env_enethost = eh, env_answers = answers\<rparr>) (take n Ps)
      @ punch_rounds recv (Ps ! n) (Ps ! (n + 1)) (Ps ! (n + 2)) ks m1 m2 eh answers)"

text \<open>What \<open>Accept\<close> and \<open>Connect\<close> make of the end of the loop.\<close>

definition loop_result :: "p2pclient option loop \<Rightarrow> (DWORD \<times> p2pclient) option loop" where
  "loop_result = map_loop (map_option (\<lambda>c. (m_dwErrorCode c, c\<lparr>m_hConnectedEvent := False\<rparr>)))"

text \<open>
  What a client sends to its peer \<open>i\<close> while the datagrams \<open>ks\<close> arrive: in each wait a handshake and an
  answer to each handshake of the peer; and how many reports it sends the server.
\<close>

definition peer_talk :: "DWORD \<Rightarrow> (nat \<Rightarrow> UDP_PACKET list) \<Rightarrow> nat \<Rightarrow> p2pclient \<Rightarrow> udpbase \<Rightarrow> udpbase" where
  "peer_talk i ks n c = udp_talk (peer_datagram UPT_HANDSHAKE c) (peer_datagram UPT_KEEPALIVE c)
     (\<lambda>n. heard UPT_HANDSHAKE i (ks n)) n"

definition peer_datagrams :: "DWORD \<Rightarrow> (nat \<Rightarrow> UDP_PACKET list) \<Rightarrow> nat \<Rightarrow> p2pclient \<Rightarrow> UDP_PACKET list" where
  "peer_datagrams i ks m c = concat (map (\<lambda>n. prepare_packet (peer_datagram UPT_HANDSHAKE c)
     # replicate (heard UPT_HANDSHAKE i (ks n)) (prepare_packet (peer_datagram UPT_KEEPALIVE c))) [0..<Suc m])"

lemma peer_datagrams_cong:
  "m_dwPeerid c = m_dwPeerid d \<Longrightarrow> m_stRemoteClientInfo c = m_stRemoteClientInfo d \<Longrightarrow>
   peer_datagrams i ks m c = peer_datagrams i ks m d"
  by (simp add: peer_datagrams_def peer_datagram_def)

lemma udp_given_up_SendList: "udp_SendList (udp_given_up u) = udp_SendList u"
  by (simp add: udp_given_up_def)

definition reports :: "DWORD \<Rightarrow> (nat \<Rightarrow> UDP_PACKET list) \<Rightarrow> nat \<Rightarrow> nat" where
  "reports i ks m = (\<Sum>n\<le>m. heard UPT_KEEPALIVE i (ks n))"

text \<open>A client at the end: connected to the peer \<open>i\<close> at the address \<open>info\<close> over the channel \<open>en\<close>.\<close>

definition punched_through :: "DWORD \<Rightarrow> CLIENT_INFO \<Rightarrow> enetclient \<Rightarrow> p2pclient \<Rightarrow> bool" where
  "punched_through i info en c \<longleftrightarrow> cli_eStatus c = P2P_CONNECTED \<and> m_eType c = PCT_ENET \<and> m_pENet c = Some en
     \<and> m_dwPeerid c = i \<and> m_stRemoteClientInfo c = info"

text \<open>What the loops leave as it is.\<close>

definition same_setup :: "p2pclient \<Rightarrow> p2pclient \<Rightarrow> bool" where
  "same_setup c d \<longleftrightarrow> m_lRef d = m_lRef c \<and> m_eClientType d = m_eClientType c
     \<and> cli_pfnRecvFunc d = cli_pfnRecvFunc c \<and> m_pParam d = m_pParam c"

locale client_loop = client_fsm +
  fixes dispatch :: "(BYTE list \<Rightarrow> DWORD) \<Rightarrow> round_env \<Rightarrow> p2pclient \<Rightarrow> p2pclient option"
  assumes exchange: "cli_eStatus c = udp_state \<Longrightarrow>
      dispatch ia e c = UDPInfoExchangeEventProccess ia (env_retry e) (reset_status c)"
    and punch: "cli_eStatus c = P2P_PUNCHING \<Longrightarrow>
      dispatch ia e c = UDPPunchEventProcess (env_retry e) (reset_status c)"
    and connect: "cli_eStatus c = P2P_CONNECTED \<Longrightarrow>
      dispatch ia e c = P2PConnectEventProcess (env_enethost e) (env_answers e) (reset_status c)"
begin

lemma exchange_answered:
  assumes q: "pkt_type q = Some (tpt_num TPT_CLIENT_INFO)"
      "rd_TCP_START_PUNCHING_PACKET (pkt_data q) = Some (t, i, info)"
    and c: "cli_eStatus c = udp_state" "cli_pUDP c = Some udp" "quiet c" and m: "m < 10"
    and send: "\<And>u. SendUDPToServer ia (c\<lparr>cli_pUDP := Some u\<rparr>) = Some (udp_send p (c\<lparr>cli_pUDP := Some u\<rparr>))"
  shows "UDPInfoExchangeEventProccess ia (after_waits m (receives recv q)) c
     = Some (c\<lparr>cli_pUDP := Some (udp_sent p (Suc m) udp), m_dwPeerid := i, m_stRemoteClientInfo := info,
         cli_eStatus := P2P_PUNCHING, m_hStatusChange := True\<rparr>)"
proof -
  have r: "receives recv q (c\<lparr>cli_pUDP := Some u\<rparr>) = c\<lparr>cli_pUDP := Some u, m_dwPeerid := i,
      m_stRemoteClientInfo := info, cli_eStatus := P2P_PUNCHING, m_hStatusChange := True\<rparr>" for u
    using c(1) q(2) by (simp add: receives_def client_info[OF q(1)] SetStateEvent_def SetState_def)
  show ?thesis
    unfolding UDPInfoExchangeEventProccess_def
    by (subst RetryLoop_answered[where p = p and f = "receives recv q", OF send c(2,3) m])
      (simp_all add: r wait_defs)
qed

lemma punch_answered:
  assumes s: "pkt_type s = Some (tpt_num TPT_P2P_RESULT)"
    and c: "cli_eStatus c = P2P_PUNCHING" "m_dwPeerid c = i" "cli_pUDP c = Some udp" "m_pTCP c = Some tcp" "quiet c"
    and m: "m < 10" and ks: "\<forall>n. \<forall>d\<in>set (ks n). readable d"
    and report: "\<And>d p. cli_dwTCPid d = cli_dwTCPid c \<Longrightarrow> cli_szKeyword d = cli_szKeyword c \<Longrightarrow> keepalive_for d p \<Longrightarrow>
       Client_RecvUDPPacketProcess p d = Some (True, tcp_send_or_free R d)"
  shows "UDPPunchEventProcess (punch_waits m ks (receives recv s)) c
     = Some (c\<lparr>cli_pUDP := Some (peer_talk i ks (Suc m) c udp), m_pTCP := Some (tcp_sent R (reports i ks m) tcp),
         cli_eStatus := P2P_CONNECTED, m_hStatusChange := True\<rparr>)"
proof -
  have r: "receives recv s (c\<lparr>cli_pUDP := Some u, m_pTCP := t\<rparr>) = c\<lparr>cli_pUDP := Some u, m_pTCP := t,
      cli_eStatus := P2P_CONNECTED, m_hStatusChange := True\<rparr>" for u t
    using c(1) by (simp add: receives_def p2p_result[OF s] SetStateEvent_def SetState_def)
  have send: "Some (SendUDPToPeer UPT_HANDSHAKE (c\<lparr>cli_pUDP := Some u, m_pTCP := Some t\<rparr>))
      = Some (udp_send (peer_datagram UPT_HANDSHAKE c) (c\<lparr>cli_pUDP := Some u, m_pTCP := Some t\<rparr>))" for u t
    by (simp add: SendUDPToPeer_datagram peer_datagram_def)
  have ka: "peer_datagram UPT_KEEPALIVE (c\<lparr>cli_pUDP := v, m_pTCP := w\<rparr>) = peer_datagram UPT_KEEPALIVE c" for v w
    by (simp add: peer_datagram_def)
  have hear: "fold hears (ks n) (c\<lparr>cli_pUDP := Some u, m_pTCP := Some t\<rparr>)
      = c\<lparr>cli_pUDP := Some (udp_sent (peer_datagram UPT_KEEPALIVE c) (heard UPT_HANDSHAKE i (ks n)) u),
          m_pTCP := Some (tcp_sent R (heard UPT_KEEPALIVE i (ks n)) t)\<rparr>" for n u t
    using hears_all[where c = "c\<lparr>cli_pUDP := Some u, m_pTCP := Some t\<rparr>" and i = i and u = u and t = t and ds = "ks n" and R = R]
      c(1,2) ks report by (simp add: ka)
  show ?thesis
    unfolding UDPPunchEventProcess_def
    by (subst RetryLoop_reported[where f = "receives recv s", OF send c(3,4,5) m hear])
      (simp_all add: r wait_defs peer_talk_def reports_def)
qed

text \<open>The four rounds together.\<close>

lemma punch_phase:
  assumes p: "pkt_type p = Some (tpt_num TPT_START_UDP)"
    and q: "pkt_type q = Some (tpt_num TPT_CLIENT_INFO)"
      "rd_TCP_START_PUNCHING_PACKET (pkt_data q) = Some (t, i, info)"
    and s: "pkt_type s = Some (tpt_num TPT_P2P_RESULT)" and m: "m1 < 10" "m2 < 10"
    and ks: "\<forall>n. \<forall>d\<in>set (ks n). readable d"
    and c: "m_pTCP c = Some tcp" "cli_pUDP c = Some udp" "udp_pRecvParam udp = Some client_self" "m_lRef c \<noteq> 1"
      "\<not> cli_hStopEvent c" "\<not> m_hConnectedEvent c"
    and send: "\<And>d. same_sender c d \<Longrightarrow> SendUDPToServer ia d = Some (udp_send pk d)"
    and report: "\<And>d p. cli_dwTCPid d = cli_dwTCPid c \<Longrightarrow> cli_szKeyword d = cli_szKeyword c \<Longrightarrow> keepalive_for d p \<Longrightarrow>
       Client_RecvUDPPacketProcess p d = Some (True, tcp_send_or_free R d)"
  defines "u2 \<equiv> peer_talk i ks (Suc m2) (c\<lparr>m_dwPeerid := i, m_stRemoteClientInfo := info\<rparr>) (udp_sent pk (Suc m1) udp)"
  shows "EventLoop (dispatch ia) (punch_rounds recv p q s ks m1 m2 eh answers) c
     = Stop (Some (c\<lparr>cli_pUDP := Some (udp_given_up u2), m_pTCP := Some (tcp_sent R (reports i ks m2) tcp),
         m_dwPeerid := i, m_stRemoteClientInfo := info, cli_eStatus := P2P_CONNECTED,
         m_hStatusChange := False, m_eType := PCT_ENET, m_hConnectedEvent := True,
         m_pENet := Some (channel eh answers (GetSocket udp) i info (m_eClientType c = P2P_CLIENT_HOST))\<rparr>))"
proof -
  let ?c1 = "c\<lparr>cli_eStatus := udp_state, m_hStatusChange := True\<rparr>"
  let ?u1 = "udp_sent pk (Suc m1) udp" and ?t = "tcp_sent R (reports i ks m2) tcp"
  let ?c2 = "c\<lparr>cli_pUDP := Some ?u1, m_dwPeerid := i, m_stRemoteClientInfo := info,
     cli_eStatus := P2P_PUNCHING, m_hStatusChange := True\<rparr>"
  let ?c3 = "c\<lparr>cli_pUDP := Some u2, m_pTCP := Some ?t, m_dwPeerid := i, m_stRemoteClientInfo := info,
     cli_eStatus := P2P_CONNECTED, m_hStatusChange := True\<rparr>"
  have r1: "receives recv p c = ?c1"
    by (simp add: receives_def start_udp[OF p] SetStateEvent_def SetState_def)
  have d1: "dispatch ia e ?c1 = Some ?c2" if "env_retry e = after_waits m1 (receives recv q)" for e
    using exchange[of ?c1 ia e] that c
      exchange_answered[OF q, of "reset_status ?c1" udp m1 ia pk] m(1) send
    by (simp add: quiet_def same_sender_def)
  have talk: "peer_talk i ks n d u = peer_talk i ks n (c\<lparr>m_dwPeerid := i, m_stRemoteClientInfo := info\<rparr>) u"
    if "m_dwPeerid d = i" "m_stRemoteClientInfo d = info" for n d u
    using that by (simp add: peer_talk_def peer_datagram_def)
  define c2 where "c2 = reset_status ?c2"
  have c2: "cli_eStatus c2 = P2P_PUNCHING" "m_dwPeerid c2 = i" "cli_pUDP c2 = Some ?u1" "m_pTCP c2 = Some tcp" "quiet c2"
    "cli_dwTCPid c2 = cli_dwTCPid c" "cli_szKeyword c2 = cli_szKeyword c" "m_stRemoteClientInfo c2 = info"
    using c(1,5) by (simp_all add: c2_def quiet_def)
  have "UDPPunchEventProcess (punch_waits m2 ks (receives recv s)) c2 = Some (c2\<lparr>cli_pUDP := Some u2,
      m_pTCP := Some ?t, cli_eStatus := P2P_CONNECTED, m_hStatusChange := True\<rparr>)"
    unfolding u2_def talk[OF c2(2,8), symmetric]
    by (rule punch_answered[OF s c2(1-5) m(2) ks]) (simp only: c2(6,7) report)
  then have d2: "dispatch ia e ?c2 = Some ?c3" if "env_retry e = punch_waits m2 ks (receives recv s)" for e
    using punch[of ?c2 ia e] that by (simp add: c2_def)
  have u2: "udp_pRecvParam u2 = Some client_self" "GetSocket u2 = GetSocket udp"
    using c(3) by (simp_all only: u2_def peer_talk_def udp_talk_fields udp_sent_fields)
  let ?c4 = "c\<lparr>cli_pUDP := Some (udp_given_up u2), m_pTCP := Some ?t,
         m_dwPeerid := i, m_stRemoteClientInfo := info, cli_eStatus := P2P_CONNECTED,
         m_hStatusChange := False, m_eType := PCT_ENET, m_hConnectedEvent := True,
         m_pENet := Some (channel eh answers (GetSocket udp) i info (m_eClientType c = P2P_CLIENT_HOST))\<rparr>"
  have d3: "dispatch ia e ?c3 = Some ?c4" if "env_enethost e = eh" "env_answers e = answers" for e
    using connect[of ?c3 ia e] that c(4) connect_event[of "reset_status ?c3" u2 eh answers] u2 by simp
  show ?thesis
    unfolding punch_rounds_def
    using c(5,6) by (simp add: r1 d1 d2 d3 wait_any_def wait_defs)
qed

text \<open>What the client has done and what it has at the end.\<close>

lemma punch_result:
  assumes cl: "client_is ty me kw c"
    and p: "pkt_type p = Some (tpt_num TPT_START_UDP)"
    and q: "pkt_type q = Some (tpt_num TPT_CLIENT_INFO)"
      "rd_TCP_START_PUNCHING_PACKET (pkt_data q) = Some (t, i, info)"
    and s: "pkt_type s = Some (tpt_num TPT_P2P_RESULT)" and m: "m1 < 10" "m2 < 10"
    and ks: "\<forall>n. \<forall>d\<in>set (ks n). readable d"
    and c: "m_pTCP c = Some tcp" "cli_pUDP c = Some udp" "udp_pRecvParam udp = Some client_self" "m_lRef c \<noteq> 1"
      "\<not> cli_hStopEvent c" "\<not> m_hConnectedEvent c"
  shows "\<exists>c' D u R. loop_result (EventLoop (dispatch ia) (punch_rounds recv p q s ks m1 m2 eh answers) c)
       = Stop (Some (m_dwErrorCode c, c'))
     \<and> punched_through i info (channel eh answers (GetSocket udp) i info (ty = P2P_CLIENT_HOST)) c'
     \<and> same_setup c c' \<and> udp_pRecvParam u = None
     \<and> m_pTCP c' = Some (tcp_sent R (reports i ks m2) tcp) \<and> packet_for TPT_P2P_RESULT me kw R
     \<and> cli_pUDP c' = Some u \<and> udp_SendList u = udp_SendList udp
         @ replicate (Suc m1) (prepare_packet D) @ peer_datagrams i ks m2 c'
     \<and> (\<forall>sender. datagram_for (if ty = P2P_CLIENT_HOST then UPT_WAITING else UPT_CONNECT) kw (delivered D sender))"
    (is "\<exists>c' D u R. ?P c' D u R")
proof -
  obtain D where D: "\<And>d. same_sender c d \<Longrightarrow> SendUDPToServer ia d = Some (udp_send D d)"
    "\<And>sender. datagram_for (if ty = P2P_CLIENT_HOST then UPT_WAITING else UPT_CONNECT) kw (delivered D sender)"
    by (rule client_datagram[OF cl, where inet_addr = ia]) blast
  obtain R where R: "packet_for TPT_P2P_RESULT me kw R" and
    report: "\<And>d p. cli_dwTCPid d = cli_dwTCPid c \<Longrightarrow> cli_szKeyword d = cli_szKeyword c \<Longrightarrow> keepalive_for d p \<Longrightarrow>
       Client_RecvUDPPacketProcess p d = Some (True, tcp_send_or_free R d)"
    by (rule client_report[OF cl]) blast
  note run = punch_phase[OF p q s m ks c D(1) report, of eh answers]
  let ?u = "udp_given_up (peer_talk i ks (Suc m2) (c\<lparr>m_dwPeerid := i, m_stRemoteClientInfo := info\<rparr>) (udp_sent D (Suc m1) udp))"
  let ?c = "c\<lparr>cli_pUDP := Some ?u, m_pTCP := Some (tcp_sent R (reports i ks m2) tcp), m_dwPeerid := i,
     m_stRemoteClientInfo := info, cli_eStatus := P2P_CONNECTED,
     m_hStatusChange := False, m_eType := PCT_ENET, m_hConnectedEvent := False,
     m_pENet := Some (channel eh answers (GetSocket udp) i info (m_eClientType c = P2P_CLIENT_HOST))\<rparr>"
  have ty: "m_eClientType c = ty" using cl by (simp add: client_is_def)
  let ?d = "c\<lparr>m_dwPeerid := i, m_stRemoteClientInfo := info\<rparr>"
  have "udp_SendList ?u = udp_SendList udp @ replicate (Suc m1) (prepare_packet D) @ peer_datagrams i ks m2 ?d"
    by (simp only: udp_given_up_SendList peer_talk_def udp_talk_fields udp_sent_fields peer_datagrams_def append_assoc)
  moreover have "peer_datagrams i ks m2 ?d = peer_datagrams i ks m2 ?c"
    by (rule peer_datagrams_cong) simp_all
  ultimately have "udp_SendList ?u = udp_SendList udp @ replicate (Suc m1) (prepare_packet D) @ peer_datagrams i ks m2 ?c"
    by simp
  then have "?P ?c D ?u R"
    using D(2) R by (simp add: ty run loop_result_def same_setup_def udp_given_up_def punched_through_def)
  then show ?thesis by blast
qed

end

interpretation hostl: client_loop host_recv P2PRecvPacketProcess P2P_UDP_LISTENING host_dispatch
  by unfold_locales (simp_all add: host_dispatch_def)

interpretation guestl: client_loop guest_recv P2PRecvPacketProcess P2P_UDP_CONNECTED guest_dispatch
  by unfold_locales (simp_all add: guest_dispatch_def)

text \<open>A round in which the state has changed.\<close>

lemma EventLoop_round:
  "m_hStatusChange (env_others e c) \<Longrightarrow> D e (env_others e c) = Some d \<Longrightarrow> EventLoop D (e # es) c = EventLoop D es d"
  by (simp add: wait_any_def Let_def)

text \<open>A round in which nothing happens that the loop waits for.\<close>

lemma EventLoop_sleep:
  "env_others e c = c \<Longrightarrow> \<not> m_hStatusChange c \<Longrightarrow> \<not> cli_hStopEvent c \<Longrightarrow> \<not> m_hConnectedEvent c \<Longrightarrow>
   EventLoop D (e # es) c = EventLoop D es c"
  by (simp add: wait_any_def Let_def)

text \<open>
  A client that has been constructed, has registered its receiver with itself as parameter and has
  been initialised, as \<open>main\<close> does it.
\<close>

lemma client_ready:
  assumes new: "CP2PClient raw1 raw2 raw3 name kw ip pt ty = Some c0" "length raw1 = 32" "length raw2 = 32"
    and reg: "RegisterRecvPacketProcess True (Some client_self) c0 = Some c1"
    and init: "Client_Init fuel rawdst rawsrc sock connected local bound udpsock c1 = Stop (Some (True, c2))"
  obtains tcp udp where "client_is ty 0 (cstr kw) c2" and "m_pTCP c2 = Some tcp" and "m_SendList tcp = []"
    and "cli_pUDP c2 = Some udp" and "udp_SendList udp = []" and "GetSocket udp = udpsock"
    and "udp_pRecvParam udp = Some client_self" and "m_lRef c2 \<noteq> 1" and "\<not> cli_hStopEvent c2"
    and "\<not> m_hConnectedEvent c2"
proof -
  note c1 = client_registered[OF new(1) reg]
  have c0: "m_eClientType c0 = ty" "cli_dwTCPid c0 = 0" "\<not> cli_hStopEvent c0" "\<not> m_hConnectedEvent c0"
    using new(1) by (auto simp: CP2PClient_def bind_Some_iff)
  obtain tcp udp q where i: "udp_pRecvParam udp = Some client_self" "m_SendList tcp = []"
    "udp_SendList udp = []" "GetSocket udp = udpsock"
    "c2 = c1\<lparr>m_lRef := m_lRef c1 + 3, m_pTCP := Some tcp, cli_dwUDPPort := q, cli_pUDP := Some udp\<rparr>"
    by (rule Client_Init_ready[OF init]) blast
  have "client_is ty 0 (cstr kw) c2"
    by (rule CP2PClient_is[OF new]) (simp_all add: i(5) c1 c0)
  then show thesis using that[of tcp udp] i c0 by (simp add: c1)
qed

lemma client_setup:
  assumes new: "CP2PClient raw1 raw2 raw3 name kw ip pt ty = Some c0"
    and reg: "RegisterRecvPacketProcess True (Some client_self) c0 = Some c1"
    and init: "Client_Init fuel rawdst rawsrc sock connected local bound udpsock c1 = Stop (Some (True, c2))"
  shows "m_lRef c2 = 5" and "m_eClientType c2 = ty" and "cli_pfnRecvFunc c2" and "m_pParam c2 = Some client_self"
    and "\<exists>tcp. m_pTCP c2 = Some tcp \<and> m_pRecvParam tcp = Some client_self \<and> m_pEndParam tcp = Some client_self"
proof -
  note c1 = client_registered[OF new reg]
  have c0: "m_eClientType c0 = ty" using new by (auto simp: CP2PClient_def bind_Some_iff)
  obtain tcp udp q where "m_pRecvParam tcp = Some client_self" "m_pEndParam tcp = Some client_self"
    "c2 = c1\<lparr>m_lRef := m_lRef c1 + 3, m_pTCP := Some tcp, cli_dwUDPPort := q, cli_pUDP := Some udp\<rparr>"
    by (rule Client_Init_ready[OF init])
  then show "m_lRef c2 = 5" and "m_eClientType c2 = ty" and "cli_pfnRecvFunc c2" and "m_pParam c2 = Some client_self"
    and "\<exists>tcp. m_pTCP c2 = Some tcp \<and> m_pRecvParam tcp = Some client_self \<and> m_pEndParam tcp = Some client_self"
    by (simp_all add: c1 c0)
qed

section \<open>The host\<close>

text \<open>
  The rounds of \<open>Accept\<close>: the server's greeting with the id \<open>i\<close> and its UDP port, the answer to the
  registration, and the rounds of the exchange.
\<close>

definition host_rounds :: "DWORD \<Rightarrow> WORD \<Rightarrow> BYTE list \<Rightarrow> CLIENT_INFO \<Rightarrow> BYTE list \<Rightarrow>
    (nat \<Rightarrow> UDP_PACKET list) \<Rightarrow> nat \<Rightarrow> nat \<Rightarrow> ptr \<Rightarrow> enet_answers \<Rightarrow> round_env list" where
  "host_rounds i up p info s ks m1 m2 eh answers = client_rounds host_recv
     [CreateTCPInitPkt i up, CreateTCPResultPkt TPT_WAIT_RESULT i 0, p, CreateTCPStartPunchingPkt i i info, s]
     ks m1 m2 eh answers"

lemma host_rounds_unfold:
  "host_rounds i up p info s ks m1 m2 eh answers =
    \<lparr>env_others = receives host_recv (CreateTCPInitPkt i up), env_retry = \<lambda>_ c. c,
       env_enethost = eh, env_answers = answers\<rparr>
    # \<lparr>env_others = receives host_recv (CreateTCPResultPkt TPT_WAIT_RESULT i 0), env_retry = \<lambda>_ c. c,
       env_enethost = eh, env_answers = answers\<rparr>
    # punch_rounds host_recv p (CreateTCPStartPunchingPkt i i info) s ks m1 m2 eh answers"
  by (simp add: host_rounds_def client_rounds_def numeral_3_eq_3 numeral_2_eq_2)

lemma host_recv_init:
  "pkt_type P = Some (tpt_num TPT_INIT) \<Longrightarrow> rd_TCP_INIT_PACKET (pkt_data P) = Some (i, up) \<Longrightarrow>
   host_recv P c = Some (True, SetStateEvent P2P_TCP_LISTENING
     (c\<lparr>cli_dwTCPid := i, m_dwServerUDPPort := up, m_dwPeerid := 0, m_eType := PCT_NONE\<rparr>))"
  by (simp only: Host_RecvTCPPacketProcess_def Option.bind.simps tpt_of_num option.case
      TCPBASE_PACKET_TYPE.case prod.case)

lemma host_recv_wait_result:
  "pkt_type P = Some (tpt_num TPT_WAIT_RESULT) \<Longrightarrow> rd_TCP_RESULT_PACKET (pkt_data P) = Some (i, r) \<Longrightarrow>
   host_recv P c = Some (True,
     if r \<noteq> 0 then c\<lparr>m_dwErrorCode := r, cli_hStopEvent := True\<rparr>
     else if cli_eStatus c = P2P_TCP_LISTENING then SetStateEvent P2P_TCP_CONNECTED c else c)"
  by (simp only: Host_RecvTCPPacketProcess_def Option.bind.simps tpt_of_num option.case
      TCPBASE_PACKET_TYPE.case prod.case)

lemma host_init:
  "receives host_recv (CreateTCPInitPkt i up) c = c\<lparr>cli_dwTCPid := i, m_dwServerUDPPort := up,
     m_dwPeerid := 0, m_eType := PCT_NONE, cli_eStatus := P2P_TCP_LISTENING, m_hStatusChange := True\<rparr>"
  by (simp add: receives_def host_recv_init[OF CreateTCPInitPkt_props(2,3)] SetStateEvent_def SetState_def)

lemma host_registered:
  "cli_eStatus c = P2P_TCP_LISTENING \<Longrightarrow> receives host_recv (CreateTCPResultPkt TPT_WAIT_RESULT i 0) c
     = c\<lparr>cli_eStatus := P2P_TCP_CONNECTED, m_hStatusChange := True\<rparr>"
  by (simp add: receives_def host_recv_wait_result[OF CreateTCPResultPkt_props(2,3)] SetStateEvent_def SetState_def)

lemma host_reaches_exchange:
  fixes i :: DWORD and up :: WORD
  assumes c: "client_is P2P_CLIENT_HOST j kw c" and tcp: "m_pTCP c = Some tcp"
  defines "c1 \<equiv> c\<lparr>cli_hStopEvent := False, m_dwErrorCode := err_num P2P_ERROR_NONE, cli_dwTCPid := i,
    m_dwServerUDPPort := up, m_dwPeerid := 0, m_eType := PCT_NONE, cli_eStatus := P2P_TCP_CONNECTED,
    m_hStatusChange := False\<rparr>"
  obtains W where "registration i kw W" and
    "EventLoop (host_dispatch ia) (host_rounds i up p info s ks m1 m2 eh answers)
       (c\<lparr>cli_hStopEvent := False, m_dwErrorCode := err_num P2P_ERROR_NONE\<rparr>)
     = EventLoop (host_dispatch ia) (punch_rounds host_recv p (CreateTCPStartPunchingPkt i i info) s ks m1 m2 eh answers)
         (c1\<lparr>m_pTCP := Some (SendPacket W tcp)\<rparr>)"
proof -
  let ?c1 = "c\<lparr>cli_hStopEvent := False, m_dwErrorCode := err_num P2P_ERROR_NONE, cli_dwTCPid := i,
    m_dwServerUDPPort := up, m_dwPeerid := 0, m_eType := PCT_NONE, cli_eStatus := P2P_TCP_LISTENING,
    m_hStatusChange := False\<rparr>"
  have is1: "client_is P2P_CLIENT_HOST i kw ?c1" using c by (simp add: client_is_def)
  obtain W where W: "sends_tcp (TCPListeningEventProcess ?c1) ?c1 W" "registration i kw W"
    using host_registers[OF is1] by blast
  then have listen: "TCPListeningEventProcess ?c1 = Some (?c1\<lparr>m_pTCP := Some (SendPacket W tcp)\<rparr>)"
    using tcp by (simp add: sends_tcp_def)
  note first = EventLoop_round[where d = "?c1\<lparr>m_pTCP := Some (SendPacket W tcp)\<rparr>"]
  note second = EventLoop_round[where d = "c1\<lparr>m_pTCP := Some (SendPacket W tcp)\<rparr>"]
  show thesis
  proof (rule that[OF W(2)], unfold host_rounds_unfold, rule trans[OF first second])
  qed (use listen in \<open>simp_all add: host_init host_dispatch_def host_registered c1_def\<close>)
qed

lemma Accept_runs:
  assumes c: "client_is P2P_CLIENT_HOST j kw c" and tcp: "m_pTCP c = Some tcp" and udp: "cli_pUDP c = Some udp"
    and reg: "udp_pRecvParam udp = Some client_self" "m_lRef c \<noteq> 1" "\<not> m_hConnectedEvent c"
    and ps: "CreateTCPStartUDPPkt i kw' = Some p" "CreateP2PSuccessPkt i kw' = Some s"
    and m: "m1 < 10" "m2 < 10" and ks: "\<forall>n. \<forall>d\<in>set (ks n). readable d"
  shows "\<exists>c' W D u R. Accept ia (host_rounds i up p info s ks m1 m2 eh answers) c
       = Stop (Some (err_num P2P_ERROR_NONE, c'))
     \<and> punched_through i info (channel eh answers (GetSocket udp) i info True) c'
     \<and> same_setup c c' \<and> udp_pRecvParam u = None
     \<and> m_pTCP c' = Some (tcp_sent R (reports i ks m2) (SendPacket W tcp)) \<and> packet_for TPT_P2P_RESULT i kw R \<and> registration i kw W
     \<and> cli_pUDP c' = Some u \<and> udp_SendList u = udp_SendList udp
         @ replicate (Suc m1) (prepare_packet D) @ peer_datagrams i ks m2 c'
     \<and> (\<forall>sender. datagram_for UPT_WAITING kw (delivered D sender))"
proof -
  let ?c1 = "c\<lparr>cli_hStopEvent := False, m_dwErrorCode := err_num P2P_ERROR_NONE, cli_dwTCPid := i,
    m_dwServerUDPPort := up, m_dwPeerid := 0, m_eType := PCT_NONE, cli_eStatus := P2P_TCP_CONNECTED,
    m_hStatusChange := False\<rparr>"
  obtain W where W: "registration i kw W" and
    run: "EventLoop (host_dispatch ia) (host_rounds i up p info s ks m1 m2 eh answers)
        (c\<lparr>cli_hStopEvent := False, m_dwErrorCode := err_num P2P_ERROR_NONE\<rparr>)
      = EventLoop (host_dispatch ia) (punch_rounds host_recv p (CreateTCPStartPunchingPkt i i info) s ks m1 m2 eh answers)
          (?c1\<lparr>m_pTCP := Some (SendPacket W tcp)\<rparr>)"
    by (rule host_reaches_exchange[OF c tcp]) blast
  have cl: "client_is P2P_CLIENT_HOST i kw (?c1\<lparr>m_pTCP := Some (SendPacket W tcp)\<rparr>)"
    using c by (simp add: client_is_def)
  obtain c' D u R where "loop_result (EventLoop (host_dispatch ia)
        (punch_rounds host_recv p (CreateTCPStartPunchingPkt i i info) s ks m1 m2 eh answers)
        (?c1\<lparr>m_pTCP := Some (SendPacket W tcp)\<rparr>)) = Stop (Some (err_num P2P_ERROR_NONE, c'))"
    and "punched_through i info (channel eh answers (GetSocket udp) i info True) c'" "same_setup c c'" "udp_pRecvParam u = None"
      "m_pTCP c' = Some (tcp_sent R (reports i ks m2) (SendPacket W tcp))"
      "packet_for TPT_P2P_RESULT i kw R" "cli_pUDP c' = Some u" "udp_SendList u = udp_SendList udp @ replicate (Suc m1) (prepare_packet D)
           @ peer_datagrams i ks m2 c'"
      "\<forall>sender. datagram_for UPT_WAITING kw (delivered D sender)"
    using hostl.punch_result[OF cl CreateTCPStartUDPPkt_props(2)[OF ps(1)] CreateTCPStartPunchingPkt_props(2,3)[of i i info]
        success_type[OF ps(2)] m ks, where tcp = "SendPacket W tcp" and udp = udp and ia = ia and eh = eh and answers = answers] udp reg
    by (auto simp: same_setup_def)
  moreover have acc: "Accept ia (host_rounds i up p info s ks m1 m2 eh answers) c = loop_result (EventLoop (host_dispatch ia)
        (punch_rounds host_recv p (CreateTCPStartPunchingPkt i i info) s ks m1 m2 eh answers)
        (?c1\<lparr>m_pTCP := Some (SendPacket W tcp)\<rparr>))"
    by (simp only: Accept_def run loop_result_def)
  ultimately show ?thesis
    using W by (intro exI[of _ c'] exI[of _ W] exI[of _ D] exI[of _ u] exI[of _ R] conjI)
      (simp_all add: acc)
qed

text \<open>Datagrams of a peer with the id \<open>i\<close>: a handshake in the first wait, an answer in the second.\<close>

definition demo_heard :: "DWORD \<Rightarrow> nat \<Rightarrow> UDP_PACKET list" where
  "demo_heard i n = (if n < 2 then [\<lparr>BasePacket = \<lparr>udp_type = upt_num (if n = 0 then UPT_HANDSHAKE else UPT_KEEPALIVE),
     udp_length = 4, udp_data = dword_bytes i @ replicate 243 0, checksum = 0\<rparr>, PacketInfo = zero_CLIENT_INFO\<rparr>] else [])"

lemma demo_heard: "\<forall>n. \<forall>d\<in>set (demo_heard i n). readable d"
  by (simp add: demo_heard_def readable_def wire_simps)

text \<open>A client as \<open>main\<close> starts it, and the packets of a server with the keyword \<open>7\<close>.\<close>

lemma demo_start:
  assumes "new = CP2PHost \<or> new = CP2PGuest"
  obtains c0 c1 c2 where "new (replicate 32 0) (replicate 32 0) (replicate 32 0) [65, 0] [55, 0] [49, 0] 5000 = Some c0"
    and "RegisterRecvPacketProcess True (Some client_self) c0 = Some c1"
    and "Client_Init 1 (replicate 128 0) (replicate 128 0) 5 True None (\<lambda>_. True) (Some 6) c1 = Stop (Some (True, c2))"
proof -
  let ?r = "replicate 32 0" and ?b = "replicate 128 0"
  let ?ok = "\<lambda>new. case new ?r ?r ?r [65, 0] [55, 0] [49, 0] 5000 of None \<Rightarrow> False | Some c0 \<Rightarrow>
      (case RegisterRecvPacketProcess True (Some client_self) c0 of None \<Rightarrow> False | Some c1 \<Rightarrow>
      (case Client_Init 1 ?b ?b 5 True None (\<lambda>_. True) (Some 6) c1 of Stop (Some (True, c2)) \<Rightarrow> True | _ \<Rightarrow> False))"
  have "?ok CP2PHost" "?ok CP2PGuest" by code_simp+
  then have "?ok new" using assms by blast
  then show thesis using that by (auto split: option.splits loop.splits bool.splits)
qed

lemma demo_packets:
  obtains p s where "CreateTCPStartUDPPkt 1 (55 # replicate 31 0) = Some p"
    and "CreateP2PSuccessPkt 1 (55 # replicate 31 0) = Some s"
  using CreateTCPStartUDPPkt_ok[of "55 # replicate 31 0" 1] CreateP2PSuccessPkt_ok[of "55 # replicate 31 0" 1] by auto

text \<open>
  C10: a host accepts a connection. A host that \<open>main\<close> constructs, registers and lets listen runs
  its main loop on the packets the server sends in a handshake (greeting, answer to the
  registration, start, the guest's address \<open>info\<close>, success) and on any datagrams \<open>ks\<close>, with fewer
  than ten waits for each answer. The loop ends without error. The host has sent the server its
  registration and one report for each answer it heard from the guest; for each wait it has sent a
  datagram, to the server one that shows its address for the keyword, to the guest a handshake, and
  an answer to each handshake of the guest; it has handed its UDP socket to an ENet channel to the
  guest's address.
\<close>

theorem host_accepts_connection:
  assumes new: "CP2PHost raw1 raw2 raw3 name kw ip pt = Some c0" "length raw1 = 32" "length raw2 = 32"
    and reg: "RegisterRecvPacketProcess True (Some client_self) c0 = Some c1"
    and listen: "Host_Listen (Client_Init fuel rawdst rawsrc sock connected local bound udpsock c1)
      = Stop (Some (err_num P2P_ERROR_NONE, c2))"
    and ps: "CreateTCPStartUDPPkt i kw' = Some p" "CreateP2PSuccessPkt i kw' = Some s"
    and m: "m1 < 10" "m2 < 10" and ks: "\<forall>n. \<forall>d\<in>set (ks n). readable d"
  shows "\<exists>c3 tcp udp W D R. Accept ia (host_rounds i up p info s ks m1 m2 eh answers) c2
       = Stop (Some (err_num P2P_ERROR_NONE, c3))
     \<and> punched_through i info (channel eh answers udpsock i info True) c3
     \<and> m_pTCP c3 = Some tcp \<and> m_SendList tcp = W # replicate (reports i ks m2) R \<and> registration i (cstr kw) W
     \<and> packet_for TPT_P2P_RESULT i (cstr kw) R \<and> cli_pUDP c3 = Some udp \<and> udp_SendList udp = replicate (Suc m1) (prepare_packet D)
         @ peer_datagrams i ks m2 c3
     \<and> (\<forall>sender. datagram_for UPT_WAITING (cstr kw) (delivered D sender))"
proof -
  have init: "Client_Init fuel rawdst rawsrc sock connected local bound udpsock c1 = Stop (Some (True, c2))"
    using listen by (auto simp: Host_Listen_def split: if_splits)
  obtain tcp udp where c: "client_is P2P_CLIENT_HOST 0 (cstr kw) c2" "m_pTCP c2 = Some tcp" "cli_pUDP c2 = Some udp"
    "udp_pRecvParam udp = Some client_self" "m_lRef c2 \<noteq> 1" "\<not> m_hConnectedEvent c2"
    and empty: "m_SendList tcp = []" "udp_SendList udp = []" "GetSocket udp = udpsock"
    by (rule client_ready[OF new[unfolded CP2PHost_def] reg init]) blast
  obtain c3 W D u R where r: "Accept ia (host_rounds i up p info s ks m1 m2 eh answers) c2
      = Stop (Some (err_num P2P_ERROR_NONE, c3))"
    "punched_through i info (channel eh answers udpsock i info True) c3"
    "m_pTCP c3 = Some (tcp_sent R (reports i ks m2) (SendPacket W tcp))" "packet_for TPT_P2P_RESULT i (cstr kw) R" "registration i (cstr kw) W" "cli_pUDP c3 = Some u"
    "udp_SendList u = replicate (Suc m1) (prepare_packet D)
       @ peer_datagrams i ks m2 c3"
    "\<forall>sender. datagram_for UPT_WAITING (cstr kw) (delivered D sender)"
    using Accept_runs[OF c ps m ks, of ia up info eh answers] unfolding empty append_Nil by blast
  have l: "m_SendList (tcp_sent R (reports i ks m2) (SendPacket W tcp)) = W # replicate (reports i ks m2) R"
    by (simp add: tcp_sent_fields SendPacket_def empty)
  show ?thesis
    by (rule exI[of _ c3], rule exI[of _ "tcp_sent R (reports i ks m2) (SendPacket W tcp)"], rule exI[of _ u],
        rule exI[of _ W], rule exI[of _ D], rule exI[of _ R]) (simp only: r l simp_thms)
qed

theorem host_accepts_connection_witness:
  "\<exists>c0 c1 c2 c3 p s. CP2PHost (replicate 32 0) (replicate 32 0) (replicate 32 0) [65, 0] [55, 0] [49, 0] 5000 = Some c0
     \<and> RegisterRecvPacketProcess True (Some client_self) c0 = Some c1
     \<and> Host_Listen (Client_Init 1 (replicate 128 0) (replicate 128 0) 5 True None (\<lambda>_. True) (Some 6) c1) = Stop (Some (err_num P2P_ERROR_NONE, c2))
     \<and> CreateTCPStartUDPPkt 1 (55 # replicate 31 0) = Some p \<and> CreateP2PSuccessPkt 1 (55 # replicate 31 0) = Some s
     \<and> Accept (\<lambda>_. 0) (host_rounds 1 5001 p zero_CLIENT_INFO s (demo_heard 1) 2 1 None (\<lambda>_ _. (None, 0, ENET_EVENT_TYPE_NONE))) c2 = Stop (Some (err_num P2P_ERROR_NONE, c3))
     \<and> cli_eStatus c3 = P2P_CONNECTED \<and> m_eType c3 = PCT_ENET"
proof -
  obtain c0 c1 c2 where c: "CP2PHost (replicate 32 0) (replicate 32 0) (replicate 32 0) [65, 0] [55, 0] [49, 0] 5000 = Some c0"
    "RegisterRecvPacketProcess True (Some client_self) c0 = Some c1"
    "Client_Init 1 (replicate 128 0) (replicate 128 0) 5 True None (\<lambda>_. True) (Some 6) c1 = Stop (Some (True, c2))"
    by (rule demo_start[of CP2PHost]) simp_all
  obtain p s where ps: "CreateTCPStartUDPPkt 1 (55 # replicate 31 0) = Some p"
    "CreateP2PSuccessPkt 1 (55 # replicate 31 0) = Some s" by (rule demo_packets)
  have l: "Host_Listen (Client_Init 1 (replicate 128 0) (replicate 128 0) 5 True None (\<lambda>_. True) (Some 6) c1) = Stop (Some (err_num P2P_ERROR_NONE, c2))"
    using c(3) by (simp add: Host_Listen_def)
  have "length (replicate 32 (0 :: BYTE)) = 32" "2 < (10 :: nat)" "1 < (10 :: nat)" by simp_all
  note host_accepts_connection[OF c(1) this(1,1) c(2) l ps this(2-3) demo_heard[of 1], where ia = "\<lambda>_. 0" and up = 5001 
     and info = zero_CLIENT_INFO and eh = None and answers = "\<lambda>_ _. (None, 0, ENET_EVENT_TYPE_NONE)"]
  then show ?thesis using c l ps unfolding punched_through_def by blast
qed

section \<open>The guest\<close>

text \<open>
  The rounds of \<open>Connect\<close>: the server's greeting with the id \<open>j\<close> and its UDP port, the answer to the
  request, and the rounds of the exchange; \<open>i\<close> is the id of the host.
\<close>

definition guest_rounds :: "DWORD \<Rightarrow> WORD \<Rightarrow> DWORD \<Rightarrow> BYTE list \<Rightarrow> CLIENT_INFO \<Rightarrow> BYTE list \<Rightarrow>
    (nat \<Rightarrow> UDP_PACKET list) \<Rightarrow> nat \<Rightarrow> nat \<Rightarrow> ptr \<Rightarrow> enet_answers \<Rightarrow> round_env list" where
  "guest_rounds j up i p info s ks m1 m2 eh answers = client_rounds guest_recv
     [CreateTCPInitPkt j up, CreateTCPResultPkt TPT_CONNECT_RESULT j 0, p, CreateTCPStartPunchingPkt j i info, s]
     ks m1 m2 eh answers"

lemma guest_rounds_unfold:
  "guest_rounds j up i p info s ks m1 m2 eh answers =
    \<lparr>env_others = receives guest_recv (CreateTCPInitPkt j up), env_retry = \<lambda>_ c. c,
       env_enethost = eh, env_answers = answers\<rparr>
    # \<lparr>env_others = receives guest_recv (CreateTCPResultPkt TPT_CONNECT_RESULT j 0), env_retry = \<lambda>_ c. c,
       env_enethost = eh, env_answers = answers\<rparr>
    # punch_rounds guest_recv p (CreateTCPStartPunchingPkt j i info) s ks m1 m2 eh answers"
  by (simp add: guest_rounds_def client_rounds_def numeral_3_eq_3 numeral_2_eq_2)

lemma guest_recv_init:
  "pkt_type P = Some (tpt_num TPT_INIT) \<Longrightarrow> rd_TCP_INIT_PACKET (pkt_data P) = Some (i, up) \<Longrightarrow>
   guest_recv P c = Some (True, SetStateEvent P2P_TCP_CONNECTED (c\<lparr>cli_dwTCPid := i, m_dwServerUDPPort := up\<rparr>))"
  by (simp only: Guest_RecvTCPPacketProcess_def Option.bind.simps tpt_of_num option.case
      TCPBASE_PACKET_TYPE.case prod.case)

lemma guest_init:
  "receives guest_recv (CreateTCPInitPkt i up) c = c\<lparr>cli_dwTCPid := i, m_dwServerUDPPort := up,
     cli_eStatus := P2P_TCP_CONNECTED, m_hStatusChange := True\<rparr>"
  by (simp add: receives_def guest_recv_init[OF CreateTCPInitPkt_props(2,3)] SetStateEvent_def SetState_def)

lemma guest_unmoved: "receives guest_recv (CreateTCPResultPkt TPT_CONNECT_RESULT j r) c = c"
  unfolding receives_def guest_ignores_connect_result[OF CreateTCPResultPkt_props(2)] by simp

lemma guest_reaches_exchange:
  fixes j :: DWORD and up :: WORD
  assumes c: "client_is P2P_CLIENT_GUEST j' kw c" and tcp: "m_pTCP c = Some tcp"
    and ev: "\<not> cli_hStopEvent c" "\<not> m_hConnectedEvent c"
  obtains W where "packet_for TPT_CONNECT j kw W" and
    "EventLoop (guest_dispatch ia) (guest_rounds j up i p info s ks m1 m2 eh answers) c
     = EventLoop (guest_dispatch ia) (punch_rounds guest_recv p (CreateTCPStartPunchingPkt j i info) s ks m1 m2 eh answers)
         (c\<lparr>cli_dwTCPid := j, m_dwServerUDPPort := up, cli_eStatus := P2P_TCP_CONNECTED, m_hStatusChange := False,
            m_pTCP := Some (SendPacket W tcp)\<rparr>)"
proof -
  let ?c1 = "c\<lparr>cli_dwTCPid := j, m_dwServerUDPPort := up, cli_eStatus := P2P_TCP_CONNECTED, m_hStatusChange := False\<rparr>"
  have is1: "client_is P2P_CLIENT_GUEST j kw ?c1" using c by (simp add: client_is_def)
  obtain W where W: "sends_tcp (TCPConnectEventProcess ?c1) ?c1 W" "packet_for TPT_CONNECT j kw W"
    using guest_asks[OF is1] by blast
  then have ask: "TCPConnectEventProcess ?c1 = Some (?c1\<lparr>m_pTCP := Some (SendPacket W tcp)\<rparr>)"
    using tcp by (simp add: sends_tcp_def)
  show thesis
  proof (rule that[OF W(2)], unfold guest_rounds_unfold, rule trans[OF EventLoop_round EventLoop_sleep])
  qed (use ask ev in \<open>simp_all add: guest_init guest_dispatch_def guest_unmoved\<close>)
qed

lemma Connect_starts:
  assumes new: "CP2PClient raw1 raw2 raw3 name kw ip pt ty = Some c0"
    and reg: "RegisterRecvPacketProcess True (Some client_self) c0 = Some c1"
    and init: "init c1 = Stop (Some (True, c2))"
  shows "Connect init ia es c1 = loop_result (EventLoop (guest_dispatch ia) es (c2\<lparr>m_dwErrorCode := err_num P2P_ERROR_NONE\<rparr>))"
proof -
  have "\<not> cli_hStopEvent c1"
    using new client_registered[OF new reg] by (auto simp: CP2PClient_def bind_Some_iff)
  then have stop: "c1\<lparr>cli_hStopEvent := False\<rparr> = c1" by simp
  show ?thesis
    by (simp only: Connect_def stop init loop.case option.case prod.case not_True_eq_False if_False loop_result_def)
qed

lemma Connect_runs:
  assumes c: "client_is P2P_CLIENT_GUEST j' kw c" and tcp: "m_pTCP c = Some tcp" and udp: "cli_pUDP c = Some udp"
    and reg: "udp_pRecvParam udp = Some client_self" "m_lRef c \<noteq> 1" "\<not> cli_hStopEvent c" "\<not> m_hConnectedEvent c"
    and ps: "CreateTCPStartUDPPkt j kw' = Some p" "CreateP2PSuccessPkt j kw' = Some s"
    and m: "m1 < 10" "m2 < 10" and ks: "\<forall>n. \<forall>d\<in>set (ks n). readable d"
  shows "\<exists>c' W D u R. loop_result (EventLoop (guest_dispatch ia) (guest_rounds j up i p info s ks m1 m2 eh answers)
         (c\<lparr>m_dwErrorCode := err_num P2P_ERROR_NONE\<rparr>)) = Stop (Some (err_num P2P_ERROR_NONE, c'))
     \<and> punched_through i info (channel eh answers (GetSocket udp) i info False) c'
     \<and> same_setup c c' \<and> udp_pRecvParam u = None
     \<and> m_pTCP c' = Some (tcp_sent R (reports i ks m2) (SendPacket W tcp)) \<and> packet_for TPT_P2P_RESULT j kw R \<and> packet_for TPT_CONNECT j kw W
     \<and> cli_pUDP c' = Some u \<and> udp_SendList u = udp_SendList udp
         @ replicate (Suc m1) (prepare_packet D) @ peer_datagrams i ks m2 c'
     \<and> (\<forall>sender. datagram_for UPT_CONNECT kw (delivered D sender))"
proof -
  let ?c = "c\<lparr>m_dwErrorCode := err_num P2P_ERROR_NONE\<rparr>"
  have cl: "client_is P2P_CLIENT_GUEST j' kw ?c" "m_pTCP ?c = Some tcp" using c tcp by (simp_all add: client_is_def)
  obtain W where W: "packet_for TPT_CONNECT j kw W" and
    run: "EventLoop (guest_dispatch ia) (guest_rounds j up i p info s ks m1 m2 eh answers) ?c
     = EventLoop (guest_dispatch ia) (punch_rounds guest_recv p (CreateTCPStartPunchingPkt j i info) s ks m1 m2 eh answers)
         (?c\<lparr>cli_dwTCPid := j, m_dwServerUDPPort := up, cli_eStatus := P2P_TCP_CONNECTED, m_hStatusChange := False,
            m_pTCP := Some (SendPacket W tcp)\<rparr>)" (is "_ = EventLoop _ _ ?d")
    by (rule guest_reaches_exchange[OF cl]) (use reg(3,4) in simp_all)
  have d: "client_is P2P_CLIENT_GUEST j kw ?d" using c by (simp add: client_is_def)
  obtain c' D u R where "loop_result (EventLoop (guest_dispatch ia)
        (punch_rounds guest_recv p (CreateTCPStartPunchingPkt j i info) s ks m1 m2 eh answers) ?d)
      = Stop (Some (err_num P2P_ERROR_NONE, c'))"
    and "punched_through i info (channel eh answers (GetSocket udp) i info False) c'" "same_setup c c'" "udp_pRecvParam u = None"
      "m_pTCP c' = Some (tcp_sent R (reports i ks m2) (SendPacket W tcp))"
      "packet_for TPT_P2P_RESULT j kw R" "cli_pUDP c' = Some u" "udp_SendList u = udp_SendList udp @ replicate (Suc m1) (prepare_packet D)
           @ peer_datagrams i ks m2 c'"
      "\<forall>sender. datagram_for UPT_CONNECT kw (delivered D sender)"
    using guestl.punch_result[OF d CreateTCPStartUDPPkt_props(2)[OF ps(1)] CreateTCPStartPunchingPkt_props(2,3)[of j i info]
        success_type[OF ps(2)] m ks, where tcp = "SendPacket W tcp" and udp = udp and ia = ia and eh = eh and answers = answers] udp reg
    by (auto simp: same_setup_def)
  then show ?thesis
    using W by (intro exI[of _ c'] exI[of _ W] exI[of _ D] exI[of _ u] exI[of _ R] conjI) (simp_all only: run simp_thms)
qed

text \<open>
  C11: a guest connects. A guest that \<open>main\<close> constructs and registers and whose sockets could be set up
  runs its main loop on the packets the server sends in a handshake (greeting, answer to its request,
  start, the host's id and address \<open>info\<close>, success) and on any datagrams \<open>ks\<close>, with fewer than ten waits for
  each answer. The loop ends without error. The guest has sent the server its request and one
  report for each answer it heard from the host; for each wait it has sent a datagram, to the server
  one that shows its address for the keyword, to the host a handshake, and an answer to each
  handshake of the host; it has handed its UDP socket to an ENet channel to the host's address.
\<close>

theorem guest_connects_to_host:
  assumes new: "CP2PGuest raw1 raw2 raw3 name kw ip pt = Some c0" "length raw1 = 32" "length raw2 = 32"
    and reg: "RegisterRecvPacketProcess True (Some client_self) c0 = Some c1"
    and init: "Client_Init fuel rawdst rawsrc sock connected local bound udpsock c1 = Stop (Some (True, c2))"
    and ps: "CreateTCPStartUDPPkt j kw' = Some p" "CreateP2PSuccessPkt j kw' = Some s"
    and m: "m1 < 10" "m2 < 10" and ks: "\<forall>n. \<forall>d\<in>set (ks n). readable d"
  shows "\<exists>c3 tcp udp W D R. Connect (Client_Init fuel rawdst rawsrc sock connected local bound udpsock) ia
         (guest_rounds j up i p info s ks m1 m2 eh answers) c1 = Stop (Some (err_num P2P_ERROR_NONE, c3))
     \<and> punched_through i info (channel eh answers udpsock i info False) c3
     \<and> m_pTCP c3 = Some tcp \<and> m_SendList tcp = W # replicate (reports i ks m2) R \<and> packet_for TPT_CONNECT j (cstr kw) W
     \<and> packet_for TPT_P2P_RESULT j (cstr kw) R \<and> cli_pUDP c3 = Some udp \<and> udp_SendList udp = replicate (Suc m1) (prepare_packet D)
         @ peer_datagrams i ks m2 c3
     \<and> (\<forall>sender. datagram_for UPT_CONNECT (cstr kw) (delivered D sender))"
proof -
  obtain tcp udp where c: "client_is P2P_CLIENT_GUEST 0 (cstr kw) c2" "m_pTCP c2 = Some tcp" "cli_pUDP c2 = Some udp"
    "udp_pRecvParam udp = Some client_self" "m_lRef c2 \<noteq> 1" "\<not> cli_hStopEvent c2" "\<not> m_hConnectedEvent c2"
    and empty: "m_SendList tcp = []" "udp_SendList udp = []" "GetSocket udp = udpsock"
    by (rule client_ready[OF new[unfolded CP2PGuest_def] reg init]) blast
  let ?es = "guest_rounds j up i p info s ks m1 m2 eh answers"
  have start: "Connect (Client_Init fuel rawdst rawsrc sock connected local bound udpsock) ia ?es c1
      = loop_result (EventLoop (guest_dispatch ia) ?es (c2\<lparr>m_dwErrorCode := err_num P2P_ERROR_NONE\<rparr>))"
    by (rule Connect_starts[OF new(1)[unfolded CP2PGuest_def] reg]) (rule init)
  obtain c3 W D u R where r: "Connect (Client_Init fuel rawdst rawsrc sock connected local bound udpsock) ia ?es c1
      = Stop (Some (err_num P2P_ERROR_NONE, c3))"
    "punched_through i info (channel eh answers udpsock i info False) c3"
    "m_pTCP c3 = Some (tcp_sent R (reports i ks m2) (SendPacket W tcp))" "packet_for TPT_P2P_RESULT j (cstr kw) R" "packet_for TPT_CONNECT j (cstr kw) W" "cli_pUDP c3 = Some u"
    "udp_SendList u = replicate (Suc m1) (prepare_packet D)
       @ peer_datagrams i ks m2 c3"
    "\<forall>sender. datagram_for UPT_CONNECT (cstr kw) (delivered D sender)"
    using Connect_runs[OF c ps m ks, where ia = ia and up = up and info = info and eh = eh and answers = answers] unfolding start empty append_Nil by blast
  have l: "m_SendList (tcp_sent R (reports i ks m2) (SendPacket W tcp)) = W # replicate (reports i ks m2) R"
    by (simp add: tcp_sent_fields SendPacket_def empty)
  show ?thesis
    by (rule exI[of _ c3], rule exI[of _ "tcp_sent R (reports i ks m2) (SendPacket W tcp)"], rule exI[of _ u],
        rule exI[of _ W], rule exI[of _ D], rule exI[of _ R]) (simp only: r l simp_thms)
qed

theorem guest_connects_to_host_witness:
  "\<exists>c0 c1 c2 c3 p s. CP2PGuest (replicate 32 0) (replicate 32 0) (replicate 32 0) [65, 0] [55, 0] [49, 0] 5000 = Some c0
     \<and> RegisterRecvPacketProcess True (Some client_self) c0 = Some c1
     \<and> Client_Init 1 (replicate 128 0) (replicate 128 0) 5 True None (\<lambda>_. True) (Some 6) c1 = Stop (Some (True, c2))
     \<and> CreateTCPStartUDPPkt 1 (55 # replicate 31 0) = Some p \<and> CreateP2PSuccessPkt 1 (55 # replicate 31 0) = Some s
     \<and> Connect (Client_Init 1 (replicate 128 0) (replicate 128 0) 5 True None (\<lambda>_. True) (Some 6)) (\<lambda>_. 0)
         (guest_rounds 1 5001 9 p zero_CLIENT_INFO s (demo_heard 9) 2 1 None (\<lambda>_ _. (None, 0, ENET_EVENT_TYPE_NONE))) c1 = Stop (Some (err_num P2P_ERROR_NONE, c3))
     \<and> cli_eStatus c3 = P2P_CONNECTED \<and> m_eType c3 = PCT_ENET"
proof -
  obtain c0 c1 c2 where c: "CP2PGuest (replicate 32 0) (replicate 32 0) (replicate 32 0) [65, 0] [55, 0] [49, 0] 5000 = Some c0"
    "RegisterRecvPacketProcess True (Some client_self) c0 = Some c1"
    "Client_Init 1 (replicate 128 0) (replicate 128 0) 5 True None (\<lambda>_. True) (Some 6) c1 = Stop (Some (True, c2))"
    by (rule demo_start[of CP2PGuest]) simp_all
  obtain p s where ps: "CreateTCPStartUDPPkt 1 (55 # replicate 31 0) = Some p"
    "CreateP2PSuccessPkt 1 (55 # replicate 31 0) = Some s" by (rule demo_packets)
  have "length (replicate 32 (0 :: BYTE)) = 32" "2 < (10 :: nat)" "1 < (10 :: nat)" by simp_all
  note guest_connects_to_host[OF c(1) this(1,1) c(2) c(3) ps this(2-3) demo_heard[of 9], where ia = "\<lambda>_. 0" and up = 5001 and i = 9
     and info = zero_CLIENT_INFO and eh = None and answers = "\<lambda>_ _. (None, 0, ENET_EVENT_TYPE_NONE)"]
  then show ?thesis using c ps unfolding punched_through_def by blast
qed

end
