(* ===== verification/MainProgram.thy ===== *)
theory MainProgram
  imports Application P2PServer
begin

text \<open>
  \<^verbatim>\<open>src/clovertun/main.cpp\<close>: what \<open>main\<close> does with the options it has read. A server is started; a host
  is created, listens and accepts one guest, and is replaced by a new one when it has been stopped;
  a guest connects and sends a file.
\<close>

section \<open>The surroundings of a client\<close>

text \<open>
  What one client object meets: the content of its uninitialised arrays, the answers of the sockets
  in \<open>Init\<close>, and the rounds of its main loop.
\<close>

record client_env =
  ce_raw1 :: "BYTE list"
  ce_raw2 :: "BYTE list"
  ce_raw3 :: "BYTE list"
  ce_fuel :: nat
  ce_rawdst :: "BYTE list"
  ce_rawsrc :: "BYTE list"
  ce_sock :: nat
  ce_connected :: bool
  ce_local :: "(BYTE list \<times> WORD) option"
  ce_bound :: "WORD \<Rightarrow> bool"
  ce_udpsock :: "nat option"
  ce_rounds :: "round_env list"

definition env_init :: "'a client_env_scheme \<Rightarrow> p2pclient \<Rightarrow> (bool \<times> p2pclient) option loop" where
  "env_init e = Client_Init (ce_fuel e) (ce_rawdst e) (ce_rawsrc e) (ce_sock e) (ce_connected e) (ce_local e)
     (ce_bound e) (ce_udpsock e)"

text \<open>The constructor and the registration of the receiver, for a host and for a guest.\<close>

definition NewClient :: "P2P_CLIENT_TYPE \<Rightarrow> 'a client_env_scheme \<Rightarrow> main_opts \<Rightarrow> p2pclient option" where
  "NewClient t e m = do {
     c \<leftarrow> (case t of P2P_CLIENT_HOST \<Rightarrow> CP2PHost | P2P_CLIENT_GUEST \<Rightarrow> CP2PGuest)
       (ce_raw1 e) (ce_raw2 e) (ce_raw3 e) (mo_name m) (mo_keyword m) (mo_addr m) (of_int (mo_port m));
     RegisterRecvPacketProcess True (Some client_self) c
   }"

section \<open>The host\<close>

text \<open>
  A new host listens and accepts; the results are only printed. So \<open>Accept\<close> is called also after
  \<open>Listen\<close> has failed.
\<close>

definition StartHost :: "(BYTE list \<Rightarrow> DWORD) \<Rightarrow> main_opts \<Rightarrow> 'a client_env_scheme \<Rightarrow> p2pclient option loop" where
  "StartHost ia m e =
     (case NewClient P2P_CLIENT_HOST e m of
        None \<Rightarrow> Stop None
      | Some c \<Rightarrow>
          (case Host_Listen (env_init e c) of
             NoFuel \<Rightarrow> NoFuel
           | Stop None \<Rightarrow> Stop None
           | Stop (Some (ErrorCode, c)) \<Rightarrow> map_loop (map_option snd) (Accept ia (ce_rounds e) c)))"

text \<open>
  The host of the round before: \<open>before\<close> is what the other threads do to it while \<open>main\<close> waits for its
  stop event (\<open>NoFuel\<close> while it is not set). If the last reference is given back, the object is
  deleted.
\<close>

definition RetireHost :: "(p2pclient \<Rightarrow> p2pclient) \<Rightarrow> p2pclient \<Rightarrow> unit option loop" where
  "RetireHost before c =
     (let c = before c in
      case WaitForStop c of
        None \<Rightarrow> NoFuel
      | Some _ \<Rightarrow> Stop (do {
          c \<leftarrow> Host_Close c;
          if m_lRef c = 1 then Some () else map_option (\<lambda>_. ()) (client_Release client_self c)
        }))"

record host_env = client_env +
  he_before :: "p2pclient \<Rightarrow> p2pclient"

text \<open>The endless loop of \<open>main\<close>, for the rounds given: the host at their end.\<close>

fun HostLoop :: "(BYTE list \<Rightarrow> DWORD) \<Rightarrow> main_opts \<Rightarrow> p2pclient option \<Rightarrow> host_env list \<Rightarrow>
    p2pclient option option loop" where
  "HostLoop ia m host [] = Stop (Some host)"
| "HostLoop ia m host (e # es) =
     (case (case host of None \<Rightarrow> Stop (Some ()) | Some c \<Rightarrow> RetireHost (he_before e) c) of
        NoFuel \<Rightarrow> NoFuel
      | Stop None \<Rightarrow> Stop None
      | Stop (Some _) \<Rightarrow>
          (case StartHost ia m e of
             NoFuel \<Rightarrow> NoFuel
           | Stop None \<Rightarrow> Stop None
           | Stop (Some c) \<Rightarrow> HostLoop ia m (Some c) es))"

section \<open>The guest\<close>

definition StartGuest :: "(BYTE list \<Rightarrow> DWORD) \<Rightarrow> main_opts \<Rightarrow> 'a client_env_scheme \<Rightarrow> p2pclient option loop" where
  "StartGuest ia m e =
     (case NewClient P2P_CLIENT_GUEST e m of
        None \<Rightarrow> Stop None
      | Some c \<Rightarrow> map_loop (map_option snd) (Connect (env_init e) ia (ce_rounds e) c))"

text \<open>\<open>file\<close>: what \<open>fopen\<close> finds; the file is sent whatever \<open>Connect\<close> returned.\<close>

definition RunGuest :: "(BYTE list \<Rightarrow> DWORD) \<Rightarrow> (DWORD \<Rightarrow> BYTE list) \<Rightarrow> BYTE list option \<Rightarrow> main_opts \<Rightarrow>
    'a client_env_scheme \<Rightarrow> p2pclient option loop" where
  "RunGuest ia raw file m e =
     (case StartGuest ia m e of
        NoFuel \<Rightarrow> NoFuel
      | Stop None \<Rightarrow> Stop None
      | Stop (Some c) \<Rightarrow> Stop (case file of None \<Rightarrow> Some c | Some data \<Rightarrow> SendFile raw 0 data c))"

section \<open>The program\<close>

text \<open>Where \<open>main\<close> gets to: its early return, or what it has when it reaches \<open>getchar\<close> or goes round.\<close>

datatype main_end =
    BadOption
  | RunsServer p2pserver
  | RunsHost "p2pclient option"
  | RanGuest p2pclient
  | NoRole

text \<open>
  The answers of the surroundings for each role: for the server those of its sockets, for the host
  one element for each client object, for the guest those of its object and the file.
\<close>

record main_env =
  me_fuel :: nat
  me_udpsock :: "nat option"
  me_bound :: "WORD \<Rightarrow> bool"
  me_lsock :: "nat option"
  me_lbound :: bool
  me_hosts :: "host_env list"
  me_guest :: client_env
  me_raw :: "DWORD \<Rightarrow> BYTE list"
  me_file :: "BYTE list option"

definition main_program :: "(string \<Rightarrow> int) \<Rightarrow> (BYTE list \<Rightarrow> DWORD) \<Rightarrow> nat \<Rightarrow> string list \<Rightarrow> main_env \<Rightarrow>
    main_end option loop" where
  "main_program atoi ia fuel argv e =
     (case OptLoop fuel atoi argv getopt_start initial_opts of
        NoFuel \<Rightarrow> NoFuel
      | Stop None \<Rightarrow> Stop None
      | Stop (Some None) \<Rightarrow> Stop (Some BadOption)
      | Stop (Some (Some m)) \<Rightarrow>
          if mo_isServer m then
            map_loop (map_option (\<lambda>(ok, s). RunsServer s))
              (P2PServer_Init (me_fuel e) (me_bound e) (me_lsock e) (me_lbound e)
                 (CP2PServer (me_udpsock e) (of_int (mo_port m))))
          else if mo_isHost m then
            map_loop (map_option RunsHost) (HostLoop ia m None (me_hosts e))
          else if mo_isGuest m then
            map_loop (map_option RanGuest) (RunGuest ia (me_raw e) (me_file e) m (me_guest e))
          else Stop (Some NoRole))"

end
