(* ===== verification/MainProperties.thy ===== *)
theory MainProperties
  imports Application P2PGuest ServerProperties
begin

text \<open>
  Properties of the program as a whole: the command line is read to its end, the server finds its
  UDP port, and a guest sends a whole file.
\<close>

section \<open>The options\<close>

text \<open>What \<open>getopt\<close> has left to read: the rest of the current argument and the arguments after it.\<close>

definition unread :: "string list \<Rightarrow> getopt_state \<Rightarrow> nat" where
  "unread argv st = (case nxt st of None \<Rightarrow> 0 | Some s \<Rightarrow> length s)
     + sum_list (map length (drop (optind st) argv))"

lemma unread_next:
  assumes "arg_at argv i = Some a"
  shows "sum_list (map length (drop i argv)) = length a + sum_list (map length (drop (Suc i) argv))"
  using assms by (auto simp: arg_at_def Cons_nth_drop_Suc[symmetric] split: if_splits)

lemma getopt_letter_unread:
  assumes "getopt_letter argv os c rest st = (r, st')"
  shows "unread argv st' \<le> length rest + sum_list (map length (drop (optind st) argv))"
  using assms
  by (auto simp: getopt_letter_def Let_def unread_def dest!: unread_next split: if_splits option.splits)

lemma getopt_unread:
  assumes "getopt argv os st = (Some c, st')" and "optind st = 0 \<Longrightarrow> nxt st = None"
  shows "unread argv st' < unread argv st"
proof (cases "nxt st = None \<or> nxt st = Some []")
  case True
  let ?i = "if optind st = 0 then 1 else optind st"
  obtain d e rest where a: "arg_at argv ?i = Some (d # e # rest)"
    "getopt_letter argv os e rest (st\<lparr>optarg := None, optind := Suc ?i\<rparr>) = (Some c, st')
     \<or> getopt_letter argv os e rest (st\<lparr>nxt := None, optarg := None, optind := Suc ?i\<rparr>) = (Some c, st')"
    using assms(1) True
    by (auto simp: getopt_def Let_def split: if_splits option.splits list.splits)
  have "sum_list (map length (drop ?i argv)) \<le> sum_list (map length (drop (optind st) argv))"
  proof (cases "optind st = 0")
    case True
    then show ?thesis by (cases argv) auto
  qed simp
  moreover have "unread argv st' \<le> length rest + sum_list (map length (drop (Suc ?i) argv))"
    using a(2) getopt_letter_unread[of argv os e rest] by fastforce
  ultimately show ?thesis using unread_next[OF a(1)] by (auto simp: unread_def)
next
  case False
  then obtain e rest where n: "nxt st = Some (e # rest)" by (cases "nxt st"; cases "the (nxt st)") auto
  then have "optind st \<noteq> 0" using assms(2) by auto
  then have "getopt_letter argv os e rest (st\<lparr>optarg := None\<rparr>) = (Some c, st')"
    using assms(1) n by (simp add: getopt_def Let_def)
  from getopt_letter_unread[OF this] show ?thesis using n by (simp add: unread_def)
qed

lemma getopt_optind: "getopt argv os st = (Some c, st') \<Longrightarrow> optind st' \<noteq> 0"
  by (auto simp: getopt_def getopt_letter_def Let_def split: if_splits option.splits list.splits)

lemma OptLoop_ends:
  "unread argv st < fuel \<Longrightarrow> (optind st = 0 \<Longrightarrow> nxt st = None) \<Longrightarrow> OptLoop fuel atoi argv st m \<noteq> NoFuel"
proof (induction fuel arbitrary: st m)
  case (Suc fuel)
  show ?case
  proof (cases "getopt argv ''hgsn:k:a:p:'' st")
    case (Pair r st')
    show ?thesis
    proof (cases r)
      case (Some c)
      then have g: "getopt argv ''hgsn:k:a:p:'' st = (Some c, st')" using Pair by simp
      have "unread argv st' < fuel" using getopt_unread[OF g Suc.prems(2)] Suc.prems(1) by simp
      then have "OptLoop fuel atoi argv st' m' \<noteq> NoFuel" for m'
        using Suc.IH[of st' m'] getopt_optind[OF g] by simp
      then show ?thesis using g by (auto split: option.split)
    qed (use Pair in simp)
  qed
qed simp

text \<open>
  C38: the loop over the command line ends. For any arguments and any answers of \<open>atoi\<close>, one pass for
  each character of the arguments and one more are enough: the loop ends with the options, with the
  return of \<open>main\<close> for an unknown one, or with a string that does not fit its array.
\<close>

theorem main_options_end:
  assumes "sum_list (map length argv) < fuel"
  shows "\<exists>r. OptLoop fuel atoi argv getopt_start initial_opts = Stop r"
proof -
  have "unread argv getopt_start < fuel" using assms by (simp add: unread_def getopt_start_def)
  then have "OptLoop fuel atoi argv getopt_start initial_opts \<noteq> NoFuel"
    by (rule OptLoop_ends) (simp add: getopt_start_def)
  then show ?thesis by (cases "OptLoop fuel atoi argv getopt_start initial_opts") auto
qed

theorem main_options_end_witness:
  "\<exists>r. OptLoop 20 (\<lambda>_. 5000) [''clovertun'', ''-h'', ''-kabc''] getopt_start initial_opts = Stop r"
  by (rule main_options_end) simp

text \<open>A command line of options, each a letter alone or a letter and its argument.\<close>

datatype cmd_option = Flag char | Arg char string

fun words_of :: "cmd_option \<Rightarrow> string list" where
  "words_of (Flag c) = [[CHR ''-'', c]]"
| "words_of (Arg c a) = [[CHR ''-'', c], a]"

fun well_formed :: "cmd_option \<Rightarrow> bool" where
  "well_formed (Flag c) = (c \<in> set ''hgs'')"
| "well_formed (Arg c a) = (c \<in> set ''nkap'')"

fun letter_of :: "cmd_option \<Rightarrow> char" where
  "letter_of (Flag c) = c"
| "letter_of (Arg c a) = c"

fun argument_of :: "cmd_option \<Rightarrow> string option" where
  "argument_of (Flag c) = None"
| "argument_of (Arg c a) = Some a"

text \<open>The options applied one after the other; the result is that of \<open>OptLoop\<close>.\<close>

fun apply_all :: "(string \<Rightarrow> int) \<Rightarrow> cmd_option list \<Rightarrow> main_opts \<Rightarrow> main_opts option option" where
  "apply_all atoi [] m = Some (Some m)"
| "apply_all atoi (x # xs) m =
     (case apply_option atoi (letter_of x) (case argument_of x of None \<Rightarrow> [] | Some a \<Rightarrow> a) m of
        None \<Rightarrow> None
      | Some None \<Rightarrow> Some None
      | Some (Some m) \<Rightarrow> apply_all atoi xs m)"

lemma arg_at_drop:
  assumes "drop i argv = ws @ rest" and "k < length ws"
  shows "arg_at argv (i + k) = Some (ws ! k)"
proof -
  have "k < length (drop i argv)" using assms by simp
  then have "i + k < length argv" by simp
  moreover have "argv ! (i + k) = drop i argv ! k" using calculation by (simp add: nth_drop)
  ultimately show ?thesis using assms by (simp add: arg_at_def nth_append)
qed

lemma getopt_word:
  assumes "nxt st = None \<or> nxt st = Some []" and "i = (if optind st = 0 then 1 else optind st)"
    and "arg_at argv i = Some (CHR ''-'' # c # rest)" and "c \<noteq> CHR ''-''"
  shows "getopt argv os st = getopt_letter argv os c rest \<lparr>optind = Suc i, optarg = None, nxt = None\<rparr>"
  using assms by (cases st; cases "optind st = 0") (auto simp: getopt_def getopt_letter_def Let_def)

lemma letter_flag:
  assumes "c \<in> set ''hgs''"
  shows "getopt_letter argv ''hgsn:k:a:p:'' c [] \<lparr>optind = i, optarg = None, nxt = None\<rparr>
     = (Some c, \<lparr>optind = i, optarg = None, nxt = Some []\<rparr>)"
  using assms by (auto simp: getopt_letter_def)

lemma letter_arg:
  assumes "c \<in> set ''nkap''" and "arg_at argv i = Some a"
  shows "getopt_letter argv ''hgsn:k:a:p:'' c [] \<lparr>optind = i, optarg = None, nxt = None\<rparr>
     = (Some c, \<lparr>optind = Suc i, optarg = Some a, nxt = Some []\<rparr>)"
  using assms by (auto simp: getopt_letter_def)

lemma getopt_option:
  assumes "well_formed x" and "nxt st = None \<or> nxt st = Some []"
    and "drop (if optind st = 0 then 1 else optind st) argv = words_of x @ rest"
  shows "getopt argv ''hgsn:k:a:p:'' st = (Some (letter_of x),
    \<lparr>optind = (if optind st = 0 then 1 else optind st) + length (words_of x), optarg = argument_of x, nxt = Some []\<rparr>)"
proof -
  define i where "i = (if optind st = 0 then 1 else optind st)"
  have at: "arg_at argv (i + k) = Some (words_of x ! k)" if "k < length (words_of x)" for k
    by (rule arg_at_drop[OF assms(3)[folded i_def] that])
  show ?thesis
  proof (cases x)
    case (Flag c)
    then have "c \<in> set ''hgs''" "c \<noteq> CHR ''-''" using assms(1) by auto
    then show ?thesis
      using getopt_word[OF assms(2) i_def, of argv c "[]"] letter_flag[of c argv "Suc i"] at[of 0] Flag
      by (simp flip: i_def)
  next
    case (Arg c a)
    then have "c \<in> set ''nkap''" "c \<noteq> CHR ''-''" using assms(1) by auto
    then show ?thesis
      using getopt_word[OF assms(2) i_def, of argv c "[]"] letter_arg[of c argv "Suc i" a] at[of 0] at[of 1] Arg
      by (simp flip: i_def)
  qed
qed

lemma OptLoop_reads:
  assumes "\<forall>x\<in>set xs. well_formed x" and "nxt st = None \<or> nxt st = Some []"
    and "drop (if optind st = 0 then 1 else optind st) argv = concat (map words_of xs)" and "length xs < fuel"
  shows "OptLoop fuel atoi argv st m = Stop (apply_all atoi xs m)"
  using assms
proof (induction xs arbitrary: st m fuel)
  case Nil
  then obtain n where "fuel = Suc n" by (cases fuel) auto
  then show ?case using Nil by (auto simp: getopt_def Let_def arg_at_def split: option.split)
next
  case (Cons x xs)
  let ?i = "if optind st = 0 then 1 else optind st"
  let ?st = "\<lparr>optind = ?i + length (words_of x), optarg = argument_of x, nxt = Some []\<rparr>"
  obtain n where n: "fuel = Suc n" "length xs < n" using Cons.prems(4) by (cases fuel) auto
  have g: "getopt argv ''hgsn:k:a:p:'' st = (Some (letter_of x), ?st)"
    using getopt_option[of x st argv "concat (map words_of xs)"] Cons.prems(1,2,3) by simp
  have "drop (length (words_of x)) (drop ?i argv) = concat (map words_of xs)" using Cons.prems(3) by simp
  then have "drop (optind ?st) argv = concat (map words_of xs)" by (simp add: ac_simps)
  then have "OptLoop n atoi argv ?st m' = Stop (apply_all atoi xs m')" for m'
    using Cons.IH[of ?st n m'] Cons.prems(1) n(2) by simp
  then show ?case using g n(1) by (auto split: option.split)
qed

text \<open>
  C14: \<open>main\<close> reads its command line as it is written. For options in any order and number, each a letter
  alone or a letter followed by its argument, the loop over \<open>getopt\<close> applies exactly these options in
  this order.
\<close>

theorem options_read_in_order:
  assumes "\<forall>x\<in>set xs. well_formed x" and "length xs < fuel"
  shows "OptLoop fuel atoi (prog # concat (map words_of xs)) getopt_start initial_opts = Stop (apply_all atoi xs initial_opts)"
  by (rule OptLoop_reads[OF assms(1) _ _ assms(2)]) (simp_all add: getopt_start_def)

theorem options_read_in_order_witness:
  "OptLoop 4 (\<lambda>_. 5000) (''clovertun'' # concat (map words_of [Flag CHR ''g'', Arg CHR ''k'' ''abc'', Arg CHR ''p'' ''5000'']))
     getopt_start initial_opts
   = Stop (apply_all (\<lambda>_. 5000) [Flag CHR ''g'', Arg CHR ''k'' ''abc'', Arg CHR ''p'' ''5000''] initial_opts)"
  by (rule options_read_in_order) simp_all

section \<open>The UDP port of the server\<close>

lemma PortLoop_first:
  "bound (p + of_nat n) \<Longrightarrow> (\<And>m. m < n \<Longrightarrow> \<not> bound (p + of_nat m)) \<Longrightarrow> n < fuel \<Longrightarrow>
     \<exists>udp'. PortLoop fuel bound p udp = Stop (p + of_nat n, udp')"
proof (induction fuel arbitrary: p n udp)
  case (Suc fuel)
  show ?case
  proof (cases n)
    case 0
    then show ?thesis using Suc.prems(1) by (simp add: UDP_Init_def Let_def)
  next
    case (Suc n')
    have no: "\<not> bound p" using Suc.prems(2)[of 0] \<open>n = Suc n'\<close> by simp
    have "bound (p + 1 + of_nat n')" using Suc.prems(1) \<open>n = Suc n'\<close> by (simp add: ac_simps)
    moreover have "\<not> bound (p + 1 + of_nat m)" if "m < n'" for m
      using Suc.prems(2)[of "Suc m"] that \<open>n = Suc n'\<close> by (simp add: ac_simps)
    ultimately obtain udp' where "PortLoop fuel bound (p + 1) (udp\<lparr>m_dwLocalPort := p\<rparr>)
        = Stop (p + 1 + of_nat n', udp')"
      using Suc.IH[of "p + 1" n'] Suc.prems(3) \<open>n = Suc n'\<close> by blast
    then show ?thesis using no \<open>n = Suc n'\<close> by (simp add: UDP_Init_def Let_def ac_simps)
  qed
qed simp

lemma PortLoop_none: "(\<And>q. \<not> bound q) \<Longrightarrow> PortLoop fuel bound p udp = NoFuel"
  by (induction fuel arbitrary: p udp) (simp_all add: UDP_Init_def Let_def)

text \<open>
  C37: the server takes the first free UDP port. If a port \<open>n\<close> above the base is the first one that
  \<open>bind\<close> accepts, \<open>Init\<close> ends after \<open>n + 1\<close> attempts and the server uses this port; if \<open>bind\<close> accepts
  none, no number of attempts ends the search.
\<close>

theorem server_takes_first_free_port:
  "(bound (UDP_PORT_SERVER_BASE + of_nat n) \<and> (\<forall>m<n. \<not> bound (UDP_PORT_SERVER_BASE + of_nat m)) \<and> n < fuel
      \<longrightarrow> (case P2PServer_Init fuel bound lsock lbound (CP2PServer u pt) of
             Stop (Some (True, s)) \<Rightarrow> m_dwUDPPort s = UDP_PORT_SERVER_BASE + of_nat n
           | _ \<Rightarrow> False))
   \<and> ((\<forall>q. \<not> bound q) \<longrightarrow> P2PServer_Init fuel bound lsock lbound (CP2PServer u pt) = NoFuel)"
proof -
  let ?reg = "(CUDPBase u)\<lparr>udp_pfnRecvFunc := Some UdpServerDelegate, udp_pRecvParam := Some self\<rparr>"
  let ?s = "(CP2PServer u pt)\<lparr>m_lRef := 2\<rparr>"
  have reg: "m_pUDP (CP2PServer u pt) = Some (CUDPBase u)"
    "UDP_RegisterRecvProcess server_AddRef server_Release (Some UdpServerDelegate) (Some self)
       (CUDPBase u) (CP2PServer u pt) = Some (?reg, ?s)"
    by (simp_all add: CP2PServer_def UDP_RegisterRecvProcess_def CUDPBase_def register_param_def
        server_AddRef_def CBaseObject_AddRef_def)
  have ready: "case P2PServer_Init fuel bound lsock lbound (CP2PServer u pt) of
      Stop (Some (True, s)) \<Rightarrow> m_dwUDPPort s = UDP_PORT_SERVER_BASE + of_nat n | _ \<Rightarrow> False"
    if "PortLoop fuel bound UDP_PORT_SERVER_BASE ?reg = Stop (UDP_PORT_SERVER_BASE + of_nat n, udp')" for udp'
    unfolding P2PServer_Init_def reg option.case prod.case that
    by (simp add: CP2PServer_def CTCPService_def RegisterSocketAcceptProcess_def register_param_def
        server_AddRef_def CBaseObject_AddRef_def Let_def)
  have "P2PServer_Init fuel bound lsock lbound (CP2PServer u pt) = NoFuel" if "\<forall>q. \<not> bound q"
    unfolding P2PServer_Init_def reg option.case prod.case PortLoop_none[OF that[rule_format]] by simp
  then show ?thesis using ready PortLoop_first by blast
qed

theorem server_takes_first_free_port_witness:
  "case P2PServer_Init 5 (\<lambda>p. p \<noteq> UDP_PORT_SERVER_BASE) (Some 4) True (CP2PServer (Some 3) 5000) of
     Stop (Some (True, s)) \<Rightarrow> m_dwUDPPort s = UDP_PORT_SERVER_BASE + 1 | _ \<Rightarrow> False"
proof -
  let ?b = "\<lambda>p. p \<noteq> UDP_PORT_SERVER_BASE"
  have "?b (UDP_PORT_SERVER_BASE + of_nat 1) \<and> (\<forall>m<1. \<not> ?b (UDP_PORT_SERVER_BASE + of_nat m)) \<and> 1 < (5 :: nat)"
    by simp
  note mp[OF conjunct1[OF server_takes_first_free_port[of ?b 1 5 "Some 4" True "Some 3" 5000]] this]
  then show ?thesis unfolding of_nat_1 .
qed

section \<open>Sending a file\<close>

text \<open>The part of a block that belongs to the file.\<close>

definition payload :: "BYTE list \<Rightarrow> BYTE list" where
  "payload p = (case rd_dword 4 p of None \<Rightarrow> [] | Some len \<Rightarrow> take (unat len) (drop 8 p))"

lemma block_fields:
  assumes "length data \<le> 4096"
  shows "rd_dword 0 (dword_bytes n @ dword_bytes (of_nat (length data)) @ data @ rest) = Some n"
    and "payload (dword_bytes n @ dword_bytes (of_nat (length data)) @ data @ rest) = data"
  using assms by (simp_all add: payload_def wire_simps unat_of_nat_DWORD)

lemma block_sent:
  assumes "length p = 4104" and "m_eType c = PCT_ENET" and "m_pENet c = Some en" and "\<not> en_hStopEvent en"
  shows "Client_SendPacket p 4104 c = Some (c\<lparr>m_pENet := Some (en\<lparr>en_SendList := en_SendList en @ [p]\<rparr>)\<rparr>)"
proof -
  have "rd_bytes 0 (unat (4104 :: DWORD)) p = Some p" using assms(1) by (simp add: rd_bytes_def)
  then show ?thesis using assms(2,3,4)
    by (simp add: Client_SendPacket_def ENet_SendPacket_def wait_any_timeout_def wait_any_def)
qed

lemma SendFile_blocks:
  assumes "m_eType c = PCT_ENET" and "m_pENet c = Some en" and "\<not> en_hStopEvent en"
    and "\<forall>k. length (raw k) = 4104"
  shows "\<exists>c' ps. SendFile raw n file c = Some c'
     \<and> c' = c\<lparr>m_pENet := Some (en\<lparr>en_SendList := en_SendList en @ ps\<rparr>)\<rparr> \<and> concat (map payload ps) = file
     \<and> (\<forall>k<length ps. length (ps ! k) = 4104 \<and> rd_dword 0 (ps ! k) = Some (n + of_nat k))"
  using assms
proof (induction raw n "file" c arbitrary: en rule: SendFile.induct)
  case (1 raw n f c)
  let ?d = "take DATA_SIZE f"
  let ?l = "of_nat (length ?d) :: DWORD"
  let ?B = "dword_bytes n @ dword_bytes ?l @ ?d @ drop (unat sizeof_transfer_data + length ?d) (raw n)"
  have len: "length ?d \<le> 4096" by (simp add: DATA_SIZE_def)
  have l: "unat ?l = length ?d" using len by (intro unat_of_nat_DWORD) simp
  show ?case
  proof (cases "?l = 0")
    case True
    then have "length ?d = 0" using l by (metis unat_0)
    then have "f = []" by (simp add: DATA_SIZE_def min_def split: if_splits)
    then show ?thesis using "1.prems"(2) by (subst SendFile.simps) (auto intro!: exI[of _ "[]"])
  next
    case False
    have B: "length ?B = 4104" using "1.prems"(4) len by (simp add: sizeof_transfer_data_def)
    let ?en = "en\<lparr>en_SendList := en_SendList en @ [?B]\<rparr>" let ?c = "c\<lparr>m_pENet := Some ?en\<rparr>"
    have size: "sizeof_transfer_data + of_nat DATA_SIZE = 4104"
      by (simp add: sizeof_transfer_data_def DATA_SIZE_def)
    have send: "Client_SendPacket ?B (sizeof_transfer_data + of_nat DATA_SIZE) c = Some ?c"
      unfolding size by (rule block_sent) (use B "1.prems" in simp_all)
    have run: "SendFile raw n f c = SendFile raw (n + 1) (drop DATA_SIZE f) ?c"
      by (subst SendFile.simps) (simp only: Let_def False if_False send option.case)
    obtain c' ps where r: "SendFile raw (n + 1) (drop DATA_SIZE f) ?c = Some c'"
      "c' = ?c\<lparr>m_pENet := Some (?en\<lparr>en_SendList := en_SendList ?en @ ps\<rparr>)\<rparr>"
      "concat (map payload ps) = drop DATA_SIZE f"
      "\<forall>k<length ps. length (ps ! k) = 4104 \<and> rd_dword 0 (ps ! k) = Some (n + 1 + of_nat k)"
      using "1.IH"[OF refl refl False refl send, of ?en] "1.prems" by auto
    have "payload ?B = ?d" "rd_dword 0 ?B = Some n" using block_fields[OF len] by simp_all
    then have "concat (map payload (?B # ps)) = f" using r(3) by simp
    moreover have "\<forall>k<length (?B # ps). length ((?B # ps) ! k) = 4104
        \<and> rd_dword 0 ((?B # ps) ! k) = Some (n + of_nat k)"
    proof (intro allI impI)
      fix k assume "k < length (?B # ps)"
      then show "length ((?B # ps) ! k) = 4104 \<and> rd_dword 0 ((?B # ps) ! k) = Some (n + of_nat k)"
        using r(4) B \<open>rd_dword 0 ?B = Some n\<close> by (cases k) (simp_all add: ac_simps)
    qed
    ultimately show ?thesis
      using r(1,2) run by (intro exI[of _ c'] exI[of _ "?B # ps"]) simp
  qed
qed

text \<open>
  A guest sends a whole file. In ENet mode the loop of \<open>main\<close> ends and has queued blocks of 4104
  bytes, whatever the allocated memory holds: the headers number the blocks from zero, and the data
  the headers declare, taken together in this order, are the file.
\<close>

theorem guest_sends_file:
  assumes "m_eType c = PCT_ENET" and "m_pENet c = Some en" and "\<not> en_hStopEvent en"
    and "\<forall>k. length (raw k) = 4104"
  shows "\<exists>c' en' ps. SendFile raw 0 file c = Some c' \<and> m_pENet c' = Some en'
     \<and> en_SendList en' = en_SendList en @ ps \<and> concat (map payload ps) = file
     \<and> (\<forall>k<length ps. length (ps ! k) = 4104 \<and> rd_dword 0 (ps ! k) = Some (of_nat k))"
  using SendFile_blocks[OF assms, of 0 "file"] by auto

theorem guest_sends_file_witness:
  "\<exists>c' en' ps. SendFile (\<lambda>_. replicate 4104 0) 0 (replicate 5000 7)
       ((the (CP2PGuest (replicate 32 0) (replicate 32 0) (replicate 32 0)
         [65, 0] [55, 0] [49, 0] 5000))\<lparr>m_eType := PCT_ENET, m_pENet := Some (CENetClient (Some 3) 1 zero_CLIENT_INFO False)\<rparr>) = Some c'
     \<and> m_pENet c' = Some en' \<and> en_SendList en' = ps \<and> concat (map payload ps) = replicate 5000 7"
proof -
  let ?c = "(the (CP2PGuest (replicate 32 0) (replicate 32 0) (replicate 32 0)
         [65, 0] [55, 0] [49, 0] 5000))\<lparr>m_eType := PCT_ENET, m_pENet := Some (CENetClient (Some 3) 1 zero_CLIENT_INFO False)\<rparr>"
  show ?thesis
    using guest_sends_file[of ?c "CENetClient (Some 3) 1 zero_CLIENT_INFO False" "\<lambda>_. replicate 4104 0" "replicate 5000 7"]
    by (auto simp: CENetClient_def)
qed

end
