(* ===== verification/ProgramProperties.thy ===== *)
theory ProgramProperties
  imports ClientLoops MainProgram MainProperties
begin

text \<open>
  The program as \<open>main\<close> runs it: a host that serves one guest after another, a guest that connects and
  sends a file, and a host that gets the file over the channel and acknowledges each block.
\<close>

section \<open>The channel\<close>

lemma ENetConnectLoop_keeps:
  "ENetConnectLoop as en = (ok, en') \<Longrightarrow> \<exists>p. en' = en\<lparr>m_pENetPeer := p\<rparr>"
proof (induction as en rule: ENetConnectLoop.induct)
  case (1 en)
  then show ?case by (auto intro: exI[of _ "m_pENetPeer en"])
next
  case (2 peer ret event answers en)
  show ?case
  proof (cases "peer = None \<or> (ret > 0 \<and> (case event of ENET_EVENT_TYPE_CONNECT _ _ _ \<Rightarrow> True | _ \<Rightarrow> False))")
    case True
    then show ?thesis using "2.prems" by (auto simp: Let_def split: if_splits)
  next
    case False
    then show ?thesis using 2 by (auto simp: Let_def split: if_splits)
  qed
qed

text \<open>What \<open>Init\<close> of the channel does not change.\<close>

lemma channel_fields:
  "en_hStopEvent (channel eh answers sock i info ishost) = False"
  "en_SendList (channel eh answers sock i info ishost) = []"
  "en_pRecvParam (channel eh answers sock i info ishost) = Some client_self"
  "en_pfnRecvFunc (channel eh answers sock i info ishost) = True"
  "en_dwPeerId (channel eh answers sock i info ishost) = i"
  "m_stPeerInfo (channel eh answers sock i info ishost) = info"
  "peer_data (channel eh answers sock i info ishost) = (\<lambda>_. 0)"
proof -
  let ?en = "(CENetClient sock i info ishost)\<lparr>en_pfnRecvFunc := True, en_pRecvParam := Some client_self\<rparr>"
  obtain p h l t where "snd (ENet_Init eh answers ?en)
      = ?en\<lparr>m_pENetHost := h, m_pENetPeer := p, m_lRef := l, en_hMainThread := t\<rparr>"
  proof -
    let ?e = "?en\<lparr>m_pENetHost := eh\<rparr>"
    obtain ok e where l: "ENetConnectLoop (map (answers (ipaddr info, htons (port info))) [0..<10]) ?e = (ok, e)" by fastforce
    obtain p where "e = ?e\<lparr>m_pENetPeer := p\<rparr>" using ENetConnectLoop_keeps[OF l] by blast
    then show thesis
      using that[where h = eh and p = p and l = 1 and t = False] that[where h = eh and p = p and l = 2 and t = True]
        that[where h = eh and p = None and l = 1 and t = False] that[where h = eh and p = None and l = 2 and t = True] l
      by (cases eh; cases ishost; cases ok)
        (simp_all add: ENet_Init_def Let_def CENetClient_def CBaseObject_AddRef_def)
  qed
  then show "en_hStopEvent (channel eh answers sock i info ishost) = False"
    "en_SendList (channel eh answers sock i info ishost) = []"
    "en_pRecvParam (channel eh answers sock i info ishost) = Some client_self"
    "en_pfnRecvFunc (channel eh answers sock i info ishost) = True"
    "en_dwPeerId (channel eh answers sock i info ishost) = i"
    "m_stPeerInfo (channel eh answers sock i info ishost) = info"
    "peer_data (channel eh answers sock i info ishost) = (\<lambda>_. 0)"
    by (simp_all add: channel_def CENetClient_def)
qed

section \<open>The life of a host\<close>

text \<open>A client that runs with its channel: what the count and the registrations are.\<close>

definition runs_channel :: "p2pclient \<Rightarrow> bool" where
  "runs_channel c \<longleftrightarrow> m_lRef c = 5 \<and> cli_pfnRecvFunc c \<and> m_pParam c = Some client_self
     \<and> (case m_pTCP c of None \<Rightarrow> False | Some tcp \<Rightarrow> m_pRecvParam tcp = Some client_self \<and> m_pEndParam tcp = Some client_self)
     \<and> (case cli_pUDP c of None \<Rightarrow> False | Some udp \<Rightarrow> udp_pRecvParam udp = None)
     \<and> (case m_pENet c of None \<Rightarrow> False | Some en \<Rightarrow> en_pRecvParam en = Some client_self)"

lemma retire_running:
  assumes "runs_channel (before c)" and "cli_hStopEvent (before c)"
  shows "RetireHost before c = Stop (Some ())"
proof -
  obtain tcp udp en where "m_pTCP (before c) = Some tcp" "m_pRecvParam tcp = Some client_self"
    "m_pEndParam tcp = Some client_self" "cli_pUDP (before c) = Some udp" "udp_pRecvParam udp = None"
    "m_pENet (before c) = Some en" "en_pRecvParam en = Some client_self" "m_lRef (before c) = 5"
    using assms(1) by (auto simp: runs_channel_def split: option.splits)
  then show ?thesis using assms(2)
    by (simp add: RetireHost_def WaitForStop_def wait_any_def wait_defs Host_Close_def Client_Done_def
        CTCPClient_Done_def RegisterRecvProcess_def RegisterEndProcess_def UDP_Stop_def
        UDP_RegisterRecvProcess_def ENet_RegisterRecvProcess_def ENet_Done_def register_param_def
        client_Release_def CBaseObject_Release_def Let_def)
qed

text \<open>
  A round of \<open>main\<close>'s loop in which the host listens, goes through a handshake for the peer id \<open>i\<close> and the
  guest's address \<open>info\<close>, and before which the host of the round before was told that its guest has left.
\<close>

inductive host_session :: "main_opts \<Rightarrow> DWORD \<Rightarrow> CLIENT_INFO \<Rightarrow> host_env \<Rightarrow> bool" for m where
  host_sessionI: "NewClient P2P_CLIENT_HOST e m = Some c1 \<Longrightarrow> length (ce_raw1 e) = 32 \<Longrightarrow> length (ce_raw2 e) = 32 \<Longrightarrow>
    Host_Listen (env_init e c1) = Stop (Some (err_num P2P_ERROR_NONE, c2)) \<Longrightarrow>
    CreateTCPStartUDPPkt i kw = Some p \<Longrightarrow> CreateP2PSuccessPkt i kw = Some s \<Longrightarrow> m1 < 10 \<Longrightarrow> m2 < 10 \<Longrightarrow>
    \<forall>n. \<forall>d\<in>set (ks n). readable d \<Longrightarrow> ce_rounds e = host_rounds i up p info s ks m1 m2 eh answers \<Longrightarrow>
    he_before e = receives host_recv (CreateTCPResultPkt TPT_RESET j 0) \<Longrightarrow> host_session m i info e"

lemma host_reset:
  "receives host_recv (CreateTCPResultPkt TPT_RESET j 0) c = c\<lparr>cli_hStopEvent := True\<rparr>"
proof -
  have "host_recv (CreateTCPResultPkt TPT_RESET j 0) c = Some (True, c\<lparr>cli_hStopEvent := True\<rparr>)"
    by (simp only: Host_RecvTCPPacketProcess_def CreateTCPResultPkt_props(2) Option.bind.simps tpt_of_num
        option.case TCPBASE_PACKET_TYPE.case)
  then show ?thesis by (simp add: receives_def)
qed

lemma new_client:
  assumes "NewClient t e m = Some c1"
  obtains c0 where "CP2PClient (ce_raw1 e) (ce_raw2 e) (ce_raw3 e) (mo_name m) (mo_keyword m) (mo_addr m)
      (of_int (mo_port m)) t = Some c0" and "RegisterRecvPacketProcess True (Some client_self) c0 = Some c1"
  using assms by (cases t) (auto simp: NewClient_def CP2PHost_def CP2PGuest_def bind_Some_iff)

text \<open>What the program has queued for the server and for its UDP socket.\<close>

definition tcp_out :: "p2pclient \<Rightarrow> BYTE list list" where
  "tcp_out c = (case m_pTCP c of None \<Rightarrow> [] | Some tcp \<Rightarrow> m_SendList tcp)"

definition udp_out :: "p2pclient \<Rightarrow> UDP_PACKET list" where
  "udp_out c = (case cli_pUDP c of None \<Rightarrow> [] | Some udp \<Rightarrow> udp_SendList udp)"

lemma StartHost_runs:
  assumes new: "NewClient P2P_CLIENT_HOST e m = Some c1" "length (ce_raw1 e) = 32" "length (ce_raw2 e) = 32"
    and init: "env_init e c1 = Stop (Some (True, c2))"
    and ps: "CreateTCPStartUDPPkt i kw = Some p" "CreateP2PSuccessPkt i kw = Some s"
    and m: "m1 < 10" "m2 < 10" and ks: "\<forall>n. \<forall>d\<in>set (ks n). readable d"
    and rounds: "ce_rounds e = host_rounds i up p info s ks m1 m2 eh answers"
  obtains c W D R where "StartHost ia m e = Stop (Some c)" and "runs_channel c" and "m_eClientType c = P2P_CLIENT_HOST"
    and "punched_through i info (channel eh answers (ce_udpsock e) i info True) c"
    and "tcp_out c = W # replicate (reports i ks m2) R" and "registration i (cstr (mo_keyword m)) W"
    and "packet_for TPT_P2P_RESULT i (cstr (mo_keyword m)) R"
    and "udp_out c = replicate (Suc m1) (prepare_packet D) @ peer_datagrams i ks m2 c"
    and "\<forall>sender. datagram_for UPT_WAITING (cstr (mo_keyword m)) (delivered D sender)"
proof -
  obtain c0 where c0: "CP2PClient (ce_raw1 e) (ce_raw2 e) (ce_raw3 e) (mo_name m) (mo_keyword m) (mo_addr m)
      (of_int (mo_port m)) P2P_CLIENT_HOST = Some c0" "RegisterRecvPacketProcess True (Some client_self) c0 = Some c1"
    by (rule new_client[OF new(1)])
  note init' = init[unfolded env_init_def]
  obtain tcp udp where c: "client_is P2P_CLIENT_HOST 0 (cstr (mo_keyword m)) c2" "m_pTCP c2 = Some tcp"
    "cli_pUDP c2 = Some udp" "udp_pRecvParam udp = Some client_self" "m_lRef c2 \<noteq> 1" "\<not> m_hConnectedEvent c2"
    and empty: "m_SendList tcp = []" "udp_SendList udp = []" "GetSocket udp = ce_udpsock e"
    by (rule client_ready[OF c0(1) new(2,3) c0(2) init']) blast
  note set = client_setup[OF c0 init']
  obtain c' W D u R where r: "Accept ia (ce_rounds e) c2 = Stop (Some (err_num P2P_ERROR_NONE, c'))"
    "punched_through i info (channel eh answers (ce_udpsock e) i info True) c'" "same_setup c2 c'"
    "udp_pRecvParam u = None" "m_pTCP c' = Some (tcp_sent R (reports i ks m2) (SendPacket W tcp))"
    "packet_for TPT_P2P_RESULT i (cstr (mo_keyword m)) R" "registration i (cstr (mo_keyword m)) W" "cli_pUDP c' = Some u"
    "udp_SendList u = replicate (Suc m1) (prepare_packet D) @ peer_datagrams i ks m2 c'"
    "\<forall>sender. datagram_for UPT_WAITING (cstr (mo_keyword m)) (delivered D sender)"
    using Accept_runs[OF c ps m ks, where ia = ia and up = up and info = info and eh = eh and answers = answers]
    unfolding rounds empty append_Nil by blast
  have listen: "Host_Listen (Stop (Some (True, c2))) = Stop (Some (err_num P2P_ERROR_NONE, c2))"
    by (simp add: Host_Listen_def)
  have "StartHost ia m e = Stop (Some c')"
    unfolding StartHost_def by (simp only: new(1) init listen r(1) option.case loop.case prod.case map_loop.simps
        option.map snd_conv)
  moreover have "runs_channel c'"
    using set r by (auto simp: runs_channel_def same_setup_def punched_through_def channel_fields tcp_sent_fields SendPacket_def c(2))
  moreover have "m_eClientType c' = P2P_CLIENT_HOST" using set(2) r(3) by (simp add: same_setup_def)
  moreover have "tcp_out c' = W # replicate (reports i ks m2) R"
    by (simp add: tcp_out_def r(5) tcp_sent_fields SendPacket_def empty)
  moreover have "udp_out c' = replicate (Suc m1) (prepare_packet D) @ peer_datagrams i ks m2 c'"
    by (simp only: udp_out_def r(8,9) option.case)
  ultimately show thesis using that r(2,6,7,10) by blast
qed

lemma StartGuest_runs:
  assumes new: "NewClient P2P_CLIENT_GUEST e m = Some c1" "length (ce_raw1 e) = 32" "length (ce_raw2 e) = 32"
    and init: "env_init e c1 = Stop (Some (True, c2))"
    and ps: "CreateTCPStartUDPPkt j kw = Some p" "CreateP2PSuccessPkt j kw = Some s"
    and m: "m1 < 10" "m2 < 10" and ks: "\<forall>n. \<forall>d\<in>set (ks n). readable d"
    and rounds: "ce_rounds e = guest_rounds j up i p info s ks m1 m2 eh answers"
  obtains c W D R where "StartGuest ia m e = Stop (Some c)"
    and "punched_through i info (channel eh answers (ce_udpsock e) i info False) c"
    and "tcp_out c = W # replicate (reports i ks m2) R" and "packet_for TPT_CONNECT j (cstr (mo_keyword m)) W"
    and "packet_for TPT_P2P_RESULT j (cstr (mo_keyword m)) R"
    and "udp_out c = replicate (Suc m1) (prepare_packet D) @ peer_datagrams i ks m2 c"
    and "\<forall>sender. datagram_for UPT_CONNECT (cstr (mo_keyword m)) (delivered D sender)"
proof -
  obtain c0 where c0: "CP2PClient (ce_raw1 e) (ce_raw2 e) (ce_raw3 e) (mo_name m) (mo_keyword m) (mo_addr m)
      (of_int (mo_port m)) P2P_CLIENT_GUEST = Some c0" "RegisterRecvPacketProcess True (Some client_self) c0 = Some c1"
    by (rule new_client[OF new(1)])
  obtain tcp udp where c: "client_is P2P_CLIENT_GUEST 0 (cstr (mo_keyword m)) c2" "m_pTCP c2 = Some tcp"
    "cli_pUDP c2 = Some udp" "udp_pRecvParam udp = Some client_self" "m_lRef c2 \<noteq> 1" "\<not> cli_hStopEvent c2"
    "\<not> m_hConnectedEvent c2" and empty: "m_SendList tcp = []" "udp_SendList udp = []" "GetSocket udp = ce_udpsock e"
    by (rule client_ready[OF c0(1) new(2,3) c0(2) init[unfolded env_init_def]]) blast
  obtain c' W D u R where r: "loop_result (EventLoop (guest_dispatch ia) (ce_rounds e)
      (c2\<lparr>m_dwErrorCode := err_num P2P_ERROR_NONE\<rparr>)) = Stop (Some (err_num P2P_ERROR_NONE, c'))"
    "punched_through i info (channel eh answers (ce_udpsock e) i info False) c'"
    "m_pTCP c' = Some (tcp_sent R (reports i ks m2) (SendPacket W tcp))"
    "packet_for TPT_P2P_RESULT j (cstr (mo_keyword m)) R" "packet_for TPT_CONNECT j (cstr (mo_keyword m)) W" "cli_pUDP c' = Some u"
    "udp_SendList u = replicate (Suc m1) (prepare_packet D) @ peer_datagrams i ks m2 c'"
    "\<forall>sender. datagram_for UPT_CONNECT (cstr (mo_keyword m)) (delivered D sender)"
    using Connect_runs[OF c ps m ks, where ia = ia and up = up and info = info and eh = eh and answers = answers]
    unfolding rounds empty append_Nil by blast
  have "StartGuest ia m e = Stop (Some c')"
    unfolding StartGuest_def
    by (simp only: new(1) option.case Connect_starts[where init = "env_init e", OF c0 init] r(1) map_loop.simps
        option.map snd_conv)
  moreover have "tcp_out c' = W # replicate (reports i ks m2) R"
    by (simp add: tcp_out_def r(3) tcp_sent_fields SendPacket_def empty)
  moreover have "udp_out c' = replicate (Suc m1) (prepare_packet D) @ peer_datagrams i ks m2 c'"
    by (simp only: udp_out_def r(6,7) option.case)
  ultimately show thesis using that r(2,4,5,8) by blast
qed

lemma host_session_starts:
  assumes "host_session m i info e"
  obtains c en where "StartHost ia m e = Stop (Some c)" and "runs_channel c" and "cli_eStatus c = P2P_CONNECTED"
    and "m_eType c = PCT_ENET" and "m_eClientType c = P2P_CLIENT_HOST" and "m_pENet c = Some en"
    and "en_dwPeerId en = i" and "m_stPeerInfo en = info"
  using assms
proof cases
  case (host_sessionI c1 c2 kw p s m1 m2 ks up eh answers j)
  have init: "env_init e c1 = Stop (Some (True, c2))"
    using host_sessionI(4) by (auto simp: Host_Listen_def split: if_splits)
  show thesis
    by (rule StartHost_runs[OF host_sessionI(1-3) init host_sessionI(5-10), of ia])
      (use that channel_fields(5,6) in \<open>unfold punched_through_def, blast\<close>)
qed

text \<open>A concrete host or guest, for a keyword and the rounds given.\<close>

definition demo_opts :: main_opts where
  "demo_opts = \<lparr>mo_name = [65, 0], mo_addr = [49, 0], mo_port = 5000, mo_keyword = [55, 0], mo_isServer = False,
     mo_isHost = True, mo_isGuest = False\<rparr>"

definition demo_env :: "round_env list \<Rightarrow> host_env" where
  "demo_env rs = \<lparr>ce_raw1 = replicate 32 0, ce_raw2 = replicate 32 0, ce_raw3 = replicate 32 0, ce_fuel = 1,
     ce_rawdst = replicate 128 0, ce_rawsrc = replicate 128 0, ce_sock = 5, ce_connected = True, ce_local = None,
     ce_bound = (\<lambda>_. True), ce_udpsock = Some 6, ce_rounds = rs,
     he_before = receives host_recv (CreateTCPResultPkt TPT_RESET 1 0)\<rparr>"

definition no_enet :: enet_answers where
  "no_enet address n = (None, 0, ENET_EVENT_TYPE_NONE)"

lemma demo_new:
  obtains c1 c2 where "NewClient t (demo_env rs) demo_opts = Some c1" and "env_init (demo_env rs) c1 = Stop (Some (True, c2))"
proof -
  let ?new = "case t of P2P_CLIENT_HOST \<Rightarrow> CP2PHost | P2P_CLIENT_GUEST \<Rightarrow> CP2PGuest"
  have "?new = CP2PHost \<or> ?new = CP2PGuest" by (cases t) simp_all
  then obtain c0 c1 c2 where "?new (replicate 32 0) (replicate 32 0) (replicate 32 0) [65, 0] [55, 0] [49, 0] 5000 = Some c0"
    "RegisterRecvPacketProcess True (Some client_self) c0 = Some c1"
    "Client_Init 1 (replicate 128 0) (replicate 128 0) 5 True None (\<lambda>_. True) (Some 6) c1 = Stop (Some (True, c2))"
    by (rule demo_start)
  then show thesis by (intro that) (simp_all add: NewClient_def demo_env_def demo_opts_def env_init_def)
qed

lemma demo_session:
  obtains e where "host_session demo_opts i info e"
proof -
  let ?rs = "\<lambda>p s. host_rounds i 5001 p info s (demo_heard i) 2 1 None no_enet"
  obtain p s where ps: "CreateTCPStartUDPPkt i (55 # replicate 31 0) = Some p"
    "CreateP2PSuccessPkt i (55 # replicate 31 0) = Some s"
    using CreateTCPStartUDPPkt_ok[of "55 # replicate 31 0" i] CreateP2PSuccessPkt_ok[of "55 # replicate 31 0" i] by auto
  obtain c1 c2 where c: "NewClient P2P_CLIENT_HOST (demo_env (?rs p s)) demo_opts = Some c1"
    "env_init (demo_env (?rs p s)) c1 = Stop (Some (True, c2))" by (rule demo_new)
  have l: "Host_Listen (env_init (demo_env (?rs p s)) c1) = Stop (Some (err_num P2P_ERROR_NONE, c2))"
    unfolding c(2) by (simp add: Host_Listen_def)
  have "host_session demo_opts i info (demo_env (?rs p s))"
    by (rule host_sessionI[OF c(1) _ _ l ps, of 2 1 "demo_heard i"]) (simp_all add: demo_env_def demo_heard)
  then show thesis by (rule that)
qed

text \<open>
  C12: a host program serves one guest after another. In rounds in each of which the host listens, is
  led through a handshake, and afterwards hears that its guest has left, \<open>main\<close> waits for that, closes
  and releases the host without fault and goes on with a new one; after the rounds it has a
  connected host with a channel to the last guest.
\<close>

theorem host_serves_guests:
  assumes "list_all2 (\<lambda>(i, info) e. host_session m i info e) guests es" and "guests \<noteq> []"
  shows "\<exists>c en. HostLoop ia m None es = Stop (Some (Some c)) \<and> cli_eStatus c = P2P_CONNECTED
     \<and> m_pENet c = Some en \<and> en_dwPeerId en = fst (last guests) \<and> m_stPeerInfo en = snd (last guests)"
proof -
  have "\<exists>c en. HostLoop ia m host es = Stop (Some (Some c)) \<and> cli_eStatus c = P2P_CONNECTED
     \<and> m_pENet c = Some en \<and> en_dwPeerId en = fst (last guests) \<and> m_stPeerInfo en = snd (last guests)"
    if "case host of None \<Rightarrow> True | Some c \<Rightarrow> runs_channel c" for host
    using assms that
  proof (induction guests es arbitrary: host rule: list_all2_induct)
    case (Cons g gs e es)
    obtain i info where g: "g = (i, info)" "host_session m i info e" using Cons.hyps(1) by (cases g) auto
    obtain c en where c: "StartHost ia m e = Stop (Some c)" "runs_channel c" "cli_eStatus c = P2P_CONNECTED"
      "m_pENet c = Some en" "en_dwPeerId en = i" "m_stPeerInfo en = info"
      by (rule host_session_starts[OF g(2)])
    have b: "he_before e c = c\<lparr>cli_hStopEvent := True\<rparr>" for c
      using g(2) by cases (simp add: host_reset)
    have "RetireHost (he_before e) h = Stop (Some ())" if "host = Some h" for h
      using that Cons.prems(2) by (intro retire_running) (simp_all add: b runs_channel_def)
    then have run: "HostLoop ia m host (e # es) = HostLoop ia m (Some c) es"
      by (cases host) (simp_all add: c(1))
    show ?case
    proof (cases "gs = []")
      case True
      then have "es = []" using Cons.hyps(2) by simp
      then show ?thesis using True run c g(1) by simp
    next
      case False
      then show ?thesis using Cons.IH[of "Some c"] run c(2) by simp
    qed
  qed simp
  from this[of None] show ?thesis by simp
qed

theorem host_serves_guests_witness:
  "\<exists>e1 e2 c en. HostLoop (\<lambda>_. 0) demo_opts None [e1, e2] = Stop (Some (Some c)) \<and> cli_eStatus c = P2P_CONNECTED
     \<and> m_pENet c = Some en \<and> en_dwPeerId en = 2"
proof -
  obtain e1 e2 where "host_session demo_opts 1 zero_CLIENT_INFO e1" "host_session demo_opts 2 zero_CLIENT_INFO e2"
    using demo_session by metis
  then have "list_all2 (\<lambda>(i, info) e. host_session demo_opts i info e) [(1, zero_CLIENT_INFO), (2, zero_CLIENT_INFO)] [e1, e2]"
    by simp
  note host_serves_guests[OF this list.simps(3), of "\<lambda>_. 0"]
  moreover have "fst (last [(1 :: DWORD, zero_CLIENT_INFO), (2, zero_CLIENT_INFO)]) = 2" by simp
  ultimately have "\<exists>c en. HostLoop (\<lambda>_. 0) demo_opts None [e1, e2] = Stop (Some (Some c))
      \<and> cli_eStatus c = P2P_CONNECTED \<and> m_pENet c = Some en \<and> en_dwPeerId en = 2" by metis
  then show ?thesis by blast
qed

text \<open>
  A host that cannot reach the server is never started again. \<open>main\<close> only prints that \<open>Listen\<close> has
  failed and calls \<open>Accept\<close>; no thread runs that could set an event, and its wait has no limit.
\<close>

lemma EventLoop_sleeps:
  assumes "\<not> m_hStatusChange c" and "\<not> cli_hStopEvent c" and "\<not> m_hConnectedEvent c"
    and "\<forall>e\<in>set es. env_others e c = c"
  shows "EventLoop D es c = NoFuel"
  using assms by (induction es) (simp_all add: wait_any_def)

theorem failed_listen_waits_forever:
  assumes "NewClient P2P_CLIENT_HOST e m = Some c1" and "env_init e c1 = Stop (Some (False, c2))"
    and "\<forall>r\<in>set (ce_rounds e). \<forall>c. env_others r c = c"
  shows "StartHost ia m e = NoFuel"
proof -
  obtain c0 where c0: "CP2PClient (ce_raw1 e) (ce_raw2 e) (ce_raw3 e) (mo_name m) (mo_keyword m) (mo_addr m)
      (of_int (mo_port m)) P2P_CLIENT_HOST = Some c0" "RegisterRecvPacketProcess True (Some client_self) c0 = Some c1"
    by (rule new_client[OF assms(1)])
  have "\<not> m_hStatusChange c1" "\<not> m_hConnectedEvent c1"
    using c0(1) client_registered[OF c0] by (auto simp: CP2PClient_def bind_Some_iff)
  then have c2: "\<not> m_hStatusChange c2" "\<not> m_hConnectedEvent c2"
    using assms(2)
    by (auto simp: env_init_def Client_Init_def RegisterRecvProcess_def RegisterEndProcess_def
        UDP_RegisterRecvProcess_def register_param_def client_AddRef_def client_Release_def CBaseObject_AddRef_def
        CBaseObject_Release_def bind_Some_iff Let_def split: option.splits bool.splits if_splits)
  show ?thesis
    using assms(1,2,3) c2 by (simp add: StartHost_def Host_Listen_def Accept_def EventLoop_sleeps)
qed

section \<open>A file crosses the channel\<close>

text \<open>A host with its channel, ready for the application's packets.\<close>

definition host_ready :: "p2pclient \<Rightarrow> bool" where
  "host_ready h \<longleftrightarrow> m_eClientType h = P2P_CLIENT_HOST \<and> m_eType h = PCT_ENET \<and> cli_pfnRecvFunc h"

definition channel_ready :: "addr \<Rightarrow> enetclient \<Rightarrow> bool" where
  "channel_ready peer en \<longleftrightarrow> \<not> en_hStopEvent en \<and> en_SendList en = [] \<and> en_pRecvParam en \<noteq> None
     \<and> en_pfnRecvFunc en \<and> m_pENetPeer en \<noteq> None \<and> peer_data en peer = en_dwPeerId en"

lemma rd_dword_prefix: "i + 4 \<le> n \<Longrightarrow> n \<le> length b \<Longrightarrow> rd_dword i (take n b) = rd_dword i b"
  by (simp add: rd_dword_def rd_bytes_def take_drop min_def)

lemma rd_dword_Some: "i + 4 \<le> length b \<Longrightarrow> \<exists>d. rd_dword i b = Some d"
  by (simp add: rd_dword_def rd_bytes_def)

lemma host_echoes:
  assumes h: "host_ready h" and en: "channel_ready peer en" and b: "8 \<le> length b"
  shows "client_enet_recv P2PRecvPacketProcess b en h = Some (en\<lparr>en_SendList := [take 8 b]\<rparr>,
     h\<lparr>m_pENet := Some (en\<lparr>en_SendList := [take 8 b]\<rparr>)\<rparr>)"
proof -
  obtain d0 d4 where d: "rd_dword 0 b = Some d0" "rd_dword 4 b = Some d4"
    using rd_dword_Some[of 0 b] rd_dword_Some[of 4 b] b by auto
  have "rd_bytes 0 (unat sizeof_transfer_data) b = Some (take 8 b)"
    using b by (simp add: rd_bytes_def sizeof_transfer_data_def)
  then show ?thesis
    using h en d
    by (simp add: client_enet_recv_def ENetRecvPacketProcessDelegate_def ENetRecvPacketProcess_def
        P2PRecvPacketProcess_def GetClientType_def Client_SendPacket_def ENet_SendPacket_def host_ready_def
        channel_ready_def wait_any_timeout_def wait_any_def)
qed

lemma pass_connects:
  assumes "\<not> en_hStopEvent en" and "en_SendList en = []" and "en_pRecvParam en \<noteq> None" and "en_pfnRecvFunc en"
  obtains en1 where "ENetProcess f 1 (ENET_EVENT_TYPE_CONNECT peer (ipaddr (m_stPeerInfo en))
      (htons (port (m_stPeerInfo en)))) en w = Some (True, en1, [], w)" and "channel_ready peer en1"
  using assms by (simp add: ENetProcess_def ENetFlush_all channel_ready_def wait_any_timeout_def wait_any_def Let_def)

lemma pass_echoes:
  assumes h: "host_ready h" and en: "channel_ready peer en" and b: "8 \<le> length b"
  obtains h' where "ENetProcess (client_enet_recv P2PRecvPacketProcess) 1 (ENET_EVENT_TYPE_RECEIVE peer b) en h
     = Some (True, en, [take 8 b], h')" and "host_ready h'"
proof -
  have keep: "en\<lparr>en_SendList := []\<rparr> = en" using en by (simp add: channel_ready_def)
  have "ENetProcess (client_enet_recv P2PRecvPacketProcess) 1 (ENET_EVENT_TYPE_RECEIVE peer b) en h
     = Some (True, en, [take 8 b], h\<lparr>m_pENet := Some (en\<lparr>en_SendList := [take 8 b]\<rparr>)\<rparr>)"
    using en host_echoes[OF assms] keep
    by (simp add: ENetProcess_def ENetFlush_all channel_ready_def wait_any_timeout_def wait_any_def Let_def)
  then show thesis using that h by (simp add: host_ready_def)
qed

lemma run_echoes:
  assumes "host_ready h" and "channel_ready peer en" and "\<forall>b\<in>set bs. 8 \<le> length b"
  shows "\<exists>h'. ENetRun (client_enet_recv P2PRecvPacketProcess) (map (\<lambda>b. (1, ENET_EVENT_TYPE_RECEIVE peer b)) bs) en h
     = Some (True, en, map (take 8) bs, h')"
  using assms
proof (induction bs arbitrary: h)
  case (Cons b bs)
  have b: "8 \<le> length b" using Cons.prems(3) by simp
  obtain h1 where h1: "ENetProcess (client_enet_recv P2PRecvPacketProcess) 1 (ENET_EVENT_TYPE_RECEIVE peer b) en h
     = Some (True, en, [take 8 b], h1)" "host_ready h1"
    by (rule pass_echoes[OF Cons.prems(1,2) b])
  obtain h2 where "ENetRun (client_enet_recv P2PRecvPacketProcess) (map (\<lambda>b. (1, ENET_EVENT_TYPE_RECEIVE peer b)) bs) en h1
     = Some (True, en, map (take 8) bs, h2)"
    using Cons.IH[OF h1(2) Cons.prems(2)] Cons.prems(3) by auto
  then show ?case using h1(1) by simp
qed simp

text \<open>The host's thread from the connection of the guest's address on: each block is acknowledged.\<close>

lemma host_acknowledges:
  assumes h: "host_ready h" and eh: "\<not> en_hStopEvent eh" "en_SendList eh = []" "en_pRecvParam eh \<noteq> None"
      "en_pfnRecvFunc eh" and bs: "\<forall>b\<in>set bs. 8 \<le> length b"
  shows "\<exists>eh' h'. ENetRun (client_enet_recv P2PRecvPacketProcess)
         ((1, ENET_EVENT_TYPE_CONNECT peer (ipaddr (m_stPeerInfo eh)) (htons (port (m_stPeerInfo eh))))
          # map (\<lambda>b. (1, ENET_EVENT_TYPE_RECEIVE peer b)) bs) eh h = Some (True, eh', map (take 8) bs, h')"
proof -
  obtain eh1 where c: "ENetProcess (client_enet_recv P2PRecvPacketProcess) 1 (ENET_EVENT_TYPE_CONNECT peer
      (ipaddr (m_stPeerInfo eh)) (htons (port (m_stPeerInfo eh)))) eh h = Some (True, eh1, [], h)" "channel_ready peer eh1"
    by (rule pass_connects[OF eh])
  obtain h' where "ENetRun (client_enet_recv P2PRecvPacketProcess) (map (\<lambda>b. (1, ENET_EVENT_TYPE_RECEIVE peer b)) bs) eh1 h
     = Some (True, eh1, map (take 8) bs, h')"
    using run_echoes[OF h c(2) bs] by blast
  then show ?thesis using c(1) by simp
qed

text \<open>
  C13: a file crosses the channel. A guest in ENet mode queues the file; when ENet has accepted the
  connection of the guest's address and hands over to the host what the guest's thread gave it, in
  order, the blocks it delivers carry the file, and the host's thread sends back, in the same order,
  the header of each block, which numbers them from zero.
\<close>

theorem file_crosses_channel:
  assumes g: "m_eType g = PCT_ENET" "m_pENet g = Some eg" "\<not> en_hStopEvent eg" "en_SendList eg = []"
      "m_pENetPeer eg \<noteq> None"
    and raw: "\<forall>k. length (raw k) = 4104"
    and h: "m_eClientType h = P2P_CLIENT_HOST" "m_eType h = PCT_ENET" "cli_pfnRecvFunc h"
    and eh: "\<not> en_hStopEvent eh" "en_SendList eh = []" "en_pRecvParam eh \<noteq> None" "en_pfnRecvFunc eh"
  shows "\<exists>g' eg' bs acks eh' h'. SendFile raw 0 file g = Some g' \<and> m_pENet g' = Some eg' \<and> snd (ENetFlush eg') = bs
     \<and> concat (map payload bs) = file
     \<and> ENetRun (client_enet_recv P2PRecvPacketProcess)
         ((1, ENET_EVENT_TYPE_CONNECT peer (ipaddr (m_stPeerInfo eh)) (htons (port (m_stPeerInfo eh))))
          # map (\<lambda>b. (1, ENET_EVENT_TYPE_RECEIVE peer b)) bs) eh h = Some (True, eh', acks, h')
     \<and> acks = map (take 8) bs \<and> (\<forall>k<length bs. rd_dword 0 (acks ! k) = Some (of_nat k))"
proof -
  obtain g' eg' bs where s: "SendFile raw 0 file g = Some g'" "m_pENet g' = Some eg'"
    "en_SendList eg' = bs" "concat (map payload bs) = file"
    "\<forall>k<length bs. length (bs ! k) = 4104 \<and> rd_dword 0 (bs ! k) = Some (of_nat k)"
    and peer: "m_pENetPeer eg' \<noteq> None"
    using SendFile_blocks[OF g(1,2,3) raw, of 0 "file"] g(4,5) by auto
  have flush: "snd (ENetFlush eg') = bs" using s(3) peer by (simp add: ENetFlush_all)
  have "\<forall>b\<in>set bs. 8 \<le> length b" using s(5) by (auto simp: in_set_conv_nth)
  then obtain eh' h' where "ENetRun (client_enet_recv P2PRecvPacketProcess)
     ((1, ENET_EVENT_TYPE_CONNECT peer (ipaddr (m_stPeerInfo eh)) (htons (port (m_stPeerInfo eh))))
      # map (\<lambda>b. (1, ENET_EVENT_TYPE_RECEIVE peer b)) bs) eh h = Some (True, eh', map (take 8) bs, h')"
    using host_acknowledges[OF _ eh, of h bs peer] h unfolding host_ready_def by blast
  moreover have "\<forall>k<length bs. rd_dword 0 (map (take 8) bs ! k) = Some (of_nat k)"
    using s(5) by (simp add: rd_dword_prefix)
  ultimately show ?thesis using s flush by blast
qed

theorem file_crosses_channel_witness:
  "let ce = (CENetClient (Some 3) 1 zero_CLIENT_INFO False)\<lparr>m_pENetPeer := Some 7\<rparr>;
       g = (demo_client P2P_CLIENT_GUEST P2P_CONNECTED)\<lparr>m_eType := PCT_ENET, m_pENet := Some ce\<rparr>;
       he = (CENetClient (Some 4) 1 zero_CLIENT_INFO True)\<lparr>en_pfnRecvFunc := True, en_pRecvParam := Some client_self\<rparr>;
       h = (demo_client P2P_CLIENT_HOST P2P_CONNECTED)\<lparr>m_eType := PCT_ENET, cli_pfnRecvFunc := True\<rparr>
   in \<exists>g' eg' acks eh' h'. SendFile (\<lambda>_. replicate 4104 0) 0 (replicate 5000 7) g = Some g' \<and> m_pENet g' = Some eg'
     \<and> concat (map payload (snd (ENetFlush eg'))) = replicate 5000 7
     \<and> ENetRun (client_enet_recv P2PRecvPacketProcess) ((1, ENET_EVENT_TYPE_CONNECT 8 0 (htons 0))
          # map (\<lambda>b. (1, ENET_EVENT_TYPE_RECEIVE 8 b)) (snd (ENetFlush eg'))) he h = Some (True, eh', acks, h')"
proof -
  let ?ce = "(CENetClient (Some 3) 1 zero_CLIENT_INFO False)\<lparr>m_pENetPeer := Some 7\<rparr>"
  let ?g = "(demo_client P2P_CLIENT_GUEST P2P_CONNECTED)\<lparr>m_eType := PCT_ENET, m_pENet := Some ?ce\<rparr>"
  let ?he = "(CENetClient (Some 4) 1 zero_CLIENT_INFO True)\<lparr>en_pfnRecvFunc := True, en_pRecvParam := Some client_self\<rparr>"
  let ?h = "(demo_client P2P_CLIENT_HOST P2P_CONNECTED)\<lparr>m_eType := PCT_ENET, cli_pfnRecvFunc := True\<rparr>"
  have "m_eClientType (demo_client P2P_CLIENT_HOST P2P_CONNECTED) = P2P_CLIENT_HOST" by code_simp
  then have h: "m_eClientType ?h = P2P_CLIENT_HOST" "m_eType ?h = PCT_ENET" "cli_pfnRecvFunc ?h" by simp_all
  have g: "m_eType ?g = PCT_ENET" "m_pENet ?g = Some ?ce" "\<not> en_hStopEvent ?ce" "en_SendList ?ce = []"
    "m_pENetPeer ?ce \<noteq> None" by (simp_all add: CENetClient_def)
  have he: "\<not> en_hStopEvent ?he" "en_SendList ?he = []" "en_pRecvParam ?he \<noteq> None" "en_pfnRecvFunc ?he"
    "m_stPeerInfo ?he = zero_CLIENT_INFO" by (simp_all add: CENetClient_def)
  have "\<forall>k :: DWORD. length ((\<lambda>_. replicate 4104 (0 :: BYTE)) k) = 4104" by simp
  from file_crosses_channel[OF g this h he(1-4), of "replicate 5000 7" 8] show ?thesis
    unfolding he(5) Let_def by (auto simp: zero_CLIENT_INFO_def)
qed

text \<open>
  A guest program sends its file. A guest that is led through a handshake to the host with the id
  \<open>i\<close> and the address \<open>info\<close> goes on to the loop over its file and ends it; everything is in the queue
  of its channel to this address: blocks of 4104 bytes, numbered from zero, whose data are the file.
\<close>

theorem guest_program_sends_file:
  assumes new: "NewClient P2P_CLIENT_GUEST e m = Some c1" "length (ce_raw1 e) = 32" "length (ce_raw2 e) = 32"
    and init: "env_init e c1 = Stop (Some (True, c2))"
    and ps: "CreateTCPStartUDPPkt j kw = Some p" "CreateP2PSuccessPkt j kw = Some s" and m: "m1 < 10" "m2 < 10"
    and ks: "\<forall>n. \<forall>d\<in>set (ks n). readable d"
    and rounds: "ce_rounds e = guest_rounds j up i p info s ks m1 m2 eh answers"
    and raw: "\<forall>k. length (raw k) = 4104"
  shows "\<exists>c en. RunGuest ia raw (Some file) m e = Stop (Some c) \<and> cli_eStatus c = P2P_CONNECTED
     \<and> m_pENet c = Some en \<and> m_stPeerInfo en = info \<and> en_dwPeerId en = i
     \<and> concat (map payload (en_SendList en)) = file
     \<and> (\<forall>k<length (en_SendList en). length (en_SendList en ! k) = 4104
          \<and> rd_dword 0 (en_SendList en ! k) = Some (of_nat k))"
proof -
  obtain c' where r: "StartGuest ia m e = Stop (Some c')"
    "punched_through i info (channel eh answers (ce_udpsock e) i info False) c'"
    by (rule StartGuest_runs[OF new init ps m ks rounds, of ia]) blast
  then have run: "RunGuest ia raw (Some file) m e = Stop (SendFile raw 0 file c')" by (simp add: RunGuest_def)
  obtain c'' bs where s: "SendFile raw 0 file c' = Some c''"
    "c'' = c'\<lparr>m_pENet := Some ((channel eh answers (ce_udpsock e) i info False)\<lparr>en_SendList := bs\<rparr>)\<rparr>"
    "concat (map payload bs) = file" "\<forall>k<length bs. length (bs ! k) = 4104 \<and> rd_dword 0 (bs ! k) = Some (of_nat k)"
    using SendFile_blocks[of c' _ raw 0 "file"] r(2) raw by (auto simp: channel_fields punched_through_def)
  show ?thesis using s r(2) run by (simp add: channel_fields punched_through_def)
qed

theorem guest_program_sends_file_witness:
  "\<exists>e c en. RunGuest (\<lambda>_. 0) (\<lambda>_. replicate 4104 0) (Some (replicate 5000 7)) demo_opts (e :: host_env) = Stop (Some c)
     \<and> m_pENet c = Some en \<and> concat (map payload (en_SendList en)) = replicate 5000 7"
proof -
  obtain p s where ps: "CreateTCPStartUDPPkt 1 (55 # replicate 31 0) = Some p"
    "CreateP2PSuccessPkt 1 (55 # replicate 31 0) = Some s" by (rule demo_packets)
  let ?e = "demo_env (guest_rounds 1 5001 9 p zero_CLIENT_INFO s (demo_heard 9) 2 1 None no_enet)"
  obtain c1 c2 where c: "NewClient P2P_CLIENT_GUEST ?e demo_opts = Some c1" "env_init ?e c1 = Stop (Some (True, c2))"
    by (rule demo_new)
  have raws: "length (ce_raw1 ?e) = 32" "length (ce_raw2 ?e) = 32"
    and rounds: "ce_rounds ?e = guest_rounds 1 5001 9 p zero_CLIENT_INFO s (demo_heard 9) 2 1 None no_enet"
    by (simp_all add: demo_env_def)
  have "2 < (10 :: nat)" "1 < (10 :: nat)" "\<forall>k :: DWORD. length ((\<lambda>_. replicate 4104 (0 :: BYTE)) k) = 4104" by simp_all
  note guest_program_sends_file[OF c(1) raws c(2) ps this(1,2) demo_heard rounds this(3), of "\<lambda>_. 0" "replicate 5000 7"]
  then show ?thesis by blast
qed

end
