(* ===== verification/WholeSystem.thy ===== *)
theory WholeSystem
  imports ProgramProperties
begin

text \<open>
  The three programs together. The server runs from any reachable state, the host and the guest as
  \<open>main\<close> runs them; each receives what the others have queued for it: the clients the packets of the
  server, the server the packets and datagrams of the clients, and each client the datagrams
  of the other.
\<close>

section \<open>A new connection\<close>

text \<open>What the server meets when a socket is accepted: two buffers, the peer's address, the socket.\<close>

type_synonym arrival_env = "BYTE list \<times> BYTE list \<times> BYTE list \<times> WORD \<times> nat"

definition arrival :: "addr \<Rightarrow> arrival_env \<Rightarrow> server_event" where
  "arrival a = (\<lambda>(rawdst, rawsrc, peer, pt, sock). Accepted a rawdst rawsrc peer pt sock)"

definition arrival_ok :: "arrival_env \<Rightarrow> bool" where
  "arrival_ok = (\<lambda>(rawdst, rawsrc, peer, pt, sock). length rawdst = 128 \<and> length rawsrc = 128
     \<and> nul_terminated peer \<and> length peer \<le> 128)"

lemma new_id_total:
  assumes "server_inv k \<sigma>" and "k < 268435456"
  obtains i where "new_id (dir_of (srv \<sigma>)) = Some i" and "map_find i (users (dir_of (srv \<sigma>))) = None"
proof -
  have "map_ok (m_TCPList (srv \<sigma>))" "length (m_TCPList (srv \<sigma>)) < 4294967296"
    using assms by (simp_all add: server_inv_def table_ok_def)
  from TCPIDLoop_total[OF this, of "m_dwTCPid (srv \<sigma>)"] show thesis
    using that by (auto simp: new_id_def dir_of_def TCPIDLoop_find simp del: upt_Suc)
qed

lemma accept_step:
  assumes r: "reach k \<sigma>" and k: "k < 268435456" and v: "arrival_ok v" and a: "tcps (srv \<sigma>) a = None"
  obtains i \<sigma>' where "enabled (arrival a v) \<sigma>" and "exec (arrival a v) \<sigma> = Some \<sigma>'" and "reach (Suc k) \<sigma>'"
    and "map_find i (users (dir_of (srv \<sigma>))) = None"
    and "dir_of (srv \<sigma>') = (dir_of (srv \<sigma>))\<lparr>users := map_put i a (users (dir_of (srv \<sigma>))), next_id := i + 1\<rparr>"
    and "map_find i (users (dir_of (srv \<sigma>'))) = Some a" and "map_ok (users (dir_of (srv \<sigma>)))"
    and "queued [(a, CreateTCPInitPkt i (udp_port (dir_of (srv \<sigma>))))] (tcps (srv \<sigma>)) (tcps (srv \<sigma>'))"
proof -
  have inv: "server_inv k \<sigma>" using r k by (simp add: reach_inv)
  then have m: "map_ok (users (dir_of (srv \<sigma>)))"
    by (simp add: server_inv_def table_ok_def dir_of_def)
  have en: "enabled (arrival a v) \<sigma>"
    using v a by (cases v) (simp add: arrival_def arrival_ok_def enabled_def)
  from exec_inv[OF inv k this] obtain \<sigma>' where x: "exec (arrival a v) \<sigma> = Some \<sigma>'" by blast
  obtain i where i: "new_id (dir_of (srv \<sigma>)) = Some i" "map_find i (users (dir_of (srv \<sigma>))) = None"
    by (rule new_id_total[OF inv k])
  have d: "dir_of (srv \<sigma>') = (dir_of (srv \<sigma>))\<lparr>users := map_put i a (users (dir_of (srv \<sigma>))), next_id := i + 1\<rparr>
      \<and> queued [(a, CreateTCPInitPkt i (udp_port (dir_of (srv \<sigma>))))] (tcps (srv \<sigma>)) (tcps (srv \<sigma>'))"
    using exec_refines[OF inv k en x] i(1)
    by (cases v) (simp add: arrival_def dir_step_def dir_packets_def dir_accept_def)
  then show thesis using that[OF en x reach_event[OF r en x] i(2)] m by (simp add: map_find_put)
qed

section \<open>Datagrams between the clients\<close>

text \<open>A queued datagram as it arrives from the address \<open>src\<close>, and the two kinds that peers exchange.\<close>

definition from_addr :: "CLIENT_INFO \<Rightarrow> UDP_PACKET \<Rightarrow> UDP_PACKET" where
  "from_addr src u = u\<lparr>PacketInfo := src\<rparr>"

definition arriving :: "DWORD \<Rightarrow> CLIENT_INFO \<Rightarrow> UDPBASE_PACKET_TYPE \<Rightarrow> UDP_PACKET" where
  "arriving i src t = \<lparr>BasePacket = CalcCheckSum \<lparr>udp_type = upt_num t, udp_length = 4,
     udp_data = dword_bytes i @ replicate (UDP_DATA_MAX - 4) 0, checksum = 0\<rparr>, PacketInfo = src\<rparr>"

lemma arriving_peer:
  "m_dwPeerid c = i \<Longrightarrow> from_addr src (prepare_packet (peer_datagram t c)) = arriving i src t"
  by (simp add: from_addr_def arriving_def prepare_packet_def peer_datagram_def)

lemma arriving_fields:
  "rd_dword 0 (udp_data (BasePacket (arriving i src t))) = Some i"
  "upt_of (udp_type (BasePacket (arriving i src t))) = Some t"
  by (simp_all add: arriving_def CalcCheckSum_def Let_def wire_simps del: upt_num.simps) 

lemma delivered_from: "delivered D src = from_addr src (prepare_packet D)"
  by (simp add: delivered_def from_addr_def prepare_packet_def)

lemma count_pos: "x \<in> set xs \<Longrightarrow> 0 < count_list xs x"
  by (induction xs) auto

lemma heard_arriving: "heard t i (map (arriving i src) ts) = count_list ts t"
  by (induction ts) (auto simp: heard_def arriving_fields)

text \<open>
  The types of the datagrams that arrive in each wait up to the wait \<open>m\<close>: among them a handshake and
  an answer.
\<close>

definition hears_peer :: "(nat \<Rightarrow> UDPBASE_PACKET_TYPE list) \<Rightarrow> nat \<Rightarrow> bool" where
  "hears_peer ts m \<longleftrightarrow> (\<forall>n. set (ts n) \<subseteq> {UPT_HANDSHAKE, UPT_KEEPALIVE})
     \<and> (\<exists>n\<le>m. UPT_HANDSHAKE \<in> set (ts n)) \<and> (\<exists>n\<le>m. UPT_KEEPALIVE \<in> set (ts n))"

lemma hears_peer_reports:
  assumes "hears_peer ts m"
  obtains r where "reports i (\<lambda>n. map (arriving i src) (ts n)) m = Suc r"
proof -
  obtain n where n: "n \<le> m" "UPT_KEEPALIVE \<in> set (ts n)" using assms by (auto simp: hears_peer_def)
  then have "0 < count_list (ts n) UPT_KEEPALIVE" by (intro count_pos)
  also have "\<dots> \<le> (\<Sum>n\<le>m. count_list (ts n) UPT_KEEPALIVE)" using n(1) by (intro member_le_sum) auto
  finally show thesis using that by (auto simp: reports_def heard_arriving gr0_conv_Suc)
qed

lemma hears_peer_answers:
  assumes ts: "hears_peer ts m" and c: "m_dwPeerid c = i" and out: "udp_out c = us @ peer_datagrams i (\<lambda>n. map (arriving i f) (ts n)) m c"
    and t: "t \<in> {UPT_HANDSHAKE, UPT_KEEPALIVE}"
  shows "arriving i src t \<in> from_addr src ` set (udp_out c)"
proof -
  let ?P = "\<lambda>t. prepare_packet (peer_datagram t c)"
  obtain n where n: "n \<le> m" "UPT_HANDSHAKE \<in> set (ts n)" using ts by (auto simp: hears_peer_def)
  then have "0 < heard UPT_HANDSHAKE i (map (arriving i f) (ts n))"
    by (simp only: heard_arriving count_pos)
  then have "?P t \<in> set (?P UPT_HANDSHAKE # replicate (heard UPT_HANDSHAKE i (map (arriving i f) (ts n))) (?P UPT_KEEPALIVE))"
    using t by auto
  moreover have "n \<in> set [0..<Suc m]" using n(1) by auto
  ultimately have "?P t \<in> set (udp_out c)" unfolding out peer_datagrams_def set_append set_concat set_map by blast
  then show ?thesis using arriving_peer[OF c, of src t] by (metis imageI)
qed

lemma arriving_readable: "\<forall>n. \<forall>d\<in>set (map (arriving i src) (ts n)). readable d"
proof (intro allI ballI)
  fix n d assume "d \<in> set (map (arriving i src) (ts n))"
  then obtain t where "d = arriving i src t" by auto
  then show "readable d" unfolding readable_def by (simp only: arriving_fields(1) option.distinct not_False_eq_True)
qed

section \<open>The channel\<close>

text \<open>ENet answers one of the first ten attempts of the guest to connect to an address.\<close>

definition is_connect :: "enet_event \<Rightarrow> bool" where
  "is_connect e = (case e of ENET_EVENT_TYPE_CONNECT _ _ _ \<Rightarrow> True | _ \<Rightarrow> False)"

definition enet_connects :: "(nat \<Rightarrow> addr option \<times> int \<times> enet_event) \<Rightarrow> bool" where
  "enet_connects answers \<longleftrightarrow> (\<exists>n<10. (\<forall>k\<le>n. fst (answers k) \<noteq> None)
     \<and> fst (snd (answers n)) > 0 \<and> is_connect (snd (snd (answers n))))"

lemma connect_loop:
  assumes "n < length as" and "\<forall>k\<le>n. fst (as ! k) \<noteq> None" and "fst (snd (as ! n)) > 0"
    and "is_connect (snd (snd (as ! n)))"
  shows "\<exists>p. ENetConnectLoop as en = (True, en\<lparr>m_pENetPeer := Some p\<rparr>)"
  using assms
proof (induction as arbitrary: n en)
  case (Cons a as)
  obtain peer ret event where a: "a = (peer, ret, event)" by (cases a)
  obtain p where p: "peer = Some p" using Cons.prems(2) a by force
  show ?case
  proof (cases "ret > 0 \<and> is_connect event")
    case True
    then show ?thesis using a p by (auto simp: is_connect_def)
  next
    case False
    then obtain l where n: "n = Suc l" using Cons.prems(3,4) a by (cases n) auto
    have "\<exists>q. ENetConnectLoop as e = (True, e\<lparr>m_pENetPeer := Some q\<rparr>)" for e
    proof (rule Cons.IH[of l])
      show "\<forall>k\<le>l. fst (as ! k) \<noteq> None" using Cons.prems(2) n by (metis Suc_le_mono nth_Cons_Suc)
    qed (use Cons.prems n in simp_all)
    from this[of "en\<lparr>m_pENetPeer := None\<rparr>"] obtain q where "ENetConnectLoop as (en\<lparr>m_pENetPeer := None\<rparr>) = (True, en\<lparr>m_pENetPeer := Some q\<rparr>)" by auto
    then show ?thesis using False a p by (intro exI[of _ q]) (auto simp: is_connect_def Let_def)
  qed
qed simp

lemma channel_connected:
  assumes "eh \<noteq> None" and "enet_connects (answers (ipaddr info, htons (port info)))"
  shows "m_pENetPeer (channel eh answers sock i info False) \<noteq> None"
    and "en_hMainThread (channel eh answers sock i info False)"
proof -
  define ans where "ans = answers (ipaddr info, htons (port info))"
  obtain n where n: "n < 10" "\<forall>k\<le>n. fst (ans k) \<noteq> None" "fst (snd (ans n)) > 0" "is_connect (snd (snd (ans n)))"
    using assms(2) by (auto simp: enet_connects_def ans_def)
  define as where "as = map ans [0..<10]"
  have as: "n < length as" "as ! k = ans k" if "k \<le> n" for k
    using n(1) that by (simp_all add: as_def del: upt_conv_Cons_Cons)
  have "\<exists>p. ENetConnectLoop as en = (True, en\<lparr>m_pENetPeer := Some p\<rparr>)" for en
    using as n by (intro connect_loop[where n = n]) auto
  then obtain p where "ENetConnectLoop as ((CENetClient sock i info False)\<lparr>en_pfnRecvFunc := True,
      en_pRecvParam := Some client_self, m_pENetHost := eh\<rparr>) = (True, ((CENetClient sock i info False)\<lparr>en_pfnRecvFunc := True,
      en_pRecvParam := Some client_self, m_pENetHost := eh\<rparr>)\<lparr>m_pENetPeer := Some p\<rparr>)"
    by blast
  then show "m_pENetPeer (channel eh answers sock i info False) \<noteq> None"
    "en_hMainThread (channel eh answers sock i info False)"
    using assms(1) unfolding as_def ans_def
    by (simp_all add: channel_def ENet_Init_def CENetClient_def CBaseObject_AddRef_def Let_def)
qed

lemma channel_listens: "eh \<noteq> None \<Longrightarrow> en_hMainThread (channel eh answers sock i info True)"
  by (simp add: channel_def ENet_Init_def CENetClient_def CBaseObject_AddRef_def Let_def)

section \<open>The whole system\<close>

lemma new_client_keyword:
  assumes "NewClient t e m = Some c1" and "length (ce_raw1 e) = 32" and "length (ce_raw2 e) = 32"
  shows "length (cstr (mo_keyword m)) < 32"
proof -
  obtain c0 where "CP2PClient (ce_raw1 e) (ce_raw2 e) (ce_raw3 e) (mo_name m) (mo_keyword m) (mo_addr m)
      (of_int (mo_port m)) t = Some c0" by (rule new_client[OF assms(1)])
  then show ?thesis using assms(2,3) by (auto simp: CP2PClient_def bind_Some_iff strcpy_def split: if_splits)
qed

text \<open>
  The server: two connections arrive and go through a handshake with whatever messages of a host and
  of a guest. What is queued for them afterwards is what the rounds of a host and of a guest consist of.
\<close>

definition server_connects :: "server_sys \<Rightarrow> addr \<Rightarrow> arrival_env \<Rightarrow> addr \<Rightarrow> arrival_env \<Rightarrow> BYTE list \<Rightarrow> DWORD \<Rightarrow> DWORD \<Rightarrow>
    WORD \<Rightarrow> bool" where
  "server_connects \<sigma> a va b vb kw i j up \<longleftrightarrow> (\<forall>W C hu gu R Q. registration i kw W \<longrightarrow>
     packet_for TPT_CONNECT j kw C \<longrightarrow> datagram_for UPT_WAITING kw hu \<longrightarrow> datagram_for UPT_CONNECT kw gu \<longrightarrow>
     packet_for TPT_P2P_RESULT i kw R \<longrightarrow> packet_for TPT_P2P_RESULT j kw Q \<longrightarrow>
     (\<exists>x1 x2 x3 x4 \<sigma>'. run [arrival a va, arrival b vb, Received a x1 W, Received b x2 C, Datagram hu, Datagram gu,
          Received a x3 R, Received b x4 Q] \<sigma> = Some \<sigma>'
        \<and> map_find i (sessions (dir_of (srv \<sigma>'))) = Some \<lparr>d_keyword = keyword_field kw, d_host = Some a, d_hostid = i,
             d_guest = Some b, d_guestid = j, d_hostinfo = PacketInfo hu, d_state = P2P_CONNECTED, d_hostOK = True, d_guestOK = True\<rparr>
        \<and> outbox (tcps (srv \<sigma>')) a = [CreateTCPInitPkt i up, CreateTCPResultPkt TPT_WAIT_RESULT i 0,
             start_udp i (keyword_field kw), CreateTCPStartPunchingPkt i i (PacketInfo gu), success i (keyword_field kw)]
        \<and> outbox (tcps (srv \<sigma>')) b = [CreateTCPInitPkt j up, CreateTCPResultPkt TPT_CONNECT_RESULT j 0,
             start_udp j (keyword_field kw), CreateTCPStartPunchingPkt j i (PacketInfo hu), success j (keyword_field kw)]))"

lemma server_serves_both:
  assumes r: "reach k \<sigma>" and k: "k + 8 \<le> 268435456" and kw: "kw_free kw (sessions (dir_of (srv \<sigma>)))"
    and v: "arrival_ok va" "arrival_ok vb" and ab: "tcps (srv \<sigma>) a = None" "tcps (srv \<sigma>) b = None" "a \<noteq> b"
  obtains i j up where "server_connects \<sigma> a va b vb kw i j up"
proof -
  have k0: "k < 268435456" "Suc k < 268435456" "Suc (Suc k) + 6 \<le> 268435456" "Suc (Suc k) \<le> 268435456" using k by simp_all
  obtain i \<sigma>1 where 1: "enabled (arrival a va) \<sigma>" "exec (arrival a va) \<sigma> = Some \<sigma>1" "reach (Suc k) \<sigma>1"
    "dir_of (srv \<sigma>1) = (dir_of (srv \<sigma>))\<lparr>users := map_put i a (users (dir_of (srv \<sigma>))), next_id := i + 1\<rparr>"
    "map_find i (users (dir_of (srv \<sigma>1))) = Some a"
    "queued [(a, CreateTCPInitPkt i (udp_port (dir_of (srv \<sigma>))))] (tcps (srv \<sigma>)) (tcps (srv \<sigma>1))"
    by (rule accept_step[OF r k0(1) v(1) ab(1)]) blast
  have b: "tcps (srv \<sigma>1) b = None" using 1(6) ab(2,3) unfolding queued_def by fastforce
  obtain j \<sigma>2 where 2: "enabled (arrival b vb) \<sigma>1" "exec (arrival b vb) \<sigma>1 = Some \<sigma>2" "reach (Suc (Suc k)) \<sigma>2"
    "map_find j (users (dir_of (srv \<sigma>1))) = None"
    "dir_of (srv \<sigma>2) = (dir_of (srv \<sigma>1))\<lparr>users := map_put j b (users (dir_of (srv \<sigma>1))), next_id := j + 1\<rparr>"
    "map_find j (users (dir_of (srv \<sigma>2))) = Some b" "map_ok (users (dir_of (srv \<sigma>1)))"
    "queued [(b, CreateTCPInitPkt j (udp_port (dir_of (srv \<sigma>1))))] (tcps (srv \<sigma>1)) (tcps (srv \<sigma>2))"
    by (rule accept_step[OF 1(3) k0(2) v(2) b]) blast
  have i2: "map_find i (users (dir_of (srv \<sigma>2))) = Some a"
    using 1(5) 2(4,5,7) by (auto simp: map_find_put)
  have kw2: "kw_free kw (sessions (dir_of (srv \<sigma>2)))" using kw 1(4) 2(5) by simp
  let ?up = "udp_port (dir_of (srv \<sigma>))"
  have up: "udp_port (dir_of (srv \<sigma>1)) = ?up" using 1(4) by simp
  have "tcps (srv \<sigma>1) a \<noteq> None" using user_alive[OF 1(3) _ 1(5)] k by simp
  then have o1: "outbox (tcps (srv \<sigma>1)) a = [CreateTCPInitPkt i ?up]"
    using 1(6) ab(1) by (simp add: queued_def outbox_def)
  have "tcps (srv \<sigma>2) a \<noteq> None" "tcps (srv \<sigma>2) b \<noteq> None"
    using user_alive[OF 2(3) k0(4) i2] user_alive[OF 2(3) k0(4) 2(6)] by simp_all
  then have o2: "outbox (tcps (srv \<sigma>2)) a = [CreateTCPInitPkt i ?up]" "outbox (tcps (srv \<sigma>2)) b = [CreateTCPInitPkt j ?up]"
    using 2(8) o1 b ab(3) unfolding up by (simp_all add: queued_def outbox_def)
  note steps = handshake_run[OF 2(3) k0(3) refl kw2 i2 2(6) ab(3)]
  have ok: "map_ok (sessions (dir_of (srv \<sigma>2)))"
    using reach_inv[OF 2(3) k0(4)] by (simp add: server_inv_def core_def dir_of_def map_ok_def sess_of_def comp_def split_beta)
  let ?mem = "keyword_field kw"
  have "server_connects \<sigma> a va b vb kw i j ?up"
    unfolding server_connects_def
  proof (intro allI impI)
    fix W C hu gu R Q
    assume p: "registration i kw W" and q: "packet_for TPT_CONNECT j kw C"
      "datagram_for UPT_WAITING kw hu" "datagram_for UPT_CONNECT kw gu"
      "packet_for TPT_P2P_RESULT i kw R" "packet_for TPT_P2P_RESULT j kw Q"
    let ?e = "\<lparr>d_keyword = ?mem, d_host = Some a, d_hostid = i, d_guest = Some b, d_guestid = j,
      d_hostinfo = PacketInfo hu, d_state = P2P_CONNECTED, d_hostOK = True, d_guestOK = True\<rparr>"
    have w: "packet_for TPT_WAITING i kw W" "keyword_at (pkt_data W) = ?mem" using p by (simp_all add: registration_def)
    obtain x1 x2 x3 x4 \<sigma>' where s: "run [Received a x1 W, Received b x2 C, Datagram hu, Datagram gu, Received a x3 R, Received b x4 Q] \<sigma>2 = Some \<sigma>'"
      "dir_of (srv \<sigma>') = dir_of (srv \<sigma>2)\<lparr>sessions := map_put i ?e (sessions (dir_of (srv \<sigma>2)))\<rparr>"
      "tcps (srv \<sigma>') a \<noteq> None" "tcps (srv \<sigma>') b \<noteq> None"
      "sent (handshake_sends a b i j ?mem (PacketInfo hu) (PacketInfo gu)) (tcps (srv \<sigma>2)) (tcps (srv \<sigma>'))"
      using steps[OF w(1) q] unfolding w(2) by blast
    have "run [arrival a va, arrival b vb, Received a x1 W, Received b x2 C, Datagram hu, Datagram gu,
        Received a x3 R, Received b x4 Q] \<sigma> = Some \<sigma>'"
      using 1(1,2) 2(1,2) s(1) by simp
    moreover have "outbox (tcps (srv \<sigma>')) a = [CreateTCPInitPkt i ?up, CreateTCPResultPkt TPT_WAIT_RESULT i 0, start_udp i ?mem,
           CreateTCPStartPunchingPkt i i (PacketInfo gu), success i ?mem]"
      "outbox (tcps (srv \<sigma>')) b = [CreateTCPInitPkt j ?up, CreateTCPResultPkt TPT_CONNECT_RESULT j 0, start_udp j ?mem,
           CreateTCPStartPunchingPkt j i (PacketInfo hu), success j ?mem]"
      using s(3,4,5) o2 ab(3) by (simp_all add: sent_def handshake_sends_def)
    moreover have "map_find i (sessions (dir_of (srv \<sigma>'))) = Some ?e"
      using ok by (simp add: s(2) map_find_put)
    ultimately show "\<exists>x1 x2 x3 x4 \<sigma>'. run [arrival a va, arrival b vb, Received a x1 W, Received b x2 C, Datagram hu, Datagram gu,
          Received a x3 R, Received b x4 Q] \<sigma> = Some \<sigma>' \<and> map_find i (sessions (dir_of (srv \<sigma>'))) = Some ?e
        \<and> outbox (tcps (srv \<sigma>')) a = [CreateTCPInitPkt i ?up, CreateTCPResultPkt TPT_WAIT_RESULT i 0, start_udp i ?mem,
             CreateTCPStartPunchingPkt i i (PacketInfo gu), success i ?mem]
        \<and> outbox (tcps (srv \<sigma>')) b = [CreateTCPInitPkt j ?up, CreateTCPResultPkt TPT_CONNECT_RESULT j 0, start_udp j ?mem,
             CreateTCPStartPunchingPkt j i (PacketInfo hu), success j ?mem]"
      by blast
  qed
  then show thesis by (rule that)
qed

text \<open>What the two programs do in such rounds, with datagrams of the other in their waits.\<close>

lemma field_packets:
  assumes "length kw < 32"
  shows "CreateTCPStartUDPPkt l (keyword_field kw) = Some (start_udp l (keyword_field kw))"
    and "CreateP2PSuccessPkt l (keyword_field kw) = Some (success l (keyword_field kw))"
proof -
  have "length (keyword_field kw) = 32" using assms by (simp add: keyword_field_def KEYWORD_SIZE_def)
  then show "CreateTCPStartUDPPkt l (keyword_field kw) = Some (start_udp l (keyword_field kw))"
    "CreateP2PSuccessPkt l (keyword_field kw) = Some (success l (keyword_field kw))"
    using CreateTCPStartUDPPkt_ok[of "keyword_field kw" l] CreateP2PSuccessPkt_ok[of "keyword_field kw" l]
    by (auto simp: start_udp_def success_def)
qed

lemma host_plays:
  fixes e :: "'a client_env_scheme"
  assumes e: "NewClient P2P_CLIENT_HOST e m = Some c1" "length (ce_raw1 e) = 32" "length (ce_raw2 e) = 32"
      "env_init e c1 = Stop (Some (True, c2))" and kw: "cstr (mo_keyword m) = kw"
    and m: "m1 < 10" "m2 < 10" and ts: "hears_peer ts m2" and eh: "eh \<noteq> None"
  obtains c W R u en where "StartHost ia m (e\<lparr>ce_rounds := host_rounds i up (start_udp i (keyword_field kw)) info
       (success i (keyword_field kw)) (\<lambda>n. map (arriving i info) (ts n)) m1 m2 eh answers\<rparr>) = Stop (Some c)"
    and "host_ready c" and "take 2 (tcp_out c) = [W, R]" and "registration i kw W" and "packet_for TPT_P2P_RESULT i kw R"
    and "u \<in> set (udp_out c)" and "\<forall>src. datagram_for UPT_WAITING kw (from_addr src u)"
    and "\<forall>src. arriving i src ` {UPT_HANDSHAKE, UPT_KEEPALIVE} \<subseteq> from_addr src ` set (udp_out c)"
    and "m_pENet c = Some en" and "en_hMainThread en" and "m_stPeerInfo en = info" and "\<not> en_hStopEvent en"
    and "en_SendList en = []" and "en_pRecvParam en \<noteq> None" and "en_pfnRecvFunc en"
proof -
  let ?ks = "\<lambda>n. map (arriving i info) (ts n)"
  let ?rs = "host_rounds i up (start_udp i (keyword_field kw)) info (success i (keyword_field kw)) ?ks m1 m2 eh answers"
  let ?e = "e\<lparr>ce_rounds := ?rs\<rparr>"
  have e': "NewClient P2P_CLIENT_HOST ?e m = Some c1" "length (ce_raw1 ?e) = 32" "length (ce_raw2 ?e) = 32"
      "env_init ?e c1 = Stop (Some (True, c2))" "ce_rounds ?e = ?rs"
    using e by (simp_all add: NewClient_def env_init_def)
  have l: "length kw < 32" using new_client_keyword[OF e(1-3)] kw by simp
  obtain r where r: "reports i ?ks m2 = Suc r" by (rule hears_peer_reports[OF ts])
  let ?en = "channel eh answers (ce_udpsock ?e) i info True"
  obtain c W D R where c: "StartHost ia m ?e = Stop (Some c)" "runs_channel c" "m_eClientType c = P2P_CLIENT_HOST"
    "punched_through i info ?en c" "tcp_out c = W # replicate (reports i ?ks m2) R" "registration i (cstr (mo_keyword m)) W"
    "packet_for TPT_P2P_RESULT i (cstr (mo_keyword m)) R"
    "udp_out c = replicate (Suc m1) (prepare_packet D) @ peer_datagrams i ?ks m2 c"
    "\<forall>sender. datagram_for UPT_WAITING (cstr (mo_keyword m)) (delivered D sender)"
    by (rule StartHost_runs[OF e'(1-4) field_packets[OF l] m arriving_readable e'(5), of ia])
  note c = c[unfolded kw]
  show thesis
  proof (rule that[OF c(1) _ _ c(6,7)])
    show "\<forall>src. arriving i src ` {UPT_HANDSHAKE, UPT_KEEPALIVE} \<subseteq> from_addr src ` set (udp_out c)"
      using hears_peer_answers[OF ts _ c(8)] c(4) by (auto simp: punched_through_def)
    show "prepare_packet D \<in> set (udp_out c)" unfolding c(8) by simp
    show "\<forall>src. datagram_for UPT_WAITING kw (from_addr src (prepare_packet D))"
      using c(9) by (simp add: delivered_from)
    show "m_pENet c = Some ?en" using c(4) by (simp add: punched_through_def)
  qed (use c(2-5) r channel_listens[OF eh] in \<open>simp_all add: host_ready_def runs_channel_def punched_through_def channel_fields\<close>)
qed

lemma guest_plays:
  fixes e :: "'a client_env_scheme"
  assumes e: "NewClient P2P_CLIENT_GUEST e m = Some c1" "length (ce_raw1 e) = 32" "length (ce_raw2 e) = 32"
      "env_init e c1 = Stop (Some (True, c2))" and kw: "cstr (mo_keyword m) = kw"
    and m: "m1 < 10" "m2 < 10" and ts: "hears_peer ts m2" and eh: "eh \<noteq> None" "enet_connects (answers (ipaddr info, htons (port info)))"
    and raw: "\<forall>k. length (raw k) = 4104"
  obtains c C R u en where "RunGuest ia raw (Some file) m (e\<lparr>ce_rounds := guest_rounds j up i (start_udp j (keyword_field kw))
       info (success j (keyword_field kw)) (\<lambda>n. map (arriving i info) (ts n)) m1 m2 eh answers\<rparr>) = Stop (Some c)"
    and "take 2 (tcp_out c) = [C, R]" and "packet_for TPT_CONNECT j kw C" and "packet_for TPT_P2P_RESULT j kw R"
    and "u \<in> set (udp_out c)" and "\<forall>src. datagram_for UPT_CONNECT kw (from_addr src u)"
    and "\<forall>src. arriving i src ` {UPT_HANDSHAKE, UPT_KEEPALIVE} \<subseteq> from_addr src ` set (udp_out c)"
    and "m_pENet c = Some en" and "en_hMainThread en" and "m_stPeerInfo en = info"
    and "concat (map payload (snd (ENetFlush en))) = file"
    and "\<forall>k<length (snd (ENetFlush en)). length (snd (ENetFlush en) ! k) = 4104 \<and> rd_dword 0 (snd (ENetFlush en) ! k) = Some (of_nat k)"
proof -
  let ?ks = "\<lambda>n. map (arriving i info) (ts n)"
  let ?rs = "guest_rounds j up i (start_udp j (keyword_field kw)) info (success j (keyword_field kw)) ?ks m1 m2 eh answers"
  let ?e = "e\<lparr>ce_rounds := ?rs\<rparr>"
  have e': "NewClient P2P_CLIENT_GUEST ?e m = Some c1" "length (ce_raw1 ?e) = 32" "length (ce_raw2 ?e) = 32"
      "env_init ?e c1 = Stop (Some (True, c2))" "ce_rounds ?e = ?rs"
    using e by (simp_all add: NewClient_def env_init_def)
  have l: "length kw < 32" using new_client_keyword[OF e(1-3)] kw by simp
  obtain r where r: "reports i ?ks m2 = Suc r" by (rule hears_peer_reports[OF ts])
  let ?en = "channel eh answers (ce_udpsock ?e) i info False"
  obtain c C D R where c: "StartGuest ia m ?e = Stop (Some c)"
    "punched_through i info ?en c" "tcp_out c = C # replicate (reports i ?ks m2) R" "packet_for TPT_CONNECT j (cstr (mo_keyword m)) C"
    "packet_for TPT_P2P_RESULT j (cstr (mo_keyword m)) R"
    "udp_out c = replicate (Suc m1) (prepare_packet D) @ peer_datagrams i ?ks m2 c"
    "\<forall>sender. datagram_for UPT_CONNECT (cstr (mo_keyword m)) (delivered D sender)"
    by (rule StartGuest_runs[OF e'(1-4) field_packets[OF l] m arriving_readable e'(5), of ia])
  note c = c[unfolded kw]
  have en: "m_eType c = PCT_ENET" "m_pENet c = Some ?en" "\<not> en_hStopEvent ?en"
    using c(2) by (simp_all add: punched_through_def channel_fields)
  obtain g bs where g: "SendFile raw 0 file c = Some g" "g = c\<lparr>m_pENet := Some (?en\<lparr>en_SendList := bs\<rparr>)\<rparr>"
    "concat (map payload bs) = file" "\<forall>k<length bs. length (bs ! k) = 4104 \<and> rd_dword 0 (bs ! k) = Some (of_nat k)"
    using SendFile_blocks[OF en raw, of 0 "file"] by (auto simp: channel_fields)
  have out: "tcp_out g = tcp_out c" "udp_out g = udp_out c" by (simp_all add: g(2) tcp_out_def udp_out_def)
  have flush: "snd (ENetFlush (?en\<lparr>en_SendList := bs\<rparr>)) = bs"
    using channel_connected(1)[where answers = answers and info = info, OF eh] by (simp add: ENetFlush_all)
  show thesis
  proof (rule that[of g C R "prepare_packet D" "?en\<lparr>en_SendList := bs\<rparr>"])
    show "RunGuest ia raw (Some file) m ?e = Stop (Some g)" using c(1) g(1) by (simp add: RunGuest_def)
    show "\<forall>src. arriving i src ` {UPT_HANDSHAKE, UPT_KEEPALIVE} \<subseteq> from_addr src ` set (udp_out g)"
      using hears_peer_answers[OF ts _ c(6)] c(2) unfolding out by (auto simp: punched_through_def)
    show "prepare_packet D \<in> set (udp_out g)" unfolding out c(6) by simp
    show "\<forall>src. datagram_for UPT_CONNECT kw (from_addr src (prepare_packet D))"
      using c(7) by (simp add: delivered_from)
  qed (unfold flush, use g(3,4) in \<open>simp_all only:\<close>, use c(3-5) r g(2) out channel_connected(2)[where answers = answers and info = info, OF eh] in \<open>simp_all add: channel_fields\<close>)
qed

text \<open>
  C3: a file crosses the whole system. The server is in any reachable state in which no session has
  the keyword; host and guest are started by \<open>main\<close> with this keyword and their sockets could be set
  up. Two connections arrive at the server, and the six messages of a handshake. Then the loops of
  both programs run to their ends on exactly the packets that the server has queued for their
  connections, and the messages the server received are those the programs have queued: the
  registration \<open>W\<close> and the first report \<open>R\<close> of the host, the request \<open>C\<close> and the first report \<open>Q\<close> of
  the guest, and one datagram of each. The peers hear each other in any pattern of handshakes and
  answers with at least one of each before their last wait, and all that they hear is what the
  other has queued. The session of the keyword ends connected with the two connections. Both programs
  have a channel with a running thread to the address at which the server saw the other; the blocks
  that the guest's channel hands to ENet are numbered from zero and carry its file, and the host
  acknowledges each of them when they arrive in order.
\<close>

theorem file_crosses_whole_system:
  fixes eh :: "'a client_env_scheme" and eg :: "'b client_env_scheme"
  assumes server: "reach k \<sigma>" "k + 8 \<le> 268435456" "kw_free kw (sessions (dir_of (srv \<sigma>)))"
    and arrivals: "arrival_ok va" "arrival_ok vb" "tcps (srv \<sigma>) a = None" "tcps (srv \<sigma>) b = None" "a \<noteq> b"
    and host: "NewClient P2P_CLIENT_HOST eh mh = Some h1" "length (ce_raw1 eh) = 32" "length (ce_raw2 eh) = 32"
      "env_init eh h1 = Stop (Some (True, h2))" "cstr (mo_keyword mh) = kw"
    and guest: "NewClient P2P_CLIENT_GUEST eg mg = Some g1" "length (ce_raw1 eg) = 32" "length (ce_raw2 eg) = 32"
      "env_init eg g1 = Stop (Some (True, g2))" "cstr (mo_keyword mg) = kw"
    and waits: "m1 < 10" "m2 < 10" "n1 < 10" "n2 < 10"
    and peers: "hears_peer hh m2" "hears_peer gh n2"
    and enet: "heh \<noteq> None" "geh \<noteq> None" "enet_connects (gans (ipaddr hs, htons (port hs)))"
    and raw: "\<forall>k. length (raw k) = 4104"
  shows "\<exists>i j W C hu gu R Q x1 x2 x3 x4 \<sigma>' h g he ge bs he' h'.
     run [arrival a va, arrival b vb, Received a x1 W, Received b x2 C, Datagram (from_addr hs hu),
       Datagram (from_addr gs gu), Received a x3 R, Received b x4 Q] \<sigma> = Some \<sigma>'
     \<and> StartHost ia mh (eh\<lparr>ce_rounds := client_rounds host_recv (outbox (tcps (srv \<sigma>')) a)
         (\<lambda>n. map (arriving i gs) (hh n)) m1 m2 heh hans\<rparr>) = Stop (Some h)
     \<and> RunGuest ia raw (Some contents) mg (eg\<lparr>ce_rounds := client_rounds guest_recv (outbox (tcps (srv \<sigma>')) b)
         (\<lambda>n. map (arriving i hs) (gh n)) n1 n2 geh gans\<rparr>) = Stop (Some g)
     \<and> take 2 (tcp_out h) = [W, R] \<and> take 2 (tcp_out g) = [C, Q] \<and> hu \<in> set (udp_out h) \<and> gu \<in> set (udp_out g)
     \<and> (\<forall>n. arriving i gs ` set (hh n) \<subseteq> from_addr gs ` set (udp_out g))
     \<and> (\<forall>n. arriving i hs ` set (gh n) \<subseteq> from_addr hs ` set (udp_out h))
     \<and> map_find i (sessions (dir_of (srv \<sigma>'))) = Some \<lparr>d_keyword = keyword_field kw, d_host = Some a, d_hostid = i,
         d_guest = Some b, d_guestid = j, d_hostinfo = hs, d_state = P2P_CONNECTED, d_hostOK = True, d_guestOK = True\<rparr>
     \<and> m_pENet h = Some he \<and> en_hMainThread he \<and> m_stPeerInfo he = gs
     \<and> m_pENet g = Some ge \<and> en_hMainThread ge \<and> m_stPeerInfo ge = hs
     \<and> snd (ENetFlush ge) = bs \<and> concat (map payload bs) = contents
     \<and> (\<forall>k<length bs. length (bs ! k) = 4104 \<and> rd_dword 0 (bs ! k) = Some (of_nat k))
     \<and> ENetRun (client_enet_recv P2PRecvPacketProcess) ((1, ENET_EVENT_TYPE_CONNECT peer (ipaddr gs) (htons (port gs)))
          # map (\<lambda>b. (1, ENET_EVENT_TYPE_RECEIVE peer b)) bs) he h = Some (True, he', map (take 8) bs, h')"
proof -
  obtain i j up where served: "server_connects \<sigma> a va b vb kw i j up"
    by (rule server_serves_both[OF server arrivals])
  let ?kw = "keyword_field kw"
  let ?hr = "host_rounds i up (start_udp i ?kw) gs (success i ?kw) (\<lambda>n. map (arriving i gs) (hh n)) m1 m2 heh hans"
  let ?gr = "guest_rounds j up i (start_udp j ?kw) hs (success j ?kw) (\<lambda>n. map (arriving i hs) (gh n)) n1 n2 geh gans"
  obtain h W R hu he where h: "StartHost ia mh (eh\<lparr>ce_rounds := ?hr\<rparr>) = Stop (Some h)" "host_ready h"
    "take 2 (tcp_out h) = [W, R]" "registration i kw W" "packet_for TPT_P2P_RESULT i kw R" "hu \<in> set (udp_out h)"
    "\<forall>src. datagram_for UPT_WAITING kw (from_addr src hu)"
    "\<forall>src. arriving i src ` {UPT_HANDSHAKE, UPT_KEEPALIVE} \<subseteq> from_addr src ` set (udp_out h)"
    "m_pENet h = Some he" "en_hMainThread he" "m_stPeerInfo he = gs" "\<not> en_hStopEvent he"
    "en_SendList he = []" "en_pRecvParam he \<noteq> None" "en_pfnRecvFunc he"
    by (rule host_plays[OF host waits(1,2) peers(1) enet(1), where ia = ia and i = i and up = up and info = gs and answers = hans])
  obtain g C Q gu ge where g: "RunGuest ia raw (Some contents) mg (eg\<lparr>ce_rounds := ?gr\<rparr>) = Stop (Some g)"
    "take 2 (tcp_out g) = [C, Q]" "packet_for TPT_CONNECT j kw C" "packet_for TPT_P2P_RESULT j kw Q" "gu \<in> set (udp_out g)"
    "\<forall>src. datagram_for UPT_CONNECT kw (from_addr src gu)"
    "\<forall>src. arriving i src ` {UPT_HANDSHAKE, UPT_KEEPALIVE} \<subseteq> from_addr src ` set (udp_out g)"
    "m_pENet g = Some ge" "en_hMainThread ge" "m_stPeerInfo ge = hs"
    "concat (map payload (snd (ENetFlush ge))) = contents"
    "\<forall>k<length (snd (ENetFlush ge)). length (snd (ENetFlush ge) ! k) = 4104 \<and> rd_dword 0 (snd (ENetFlush ge) ! k) = Some (of_nat k)"
    by (rule guest_plays[where ia = ia and j = j and i = i and up = up and info = hs and answers = gans, OF guest waits(3,4) peers(2) enet(2,3) raw])
  have info: "PacketInfo (from_addr s u) = s" for s u by (simp add: from_addr_def)
  obtain x1 x2 x3 x4 \<sigma>' where s: "run [arrival a va, arrival b vb, Received a x1 W, Received b x2 C, Datagram (from_addr hs hu),
       Datagram (from_addr gs gu), Received a x3 R, Received b x4 Q] \<sigma> = Some \<sigma>'"
    "map_find i (sessions (dir_of (srv \<sigma>'))) = Some \<lparr>d_keyword = ?kw, d_host = Some a, d_hostid = i,
       d_guest = Some b, d_guestid = j, d_hostinfo = hs, d_state = P2P_CONNECTED, d_hostOK = True, d_guestOK = True\<rparr>"
    "client_rounds host_recv (outbox (tcps (srv \<sigma>')) a) (\<lambda>n. map (arriving i gs) (hh n)) m1 m2 heh hans = ?hr"
    "client_rounds guest_recv (outbox (tcps (srv \<sigma>')) b) (\<lambda>n. map (arriving i hs) (gh n)) n1 n2 geh gans = ?gr"
    using served[unfolded server_connects_def, rule_format, OF h(4) g(3) h(7)[rule_format, of hs] g(6)[rule_format, of gs] h(5) g(4)]
    unfolding info host_rounds_def guest_rounds_def by force
  have "set (hh n) \<subseteq> {UPT_HANDSHAKE, UPT_KEEPALIVE}" "set (gh n) \<subseteq> {UPT_HANDSHAKE, UPT_KEEPALIVE}" for n
    using peers by (simp_all add: hears_peer_def)
  then have d: "\<forall>n. arriving i gs ` set (hh n) \<subseteq> from_addr gs ` set (udp_out g)"
    "\<forall>n. arriving i hs ` set (gh n) \<subseteq> from_addr hs ` set (udp_out h)"
    using g(7) h(8) by (meson image_mono subset_trans)+
  have "\<forall>b\<in>set (snd (ENetFlush ge)). 8 \<le> length b" using g(12) by (auto simp: in_set_conv_nth)
  then obtain he' h' where e: "ENetRun (client_enet_recv P2PRecvPacketProcess) ((1, ENET_EVENT_TYPE_CONNECT peer (ipaddr gs) (htons (port gs)))
      # map (\<lambda>b. (1, ENET_EVENT_TYPE_RECEIVE peer b)) (snd (ENetFlush ge))) he h
    = Some (True, he', map (take 8) (snd (ENetFlush ge)), h')"
    using host_acknowledges[OF h(2,12-15), of _ peer] unfolding h(11) by blast
  show ?thesis
    by (rule exI[of _ i], rule exI[of _ j], rule exI[of _ W], rule exI[of _ C], rule exI[of _ hu], rule exI[of _ gu], rule exI[of _ R],
        rule exI[of _ Q], rule exI[of _ x1], rule exI[of _ x2], rule exI[of _ x3], rule exI[of _ x4], rule exI[of _ \<sigma>'],
        rule exI[of _ h], rule exI[of _ g], rule exI[of _ he], rule exI[of _ ge], rule exI[of _ "snd (ENetFlush ge)"], rule exI[of _ he'], rule exI[of _ h'])
      (use s(1,2) h(1,3,6,9,10,11) g(1,2,5,8-12) d e in \<open>simp only: s(3,4) simp_thms\<close>)
qed

definition demo_arrival :: arrival_env where
  "demo_arrival = (replicate 128 0, replicate 128 0, [49, 0], 7000, 1)"

definition demo_types :: "nat \<Rightarrow> UDPBASE_PACKET_TYPE list" where
  "demo_types n = (if n = 0 then [UPT_HANDSHAKE] else if n = 1 then [UPT_KEEPALIVE] else [])"

text \<open>ENet connects to the host's address, and to no other.\<close>

definition demo_enet :: enet_answers where
  "demo_enet address n = (if address = (ipaddr zero_CLIENT_INFO, htons (port zero_CLIENT_INFO))
     then (Some 7, 1, ENET_EVENT_TYPE_CONNECT 7 0 0) else (None, 0, ENET_EVENT_TYPE_NONE))"

theorem file_crosses_whole_system_witness:
  "\<exists>es i \<sigma>' h g ge. run es boot = Some \<sigma>' \<and> map_find i (sessions (dir_of (srv \<sigma>'))) \<noteq> None
     \<and> StartHost (\<lambda>_. 0) demo_opts ((demo_env [])\<lparr>ce_rounds := client_rounds host_recv (outbox (tcps (srv \<sigma>')) 1)
         (\<lambda>n. map (arriving i zero_CLIENT_INFO) (demo_types n)) 0 1 (Some 3) no_enet\<rparr>) = Stop (Some h)
     \<and> RunGuest (\<lambda>_. 0) (\<lambda>_. replicate 4104 0) (Some (replicate 5000 7)) demo_opts
         ((demo_env [])\<lparr>ce_rounds := client_rounds guest_recv (outbox (tcps (srv \<sigma>')) 2)
         (\<lambda>n. map (arriving i zero_CLIENT_INFO) (demo_types n)) 2 1 (Some 4) demo_enet\<rparr>)
       = Stop (Some g)
     \<and> m_pENet g = Some ge \<and> concat (map payload (snd (ENetFlush ge))) = replicate 5000 7"
proof -
  have "sessions (dir_of (srv boot)) = []" "tcps (srv boot) 1 = None" "tcps (srv boot) 2 = None" by code_simp+
  then have b: "kw_free [55] (sessions (dir_of (srv boot)))" "tcps (srv boot) 1 = None" "tcps (srv boot) 2 = None" "(1 :: addr) \<noteq> 2"
    by simp_all
  have k: "0 + 8 \<le> (268435456 :: nat)" by simp
  have v: "arrival_ok demo_arrival" by (simp add: arrival_ok_def demo_arrival_def)
  obtain h1 h2 where h: "NewClient P2P_CLIENT_HOST (demo_env []) demo_opts = Some h1"
    "env_init (demo_env []) h1 = Stop (Some (True, h2))" by (rule demo_new)
  obtain g1 g2 where g: "NewClient P2P_CLIENT_GUEST (demo_env []) demo_opts = Some g1"
    "env_init (demo_env []) g1 = Stop (Some (True, g2))" by (rule demo_new)
  have e: "length (ce_raw1 (demo_env [])) = 32" "length (ce_raw2 (demo_env [])) = 32" "cstr (mo_keyword demo_opts) = [55]"
    by (simp_all add: demo_env_def demo_opts_def cstr_def)
  have m: "0 < (10 :: nat)" "1 < (10 :: nat)" "2 < (10 :: nat)" by simp_all
  have t: "hears_peer demo_types 1" unfolding hears_peer_def by (auto simp: demo_types_def)
  have n: "Some 3 \<noteq> (None :: ptr)" "Some 4 \<noteq> (None :: ptr)"
    "enet_connects (demo_enet (ipaddr zero_CLIENT_INFO, htons (port zero_CLIENT_INFO)))"
    by (auto simp: enet_connects_def is_connect_def demo_enet_def intro!: exI[of _ 0])
  have raw: "\<forall>k :: DWORD. length ((\<lambda>_. replicate 4104 (0 :: BYTE)) k) = 4104" by simp
  show ?thesis
    using file_crosses_whole_system[where ia = "\<lambda>_. 0" and hans = no_enet and peer = 8 and hs = zero_CLIENT_INFO and gs = zero_CLIENT_INFO
        and gans = demo_enet and contents = "replicate 5000 7",
      OF reach_boot k b(1) v v b(2-4) h(1) e(1,2) h(2) e(3) g(1) e(1,2) g(2) e(3) m(1,2,3,2) t t n raw]
    by (metis option.distinct(1))
qed

end
