(* ===== verification/ServerThreads.thy ===== *)
theory ServerThreads
  imports ServerProperties
begin

text \<open>
  The threads of the server. A packet or datagram is handled in sections: the table of connections
  is searched under one lock, the table of sessions under another, the method of the session runs
  under the lock of the session, and the references are given back without a lock. Between two
  sections any other thread may run. The receiving thread of each connection and the UDP thread
  handle one packet at a time. The end of a connection and an accepted socket are one step.
\<close>

section \<open>The sections of a handler\<close>

text \<open>What is handled: the data of a packet, or the keyword and sender of a datagram.\<close>

datatype job =
    Waiting "BYTE list" | Connect "BYTE list" | P2PResult "BYTE list" | ProxyRequest "BYTE list"
  | HostDatagram "BYTE list" CLIENT_INFO | GuestDatagram "BYTE list" CLIENT_INFO

definition job_of_packet :: "BYTE list \<Rightarrow> job option" where
  "job_of_packet P = (case Option.bind (pkt_type P) tpt_of of
      Some TPT_WAITING \<Rightarrow> Some (Waiting (pkt_data P))
    | Some TPT_CONNECT \<Rightarrow> Some (Connect (pkt_data P))
    | Some TPT_P2P_RESULT \<Rightarrow> Some (P2PResult (pkt_data P))
    | Some TPT_PROXY_REQUEST \<Rightarrow> Some (ProxyRequest (pkt_data P))
    | _ \<Rightarrow> None)"

definition job_of_datagram :: "UDP_PACKET \<Rightarrow> job option" where
  "job_of_datagram p = (case upt_of (udp_type (BasePacket p)) of
      Some UPT_WAITING \<Rightarrow> Some (HostDatagram (keyword_at (udp_data (BasePacket p))) (PacketInfo p))
    | Some UPT_CONNECT \<Rightarrow> Some (GuestDatagram (keyword_at (udp_data (BasePacket p))) (PacketInfo p))
    | _ \<Rightarrow> None)"

fun is_udp :: "job \<Rightarrow> bool" where
  "is_udp (HostDatagram kw i) = True"
| "is_udp (GuestDatagram kw i) = True"
| "is_udp j = False"

fun job_data :: "job \<Rightarrow> BYTE list" where
  "job_data (Waiting d) = d"
| "job_data (Connect d) = d"
| "job_data (P2PResult d) = d"
| "job_data (ProxyRequest d) = d"
| "job_data j = []"

fun job_keyword :: "job \<Rightarrow> BYTE list" where
  "job_keyword (HostDatagram kw i) = kw"
| "job_keyword (GuestDatagram kw i) = kw"
| "job_keyword j = keyword_at (job_data j)"

text \<open>The method that is called on the session found; a registration calls none.\<close>

fun job_method :: "job \<Rightarrow> ptr \<Rightarrow> p2pconn \<Rightarrow> tcpheap \<Rightarrow> (P2P_ERROR \<times> p2pconn \<times> tcpheap) option" where
  "job_method (Connect d) Server = TCPConnected d Server"
| "job_method (P2PResult d) Server = SetP2POK Server"
| "job_method (HostDatagram kw i) Server = UDPListening i"
| "job_method (GuestDatagram kw i) Server = UDPConnected i"
| "job_method j Server = TCPProxyRequest"

text \<open>The packet that answers the sender.\<close>

fun job_reply :: "job \<Rightarrow> DWORD \<Rightarrow> P2P_ERROR \<Rightarrow> BYTE list option" where
  "job_reply (Waiting d) i r = Some (CreateTCPResultPkt TPT_WAIT_RESULT i (err_num r))"
| "job_reply (Connect d) i r =
     (if r \<noteq> P2P_ERROR_NONE then Some (CreateTCPResultPkt TPT_CONNECT_RESULT i (err_num r)) else None)"
| "job_reply (ProxyRequest d) i r =
     (if r \<noteq> P2P_ERROR_NONE then Some (CreateTCPProxyResultPkt i 0 (err_num r)) else None)"
| "job_reply j i r = None"

text \<open>
  Where a handler is: before its first section, with the sender's connection, before and after the
  call of the session's method, before the answer, before it returns the sender's reference. The
  pointers are the references it holds.
\<close>

datatype pc =
    Begin
  | Holds addr
  | Calls ptr addr
  | Called ptr addr P2P_ERROR
  | Replies addr P2P_ERROR
  | Returns addr

definition find_step :: "job \<Rightarrow> ptr \<Rightarrow> p2pserver \<Rightarrow> (pc option \<times> p2pserver) option" where
  "find_step j Server s = do {
     (p2p, s) \<leftarrow> FindP2PConnection (job_keyword j) s;
     case p2p of
       Some p \<Rightarrow> Some (Some (Calls Server p), s)
     | None \<Rightarrow>
         (case Server of
            None \<Rightarrow> Some (None, s)
          | Some a \<Rightarrow> do {
              (case j of P2PResult d \<Rightarrow> Some () | _ \<Rightarrow> print_str (job_keyword j));
              Some (Some (Replies a P2P_KEYWORD_NOT_FOUND), s)
            })
   }"

fun job_step :: "addr \<Rightarrow> job \<Rightarrow> pc \<Rightarrow> p2pserver \<Rightarrow> (pc option \<times> p2pserver) option" where
  "job_step new j Begin s =
     (if is_udp j then find_step j None s
      else do {
        tcpid \<leftarrow> rd_dword 0 (job_data j);
        (Server, s) \<leftarrow> GetTCPServer tcpid s;
        Some (map_option Holds Server, s)
      })"
| "job_step new j (Holds a) s =
     (case j of
        Waiting d \<Rightarrow> map_option (\<lambda>(r, s). (Some (Replies a r), s)) (register_step new d (Some a) s)
      | _ \<Rightarrow> find_step j (Some a) s)"
| "job_step new j (Calls Server p) s =
     map_option (\<lambda>(r, s). (Some (Called Server p r), s)) (conn_call (job_method j Server) p s)"
| "job_step new j (Called Server p r) s =
     map_option (\<lambda>s. (map_option (\<lambda>a. Replies a r) Server, s)) (conn_Release p s)"
| "job_step new j (Replies a r) s = do {
     tcpid \<leftarrow> rd_dword 0 (job_data j);
     s \<leftarrow> (case job_reply j tcpid r of None \<Rightarrow> Some s | Some P \<Rightarrow> tcp_Send a P s);
     Some (Some (Returns a), s)
   }"
| "job_step new j (Returns a) s = map_option (\<lambda>s. (None, s)) (tcp_Release a s)"

text \<open>A handler that is not interrupted. Six sections are the most there are.\<close>

fun run_job :: "nat \<Rightarrow> addr \<Rightarrow> job \<Rightarrow> pc \<Rightarrow> p2pserver \<Rightarrow> p2pserver option" where
  "run_job 0 new j pc s = None"
| "run_job (Suc n) new j pc s = do {
     (pc, s) \<leftarrow> job_step new j pc s;
     case pc of None \<Rightarrow> Some s | Some pc \<Rightarrow> run_job n new j pc s
   }"

lemma run_Returns: "run_job (Suc n) new j (Returns a) s = tcp_Release a s"
  by (cases "tcp_Release a s") simp_all

lemma run_Replies: "run_job (Suc (Suc n)) new j (Replies a r) s = do {
    tcpid \<leftarrow> rd_dword 0 (job_data j);
    s \<leftarrow> (case job_reply j tcpid r of None \<Rightarrow> Some s | Some P \<Rightarrow> tcp_Send a P s);
    tcp_Release a s
  }"
  by (subst run_job.simps) (simp add: run_Returns del: run_job.simps)

lemma run_Called: "run_job (Suc (Suc (Suc n))) new j (Called Server p r) s = do {
    s \<leftarrow> conn_Release p s;
    case Server of None \<Rightarrow> Some s | Some a \<Rightarrow> run_job (Suc (Suc n)) new j (Replies a r) s
  }"
  by (subst run_job.simps, cases "conn_Release p s") (auto split: option.split simp del: run_job.simps)

lemma run_Calls: "run_job (Suc (Suc (Suc (Suc n)))) new j (Calls Server p) s = do {
    (r, s) \<leftarrow> conn_call (job_method j Server) p s;
    run_job (Suc (Suc (Suc n))) new j (Called Server p r) s
  }"
  by (subst run_job.simps, cases "conn_call (job_method j Server) p s") (auto simp del: run_job.simps)

lemmas run_sections = run_Calls run_Called run_Replies

lemma run_find: "Option.bind (find_step j Server s)
    (\<lambda>(pc, s). case pc of None \<Rightarrow> Some s | Some pc \<Rightarrow> run_job n new j pc s) = do {
    (p2p, s) \<leftarrow> FindP2PConnection (job_keyword j) s;
    case p2p of
      Some p \<Rightarrow> run_job n new j (Calls Server p) s
    | None \<Rightarrow> (case Server of None \<Rightarrow> Some s | Some a \<Rightarrow> do {
        (case j of P2PResult d \<Rightarrow> Some () | _ \<Rightarrow> print_str (job_keyword j));
        run_job n new j (Replies a P2P_KEYWORD_NOT_FOUND) s })
  }"
  by (cases "FindP2PConnection (job_keyword j) s"; cases j)
    (auto simp: find_step_def split: option.split simp del: run_job.simps)

lemma run_Begin: "run_job (Suc n) new j Begin s =
    (if is_udp j then Option.bind (find_step j None s)
       (\<lambda>(pc, s). case pc of None \<Rightarrow> Some s | Some pc \<Rightarrow> run_job n new j pc s)
     else do {
       tcpid \<leftarrow> rd_dword 0 (job_data j);
       (Server, s) \<leftarrow> GetTCPServer tcpid s;
       case Server of None \<Rightarrow> Some s | Some a \<Rightarrow> run_job n new j (Holds a) s
     })"
  by (subst run_job.simps) (auto simp: case_prod_unfold split: option.split
      intro!: Option.bind_cong simp del: run_job.simps)

lemma run_Holds: "run_job (Suc n) new j (Holds a) s =
    (case j of
       Waiting d \<Rightarrow> do { (r, s) \<leftarrow> register_step new d (Some a) s; run_job n new j (Replies a r) s }
     | _ \<Rightarrow> Option.bind (find_step j (Some a) s)
         (\<lambda>(pc, s). case pc of None \<Rightarrow> Some s | Some pc \<Rightarrow> run_job n new j pc s))"
  by (subst run_job.simps, cases j) (auto simp: case_prod_unfold bind_map_option comp_def
      simp del: run_job.simps)


text \<open>A handler whose sections follow each other is the handler of the code.\<close>

lemma job_6: "run_job 6 = run_job (Suc (Suc (Suc (Suc (Suc (Suc 0))))))"
  by (simp add: eval_nat_numeral)

lemma bind_case: "Option.bind (case x of None \<Rightarrow> A | Some c \<Rightarrow> B c) f
    = (case x of None \<Rightarrow> Option.bind A f | Some c \<Rightarrow> Option.bind (B c) f)"
  by (cases x) simp_all

lemma case_if: "(case (if b then Some P else None) of None \<Rightarrow> x | Some P \<Rightarrow> f P) = (if b then f P else x)"
  by simp

lemmas run_alone = job_6 run_Begin run_Holds run_find[unfolded case_prod_unfold] run_sections
  case_prod_unfold bind_case case_if

lemma run_job_Waiting: "run_job 6 new (Waiting d) Begin s = recv_WAITING new d s"
  by (simp add: run_alone recv_WAITING_register cong: option.case_cong Option.bind_cong if_cong
      del: run_job.simps)

lemma run_job_Connect: "run_job 6 new (Connect d) Begin s = recv_CONNECT d s"
  by (simp add: run_alone recv_CONNECT_def cong: option.case_cong Option.bind_cong if_cong
      del: run_job.simps)

lemma run_job_P2PResult: "run_job 6 new (P2PResult d) Begin s = recv_P2P_RESULT d s"
  by (simp add: run_alone recv_P2P_RESULT_def cong: option.case_cong Option.bind_cong if_cong
      del: run_job.simps)

lemma run_job_ProxyRequest: "run_job 6 new (ProxyRequest d) Begin s = recv_PROXY_REQUEST d s"
  by (simp add: run_alone recv_PROXY_REQUEST_def cong: option.case_cong Option.bind_cong if_cong
      del: run_job.simps)

lemma run_job_datagram: "RecvUDPPacketProcess p s = map_option (Pair True)
    (case job_of_datagram p of None \<Rightarrow> Some s | Some j \<Rightarrow> run_job 6 new j Begin s)"
proof -
  have h: "run_job 6 new (HostDatagram kw i) Begin s = do {
      (p2p, s) \<leftarrow> FindP2PConnection kw s;
      case p2p of None \<Rightarrow> Some s
      | Some c \<Rightarrow> do { (r, s) \<leftarrow> conn_call (UDPListening i) c s; conn_Release c s } }" for kw i
    by (simp add: run_alone cong: option.case_cong Option.bind_cong del: run_job.simps)
  have g: "run_job 6 new (GuestDatagram kw i) Begin s = do {
      (p2p, s) \<leftarrow> FindP2PConnection kw s;
      case p2p of None \<Rightarrow> Some s
      | Some c \<Rightarrow> do { (r, s) \<leftarrow> conn_call (UDPConnected i) c s; conn_Release c s } }" for kw i
    by (simp add: run_alone cong: option.case_cong Option.bind_cong del: run_job.simps)
  show ?thesis
    by (auto simp: RecvUDPPacketProcess_def job_of_datagram_def h g map_conv_bind_option comp_def
        case_prod_unfold Let_def split: option.split UDPBASE_PACKET_TYPE.split)
qed

lemma run_job_packet:
  assumes "Option.bind (pkt_type P) tpt_of \<noteq> Some TPT_DATA_PROXY"
  shows "RecvTCPPacketProcess mem new P s = Option.bind (pkt_type P) (\<lambda>_. map_option (Pair True)
     (case job_of_packet P of None \<Rightarrow> Some s | Some j \<Rightarrow> run_job 6 new j Begin s))"
proof (cases "pkt_type P")
  case None
  then show ?thesis by (simp add: RecvTCPPacketProcess_def)
next
  case (Some t)
  show ?thesis
  proof (cases "tpt_of t")
    case None
    then show ?thesis using Some by (simp add: RecvTCPPacketProcess_def job_of_packet_def)
  next
    case (Some ty)
    then show ?thesis using \<open>pkt_type P = Some t\<close> assms
      by (cases ty) (simp_all add: RecvTCPPacketProcess_def job_of_packet_def run_job_Waiting
          run_job_Connect run_job_P2PResult run_job_ProxyRequest map_conv_bind_option comp_def)
  qed
qed

text \<open>
  The sections of a handler are the handler. A packet of any type but the relay packet, and any
  datagram, that is handled section by section without another thread in between is handled as
  \<open>RecvTCPPacketProcess\<close> and \<open>RecvUDPPacketProcess\<close> handle it: the same result, the same
  undefined behaviour.
\<close>

theorem handlers_are_sections:
  "(Option.bind (pkt_type P) tpt_of = Some TPT_DATA_PROXY
      \<or> RecvTCPPacketProcess mem new P s = Option.bind (pkt_type P) (\<lambda>_. map_option (Pair True)
          (case job_of_packet P of None \<Rightarrow> Some s | Some j \<Rightarrow> run_job 6 new j Begin s)))
   \<and> RecvUDPPacketProcess p s = map_option (Pair True)
       (case job_of_datagram p of None \<Rightarrow> Some s | Some j \<Rightarrow> run_job 6 new j Begin s)"
  using run_job_packet run_job_datagram by blast

section \<open>A section keeps the counts\<close>

text \<open>The references a handler holds.\<close>

fun pc_server :: "pc \<Rightarrow> ptr" where
  "pc_server Begin = None"
| "pc_server (Holds a) = Some a"
| "pc_server (Calls Server p) = Server"
| "pc_server (Called Server p r) = Server"
| "pc_server (Replies a r) = Some a"
| "pc_server (Returns a) = Some a"

fun pc_session :: "pc \<Rightarrow> ptr" where
  "pc_session (Calls Server p) = Some p"
| "pc_session (Called Server p r) = Some p"
| "pc_session pc = None"

text \<open>What a handler can process, and where it can be.\<close>

fun job_ok :: "job \<Rightarrow> bool" where
  "job_ok (Waiting d) = wait_ok d"
| "job_ok (Connect d) = wait_ok d"
| "job_ok (P2PResult d) = keyword_ok d"
| "job_ok (ProxyRequest d) = keyword_ok d"
| "job_ok j = nul_terminated (job_keyword j)"

definition pc_ok :: "job \<Rightarrow> pc \<Rightarrow> bool" where
  "pc_ok j pc \<longleftrightarrow> pc = Begin \<or> (pc_server pc = None \<longleftrightarrow> is_udp j)"

definition refs1 :: "ptr \<Rightarrow> addr \<Rightarrow> nat" where
  "refs1 q a = of_bool (q = Some a)"

lemma refs1_None [simp]: "refs1 None a = 0"
  by (simp add: refs1_def)

lemma refs1_add: "(\<lambda>b. x b + refs1 (Some a) b) = x(a := Suc (x a))"
  by (auto simp: refs1_def fun_eq_iff)

lemma refs1_le: "refs1 q a \<le> 1"
  by (simp add: refs1_def)

lemma job_keyword_ok: "job_ok j \<Longrightarrow> nul_terminated (job_keyword j)"
  by (cases j) (simp_all add: wait_ok_def keyword_ok_def)

lemma job_id_ok: "job_ok j \<Longrightarrow> \<not> is_udp j \<Longrightarrow> \<exists>i. rd_dword 0 (job_data j) = Some i"
  by (cases j) (auto simp: wait_ok_def intro: rd_keyword)

lemma job_method_ok:
  assumes j: "job_ok j" "Server = None \<longleftrightarrow> is_udp j" and s: "\<And>b. Server = Some b \<Longrightarrow> 0 < n b \<and> Suc (n b) < 4294967296"
    and h: "heap_ok (tcp_good R) n h" "conn_wf c" "\<And>a. role_refs c a \<le> n a"
  shows "\<exists>r c' h'. job_method j Server c h = Some (r, c', h') \<and> moves_refs R n c c' h'"
proof (cases j)
  case (Connect d)
  then obtain b where "Server = Some b" using j(2) by (cases Server) auto
  then show ?thesis using TCPConnected_ok[OF h, of b d] s[of b] j(1) Connect by (simp add: wait_ok_def)
qed (use TCPProxyRequest_ok[OF h] SetP2POK_ok[OF h] UDPListening_ok[OF h] UDPConnected_ok[OF h] in simp_all)

text \<open>The state after a section: the references of the rest are as before, those of the handler
  are the ones its new place says.\<close>

definition sectioned :: "addr set \<Rightarrow> (addr \<Rightarrow> nat) \<Rightarrow> (addr \<Rightarrow> nat) \<Rightarrow> job \<Rightarrow> p2pserver \<Rightarrow>
    (pc option \<times> p2pserver) option \<Rightarrow> bool" where
  "sectioned R x y j s r \<longleftrightarrow> (\<exists>pc s'. r = Some (pc, s') \<and> same_tcp s s'
     \<and> core R (\<lambda>a. x a + refs1 (Option.bind pc pc_server) a) (\<lambda>p. y p + refs1 (Option.bind pc pc_session) p) s'
     \<and> (\<forall>q. pc = Some q \<longrightarrow> q \<noteq> Begin \<and> pc_ok j q))"

lemma sectionedI:
  assumes "r = Some (pc, s')" and "same_tcp s s'"
    and "core R (\<lambda>a. x a + refs1 (Option.bind pc pc_server) a) (\<lambda>p. y p + refs1 (Option.bind pc pc_session) p) s'"
    and "\<And>q. pc = Some q \<Longrightarrow> q \<noteq> Begin \<and> pc_ok j q"
  shows "sectioned R x y j s r"
  unfolding sectioned_def by (intro exI[of _ pc] exI[of _ s'] conjI allI impI assms(1,2,3)) (use assms(4) in auto)

lemma find_step_ok:
  assumes s: "core R (\<lambda>a. x a + refs1 Server a) y s" and j: "job_ok j" "Server = None \<longleftrightarrow> is_udp j"
  shows "sectioned R x y j s (find_step j Server s)"
proof (rule Find_core[OF s job_keyword_ok[OF j(1)]])
  assume none: "FindP2PConnection (job_keyword j) s = Some (None, s)"
  show ?thesis
  proof (cases Server)
    case None
    then show ?thesis using none s by (intro sectionedI[of _ None s]) (simp_all add: find_step_def)
  next
    case (Some a)
    have "(case j of P2PResult d \<Rightarrow> Some () | _ \<Rightarrow> print_str (job_keyword j)) = Some ()"
      using job_keyword_ok[OF j(1)] by (cases j) (simp_all add: print_str_def)
    then show ?thesis using none s Some j(2)
      by (intro sectionedI[of _ "Some (Replies a P2P_KEYWORD_NOT_FOUND)" s])
        (auto simp: find_step_def pc_ok_def)
  qed
next
  fix k p and c :: p2pconn
  let ?s = "s\<lparr>conns := (conns s)(p \<mapsto> c\<lparr>m_lRef := m_lRef c + 1\<rparr>)\<rparr>"
  assume c: "conns s p = Some c" and find: "FindP2PConnection (job_keyword j) s = Some (Some p, ?s)"
  show ?thesis
    using find j(2) conn_AddRef_core(2)[OF s c] same_tcp_conn(1)[OF s c, of _ s]
    by (intro sectionedI[of _ "Some (Calls Server p)" ?s]) (auto simp: find_step_def pc_ok_def refs1_add)
qed

text \<open>The sections one by one; \<open>x\<close> and \<open>y\<close> count what the others hold.\<close>

lemma Begin_ok:
  assumes s: "core R x y s" and t: "tabled x s" and room: "\<And>a. Suc (owners s x a) < 4294967296"
    and j: "job_ok j"
  shows "sectioned R x y j s (job_step new j Begin s)"
proof (cases "is_udp j")
  case True
  then show ?thesis using find_step_ok[of R x None] s j by simp
next
  case False
  obtain i where i: "rd_dword 0 (job_data j) = Some i" using job_id_ok[OF j False] by blast
  show ?thesis
  proof (rule GetTCPServer_core[OF s t room, of i])
    assume "GetTCPServer i s = Some (None, s)"
    then show ?thesis using i False s by (intro sectionedI[of _ None s]) simp_all
  next
    fix a h
    assume "GetTCPServer i s = Some (Some a, s\<lparr>tcps := h\<rparr>)"
      "core R (x(a := x a + 1)) y (s\<lparr>tcps := h\<rparr>)"
    then show ?thesis using i False
      by (intro sectionedI[of _ "Some (Holds a)" "s\<lparr>tcps := h\<rparr>"]) (auto simp: pc_ok_def refs1_add)
  qed
qed

lemma Holds_ok:
  assumes s: "core R (\<lambda>b. x b + refs1 (Some a) b) y s" and j: "job_ok j" "\<not> is_udp j"
    and room: "owners s x a + 2 < 4294967296" "\<And>p. Suc (y p) < 4294967296" and fresh: "conns s new = None"
  shows "sectioned R x y j s (job_step new j (Holds a) s)"
proof (cases "\<exists>d. j = Waiting d")
  case False
  then have "job_step new j (Holds a) s = find_step j (Some a) s" by (simp split: job.split)
  then show ?thesis using find_step_ok[OF s j(1)] j(2) by simp
next
  case True
  then obtain d where d: "j = Waiting d" "wait_ok d" using j(1) by auto
  have own: "0 < owners s (\<lambda>b. x b + refs1 (Some a) b) a"
    "Suc (owners s (\<lambda>b. x b + refs1 (Some a) b) a) < 4294967296"
    using room(1) by (simp_all add: owners_def refs1_def)
  from register_step_core[OF s own d(2) fresh room(2)] obtain r s2 where
    "register_step new d (Some a) s = Some (r, s2)"
    "core R (\<lambda>b. x b + refs1 (Some a) b) y s2" "same_tcp s s2" .
  then show ?thesis using d j(2)
    by (intro sectionedI[of _ "Some (Replies a r)" s2]) (auto simp: pc_ok_def)
qed

lemma Calls_ok:
  assumes s: "core R (\<lambda>a. x a + refs1 Server a) (\<lambda>q. y q + refs1 (Some p) q) s"
    and j: "job_ok j" "Server = None \<longleftrightarrow> is_udp j" and room: "\<And>a. owners s x a + 2 < 4294967296"
  shows "sectioned R x y j s (job_step new j (Calls Server p) s)"
proof -
  let ?x = "\<lambda>a. x a + refs1 Server a" and ?y = "\<lambda>q. y q + refs1 (Some p) q"
  have "0 < ?y p" by (simp add: refs1_def)
  then obtain c where c: "conns s p = Some c" using s by (cases "conns s p") (auto simp: core_def)
  have hp: "heap_ok (tcp_good R) (owners s ?x) (tcps s)" "conn_wf c"
    using s c by (auto simp: core_def session_ok_def)
  have srv: "0 < owners s ?x b \<and> Suc (owners s ?x b) < 4294967296" if "Server = Some b" for b
    using room[of b] that by (simp add: owners_def refs1_def)
  from conn_call_core[where m = "job_method j Server",
      OF s c job_method_ok[OF j srv hp conn_refs_le[OF s c]]]
  obtain r s2 c' where "conn_call (job_method j Server) p s = Some (r, s2)" "core R ?x ?y s2"
    "same_tcp s s2" .
  then show ?thesis using j(2)
    by (intro sectionedI[of _ "Some (Called Server p r)" s2]) (auto simp: pc_ok_def)
qed

lemma Called_ok:
  assumes s: "core R (\<lambda>a. x a + refs1 Server a) (\<lambda>q. y q + refs1 (Some p) q) s"
    and j: "Server = None \<longleftrightarrow> is_udp j" and room: "Suc (y p) < 4294967296"
  shows "sectioned R x y j s (job_step new j (Called Server p r) s)"
proof -
  let ?x = "\<lambda>a. x a + refs1 Server a" and ?y = "\<lambda>q. y q + refs1 (Some p) q"
  have yp: "0 < ?y p" "?y p < 4294967296" using room by (simp_all add: refs1_def)
  then obtain c where c: "conns s p = Some c" using s by (cases "conns s p") (auto simp: core_def)
  from conn_Release_core[OF s c yp] obtain c' where
    c': "conn_Release p s = Some (s\<lparr>conns := (conns s)(p \<mapsto> c')\<rparr>)"
    "core R ?x (?y(p := ?y p - 1)) (s\<lparr>conns := (conns s)(p \<mapsto> c')\<rparr>)" "role_refs c' = role_refs c" .
  have "?y(p := ?y p - 1) = y" by (auto simp: fun_eq_iff refs1_def)
  then have core': "core R ?x y (s\<lparr>conns := (conns s)(p \<mapsto> c')\<rparr>)" using c'(2) by (simp only:)
  have same: "same_tcp s (s\<lparr>conns := (conns s)(p \<mapsto> c')\<rparr>)"
    using same_tcp_conn(1)[OF s c c'(3), of s] by simp
  show ?thesis
  proof (cases Server)
    case None
    then show ?thesis using c'(1) core' same
      by (intro sectionedI[of _ None "s\<lparr>conns := (conns s)(p \<mapsto> c')\<rparr>"]) simp_all
  next
    case (Some a)
    then show ?thesis using c'(1) core' same j
      by (intro sectionedI[of _ "Some (Replies a r)" "s\<lparr>conns := (conns s)(p \<mapsto> c')\<rparr>"])
        (auto simp: pc_ok_def)
  qed
qed

lemma Replies_ok:
  assumes s: "core R (\<lambda>b. x b + refs1 (Some a) b) y s" and j: "job_ok j" "\<not> is_udp j"
  shows "sectioned R x y j s (job_step new j (Replies a r) s)"
proof -
  let ?x = "\<lambda>b. x b + refs1 (Some a) b"
  obtain i where i: "rd_dword 0 (job_data j) = Some i" using job_id_ok[OF j] by blast
  have own: "0 < owners s ?x a" by (simp add: owners_def refs1_def)
  show ?thesis
  proof (cases "job_reply j i r")
    case None
    then show ?thesis using i j(2) s
      by (intro sectionedI[of _ "Some (Returns a)" s]) (auto simp: pc_ok_def)
  next
    case (Some P)
    from tcp_Send_core[OF s own, of P] obtain h where
      "tcp_Send a P s = Some (s\<lparr>tcps := h\<rparr>)" "core R ?x y (s\<lparr>tcps := h\<rparr>)" .
    then show ?thesis using i j(2) Some
      by (intro sectionedI[of _ "Some (Returns a)" "s\<lparr>tcps := h\<rparr>"]) (auto simp: pc_ok_def)
  qed
qed

lemma Returns_ok:
  assumes s: "core R (\<lambda>b. x b + refs1 (Some a) b) y s"
  shows "sectioned R x y j s (job_step new j (Returns a) s)"
proof -
  let ?x = "\<lambda>b. x b + refs1 (Some a) b"
  have "0 < ?x a" by (simp add: refs1_def)
  from tcp_Release_core[OF s this] obtain h where h: "tcp_Release a s = Some (s\<lparr>tcps := h\<rparr>)"
    "core R (?x(a := ?x a - 1)) y (s\<lparr>tcps := h\<rparr>)" .
  have "?x(a := ?x a - 1) = x" by (auto simp: fun_eq_iff refs1_def)
  then have "core R x y (s\<lparr>tcps := h\<rparr>)" using h(2) by (simp only:)
  then show ?thesis using h(1) by (intro sectionedI[of _ None "s\<lparr>tcps := h\<rparr>"]) simp_all
qed

lemma job_step_ok:
  assumes s: "core R (\<lambda>a. x a + refs1 (pc_server pc) a) (\<lambda>p. y p + refs1 (pc_session pc) p) s"
    and t: "tabled x s" and room: "\<And>a. owners s x a + 2 < 4294967296" "\<And>p. y p + 2 < 4294967296"
    and j: "job_ok j" "pc_ok j pc" and fresh: "conns s new = None"
  shows "sectioned R x y j s (job_step new j pc s)"
proof -
  have r: "Suc (owners s x a) < 4294967296" "Suc (y p) < 4294967296" for a p
    using room(1)[of a] room(2)[of p] by simp_all
  show ?thesis
  proof (cases pc)
    case Begin
    then show ?thesis using Begin_ok[OF _ t r(1) j(1)] s by simp
  next
    case (Holds a)
    then show ?thesis using Holds_ok[where y = y, OF _ j(1) _ room(1) r(2) fresh] s j(2) by (simp add: pc_ok_def)
  next
    case (Calls Server p)
    then show ?thesis using Calls_ok[OF _ j(1) _ room(1)] s j(2) by (simp add: pc_ok_def del: job_step.simps)
  next
    case (Called Server p e)
    then show ?thesis using Called_ok[where y = y, OF _ _ r(2)] s j(2) by (simp add: pc_ok_def del: job_step.simps)
  next
    case (Replies a e)
    then show ?thesis using Replies_ok[OF _ j(1)] s j(2) by (simp add: pc_ok_def del: job_step.simps)
  next
    case (Returns a)
    then show ?thesis using Returns_ok s by (simp del: job_step.simps)
  qed
qed

end
