(* ===== verification/ThreadSystem.thy ===== *)
theory ThreadSystem
  imports ServerThreads
begin

text \<open>
  The server with all its threads as a transition system: a state is the server and, for each
  thread that handles something, what it handles and how far it is. Sections of different handlers
  interleave in any order. The invariant counts the references of the handlers under way with the
  other owners.
\<close>

text \<open>The UDP thread is \<open>None\<close>, the receiving thread of the connection at \<open>a\<close> is \<open>Some a\<close>.\<close>

type_synonym thread = "addr option"

record thread_sys =
  sys :: server_sys
  jobs :: "thread \<Rightarrow> (job \<times> pc) option"

datatype thread_event = Starts thread job | Advances thread addr | Server server_event

text \<open>No handler that is under way holds a session whose host is the connection at \<open>a\<close>.\<close>

definition host_unheld :: "addr \<Rightarrow> thread_sys \<Rightarrow> bool" where
  "host_unheld a \<tau> \<longleftrightarrow> (\<forall>t j pc p c. jobs \<tau> t = Some (j, pc) \<longrightarrow> pc_session pc = Some p \<longrightarrow>
     conns (srv (sys \<tau>)) p = Some c \<longrightarrow> m_pMainTCPServer c \<noteq> Some a)"

text \<open>
  A thread starts when it is idle, and the receiving thread of a connection ends only when idle. The
  last condition is the one the code does not ensure: the host of a session does not leave while a
  handler holds the session.
\<close>

definition tenabled :: "thread_event \<Rightarrow> thread_sys \<Rightarrow> bool" where
  "tenabled e \<tau> = (case e of
      Starts t j \<Rightarrow> jobs \<tau> t = None \<and> job_ok j
        \<and> (case t of None \<Rightarrow> is_udp j | Some a \<Rightarrow> \<not> is_udp j \<and> a \<in> recv_thr (sys \<tau>))
    | Advances t new \<Rightarrow> jobs \<tau> t \<noteq> None \<and> conns (srv (sys \<tau>)) new = None
    | Server e \<Rightarrow> enabled e (sys \<tau>) \<and>
        (case e of Accepted new rawdst rawsrc peer pt sock \<Rightarrow> True
         | SendEnds a \<Rightarrow> True
         | RecvEnds a \<Rightarrow> jobs \<tau> (Some a) = None \<and> host_unheld a \<tau>
         | _ \<Rightarrow> False))"

definition advance :: "thread \<Rightarrow> addr \<Rightarrow> thread_sys \<Rightarrow> thread_sys option" where
  "advance t new \<tau> = (case jobs \<tau> t of
      None \<Rightarrow> None
    | Some (j, pc) \<Rightarrow> map_option (\<lambda>(pc, s). \<tau>\<lparr>sys := (sys \<tau>)\<lparr>srv := s\<rparr>,
          jobs := (jobs \<tau>)(t := map_option (Pair j) pc)\<rparr>) (job_step new j pc (srv (sys \<tau>))))"

definition texec :: "thread_event \<Rightarrow> thread_sys \<Rightarrow> thread_sys option" where
  "texec e \<tau> = (case e of
      Starts t j \<Rightarrow> Some (\<tau>\<lparr>jobs := (jobs \<tau>)(t \<mapsto> (j, Begin))\<rparr>)
    | Advances t new \<Rightarrow> advance t new \<tau>
    | Server e \<Rightarrow> map_option (\<lambda>\<sigma>. \<tau>\<lparr>sys := \<sigma>\<rparr>) (exec e (sys \<tau>)))"

text \<open>Every run of whole callbacks may come first; then the threads interleave.\<close>

inductive treach :: "nat \<Rightarrow> thread_sys \<Rightarrow> bool" where
  treach_start: "reach k \<sigma> \<Longrightarrow> treach k \<lparr>sys = \<sigma>, jobs = Map.empty\<rparr>"
| treach_event: "treach k \<tau> \<Longrightarrow> tenabled e \<tau> \<Longrightarrow> texec e \<tau> = Some \<tau>' \<Longrightarrow> treach (Suc k) \<tau>'"

section \<open>The references of the handlers\<close>

definition srv_held :: "(thread \<Rightarrow> (job \<times> pc) option) \<Rightarrow> addr \<Rightarrow> nat" where
  "srv_held J a = total (\<lambda>(j, pc). refs1 (pc_server pc) a) J"

definition ses_held :: "(thread \<Rightarrow> (job \<times> pc) option) \<Rightarrow> addr \<Rightarrow> nat" where
  "ses_held J p = total (\<lambda>(j, pc). refs1 (pc_session pc) p) J"

definition tinv :: "nat \<Rightarrow> thread_sys \<Rightarrow> bool" where
  "tinv k \<tau> \<longleftrightarrow> sys_inv (srv_held (jobs \<tau>)) (ses_held (jobs \<tau>)) k (sys \<tau>)
     \<and> finite (dom (jobs \<tau>)) \<and> card (dom (jobs \<tau>)) \<le> k
     \<and> (\<forall>t j pc. jobs \<tau> t = Some (j, pc) \<longrightarrow> job_ok j \<and> pc_ok j pc)"

lemma held_put:
  assumes "finite (dom J)" and "J t = None"
  shows "srv_held (J(t := map_option (Pair j) pc)) = (\<lambda>a. srv_held J a + refs1 (Option.bind pc pc_server) a)"
    and "ses_held (J(t := map_option (Pair j) pc)) = (\<lambda>a. ses_held J a + refs1 (Option.bind pc pc_session) a)"
  by (cases pc; simp add: srv_held_def ses_held_def total_fresh[OF assms] fun_eq_iff)+

lemma held_le_card: "srv_held J a \<le> card (dom J)" "ses_held J p \<le> card (dom J)"
  unfolding srv_held_def ses_held_def
  by (intro total_le_card; simp add: refs1_le[unfolded One_nat_def] case_prod_unfold)+

lemma held_pos:
  assumes "finite (dom J)" and "0 < ses_held J p"
  obtains t j pc where "J t = Some (j, pc)" and "pc_session pc = Some p"
proof -
  have "\<exists>t\<in>dom J. weight (\<lambda>(j, pc). refs1 (pc_session pc) p) (J t) \<noteq> 0"
  proof (rule ccontr)
    assume "\<not> ?thesis"
    then have "ses_held J p = 0" by (simp add: ses_held_def total_def)
    then show False using assms(2) by simp
  qed
  then show thesis using that by (fastforce simp: refs1_def split: if_splits)
qed

lemma sys_inv_le: "sys_inv u y k \<sigma> \<Longrightarrow> k \<le> k' \<Longrightarrow> sys_inv u y k' \<sigma>"
  by (auto simp: sys_inv_def intro: order_trans)

section \<open>Every event keeps the invariant\<close>

lemma Starts_tinv:
  assumes inv: "tinv k \<tau>" and en: "tenabled (Starts t j) \<tau>"
  shows "\<exists>\<tau>'. texec (Starts t j) \<tau> = Some \<tau>' \<and> tinv (Suc k) \<tau>'
      \<and> sessions_change (srv (sys \<tau>)) (srv (sys \<tau>'))"
proof -
  have t: "jobs \<tau> t = None" "job_ok j" and fin: "finite (dom (jobs \<tau>))"
    using en inv by (auto simp: tenabled_def tinv_def)
  have "srv_held ((jobs \<tau>)(t \<mapsto> (j, Begin))) = srv_held (jobs \<tau>)"
    "ses_held ((jobs \<tau>)(t \<mapsto> (j, Begin))) = ses_held (jobs \<tau>)"
    using held_put[OF fin t(1), of j "Some Begin"] by simp_all
  moreover have "card (dom ((jobs \<tau>)(t \<mapsto> (j, Begin)))) \<le> Suc k"
    using inv fin by (simp add: tinv_def card_insert_if)
  ultimately have "tinv (Suc k) (\<tau>\<lparr>jobs := (jobs \<tau>)(t \<mapsto> (j, Begin))\<rparr>)"
    using inv t(2) by (auto simp: tinv_def pc_ok_def intro: sys_inv_le)
  then show ?thesis by (simp add: texec_def sessions_change_same)
qed

lemma Advances_tinv:
  assumes inv: "tinv k \<tau>" and k: "k < 268435456" and en: "tenabled (Advances t new) \<tau>"
  shows "\<exists>\<tau>'. texec (Advances t new) \<tau> = Some \<tau>' \<and> tinv (Suc k) \<tau>'
      \<and> sessions_change (srv (sys \<tau>)) (srv (sys \<tau>'))"
proof -
  define \<sigma> J where "\<sigma> = sys \<tau>" and "J = (jobs \<tau>)(t := None)"
  obtain j pc where t: "jobs \<tau> t = Some (j, pc)" and fresh: "conns (srv \<sigma>) new = None"
    using en by (auto simp: tenabled_def \<sigma>_def)
  have fin: "finite (dom J)" "J t = None" and J: "jobs \<tau> = J(t := map_option (Pair j) (Some pc))"
    using inv t by (auto simp: tinv_def J_def)
  have si: "sys_inv (\<lambda>a. srv_held J a + refs1 (pc_server pc) a)
      (\<lambda>p. ses_held J p + refs1 (pc_session pc) p) k \<sigma>"
    using inv held_put[OF fin, of j "Some pc"] by (simp add: tinv_def J \<sigma>_def)
  let ?x = "\<lambda>a. held (recv_thr \<sigma>) (send_thr \<sigma>) (srv \<sigma>) a + srv_held J a"
  have core: "core (recv_thr \<sigma>) (\<lambda>a. ?x a + refs1 (pc_server pc) a)
      (\<lambda>p. ses_held J p + refs1 (pc_session pc) p) (srv \<sigma>)"
    using si by (simp add: sys_inv_def add.assoc)
  have card: "card (dom J) \<le> k" using inv card_mono[of "dom (jobs \<tau>)" "dom J"]
    by (auto simp: tinv_def J_def intro: order_trans)
  have room: "owners (srv \<sigma>) ?x a + 2 < 4294967296" "ses_held J a + 2 < 4294967296" for a
    using si held_le[of "recv_thr \<sigma>" "send_thr \<sigma>" "srv \<sigma>" a] held_le_card[of J a] card k
    unfolding sys_inv_def owners_def by (auto dest!: spec[of _ a])
  have tab: "tabled ?x (srv \<sigma>)" by (auto simp: tabled_def held_def tab_refs_def)
  have ok: "job_ok j" "pc_ok j pc" using inv t by (auto simp: tinv_def)
  from job_step_ok[OF core tab room ok fresh] obtain pc' s' where
    st: "job_step new j pc (srv \<sigma>) = Some (pc', s')" "same_tcp (srv \<sigma>) s'"
    "core (recv_thr \<sigma>) (\<lambda>a. ?x a + refs1 (Option.bind pc' pc_server) a)
       (\<lambda>p. ses_held J p + refs1 (Option.bind pc' pc_session) p) s'"
    "\<forall>q. pc' = Some q \<longrightarrow> q \<noteq> Begin \<and> pc_ok j q"
    unfolding sectioned_def by blast
  let ?J = "J(t := map_option (Pair j) pc')"
  have same: "held (recv_thr \<sigma>) (send_thr \<sigma>) s' = held (recv_thr \<sigma>) (send_thr \<sigma>) (srv \<sigma>)"
    using st(2) by (intro held_same) (simp add: same_tcp_def)
  have "session_refs (conns s') a \<le> Suc k" for a
    using si st(2) by (auto simp: sys_inv_def same_tcp_def intro: order_trans)
  then have si': "sys_inv (srv_held ?J) (ses_held ?J) (Suc k) (\<sigma>\<lparr>srv := s'\<rparr>)"
    using si st(2,3) same
    by (simp add: sys_inv_def held_put[OF fin] table_ok_def same_tcp_def le_SucI add.assoc)
  have "card (dom ?J) \<le> Suc (card (dom J))" using fin by (cases pc') (auto simp: card_insert_if domIff)
  moreover have "job_ok i \<and> pc_ok i q" if "?J u = Some (i, q)" for u i q
    using that st(4) ok(1) inv by (auto simp: tinv_def J_def split: if_splits)
  ultimately have "tinv (Suc k) (\<tau>\<lparr>sys := \<sigma>\<lparr>srv := s'\<rparr>, jobs := ?J\<rparr>)"
    using si' fin(1) card unfolding tinv_def by (auto simp: dom_fun_upd simp del: fun_upd_apply)
  moreover have "texec (Advances t new) \<tau> = Some (\<tau>\<lparr>sys := \<sigma>\<lparr>srv := s'\<rparr>, jobs := ?J\<rparr>)"
    using t st(1) by (simp add: texec_def advance_def \<sigma>_def J_def)
  moreover have "sessions_change (srv (sys \<tau>)) s'" using st(2) by (simp add: same_tcp_def \<sigma>_def)
  ultimately show ?thesis by (auto simp del: fun_upd_apply)
qed

lemma Server_tinv:
  assumes inv: "tinv k \<tau>" and k: "k < 268435456" and en: "tenabled (Server e) \<tau>"
  shows "\<exists>\<tau>'. texec (Server e) \<tau> = Some \<tau>' \<and> tinv (Suc k) \<tau>'
      \<and> sessions_change (srv (sys \<tau>)) (srv (sys \<tau>'))"
proof -
  let ?u = "srv_held (jobs \<tau>)" and ?y = "ses_held (jobs \<tau>)"
  have si: "sys_inv ?u ?y k (sys \<tau>)" and fin: "finite (dom (jobs \<tau>))" using inv by (simp_all add: tinv_def)
  have "\<exists>\<sigma>'. exec e (sys \<tau>) = Some \<sigma>' \<and> sys_inv ?u ?y (Suc k) \<sigma>'
      \<and> sessions_change (srv (sys \<tau>)) (srv \<sigma>')"
  proof (cases e)
    case (Accepted new rawdst rawsrc peer pt sock)
    then show ?thesis using Accepted_sys[OF si k] en by (simp add: tenabled_def)
  next
    case (RecvEnds a)
    then have en': "enabled (RecvEnds a) (sys \<tau>)" "host_unheld a \<tau>" using en by (simp_all add: tenabled_def)
    have "?y p = 0" if c: "conns (srv (sys \<tau>)) p = Some c" "m_pMainTCPServer c = Some a" for p c
    proof (rule ccontr)
      assume "?y p \<noteq> 0"
      then obtain t j pc where "jobs \<tau> t = Some (j, pc)" "pc_session pc = Some p"
        using held_pos[OF fin, of p] by blast
      then show False using en'(2) c unfolding host_unheld_def by blast
    qed
    then show ?thesis using RecvEnds_sys[OF si k en'(1)] RecvEnds by blast
  next
    case (SendEnds a)
    then show ?thesis using SendEnds_sys[OF si] en by (simp add: tenabled_def)
  qed (use en in \<open>simp_all add: tenabled_def\<close>)
  then show ?thesis using inv by (auto simp: texec_def tinv_def)
qed

lemma texec_tinv:
  assumes "tinv k \<tau>" and "k < 268435456" and "tenabled e \<tau>"
  shows "\<exists>\<tau>'. texec e \<tau> = Some \<tau>' \<and> tinv (Suc k) \<tau>'
      \<and> sessions_change (srv (sys \<tau>)) (srv (sys \<tau>'))"
  using assms Starts_tinv Advances_tinv Server_tinv by (cases e) blast+

lemma treach_tinv: "treach k \<tau> \<Longrightarrow> k \<le> 268435456 \<Longrightarrow> tinv k \<tau>"
proof (induction rule: treach.induct)
  case (treach_start k \<sigma>)
  have "srv_held Map.empty = (\<lambda>_. 0)" "ses_held Map.empty = (\<lambda>_. 0)"
    by (simp_all add: srv_held_def ses_held_def fun_eq_iff)
  then show ?case using reach_inv[OF treach_start] by (simp add: tinv_def server_inv_sys)
next
  case (treach_event k \<tau> e \<tau>')
  then show ?case using texec_tinv[of k \<tau> e] by auto
qed

section \<open>The owners of the sessions\<close>

text \<open>\<open>treach\<close> with the sessions that have lost their entry in the table.\<close>

inductive treach_lost :: "addr set \<Rightarrow> nat \<Rightarrow> thread_sys \<Rightarrow> bool" where
  tlost_start: "reach_lost L k \<sigma> \<Longrightarrow> treach_lost L k \<lparr>sys = \<sigma>, jobs = Map.empty\<rparr>"
| tlost_event: "treach_lost L k \<tau> \<Longrightarrow> tenabled e \<tau> \<Longrightarrow> texec e \<tau> = Some \<tau>' \<Longrightarrow>
    treach_lost (L \<union> overwritten (srv (sys \<tau>)) (srv (sys \<tau>'))) (Suc k) \<tau>'"

lemma treach_lost_treach: "treach_lost L k \<tau> \<Longrightarrow> treach k \<tau>"
  by (induction rule: treach_lost.induct) (auto intro: treach.intros reach_lost_reach)

lemma treach_lost_ex: "treach k \<tau> \<Longrightarrow> \<exists>L. treach_lost L k \<tau>"
  by (induction rule: treach.induct) (blast dest: reach_lost_ex intro: treach_lost.intros)+

lemma treach_accounted:
  "treach_lost L k \<tau> \<Longrightarrow> k \<le> 268435456 \<Longrightarrow> accounted L (srv (sys \<tau>))"
proof (induction rule: treach_lost.induct)
  case (tlost_start L k \<sigma>)
  then show ?case by (simp add: reach_accounted)
next
  case (tlost_event L k \<tau> e \<tau>')
  have k: "k \<le> 268435456" "k < 268435456" using tlost_event.prems by simp_all
  have inv: "tinv k \<tau>" using treach_lost_treach[OF tlost_event.hyps(1)] k(1) by (rule treach_tinv)
  then obtain x y where c: "core (recv_thr (sys \<tau>)) x y (srv (sys \<tau>))"
    by (auto simp: tinv_def sys_inv_def)
  have "sessions_change (srv (sys \<tau>)) (srv (sys \<tau>'))"
    using texec_tinv[OF inv k(2) tlost_event.hyps(2)] tlost_event.hyps(3) by auto
  then show ?case using accounted_change[OF c tlost_event.IH[OF k(1)]] by blast
qed

end
