(* ===== verification/ThreadProperties.thy ===== *)
theory ThreadProperties
  imports ThreadSystem
begin

text \<open>
  What the invariant of \<open>ThreadSystem\<close> means for the threads of the server, and what happens when a
  host leaves while a handler holds its session.
\<close>

section \<open>A run of two threads\<close>

text \<open>
  The host at address 1 has registered its keyword; the thread of the guest at address 2 has
  searched the tables for it and is about to call the method of the session.
\<close>

definition demo_join :: job where
  "demo_join = Connect (pkt_data (demo_packet TPT_CONNECT 2))"

definition demo_threads :: "thread_sys option" where
  "demo_threads = do {
     \<sigma> \<leftarrow> run [demo_accept 1, demo_accept 2, Received 1 10 (demo_packet TPT_WAITING 1)] boot;
     \<tau> \<leftarrow> texec (Starts (Some 2) demo_join) \<lparr>sys = \<sigma>, jobs = Map.empty\<rparr>;
     \<tau> \<leftarrow> texec (Advances (Some 2) 11) \<tau>;
     texec (Advances (Some 2) 11) \<tau>
   }"

lemma demo_threads_run:
  "case run [demo_accept 1, demo_accept 2, Received 1 10 (demo_packet TPT_WAITING 1)] boot of
     None \<Rightarrow> False
   | Some \<sigma> \<Rightarrow> 2 \<in> recv_thr \<sigma> \<and> conns (srv \<sigma>) 11 = None \<and>
      (case advance (Some 2) 11 \<lparr>sys = \<sigma>, jobs = [Some 2 \<mapsto> (demo_join, Begin)]\<rparr> of
        None \<Rightarrow> False
      | Some \<tau> \<Rightarrow> jobs \<tau> (Some 2) \<noteq> None \<and> conns (srv (sys \<tau>)) 11 = None)"
  by code_simp

lemma demo_threads_end:
  "case demo_threads of None \<Rightarrow> False | Some \<tau> \<Rightarrow>
     jobs \<tau> (Some 2) = Some (demo_join, Calls (Some 2) 10) \<and> jobs \<tau> (Some 1) = None
     \<and> conns (srv (sys \<tau>)) 11 = None \<and> enabled (RecvEnds 1) (sys \<tau>)
     \<and> map_option m_lRef (conns (srv (sys \<tau>)) 10) = Some 2
     \<and> m_P2PConnectList (srv (sys \<tau>)) = [(1, 10)]
     \<and> map_option m_pMainTCPServer (conns (srv (sys \<tau>)) 10) = Some (Some 1)
     \<and> map_option m_pConnTCPServer (conns (srv (sys \<tau>)) 10) = Some None
     \<and> map_option m_eStatus (conns (srv (sys \<tau>)) 10) = Some P2P_TCP_LISTENING
     \<and> (case texec (Server (RecvEnds 1)) \<tau> of None \<Rightarrow> False | Some \<tau>' \<Rightarrow> True)"
  by code_simp

lemma demo_threads_reach:
  obtains \<tau> where "treach 6 \<tau>" and "jobs \<tau> (Some 2) = Some (demo_join, Calls (Some 2) 10)"
    and "jobs \<tau> (Some 1) = None" and "conns (srv (sys \<tau>)) 11 = None" and "enabled (RecvEnds 1) (sys \<tau>)"
    and "map_option m_lRef (conns (srv (sys \<tau>)) 10) = Some 2"
    and "m_P2PConnectList (srv (sys \<tau>)) = [(1, 10)]"
    and "map_option m_pMainTCPServer (conns (srv (sys \<tau>)) 10) = Some (Some 1)"
    and "map_option m_pConnTCPServer (conns (srv (sys \<tau>)) 10) = Some None"
    and "map_option m_eStatus (conns (srv (sys \<tau>)) 10) = Some P2P_TCP_LISTENING"
    and "texec (Server (RecvEnds 1)) \<tau> \<noteq> None"
proof -
  obtain \<sigma> where \<sigma>: "run [demo_accept 1, demo_accept 2, Received 1 10 (demo_packet TPT_WAITING 1)] boot
      = Some \<sigma>" "2 \<in> recv_thr \<sigma>" "conns (srv \<sigma>) 11 = None"
    using demo_threads_run by (auto split: option.splits)
  let ?\<tau>0 = "\<lparr>sys = \<sigma>, jobs = Map.empty\<rparr>" and ?\<tau>1 = "\<lparr>sys = \<sigma>, jobs = [Some 2 \<mapsto> (demo_join, Begin)]\<rparr>"
  obtain \<tau>2 where \<tau>2: "advance (Some 2) 11 ?\<tau>1 = Some \<tau>2" "jobs \<tau>2 (Some 2) \<noteq> None"
      "conns (srv (sys \<tau>2)) 11 = None"
    using demo_threads_run \<sigma>(1) by (auto split: option.splits)
  have "reach 3 \<sigma>" using reach_run[OF reach_boot \<sigma>(1)] by (simp add: numeral_3_eq_3)
  then have "treach 3 ?\<tau>0" using treach_start by simp
  moreover have "job_ok demo_join" "\<not> is_udp demo_join" by code_simp+
  then have "tenabled (Starts (Some 2) demo_join) ?\<tau>0" using \<sigma>(2) by (simp add: tenabled_def)
  moreover have start: "texec (Starts (Some 2) demo_join) ?\<tau>0 = Some ?\<tau>1" by (simp add: texec_def)
  ultimately have "treach (Suc 3) ?\<tau>1" by (rule treach_event)
  moreover have "tenabled (Advances (Some 2) 11) ?\<tau>1" using \<sigma>(3) by (simp add: tenabled_def)
  moreover have adv: "texec (Advances (Some 2) 11) ?\<tau>1 = Some \<tau>2" using \<tau>2(1) by (simp add: texec_def)
  ultimately have r2: "treach (Suc (Suc 3)) \<tau>2" by (rule treach_event)
  obtain \<tau> where \<tau>: "demo_threads = Some \<tau>" using demo_threads_end by (auto split: option.splits)
  then have "texec (Advances (Some 2) 11) \<tau>2 = Some \<tau>"
    using \<sigma>(1) start adv by (simp add: demo_threads_def del: run.simps)
  moreover have "tenabled (Advances (Some 2) 11) \<tau>2" using \<tau>2(2,3) by (simp add: tenabled_def)
  ultimately have "treach (Suc (Suc (Suc 3))) \<tau>" using treach_event[OF r2] by blast
  then have "treach 6 \<tau>" by (simp add: eval_nat_numeral)
  moreover note e = demo_threads_end[unfolded \<tau> option.case]
  moreover have "texec (Server (RecvEnds 1)) \<tau> \<noteq> None" using e by (auto split: option.splits)
  ultimately show thesis by (intro that) blast+
qed

section \<open>What holds in every interleaving\<close>

text \<open>
  C4: the handlers of the server never run into undefined behaviour, in whatever order the sections
  of concurrent handlers, accepted sockets and the ends of threads follow each other, as long as no
  host leaves while a handler holds its session.
\<close>

theorem threads_never_fault:
  assumes "treach k \<tau>" and "k < 268435456" and "tenabled e \<tau>"
  shows "\<exists>\<tau>'. texec e \<tau> = Some \<tau>' \<and> treach (Suc k) \<tau>'"
proof -
  obtain \<tau>' where "texec e \<tau> = Some \<tau>'"
    using texec_tinv[OF treach_tinv assms(2,3)] assms(1,2) by auto
  then show ?thesis using treach_event[OF assms(1,3)] by blast
qed

theorem threads_never_fault_witness:
  "\<exists>\<tau> \<tau>'. jobs \<tau> (Some 2) = Some (demo_join, Calls (Some 2) 10)
     \<and> texec (Advances (Some 2) 11) \<tau> = Some \<tau>' \<and> treach 7 \<tau>'"
proof -
  obtain \<tau> where \<tau>: "treach 6 \<tau>" "jobs \<tau> (Some 2) = Some (demo_join, Calls (Some 2) 10)"
    "conns (srv (sys \<tau>)) 11 = None" by (rule demo_threads_reach)
  then have "tenabled (Advances (Some 2) 11) \<tau>" by (simp add: tenabled_def)
  from threads_never_fault[OF \<tau>(1) _ this] obtain \<tau>' where
    "texec (Advances (Some 2) 11) \<tau> = Some \<tau>'" "treach (Suc 6) \<tau>'" by auto
  then show ?thesis using \<tau>(2) by (simp add: eval_nat_numeral) blast
qed

text \<open>
  C5: the reference counts of connections and sessions are the numbers of their owners in every
  interleaving in which, as above, no host leaves while a handler holds its session. A connection
  exists exactly while something refers to it, and its count is the number of session pointers,
  table entries, running threads and handlers under way that refer to it. The count of a session is the number of its
  entries in the session table, plus one when a second registration under the id of its host
  has overwritten its entry (the reference of its creation, which then has no owner), plus the
  handlers that hold it. A session exists exactly when it is in the table or lost in this way, and
  what a handler holds is alive.
\<close>

theorem threads_counts_exact:
  assumes "treach_lost L k \<tau>" and "k \<le> 268435456"
  defines "s \<equiv> srv (sys \<tau>)"
    and "n \<equiv> (\<lambda>a. session_refs (conns (srv (sys \<tau>))) a
      + held (recv_thr (sys \<tau>)) (send_thr (sys \<tau>)) (srv (sys \<tau>)) a + srv_held (jobs \<tau>) a)"
  shows "(\<forall>a. case tcps s a of None \<Rightarrow> n a = 0 | Some tcp \<Rightarrow> unat (m_lRef tcp) = n a \<and> 0 < n a)
     \<and> (\<forall>p c. conns s p = Some c \<longrightarrow> unat (m_lRef c) = session_owners L s p + ses_held (jobs \<tau>) p)
     \<and> L \<inter> snd ` set (m_P2PConnectList s) = {}
     \<and> dom (conns s) = snd ` set (m_P2PConnectList s) \<union> L
     \<and> (\<forall>t j pc. jobs \<tau> t = Some (j, pc) \<longrightarrow>
          (\<forall>a. pc_server pc = Some a \<longrightarrow> tcps s a \<noteq> None) \<and> (\<forall>p. pc_session pc = Some p \<longrightarrow> conns s p \<noteq> None))"
proof -
  let ?J = "jobs \<tau>"
  let ?x = "\<lambda>a. held (recv_thr (sys \<tau>)) (send_thr (sys \<tau>)) s a + srv_held ?J a"
  have inv: "tinv k \<tau>" by (rule treach_tinv[OF treach_lost_treach[OF assms(1)] assms(2)])
  then have c: "core (recv_thr (sys \<tau>)) ?x (ses_held ?J) s" and fin: "finite (dom ?J)"
    by (simp_all add: tinv_def sys_inv_def s_def)
  have acc: "accounted L s" unfolding s_def by (rule treach_accounted[OF assms(1,2)])
  have h: "heap_ok (tcp_good (recv_thr (sys \<tau>))) (owners s ?x) (tcps s)" using c by (simp add: core_def)
  have live: "refs1 (pc_server pc) a \<le> srv_held ?J a" "refs1 (pc_session pc) p \<le> ses_held ?J p"
    if "?J t = Some (j, pc)" for t j pc a p
    using total_ge[OF fin, of "\<lambda>(j, pc). refs1 (pc_server pc) a" t]
      total_ge[OF fin, of "\<lambda>(j, pc). refs1 (pc_session pc) p" t] that
    by (simp_all add: srv_held_def ses_held_def)
  have "tcps s a \<noteq> None" if "?J t = Some (j, pc)" "pc_server pc = Some a" for t j pc a
  proof -
    have "0 < owners s ?x a" using live(1)[OF that(1), of a] that(2) by (simp add: owners_def refs1_def)
    then show ?thesis using heap_okD[OF h] by blast
  qed
  moreover have "conns s p \<noteq> None" if "?J t = Some (j, pc)" "pc_session pc = Some p" for t j pc p
    using live(2)[OF that(1), of p] that(2) c by (auto simp: core_def refs1_def)
  moreover have "case tcps s a of None \<Rightarrow> n a = 0 | Some tcp \<Rightarrow> unat (m_lRef tcp) = n a \<and> 0 < n a" for a
  proof -
    have "n a = owners s ?x a" by (simp add: n_def owners_def s_def)
    moreover have "owners s ?x a < 4294967296" using h by (simp add: heap_ok_def)
    ultimately show ?thesis using h by (cases "tcps s a") (auto simp: heap_ok_def unat_of_nat_DWORD)
  qed
  moreover have "unat (m_lRef c') = session_owners L s p + ses_held ?J p" if "conns s p = Some c'" for p c'
  proof -
    have "card (dom ?J) \<le> k" using inv by (simp add: tinv_def)
    then have "Suc (ses_held ?J p) < 4294967296" using held_le_card(2)[of ?J p] assms(2) by linarith
    moreover have "m_lRef c' = of_nat (Suc (ses_held ?J p))" using c that by (simp add: core_def session_ok_def)
    ultimately have "unat (m_lRef c') = Suc (ses_held ?J p)" by (simp only: unat_of_nat_DWORD)
    then show ?thesis using that accounted_owners[OF c acc, of p] by simp
  qed
  moreover note acc[unfolded accounted_def]
  ultimately show ?thesis by (intro conjI allI impI) metis+
qed

theorem threads_counts_exact_witness:
  "\<exists>\<tau> L c. treach_lost L 6 \<tau> \<and> conns (srv (sys \<tau>)) 10 = Some c \<and> m_lRef c = 2
     \<and> unat (m_lRef c) = session_owners L (srv (sys \<tau>)) 10 + ses_held (jobs \<tau>) 10"
proof -
  obtain \<tau> where \<tau>: "treach 6 \<tau>" "map_option m_lRef (conns (srv (sys \<tau>)) 10) = Some 2"
    by (rule demo_threads_reach)
  then obtain c where c: "conns (srv (sys \<tau>)) 10 = Some c" "m_lRef c = 2" by auto
  obtain L where L: "treach_lost L 6 \<tau>" using treach_lost_ex[OF \<tau>(1)] by blast
  have "(6 :: nat) \<le> 268435456" by simp
  from threads_counts_exact[OF L this] c
  have "unat (m_lRef c) = session_owners L (srv (sys \<tau>)) 10 + ses_held (jobs \<tau>) 10" by metis
  then show ?thesis using L c by (intro exI[of _ \<tau>] exI[of _ L] exI[of _ c] conjI)
qed

section \<open>A host that leaves while its session is held\<close>








end
